(* ===== verification/Prelude.thy ===== *)
theory Prelude
  imports Complex_Main "HOL-Library.Word" "HOL-Library.Sublist"
begin

text \<open>
  The fragment of Go that every other theory of this development uses: run-time panics as
  values, \<open>*big.Int\<close> with its decimal printing and parsing (\<open>math/big\<close>), ASCII case
  folding (\<open>strings.EqualFold\<close>), the minimal big-endian byte string of an unsigned integer
  (\<open>big.Int.Bytes\<close>), and the generic lemmas about them.
\<close>

section \<open>Collections of facts\<close>

named_theorems go_simps \<open>rules of the panic monad and of the modelled standard library\<close>
named_theorems parser_defs \<open>definitions that a transaction parser is unfolded with\<close>
named_theorems handler_defs \<open>definitions that an endpoint handler is unfolded with\<close>

section \<open>Panics\<close>

text \<open>
  A Go function that may panic returns a value of \<open>'a go\<close>: \<open>Inl p\<close> when it panics
  and \<open>Inr x\<close> when it returns \<open>x\<close>.
\<close>

datatype panic =
    NilDereference
  | IndexOutOfRange
  | FailedTypeAssertion
  | ExplicitPanic string

type_synonym 'a go = "panic + 'a"

fun andThen :: "'e + 'a \<Rightarrow> ('a \<Rightarrow> 'e + 'b) \<Rightarrow> 'e + 'b" where
  "andThen (Inl e) f = Inl e"
| "andThen (Inr x) f = f x"

lemma andThen_eq_Inr [go_simps]:
  "andThen m f = Inr y \<longleftrightarrow> (\<exists>x. m = Inr x \<and> f x = Inr y)"
  by (cases m) auto

lemma andThen_eq_Inl [go_simps]:
  "andThen m f = Inl e \<longleftrightarrow> m = Inl e \<or> (\<exists>x. m = Inr x \<and> f x = Inl e)"
  by (cases m) auto

lemma andThen_assoc: "andThen (andThen m f) g = andThen m (\<lambda>x. andThen (f x) g)"
  by (cases m) auto

text \<open>A pointer that is dereferenced.\<close>

definition deref :: "'a option \<Rightarrow> 'a go" where
  "deref p = (case p of None \<Rightarrow> Inl NilDereference | Some x \<Rightarrow> Inr x)"

lemma deref_simps [simp]: "deref None = Inl NilDereference" "deref (Some x) = Inr x"
  by (simp_all add: deref_def)

lemma deref_eq_Inr [go_simps]: "deref p = Inr x \<longleftrightarrow> p = Some x"
  by (cases p) auto

text \<open>A slice read at an index.\<close>

definition index :: "'a list \<Rightarrow> nat \<Rightarrow> 'a go" where
  "index xs i = (if i < length xs then Inr (xs ! i) else Inl IndexOutOfRange)"

lemma index_simps [simp]:
  "index (x # xs) 0 = Inr x"
  "index [] i = Inl IndexOutOfRange"
  "index (x # xs) (Suc i) = index xs i"
  by (simp_all add: index_def)

lemma index_eq_Inr [go_simps]: "index xs i = Inr x \<longleftrightarrow> i < length xs \<and> xs ! i = x"
  by (auto simp: index_def)

section \<open>Decimal text of integers\<close>

text \<open>
  \<open>*big.Int\<close> is \<open>int option\<close>, \<open>None\<close> for the nil pointer. \<open>(*big.Int).String\<close>
  answers \<open><nil>\<close> on nil; the arithmetic methods dereference their arguments.
\<close>

type_synonym bigint = "int option"

definition digit_char :: "nat \<Rightarrow> char" where
  "digit_char d = char_of (48 + d)"

definition is_digit :: "char \<Rightarrow> bool" where
  "is_digit c = (48 \<le> (of_char c :: nat) \<and> (of_char c :: nat) \<le> 57)"

definition digit_val :: "char \<Rightarrow> nat" where
  "digit_val c = of_char c - 48"

fun digits10 :: "nat \<Rightarrow> string" where
  "digits10 n = (if n < 10 then [digit_char n] else digits10 (n div 10) @ [digit_char (n mod 10)])"

declare digits10.simps [simp del]

definition int_text :: "int \<Rightarrow> string" where
  "int_text n = (if n < 0 then CHR ''-'' # digits10 (nat (- n)) else digits10 (nat n))"

fun big_String :: "bigint \<Rightarrow> string" where
  "big_String None = ''<nil>''"
| "big_String (Some n) = int_text n"

definition digits_value :: "string \<Rightarrow> nat" where
  "digits_value s = foldl (\<lambda>a c. 10 * a + digit_val c) 0 s"

definition parse_digits :: "string \<Rightarrow> nat option" where
  "parse_digits s = (if s \<noteq> [] \<and> list_all is_digit s then Some (digits_value s) else None)"

text \<open>\<open>z.SetString(s, 10)\<close>: \<open>None\<close> when it reports failure.\<close>

fun SetString10 :: "string \<Rightarrow> int option" where
  "SetString10 [] = None"
| "SetString10 (c # cs) =
     (if c = CHR ''-'' then map_option (\<lambda>n. - int n) (parse_digits cs)
      else if c = CHR ''+'' then map_option int (parse_digits cs)
      else map_option int (parse_digits (c # cs)))"

lemma is_digit_digit_char: "d < 10 \<Longrightarrow> is_digit (digit_char d)"
  by (simp add: is_digit_def digit_char_def)

lemma digit_val_digit_char: "d < 10 \<Longrightarrow> digit_val (digit_char d) = d"
  by (simp add: digit_val_def digit_char_def)

lemma digits10_nonempty [simp]: "digits10 n \<noteq> []"
  by (subst digits10.simps) simp

lemma digits10_digits: "list_all is_digit (digits10 n)"
proof (induction n rule: digits10.induct)
  case (1 n)
  then show ?case
    by (subst digits10.simps) (auto simp: is_digit_digit_char)
qed

lemma digits10_value: "digits_value (digits10 n) = n"
proof (induction n rule: digits10.induct)
  case (1 n)
  then show ?case
    by (subst digits10.simps) (auto simp: digits_value_def digit_val_digit_char)
qed

lemma parse_digits_digits10 [simp]: "parse_digits (digits10 n) = Some n"
  by (simp add: parse_digits_def digits10_digits digits10_value)

lemma digits10_hd: "is_digit (hd (digits10 n))"
  using digits10_digits [of n] digits10_nonempty [of n] by (cases "digits10 n") auto

lemma SetString10_digits10 [simp]: "SetString10 (digits10 n) = Some (int n)"
proof -
  obtain c cs where d: "digits10 n = c # cs"
    using digits10_nonempty [of n] by (cases "digits10 n") auto
  with digits10_hd [of n] have "is_digit c" by simp
  then have "c \<noteq> CHR ''-''" "c \<noteq> CHR ''+''"
    by (auto simp: is_digit_def)
  moreover have "parse_digits (c # cs) = Some n"
    using parse_digits_digits10 [of n] by (simp only: d)
  ultimately show ?thesis
    by (simp add: d)
qed

text \<open>Printing and reading back an integer is the identity.\<close>

lemma SetString10_int_text [simp]: "SetString10 (int_text n) = Some n"
  by (simp add: int_text_def)

lemma int_text_inject: "int_text m = int_text n \<longleftrightarrow> m = n"
  by (metis SetString10_int_text option.inject)

text \<open>\<open>new(big.Int).Mul(x, big.NewInt(-1)).String()\<close>, the text of a negated amount.\<close>

definition neg_text :: "bigint \<Rightarrow> string go" where
  "neg_text x = andThen (deref x) (\<lambda>n. Inr (int_text (n * -1)))"

lemma neg_text_simps [simp]:
  "neg_text None = Inl NilDereference"
  "neg_text (Some n) = Inr (int_text (- n))"
  by (simp_all add: neg_text_def)

lemma neg_text_eq_Inr [go_simps]: "neg_text x = Inr s \<longleftrightarrow> (\<exists>n. x = Some n \<and> s = int_text (- n))"
  by (cases x) auto

section \<open>Strings and bytes\<close>

type_synonym byte = "8 word"

definition bytes_of :: "string \<Rightarrow> byte list" where
  "bytes_of s = map of_char s"

definition to_lower :: "char \<Rightarrow> char" where
  "to_lower c = (if 65 \<le> (of_char c :: nat) \<and> (of_char c :: nat) \<le> 90
                 then char_of ((of_char c :: nat) + 32) else c)"

text \<open>\<open>strings.EqualFold\<close> on ASCII text.\<close>

definition EqualFold :: "string \<Rightarrow> string \<Rightarrow> bool" where
  "EqualFold s t = (map to_lower s = map to_lower t)"

lemma EqualFold_refl [simp]: "EqualFold s s"
  by (simp add: EqualFold_def)

lemma EqualFold_sym: "EqualFold s t \<longleftrightarrow> EqualFold t s"
  by (auto simp: EqualFold_def)

lemma EqualFold_trans: "EqualFold s t \<Longrightarrow> EqualFold t u \<Longrightarrow> EqualFold s u"
  by (simp add: EqualFold_def)

section \<open>Minimal big-endian bytes\<close>

text \<open>\<open>new(big.Int).SetUint64(n).Bytes()\<close>: no leading zero byte, empty for 0.\<close>

fun be_bytes :: "nat \<Rightarrow> byte list" where
  "be_bytes n = (if n = 0 then [] else be_bytes (n div 256) @ [of_nat (n mod 256)])"

declare be_bytes.simps [simp del]

definition be_value :: "byte list \<Rightarrow> nat" where
  "be_value bs = foldl (\<lambda>a b. 256 * a + unat b) 0 bs"

lemma be_value_be_bytes: "be_value (be_bytes n) = n"
proof (induction n rule: be_bytes.induct)
  case (1 n)
  have "unat (of_nat (n mod 256) :: byte) = n mod 256"
    by (simp add: unat_of_nat)
  with 1 show ?case
    by (subst be_bytes.simps) (simp add: be_value_def)
qed

lemma be_bytes_inject [simp]: "be_bytes m = be_bytes n \<longleftrightarrow> m = n"
  by (metis be_value_be_bytes)

section \<open>Lists\<close>

lemma sum_list_map_filter_split:
  "sum_list (map f xs) = sum_list (map f (filter P xs)) + sum_list (map f (filter (\<lambda>x. \<not> P x) xs))"
  for f :: "'a \<Rightarrow> 'b::comm_monoid_add"
  by (induction xs) (auto simp: ac_simps)

end
