(* ===== verification/Types.thy ===== *)
theory Types
  imports Prelude
begin

text \<open>
  \<open>common/types.go\<close>: currencies, the byte enumerations \<open>TxType\<close>, \<open>TxOpType\<close> and
  \<open>BlockStatus\<close> with their \<open>String\<close> methods and name tables, and the Rosetta data
  (\<open>rosetta-sdk-go/types\<close>) that the adaptor builds. A Go pointer that the code may find
  nil is an \<open>option\<close>.
\<close>

section \<open>Rosetta data\<close>

record Currency =
  Symbol :: string
  Decimals :: int

record Amount =
  Value :: string
  Amount_Currency :: Currency

text \<open>A 20-byte \<open>common.Address\<close>, a 32-byte \<open>common.Hash\<close>, a \<open>uint64\<close>.\<close>

type_synonym address = "160 word"
type_synonym hash = "256 word"
type_synonym u64 = "64 word"
type_synonym u8 = "8 word"

text \<open>\<open>crypto.Signature\<close> wraps the signature's bytes.\<close>

type_synonym signature = "byte list"

definition ChainName :: string where
  "ChainName = ''theta''"

definition CoinDecimals :: int where
  "CoinDecimals = 18"

definition GetThetaCurrency :: Currency where
  "GetThetaCurrency = \<lparr>Symbol = ''THETA'', Decimals = CoinDecimals\<rparr>"

definition GetTFuelCurrency :: Currency where
  "GetTFuelCurrency = \<lparr>Symbol = ''TFUEL'', Decimals = CoinDecimals\<rparr>"

lemma Symbol_simps [simp]:
  "Symbol GetThetaCurrency = ''THETA''"
  "Symbol GetTFuelCurrency = ''TFUEL''"
  by (simp_all add: GetThetaCurrency_def GetTFuelCurrency_def)

lemma currencies_differ [simp]:
  "GetThetaCurrency \<noteq> GetTFuelCurrency"
  "GetTFuelCurrency \<noteq> GetThetaCurrency"
  by (simp_all add: GetThetaCurrency_def GetTFuelCurrency_def)

section \<open>Transaction types\<close>

text \<open>\<open>TxType\<close> is a byte: the RPC node may send any value, not only the constants.\<close>

type_synonym TxType = u8

definition CoinbaseTx :: TxType where
  "CoinbaseTx = 0"

definition SlashTx :: TxType where
  "SlashTx = 1"

definition SendTx :: TxType where
  "SendTx = 2"

definition ReserveFundTx :: TxType where
  "ReserveFundTx = 3"

definition ReleaseFundTx :: TxType where
  "ReleaseFundTx = 4"

definition ServicePaymentTx :: TxType where
  "ServicePaymentTx = 5"

definition SplitRuleTx :: TxType where
  "SplitRuleTx = 6"

definition SmartContractTx :: TxType where
  "SmartContractTx = 7"

definition DepositStakeTx :: TxType where
  "DepositStakeTx = 8"

definition WithdrawStakeTx :: TxType where
  "WithdrawStakeTx = 9"

definition DepositStakeV2Tx :: TxType where
  "DepositStakeV2Tx = 10"

definition StakeRewardDistributionTx :: TxType where
  "StakeRewardDistributionTx = 11"

lemmas TxType_consts [simp] =
  CoinbaseTx_def
  SlashTx_def
  SendTx_def
  ReserveFundTx_def
  ReleaseFundTx_def
  ServicePaymentTx_def
  SplitRuleTx_def
  SmartContractTx_def
  DepositStakeTx_def
  WithdrawStakeTx_def
  DepositStakeV2Tx_def
  StakeRewardDistributionTx_def

text \<open>\<open>TxTypes()\<close>, the table that \<open>TxType.String\<close> indexes too: it has no entry for
  \<open>ReleaseFundTx\<close>.\<close>

definition TxTypes :: "string list" where
  "TxTypes =
    [''CoinbaseTx'',
     ''SlashTx'',
     ''SendTx'',
     ''ReserveFundTx'',
     ''ServicePaymentTx'',
     ''SplitRuleTx'',
     ''SmartContractTx'',
     ''DepositStakeTx'',
     ''WithdrawStakeTx'',
     ''DepositStakeV2Tx'',
     ''StakeRewardDistributionTx'']"

definition TxType_String :: "TxType \<Rightarrow> string go" where
  "TxType_String t = index TxTypes (unat t)"

section \<open>Operation types\<close>

datatype TxOpType =
    CoinbaseTxProposer
  | CoinbaseTxOutput
  | SlashTxProposer
  | SendTxInput
  | SendTxOutput
  | ReserveFundTxSource
  | ReleaseFundTxSource
  | ServicePaymentTxSource
  | ServicePaymentTxTarget
  | SplitRuleTxInitiator
  | SmartContractTxFrom
  | SmartContractTxTo
  | DepositStakeTxSource
  | DepositStakeTxHolder
  | WithdrawStakeTxSource
  | WithdrawStakeTxHolder
  | StakeRewardDistributionTxHolder
  | StakeRewardDistributionTxBeneficiary
  | TxFee

fun TxOpType_String :: "TxOpType \<Rightarrow> string" where
  "TxOpType_String CoinbaseTxProposer = ''CoinbaseTxProposer''"
| "TxOpType_String CoinbaseTxOutput = ''CoinbaseTxOutput''"
| "TxOpType_String SlashTxProposer = ''SlashTxProposer''"
| "TxOpType_String SendTxInput = ''SendTxInput''"
| "TxOpType_String SendTxOutput = ''SendTxOutput''"
| "TxOpType_String ReserveFundTxSource = ''ReserveFundTxSource''"
| "TxOpType_String ReleaseFundTxSource = ''ReleaseFundTxSource''"
| "TxOpType_String ServicePaymentTxSource = ''ServicePaymentTxSource''"
| "TxOpType_String ServicePaymentTxTarget = ''ServicePaymentTxTarget''"
| "TxOpType_String SplitRuleTxInitiator = ''SplitRuleTxInitiator''"
| "TxOpType_String SmartContractTxFrom = ''SmartContractTxFrom''"
| "TxOpType_String SmartContractTxTo = ''SmartContractTxTo''"
| "TxOpType_String DepositStakeTxSource = ''DepositStakeTxSource''"
| "TxOpType_String DepositStakeTxHolder = ''DepositStakeTxHolder''"
| "TxOpType_String WithdrawStakeTxSource = ''WithdrawStakeTxSource''"
| "TxOpType_String WithdrawStakeTxHolder = ''WithdrawStakeTxHolder''"
| "TxOpType_String StakeRewardDistributionTxHolder = ''StakeRewardDistributionTxHolder''"
| "TxOpType_String StakeRewardDistributionTxBeneficiary = ''StakeRewardDistributionTxBeneficiary''"
| "TxOpType_String TxFee = ''TxFee''"

text \<open>The constants in \<open>iota\<close> order: the conversion \<open>TxOpType(i)\<close> is \<open>TxOpType_consts ! i\<close>.\<close>

definition TxOpType_consts :: "TxOpType list" where
  "TxOpType_consts =
    [CoinbaseTxProposer,
     CoinbaseTxOutput,
     SlashTxProposer,
     SendTxInput,
     SendTxOutput,
     ReserveFundTxSource,
     ReleaseFundTxSource,
     ServicePaymentTxSource,
     ServicePaymentTxTarget,
     SplitRuleTxInitiator,
     SmartContractTxFrom,
     SmartContractTxTo,
     DepositStakeTxSource,
     DepositStakeTxHolder,
     WithdrawStakeTxSource,
     WithdrawStakeTxHolder,
     StakeRewardDistributionTxHolder,
     StakeRewardDistributionTxBeneficiary,
     TxFee]"

definition TxOpTypes :: "string list" where
  "TxOpTypes =
    [''CoinbaseTxProposer'',
     ''CoinbaseTxOutput'',
     ''SlashTxProposer'',
     ''SendTxInput'',
     ''SendTxOutput'',
     ''ReserveFundTxSource'',
     ''ReleaseFundTxSource'',
     ''ServicePaymentTxSource'',
     ''ServicePaymentTxTarget'',
     ''SplitRuleTxInitiator'',
     ''SmartContractTxFrom'',
     ''SmartContractTxTo'',
     ''DepositStakeTxSource'',
     ''DepositStakeTxHolder'',
     ''WithdrawStakeTxSource'',
     ''WithdrawStakeTxHolder'',
     ''StakeRewardDistributionTxHolder'',
     ''StakeRewardDistributionTxBeneficiary'',
     ''TxFee'']"

fun IsSupportedConstructionType_loop :: "string \<Rightarrow> string list \<Rightarrow> bool" where
  "IsSupportedConstructionType_loop typ [] = False"
| "IsSupportedConstructionType_loop typ (styp # rest) =
     (if typ = styp then True else IsSupportedConstructionType_loop typ rest)"

definition IsSupportedConstructionType :: "string \<Rightarrow> bool" where
  "IsSupportedConstructionType typ = IsSupportedConstructionType_loop typ TxOpTypes"

text \<open>\<open>GetTxOpType\<close> answers the constant of the first matching name, or an error.\<close>

fun GetTxOpType_loop :: "string \<Rightarrow> nat \<Rightarrow> string list \<Rightarrow> string + TxOpType" where
  "GetTxOpType_loop typ i [] = Inl ''invalid tx op type''"
| "GetTxOpType_loop typ i (styp # rest) =
     (if typ = styp then Inr (TxOpType_consts ! i) else GetTxOpType_loop typ (Suc i) rest)"

definition GetTxOpType :: "string \<Rightarrow> string + TxOpType" where
  "GetTxOpType typ = GetTxOpType_loop typ 0 TxOpTypes"

section \<open>Block status\<close>

type_synonym BlockStatus = u8

definition BlockStatusPending :: BlockStatus where
  "BlockStatusPending = 0"

definition BlockStatusValid :: BlockStatus where
  "BlockStatusValid = 1"

definition BlockStatusInvalid :: BlockStatus where
  "BlockStatusInvalid = 2"

definition BlockStatusCommitted :: BlockStatus where
  "BlockStatusCommitted = 3"

definition BlockStatusDirectlyFinalized :: BlockStatus where
  "BlockStatusDirectlyFinalized = 4"

definition BlockStatusIndirectlyFinalized :: BlockStatus where
  "BlockStatusIndirectlyFinalized = 5"

definition BlockStatusTrusted :: BlockStatus where
  "BlockStatusTrusted = 6"

definition BlockStatusDisposed :: BlockStatus where
  "BlockStatusDisposed = 7"

lemmas BlockStatus_consts [simp] =
  BlockStatusPending_def
  BlockStatusValid_def
  BlockStatusInvalid_def
  BlockStatusCommitted_def
  BlockStatusDirectlyFinalized_def
  BlockStatusIndirectlyFinalized_def
  BlockStatusTrusted_def
  BlockStatusDisposed_def

definition BlockStatus_names :: "string list" where
  "BlockStatus_names =
    [''pending'',
     ''valid'',
     ''invalid'',
     ''committed'',
     ''directly_finalized'',
     ''indirectly_finalized'',
     ''trusted'',
     ''disposed'']"

definition BlockStatus_String :: "BlockStatus \<Rightarrow> string go" where
  "BlockStatus_String s = index BlockStatus_names (unat s)"

section \<open>The name tables\<close>

lemma TxOpTypes_map: "TxOpTypes = map TxOpType_String TxOpType_consts"
  by (simp add: TxOpTypes_def TxOpType_consts_def)

lemma set_TxOpType_consts [simp]: "set TxOpType_consts = UNIV"
proof -
  have "t \<in> set TxOpType_consts" for t
    by (cases t) (simp_all add: TxOpType_consts_def)
  then show ?thesis by blast
qed

lemma TxOpType_String_inject [simp]: "TxOpType_String s = TxOpType_String t \<longleftrightarrow> s = t"
  by (cases s; cases t) simp_all

lemma distinct_TxOpTypes: "distinct TxOpTypes"
  by (simp add: TxOpTypes_def)

lemma IsSupportedConstructionType_loop_eq:
  "IsSupportedConstructionType_loop typ names \<longleftrightarrow> typ \<in> set names"
  by (induction names) auto

lemma GetTxOpType_loop_nth:
  "distinct names \<Longrightarrow> j < length names \<Longrightarrow>
   GetTxOpType_loop (names ! j) i names = Inr (TxOpType_consts ! (i + j))"
  by (induction names arbitrary: i j) (auto simp: nth_Cons split: nat.splits)

lemma GetTxOpType_loop_none:
  "typ \<notin> set names \<Longrightarrow> GetTxOpType_loop typ i names = Inl ''invalid tx op type''"
  by (induction names arbitrary: i) auto

lemma GetTxOpType_String: "GetTxOpType (TxOpType_String t) = Inr t"
proof -
  have "t \<in> set TxOpType_consts" by simp
  then obtain j where j: "j < length TxOpType_consts" "TxOpType_consts ! j = t"
    by (meson in_set_conv_nth)
  then have "TxOpTypes ! j = TxOpType_String t" "j < length TxOpTypes"
    by (simp_all add: TxOpTypes_map)
  with GetTxOpType_loop_nth [OF distinct_TxOpTypes, of j 0] j show ?thesis
    by (simp add: GetTxOpType_def)
qed

lemma TxType_String_length: "length TxTypes = 11"
  by (simp add: TxTypes_def)

lemma TxType_String_panics: "TxType_String t = Inl p \<longleftrightarrow> 11 \<le> unat t \<and> p = IndexOutOfRange"
  by (auto simp: TxType_String_def index_def TxType_String_length)

lemma BlockStatus_String_defined [go_simps]:
  "BlockStatus_String s = Inr n \<longleftrightarrow> unat s < 8 \<and> n = BlockStatus_names ! unat s"
  by (auto simp: BlockStatus_String_def index_def BlockStatus_names_def)

end
