(* ===== verification/Ledger.thy ===== *)
theory Ledger
  imports Types
begin

text \<open>
  The data the parsers read and write: the Theta transactions (\<open>theta/ledger/types\<close>,
  third-party structs of which the fields the adaptor touches are kept), the Rosetta
  operations they become, the dynamic values of a \<open>map[string]interface{}\<close>, and the
  functions of the Theta library that are parameters of the model. \<open>ReturnStakeTx\<close> and
  \<open>ReturnStakeTxs\<close> are the adaptor's own (\<open>common/types.go\<close>).
\<close>

section \<open>Theta transactions\<close>

record Coins =
  ThetaWei :: bigint
  TFuelWei :: bigint

record TxInput =
  in_Address :: address
  in_Coins :: Coins
  in_Sequence :: u64
  in_Signature :: "signature option"

record TxOutput =
  out_Address :: address
  out_Coins :: Coins

record Split =
  split_Address :: address
  split_Percentage :: u64

record CoinbaseTx_data =
  cb_Proposer :: TxInput
  cb_Outputs :: "TxOutput list"
  cb_BlockHeight :: u64

record SlashTx_data =
  sl_Proposer :: TxInput
  sl_SlashedAddress :: address
  sl_ReserveSequence :: u64
  sl_SlashProof :: "byte list"

record SendTx_data =
  send_Fee :: Coins
  send_Inputs :: "TxInput list"
  send_Outputs :: "TxOutput list"

record ReserveFundTx_data =
  rsv_Fee :: Coins
  rsv_Source :: TxInput
  rsv_Collateral :: Coins
  rsv_ResourceIDs :: "string list"
  rsv_Duration :: u64

record ReleaseFundTx_data =
  rel_Fee :: Coins
  rel_Source :: TxInput
  rel_ReserveSequence :: u64

record ServicePaymentTx_data =
  sp_Fee :: Coins
  sp_Source :: TxInput
  sp_Target :: TxInput
  sp_PaymentSequence :: u64
  sp_ReserveSequence :: u64
  sp_ResourceID :: string

record SplitRuleTx_data =
  sr_Fee :: Coins
  sr_ResourceID :: string
  sr_Initiator :: TxInput
  sr_Splits :: "Split list"
  sr_Duration :: u64

record SmartContractTx_data =
  sc_From :: TxInput
  sc_To :: TxOutput
  sc_GasLimit :: u64
  sc_GasPrice :: bigint
  sc_Data :: "byte list"

record DepositStakeTxV2_data =
  ds_Fee :: Coins
  ds_Source :: TxInput
  ds_Holder :: TxOutput
  ds_Purpose :: u8
  ds_BlsPubkey :: "byte list option"
  ds_BlsPop :: "byte list option"
  ds_HolderSig :: "signature option"

record WithdrawStakeTx_data =
  ws_Fee :: Coins
  ws_Source :: TxInput
  ws_Holder :: TxOutput
  ws_Purpose :: u8

record StakeRewardDistributionTx_data =
  rd_Fee :: Coins
  rd_Holder :: TxInput
  rd_Beneficiary :: TxOutput
  rd_SplitBasisPoint :: u64

text \<open>\<open>blockchain.TxBalanceChangesEntry\<close>, the balance changes a contract call caused.\<close>

record BalanceChange =
  bc_Address :: address
  bc_TokenType :: int
  bc_IsNegative :: bool
  bc_Delta :: bigint

record TxBalanceChangesEntry =
  BalanceChanges :: "BalanceChange list"

section \<open>Dynamic values and Rosetta operations\<close>

text \<open>
  The values an \<open>interface{}\<close> holds here, by dynamic type; a finite \<open>float64\<close> (what a
  JSON number becomes) is its rational value, and \<open>VNil\<close> (what a JSON null becomes) is the
  nil interface.
\<close>

datatype "value" =
    VNil
  | VTxType TxType
  | VUint64 u64
  | VUint u64
  | VUint8 u8
  | VFloat rat
  | VString string
  | VBool bool
  | VBytes "byte list"
  | VBigInt bigint
  | VCoins Coins
  | VAddress address
  | VHash hash
  | VStrings "string list"
  | VSplits "Split list"
  | VBlsPubkey "byte list option"
  | VBlsSignature "byte list option"
  | VSignature "signature option"
  | VSlice "value list"
  | VMap "(string \<times> value) list"

type_synonym metadata = "string \<rightharpoonup> value"

text \<open>
  \<open>types.Operation\<close>: \<open>op_Index\<close> is \<open>OperationIdentifier.Index\<close>, \<open>op_Related\<close> the
  indexes of \<open>RelatedOperations\<close>, \<open>op_Account\<close> the address of \<open>Account\<close>.
\<close>

record Operation =
  op_Index :: int
  op_Related :: "int list"
  op_Type :: string
  op_Status :: "string option"
  op_Account :: "string option"
  op_Amount :: "Amount option"
  op_Metadata :: metadata

record Transaction =
  tr_Hash :: string
  tr_Metadata :: metadata
  tr_Operations :: "Operation list"

section \<open>Return stakes\<close>

record ReturnStakeTx =
  rs_Hash :: string
  rs_Tx :: WithdrawStakeTx_data

record ReturnStakeTxs =
  ReturnStakes :: "ReturnStakeTx list"

section \<open>The Theta library\<close>

text \<open>
  Functions of \<open>theta/common\<close>, \<open>theta/crypto\<close> and constants of \<open>theta/core\<close> that the
  adaptor calls; they are not part of the repository and stay parameters.
\<close>

record thetalib =
  Address_String :: "address \<Rightarrow> string"
  Address_Hex :: "address \<Rightarrow> string"
  HexToAddress :: "string \<Rightarrow> address"
  Hash_String :: "hash \<Rightarrow> string"
  Hash_Hex :: "hash \<Rightarrow> string"
  HexToHash :: "string \<Rightarrow> hash"
  Keccak256Hash :: "byte list \<Rightarrow> hash"
  Signature_MarshalJSON :: "signature option \<Rightarrow> byte list"
  StakeForValidator :: u8
  StakeForGuardian :: u8
  StakeForEliteEdgeNode :: u8
  ReturnLockingPeriod :: u64

text \<open>
  The three stake purposes label the cases of one Go \<open>switch\<close>, so the compiler rejects
  equal ones.
\<close>

definition purposes_distinct :: "'a thetalib_scheme \<Rightarrow> bool" where
  "purposes_distinct L \<longleftrightarrow>
     StakeForValidator L \<noteq> StakeForGuardian L \<and>
     StakeForValidator L \<noteq> StakeForEliteEdgeNode L \<and>
     StakeForGuardian L \<noteq> StakeForEliteEdgeNode L"

section \<open>Building operations\<close>

text \<open>\<open>&types.Amount{Value: v, Currency: c}\<close>\<close>

definition amount :: "string \<Rightarrow> Currency \<Rightarrow> Amount" where
  "amount v c = \<lparr>Value = v, Amount_Currency = c\<rparr>"

lemma amount_simps [simp]: "Value (amount v c) = v" "Amount_Currency (amount v c) = c"
  by (simp_all add: amount_def)

text \<open>
  \<open>&types.Operation{...}\<close> with index \<open>i\<close>, related indexes \<open>rel\<close>, type \<open>t\<close>, account
  \<open>a\<close>, amount \<open>v c\<close> and metadata \<open>md\<close>, after \<open>if status != nil { op.Status = status }\<close>.
\<close>

definition mk_op :: "int \<Rightarrow> int list \<Rightarrow> TxOpType \<Rightarrow> string option \<Rightarrow> string \<Rightarrow> string \<Rightarrow> Currency \<Rightarrow>
    metadata \<Rightarrow> Operation" where
  "mk_op i rel t st a v c md =
     \<lparr>op_Index = i, op_Related = rel, op_Type = TxOpType_String t, op_Status = st,
      op_Account = Some a, op_Amount = Some (amount v c), op_Metadata = md\<rparr>"

lemma mk_op_simps [simp]:
  "op_Index (mk_op i rel t st a v c md) = i"
  "op_Related (mk_op i rel t st a v c md) = rel"
  "op_Type (mk_op i rel t st a v c md) = TxOpType_String t"
  "op_Status (mk_op i rel t st a v c md) = st"
  "op_Account (mk_op i rel t st a v c md) = Some a"
  "op_Amount (mk_op i rel t st a v c md) = Some (amount v c)"
  "op_Metadata (mk_op i rel t st a v c md) = md"
  by (simp_all add: mk_op_def)

text \<open>\<open>if i > 0 { op.RelatedOperations = {{Index: i - 1}} }\<close> over the initial \<open>rel\<close>.\<close>

definition link_or :: "int list \<Rightarrow> int \<Rightarrow> int list" where
  "link_or rel i = (if i > 0 then [i - 1] else rel)"

abbreviation link :: "int \<Rightarrow> int list" where
  "link i \<equiv> link_or [] i"

lemma link_or_0 [simp]: "link_or rel 0 = rel"
  by (simp add: link_or_def)

lemma link_or_pos [simp]: "0 < i \<Longrightarrow> link_or rel i = [i - 1]"
  by (simp add: link_or_def)

text \<open>The operation metadata of a transaction input.\<close>

definition input_md :: "'a thetalib_scheme \<Rightarrow> TxInput \<Rightarrow> metadata" where
  "input_md L inp =
     [''sequence'' \<mapsto> VUint64 (in_Sequence inp),
      ''signature'' \<mapsto> VBytes (Signature_MarshalJSON L (in_Signature inp))]"

text \<open>
  \<open>x != nil && x != big.NewInt(0)\<close>: the second conjunct compares pointers, and a freshly
  allocated one differs from every other, so only the nil test is left.
\<close>

definition not_nil_nor_fresh_zero :: "bigint \<Rightarrow> bool" where
  "not_nil_nor_fresh_zero x = (x \<noteq> None)"

text \<open>\<open>x != nil && len(x.Bits()) != 0\<close>: here the value is tested.\<close>

definition not_nil_nor_zero_bits :: "bigint \<Rightarrow> bool" where
  "not_nil_nor_zero_bits x = (case x of None \<Rightarrow> False | Some n \<Rightarrow> n \<noteq> 0)"

section \<open>Reading operations back\<close>

text \<open>
  The signed change an operation reports in the currency \<open>c\<close>; the Rosetta client parses
  \<open>Value\<close> as a decimal integer.
\<close>

definition op_delta :: "Currency \<Rightarrow> Operation \<Rightarrow> int" where
  "op_delta c op =
     (case op_Amount op of
        None \<Rightarrow> 0
      | Some am \<Rightarrow> if Amount_Currency am = c
                  then (case SetString10 (Value am) of None \<Rightarrow> 0 | Some n \<Rightarrow> n) else 0)"

definition total_delta :: "Currency \<Rightarrow> Operation list \<Rightarrow> int" where
  "total_delta c ops = sum_list (map (op_delta c) ops)"

definition account_delta :: "Currency \<Rightarrow> string \<Rightarrow> Operation list \<Rightarrow> int" where
  "account_delta c a ops = total_delta c (filter (\<lambda>op. op_Account op = Some a) ops)"

lemma op_delta_mk_op [simp]:
  "op_delta c (mk_op i rel t st a (int_text n) c' md) = (if c' = c then n else 0)"
  by (simp add: op_delta_def)

lemma total_delta_simps [simp]:
  "total_delta c [] = 0"
  "total_delta c (op # ops) = op_delta c op + total_delta c ops"
  "total_delta c (ops @ ops') = total_delta c ops + total_delta c ops'"
  by (simp_all add: total_delta_def)

lemma account_delta_simps [simp]:
  "account_delta c a [] = 0"
  "account_delta c a (op # ops) =
     (if op_Account op = Some a then op_delta c op else 0) + account_delta c a ops"
  "account_delta c a (ops @ ops') = account_delta c a ops + account_delta c a ops'"
  by (simp_all add: account_delta_def)

end
