(* ===== verification/Operations.thy ===== *)
theory Operations
  imports Ledger
begin

text \<open>
  The shape that every transaction parser of \<open>common/utils.go\<close> shares: operations are
  appended one by one with a running index \<open>i\<close>. This theory holds the append step, the
  well-formedness of the resulting list (what a Rosetta client checks of a transaction) and
  the interface \<open>tx_parser\<close> that the parsers implement, with the consequences its clients
  use.
\<close>

section \<open>Appending an operation\<close>

type_synonym op_state = "int \<times> Operation list"

text \<open>
  Build an operation at the running index, link it to its predecessor when there is one,
  append it and advance the index.
\<close>

fun emit :: "TxOpType \<Rightarrow> string option \<Rightarrow> string \<Rightarrow> string \<Rightarrow> Currency \<Rightarrow> metadata \<Rightarrow> int list \<Rightarrow>
    op_state \<Rightarrow> op_state" where
  "emit t st a v c md rel (i, ops) = (i + 1, ops @ [mk_op i (link_or rel i) t st a v c md])"

section \<open>Well-formed operation lists\<close>

definition indexed :: "Operation list \<Rightarrow> bool" where
  "indexed ops \<longleftrightarrow> map op_Index ops = map int [0..<length ops]"

text \<open>Every related operation comes earlier in the same transaction.\<close>

definition backward :: "Operation list \<Rightarrow> bool" where
  "backward ops \<longleftrightarrow> list_all (\<lambda>op. \<forall>r \<in> set (op_Related op). 0 \<le> r \<and> r < op_Index op) ops"

definition op_ok :: "string option \<Rightarrow> Operation \<Rightarrow> bool" where
  "op_ok st op \<longleftrightarrow>
     op_Status op = st \<and> op_Type op \<in> set TxOpTypes \<and> op_Account op \<noteq> None \<and>
     (\<exists>v. op_Amount op = Some (amount v GetThetaCurrency) \<or>
          op_Amount op = Some (amount v GetTFuelCurrency))"

definition ops_ok :: "string option \<Rightarrow> Operation list \<Rightarrow> bool" where
  "ops_ok st ops \<longleftrightarrow> indexed ops \<and> list_all (op_ok st) ops"

lemma indexed_Nil [simp]: "indexed []"
  by (simp add: indexed_def)

lemma indexed_snoc [simp]:
  "indexed (ops @ [op]) \<longleftrightarrow> indexed ops \<and> op_Index op = int (length ops)"
  by (auto simp: indexed_def)

lemma backward_simps [simp]:
  "backward []"
  "backward (ops @ [op]) \<longleftrightarrow>
     backward ops \<and> (\<forall>r \<in> set (op_Related op). 0 \<le> r \<and> r < op_Index op)"
  by (simp_all add: backward_def)

lemma op_ok_mk_op [simp]:
  "c = GetThetaCurrency \<or> c = GetTFuelCurrency \<Longrightarrow> op_ok st (mk_op i rel t st a v c md)"
  by (auto simp: op_ok_def TxOpTypes_map)

lemma ops_ok_Nil [simp]: "ops_ok st []"
  by (simp add: ops_ok_def)

lemma ops_ok_snoc [simp]:
  "ops_ok st (ops @ [op]) \<longleftrightarrow> ops_ok st ops \<and> op_Index op = int (length ops) \<and> op_ok st op"
  by (auto simp: ops_ok_def)

lemma indexed_nth: "indexed ops \<Longrightarrow> k < length ops \<Longrightarrow> op_Index (ops ! k) = int k"
  by (metis indexed_def add_0 length_map length_upt nth_map nth_upt minus_nat.diff_0)

lemma indexed_distinct: "indexed ops \<Longrightarrow> distinct (map op_Index ops)"
  by (simp add: indexed_def distinct_map)

text \<open>The running state of a parser: the index is the number of operations so far.\<close>

definition running :: "string option \<Rightarrow> op_state \<Rightarrow> bool" where
  "running st s \<longleftrightarrow> fst s = int (length (snd s)) \<and> ops_ok st (snd s)"

definition running_linked :: "string option \<Rightarrow> op_state \<Rightarrow> bool" where
  "running_linked st s \<longleftrightarrow> running st s \<and> backward (snd s)"

lemma running_init [simp]: "running st (0, [])" "running_linked st (0, [])"
  by (simp_all add: running_def running_linked_def)

lemma running_emit [intro]:
  assumes "running st s" "c = GetThetaCurrency \<or> c = GetTFuelCurrency"
  shows "running st (emit t st a v c md rel s)"
  using assms by (cases s) (simp add: running_def)

lemma running_linked_emit [intro]:
  assumes "running_linked st s" "c = GetThetaCurrency \<or> c = GetTFuelCurrency"
    and "rel = [] \<or> 0 < fst s"
  shows "running_linked st (emit t st a v c md rel s)"
  using assms by (cases s) (auto simp: running_linked_def running_def link_or_def)

lemma running_ops_ok: "running st (i, ops) \<Longrightarrow> ops_ok st ops"
  by (simp add: running_def)

lemma running_linked_backward: "running_linked st (i, ops) \<Longrightarrow> backward ops"
  by (simp add: running_linked_def)

lemma emit_pos: "running st s \<Longrightarrow> 0 < fst (emit t st a v c md rel s)"
  by (cases s) (simp add: running_def)

section \<open>The interface of the parsers\<close>

text \<open>
  A parser turns a transaction, the status of its block (absent for a transaction that is
  being constructed) and its type into metadata and operations, or panics.
\<close>

type_synonym parsed = "(metadata \<times> Operation list) go"

locale tx_parser =
  fixes parse :: "'tx \<Rightarrow> string option \<Rightarrow> TxType \<Rightarrow> parsed"
  assumes parse_type: "parse tx st ty = Inr (md, ops) \<Longrightarrow> md ''type'' = Some (VTxType ty)"
    and parse_ops_ok: "parse tx st ty = Inr (md, ops) \<Longrightarrow> ops_ok st ops"
begin

lemma index_is_position:
  "parse tx st ty = Inr (md, ops) \<Longrightarrow> k < length ops \<Longrightarrow> op_Index (ops ! k) = int k"
  using parse_ops_ok indexed_nth by (fastforce simp: ops_ok_def)

lemma indexes_distinct: "parse tx st ty = Inr (md, ops) \<Longrightarrow> distinct (map op_Index ops)"
  using parse_ops_ok indexed_distinct by (fastforce simp: ops_ok_def)

lemma status_is_block_status:
  "parse tx st ty = Inr (md, ops) \<Longrightarrow> op \<in> set ops \<Longrightarrow> op_Status op = st"
  using parse_ops_ok by (fastforce simp: ops_ok_def list_all_iff op_ok_def)

lemma type_is_supported:
  "parse tx st ty = Inr (md, ops) \<Longrightarrow> op \<in> set ops \<Longrightarrow> op_Type op \<in> set TxOpTypes"
  using parse_ops_ok by (fastforce simp: ops_ok_def list_all_iff op_ok_def)

end

text \<open>
  A parser whose operations refer to earlier ones only, for the transactions that satisfy
  \<open>links_ok\<close>.
\<close>

locale linked_tx_parser = tx_parser parse
  for parse :: "'tx \<Rightarrow> string option \<Rightarrow> TxType \<Rightarrow> parsed" +
  fixes links_ok :: "'tx \<Rightarrow> bool"
  assumes parse_backward:
    "links_ok tx \<Longrightarrow> parse tx st ty = Inr (md, ops) \<Longrightarrow> backward ops"
begin

lemma related_earlier:
  assumes "links_ok tx" "parse tx st ty = Inr (md, ops)" "k < length ops"
    and "r \<in> set (op_Related (ops ! k))"
  shows "0 \<le> r \<and> r < int k"
  using parse_backward [OF assms(1,2)] index_is_position [OF assms(2,3)] assms(3,4)
  by (auto simp: backward_def list_all_length)

lemma first_unrelated:
  "links_ok tx \<Longrightarrow> parse tx st ty = Inr (md, op # ops) \<Longrightarrow> op_Related op = []"
  using related_earlier [of tx st ty md "op # ops" 0 "hd (op_Related op)"]
  by (cases "op_Related op") auto

end

end
