(* ===== verification/ParseTransfers.thy ===== *)
theory ParseTransfers
  imports Operations
begin

text \<open>
  \<open>ParseCoinbaseTx\<close>, \<open>ParseSlashTx\<close> and \<open>ParseSendTx\<close> of \<open>common/utils.go\<close>, their
  instances of the parser interface, and what the operations of a transfer add up to.
\<close>

section \<open>Coinbase and slash transactions\<close>

fun coinbase_outputs :: "'a thetalib_scheme \<Rightarrow> string option \<Rightarrow> int \<Rightarrow> TxOutput list \<Rightarrow> Operation list" where
  "coinbase_outputs L st i [] = []"
| "coinbase_outputs L st i (output # rest) =
     mk_op (i + 1) [0] CoinbaseTxOutput st (Address_String L (out_Address output))
       (big_String (TFuelWei (out_Coins output))) GetTFuelCurrency Map.empty
     # coinbase_outputs L st (i + 1) rest"

definition ParseCoinbaseTx ::
    "'a thetalib_scheme \<Rightarrow> CoinbaseTx_data \<Rightarrow> string option \<Rightarrow> TxType \<Rightarrow> parsed" where
  "ParseCoinbaseTx L tx status txType =
     (let md = [''type'' \<mapsto> VTxType txType, ''block_height'' \<mapsto> VUint64 (cb_BlockHeight tx)];
          proposer = cb_Proposer tx;
          op = mk_op 0 [] CoinbaseTxProposer status (Address_String L (in_Address proposer))
                 ''0'' GetTFuelCurrency (input_md L proposer)
      in Inr (md, op # coinbase_outputs L status 0 (cb_Outputs tx)))"

definition ParseSlashTx ::
    "'a thetalib_scheme \<Rightarrow> SlashTx_data \<Rightarrow> string option \<Rightarrow> TxType \<Rightarrow> parsed" where
  "ParseSlashTx L tx status txType =
     (let md = [''type'' \<mapsto> VTxType txType,
                ''slashed_address'' \<mapsto> VAddress (sl_SlashedAddress tx),
                ''reserve_sequence'' \<mapsto> VUint64 (sl_ReserveSequence tx),
                ''slash_proof'' \<mapsto> VBytes (sl_SlashProof tx)];
          proposer = sl_Proposer tx;
          op = mk_op 0 [] SlashTxProposer status (Address_String L (in_Address proposer))
                 ''0'' GetThetaCurrency (input_md L proposer)
      in Inr (md, [op]))"

section \<open>Send transactions\<close>

text \<open>\<open>if x == nil { x = big.NewInt(0) }\<close>\<close>

definition or_zero :: "bigint \<Rightarrow> int" where
  "or_zero x = (case x of None \<Rightarrow> 0 | Some n \<Rightarrow> n)"

lemma or_zero_simps [simp]: "or_zero None = 0" "or_zero (Some n) = n"
  by (simp_all add: or_zero_def)

text \<open>
  The loop over the inputs: two operations each, THETA and then TFUEL less the fee of the
  whole transaction. \<open>addr\<close> is \<open>inputAddr\<close>, the address of the latest input.
\<close>

fun send_inputs :: "'a thetalib_scheme \<Rightarrow> bigint \<Rightarrow> string option \<Rightarrow> TxInput list \<Rightarrow>
    string \<times> op_state \<Rightarrow> (string \<times> op_state) go" where
  "send_inputs L fee st [] (addr, s) = Inr (addr, s)"
| "send_inputs L fee st (input # rest) (addr, s) =
     (let a = Address_String L (in_Address input);
          md = input_md L input;
          thetaWei = or_zero (ThetaWei (in_Coins input)) * -1;
          s1 = emit SendTxInput st a (int_text thetaWei) GetThetaCurrency md [] s
      in andThen (deref fee) (\<lambda>f.
         let tfuelInput = or_zero (TFuelWei (in_Coins input)) - f;
             s2 = emit SendTxInput st a (int_text (tfuelInput * -1)) GetTFuelCurrency md [] s1
         in send_inputs L fee st rest (a, s2)))"

fun send_outputs :: "'a thetalib_scheme \<Rightarrow> string option \<Rightarrow> TxOutput list \<Rightarrow> op_state \<Rightarrow> op_state" where
  "send_outputs L st [] s = s"
| "send_outputs L st (output # rest) s =
     (let a = Address_String L (out_Address output);
          s1 = emit SendTxOutput st a (int_text (or_zero (ThetaWei (out_Coins output))))
                 GetThetaCurrency Map.empty [fst s - 1] s;
          s2 = emit SendTxOutput st a (int_text (or_zero (TFuelWei (out_Coins output))))
                 GetTFuelCurrency Map.empty [fst s1 - 1] s1
      in send_outputs L st rest s2)"

definition ParseSendTx ::
    "'a thetalib_scheme \<Rightarrow> SendTx_data \<Rightarrow> string option \<Rightarrow> TxType \<Rightarrow> parsed" where
  "ParseSendTx L tx status txType =
     (let md = [''type'' \<mapsto> VTxType txType, ''fee'' \<mapsto> VCoins (send_Fee tx)];
          feeWei = TFuelWei (send_Fee tx)
      in andThen (send_inputs L feeWei status (send_Inputs tx) ([], (0, []))) (\<lambda>(inputAddr, s).
         let s1 = send_outputs L status (send_Outputs tx) s
         in andThen (neg_text feeWei) (\<lambda>fee.
            Inr (md, snd (emit TxFee status inputAddr fee GetTFuelCurrency Map.empty [] s1)))))"

lemmas transfer_parser_defs [parser_defs] =
  ParseCoinbaseTx_def ParseSlashTx_def ParseSendTx_def

section \<open>Instances of the parser interface\<close>

lemma coinbase_outputs_indexed:
  "map op_Index (coinbase_outputs L st i outs) = map (\<lambda>k. i + 1 + int k) [0..<length outs]"
  by (induction outs arbitrary: i) (auto simp: upt_conv_Cons map_Suc_upt [symmetric] simp del: upt_Suc)

lemma length_coinbase_outputs [simp]: "length (coinbase_outputs L st i outs) = length outs"
  by (induction outs arbitrary: i) auto

lemma coinbase_outputs_ok: "list_all (op_ok st) (coinbase_outputs L st i outs)"
  by (induction outs arbitrary: i) auto

lemma coinbase_outputs_backward: "0 \<le> i \<Longrightarrow> backward (coinbase_outputs L st i outs)"
  by (induction outs arbitrary: i) (auto simp: backward_def)

lemma coinbase_indexed:
  "indexed (mk_op 0 rel t st' a v c md # coinbase_outputs L st 0 outs)"
  by (simp add: indexed_def coinbase_outputs_indexed upt_conv_Cons map_Suc_upt [symmetric]
      del: upt_Suc)

interpretation coinbase: linked_tx_parser "ParseCoinbaseTx L" "\<lambda>_. True"
  for L :: "'a thetalib_scheme"
  by unfold_locales
    (auto simp: ParseCoinbaseTx_def Let_def ops_ok_def coinbase_indexed coinbase_outputs_ok
      backward_def coinbase_outputs_backward [unfolded backward_def])

interpretation slash: linked_tx_parser "ParseSlashTx L" "\<lambda>_. True"
  for L :: "'a thetalib_scheme"
  by unfold_locales
    (auto simp: ParseSlashTx_def Let_def ops_ok_def indexed_def backward_def)

lemma send_inputs_running:
  "send_inputs L fee st ins (addr, s) = Inr (addr', s') \<Longrightarrow> running_linked st s \<Longrightarrow>
   running_linked st s' \<and> (ins \<noteq> [] \<or> 0 < fst s \<longrightarrow> 0 < fst s')"
proof (induction ins arbitrary: addr s)
  case Nil
  then show ?case by simp
next
  case (Cons inp rest)
  let ?a = "Address_String L (in_Address inp)" and ?md = "input_md L inp"
  let ?s1 = "emit SendTxInput st ?a (int_text (- or_zero (ThetaWei (in_Coins inp))))
    GetThetaCurrency ?md [] s"
  from Cons.prems obtain f where rec: "send_inputs L fee st rest (?a, emit SendTxInput st ?a
      (int_text (- (or_zero (TFuelWei (in_Coins inp)) - f))) GetTFuelCurrency ?md [] ?s1)
      = Inr (addr', s')"
    by (auto simp: Let_def go_simps)
  have s2: "running_linked st (emit SendTxInput st ?a v GetTFuelCurrency ?md [] ?s1)" for v
    using Cons.prems(2) by (intro running_linked_emit) auto
  then have "0 < fst (emit SendTxInput st ?a v GetTFuelCurrency ?md [] ?s1)" for v
    using Cons.prems(2) by (intro emit_pos) (auto simp: running_linked_def)
  with Cons.IH [OF rec s2] show ?case by blast
qed

lemma running_emit_pos:
  "running st s \<Longrightarrow> 0 < fst s \<Longrightarrow> 0 < fst (emit t st a v c md rel s)"
  by (rule emit_pos)

lemma send_outputs_running: "running st s \<Longrightarrow> running st (send_outputs L st outs s)"
proof (induction outs arbitrary: s)
  case (Cons out rest)
  show ?case
    unfolding send_outputs.simps Let_def
    by (intro Cons.IH running_emit) (use Cons.prems in auto)
qed simp

lemma send_outputs_linked:
  "running_linked st s \<Longrightarrow> 0 < fst s \<Longrightarrow>
   running_linked st (send_outputs L st outs s) \<and> 0 < fst (send_outputs L st outs s)"
proof (induction outs arbitrary: s)
  case (Cons out rest)
  show ?case
    unfolding send_outputs.simps Let_def
    by (intro Cons.IH running_linked_emit emit_pos running_emit)
      (use Cons.prems emit_pos in \<open>auto simp: running_linked_def\<close>)
qed simp

lemma ParseSendTx_cases:
  assumes "ParseSendTx L tx st ty = Inr (md, ops)"
  obtains f addr s where
    "TFuelWei (send_Fee tx) = Some f"
    "send_inputs L (Some f) st (send_Inputs tx) ([], (0, [])) = Inr (addr, s)"
    "ops = snd (emit TxFee st addr (int_text (- f)) GetTFuelCurrency Map.empty []
              (send_outputs L st (send_Outputs tx) s))"
    "md = [''type'' \<mapsto> VTxType ty, ''fee'' \<mapsto> VCoins (send_Fee tx)]"
  using assms by (auto simp: ParseSendTx_def Let_def go_simps)

lemma snd_running: "running st s \<Longrightarrow> ops_ok st (snd s)"
  by (simp add: running_def)

lemma snd_running_linked: "running_linked st s \<Longrightarrow> backward (snd s)"
  by (simp add: running_linked_def)

interpretation send: linked_tx_parser "ParseSendTx L" "\<lambda>tx. send_Inputs tx \<noteq> []"
  for L :: "'a thetalib_scheme"
proof unfold_locales
  fix tx :: SendTx_data and st ty md ops
  assume p: "ParseSendTx L tx st ty = Inr (md, ops)"
  then obtain f addr s where s:
    "send_inputs L (Some f) st (send_Inputs tx) ([], (0, [])) = Inr (addr, s)"
    "ops = snd (emit TxFee st addr (int_text (- f)) GetTFuelCurrency Map.empty []
              (send_outputs L st (send_Outputs tx) s))"
    "md = [''type'' \<mapsto> VTxType ty, ''fee'' \<mapsto> VCoins (send_Fee tx)]"
    by (rule ParseSendTx_cases)
  from send_inputs_running [OF s(1)] have r: "running_linked st s"
    and pos: "send_Inputs tx \<noteq> [] \<Longrightarrow> 0 < fst s" by auto
  show "md ''type'' = Some (VTxType ty)" by (simp add: s(3))
  show "ops_ok st ops"
    unfolding s(2) by (intro snd_running running_emit send_outputs_running)
      (use r in \<open>auto simp: running_linked_def\<close>)
  assume "send_Inputs tx \<noteq> []"
  with send_outputs_linked [OF r pos] show "backward ops"
    unfolding s(2) by (intro snd_running_linked running_linked_emit) auto
qed

section \<open>When a transfer fails to parse\<close>

lemma send_inputs_total:
  "\<exists>r. send_inputs L (Some f) st ins (addr, s) = Inr r"
  by (induction ins arbitrary: addr s) (auto simp: Let_def)

lemma ParseSendTx_panics_iff:
  "(\<exists>p. ParseSendTx L tx st ty = Inl p) \<longleftrightarrow> TFuelWei (send_Fee tx) = None"
proof (cases "TFuelWei (send_Fee tx)")
  case None
  then show ?thesis
    by (cases "send_Inputs tx") (auto simp: ParseSendTx_def Let_def go_simps)
next
  case (Some f)
  obtain r where "send_inputs L (Some f) st (send_Inputs tx) ([], (0, [])) = Inr r"
    using send_inputs_total by blast
  with Some show ?thesis
    by (cases r) (simp add: ParseSendTx_def Let_def)
qed

section \<open>What the operations add up to\<close>

lemma emit_total [simp]:
  "total_delta c (snd (emit t st a (int_text n) c' md rel s))
     = total_delta c (snd s) + (if c' = c then n else 0)"
  by (cases s) simp

lemma emit_account [simp]:
  "account_delta c b (snd (emit t st a (int_text n) c' md rel s))
     = account_delta c b (snd s) + (if a = b \<and> c' = c then n else 0)"
  by (cases s) simp

definition inputs_sum :: "(Coins \<Rightarrow> bigint) \<Rightarrow> TxInput list \<Rightarrow> int" where
  "inputs_sum coin ins = sum_list (map (\<lambda>i. or_zero (coin (in_Coins i))) ins)"

definition outputs_sum :: "(Coins \<Rightarrow> bigint) \<Rightarrow> TxOutput list \<Rightarrow> int" where
  "outputs_sum coin outs = sum_list (map (\<lambda>i. or_zero (coin (out_Coins i))) outs)"

text \<open>
  What the ledger moves for the address written \<open>b\<close>: the coins of its inputs go out, the
  coins of its outputs come in.
\<close>

definition spent :: "'a thetalib_scheme \<Rightarrow> (Coins \<Rightarrow> bigint) \<Rightarrow> string \<Rightarrow> TxInput list \<Rightarrow> int" where
  "spent L coin b ins = inputs_sum coin (filter (\<lambda>i. Address_String L (in_Address i) = b) ins)"

definition received :: "'a thetalib_scheme \<Rightarrow> (Coins \<Rightarrow> bigint) \<Rightarrow> string \<Rightarrow> TxOutput list \<Rightarrow> int" where
  "received L coin b outs = outputs_sum coin (filter (\<lambda>o'. Address_String L (out_Address o') = b) outs)"

lemma sums_simps [simp]:
  "inputs_sum coin [] = 0"
  "inputs_sum coin (i # ins) = or_zero (coin (in_Coins i)) + inputs_sum coin ins"
  "outputs_sum coin [] = 0"
  "outputs_sum coin (out # outs) = or_zero (coin (out_Coins out)) + outputs_sum coin outs"
  "spent L coin b [] = 0"
  "spent L coin b (i # ins) =
     (if Address_String L (in_Address i) = b then or_zero (coin (in_Coins i)) else 0)
     + spent L coin b ins"
  "received L coin b [] = 0"
  "received L coin b (out # outs) =
     (if Address_String L (out_Address out) = b then or_zero (coin (out_Coins out)) else 0)
     + received L coin b outs"
  by (simp_all add: inputs_sum_def outputs_sum_def spent_def received_def)

text \<open>One step of the input loop.\<close>

lemma send_inputs_Cons:
  "send_inputs L (Some f) st (inp # rest) (addr, s) =
     send_inputs L (Some f) st rest (Address_String L (in_Address inp),
       emit SendTxInput st (Address_String L (in_Address inp))
         (int_text (f - or_zero (TFuelWei (in_Coins inp)))) GetTFuelCurrency (input_md L inp) []
         (emit SendTxInput st (Address_String L (in_Address inp))
           (int_text (- or_zero (ThetaWei (in_Coins inp)))) GetThetaCurrency (input_md L inp) [] s))"
  by (simp add: Let_def)

lemma send_inputs_totals:
  assumes "send_inputs L (Some f) st ins (addr, s) = Inr (addr', s')"
  shows "total_delta GetThetaCurrency (snd s')
           = total_delta GetThetaCurrency (snd s) - inputs_sum ThetaWei ins \<and>
         total_delta GetTFuelCurrency (snd s')
           = total_delta GetTFuelCurrency (snd s) - inputs_sum TFuelWei ins + int (length ins) * f"
  using assms
proof (induction ins arbitrary: addr s)
  case (Cons inp rest)
  from Cons.IH [OF Cons.prems [unfolded send_inputs_Cons]] show ?case
    by (simp add: algebra_simps)
qed simp

lemma send_inputs_accounts:
  assumes "send_inputs L (Some f) st ins (addr, s) = Inr (addr', s')"
  shows "account_delta GetThetaCurrency b (snd s')
           = account_delta GetThetaCurrency b (snd s) - spent L ThetaWei b ins \<and>
         account_delta GetTFuelCurrency b (snd s')
           = account_delta GetTFuelCurrency b (snd s) - spent L TFuelWei b ins
             + int (length (filter (\<lambda>i. Address_String L (in_Address i) = b) ins)) * f"
  using assms
proof (induction ins arbitrary: addr s)
  case (Cons inp rest)
  from Cons.IH [OF Cons.prems [unfolded send_inputs_Cons]] show ?case
    by (simp add: algebra_simps)
qed simp

lemma send_inputs_addr:
  assumes "send_inputs L (Some f) st ins (addr, s) = Inr (addr', s')"
  shows "addr' = (if ins = [] then addr else Address_String L (in_Address (last ins)))"
  using assms
proof (induction ins arbitrary: addr s)
  case (Cons inp rest)
  from Cons.IH [OF Cons.prems [unfolded send_inputs_Cons]] show ?case by simp
qed simp

lemma send_outputs_totals:
  "total_delta GetThetaCurrency (snd (send_outputs L st outs s))
     = total_delta GetThetaCurrency (snd s) + outputs_sum ThetaWei outs"
  "total_delta GetTFuelCurrency (snd (send_outputs L st outs s))
     = total_delta GetTFuelCurrency (snd s) + outputs_sum TFuelWei outs"
  by (induction outs arbitrary: s) (simp_all add: Let_def del: emit.simps)

lemma send_outputs_accounts:
  "account_delta GetThetaCurrency b (snd (send_outputs L st outs s))
     = account_delta GetThetaCurrency b (snd s) + received L ThetaWei b outs"
  "account_delta GetTFuelCurrency b (snd (send_outputs L st outs s))
     = account_delta GetTFuelCurrency b (snd s) + received L TFuelWei b outs"
  by (induction outs arbitrary: s) (simp_all add: Let_def del: emit.simps)

lemmas send_totals = send_outputs_totals send_outputs_accounts

lemma ParseSendTx_totals:
  assumes "ParseSendTx L tx st ty = Inr (md, ops)" "TFuelWei (send_Fee tx) = Some f"
  shows "total_delta GetThetaCurrency ops
           = outputs_sum ThetaWei (send_Outputs tx) - inputs_sum ThetaWei (send_Inputs tx)"
    and "total_delta GetTFuelCurrency ops
           = outputs_sum TFuelWei (send_Outputs tx) - inputs_sum TFuelWei (send_Inputs tx)
             + (int (length (send_Inputs tx)) - 1) * f"
proof -
  from assms obtain addr s where s:
    "send_inputs L (Some f) st (send_Inputs tx) ([], (0, [])) = Inr (addr, s)"
    "ops = snd (emit TxFee st addr (int_text (- f)) GetTFuelCurrency Map.empty []
              (send_outputs L st (send_Outputs tx) s))"
    by (auto elim: ParseSendTx_cases)
  note t = send_inputs_totals [OF s(1), simplified]
  show "total_delta GetThetaCurrency ops
      = outputs_sum ThetaWei (send_Outputs tx) - inputs_sum ThetaWei (send_Inputs tx)"
    unfolding s(2) by (simp add: send_totals t del: emit.simps)
  show "total_delta GetTFuelCurrency ops
      = outputs_sum TFuelWei (send_Outputs tx) - inputs_sum TFuelWei (send_Inputs tx)
        + (int (length (send_Inputs tx)) - 1) * f"
    unfolding s(2) by (simp add: send_totals t algebra_simps del: emit.simps)
qed

lemma ParseSendTx_accounts:
  assumes "ParseSendTx L tx st ty = Inr (md, ops)" "send_Inputs tx = [inp]"
  shows "account_delta GetThetaCurrency b ops
           = received L ThetaWei b (send_Outputs tx) - spent L ThetaWei b (send_Inputs tx)"
    and "account_delta GetTFuelCurrency b ops
           = received L TFuelWei b (send_Outputs tx) - spent L TFuelWei b (send_Inputs tx)"
proof -
  from assms obtain f addr s where s:
    "send_inputs L (Some f) st (send_Inputs tx) ([], (0, [])) = Inr (addr, s)"
    "ops = snd (emit TxFee st addr (int_text (- f)) GetTFuelCurrency Map.empty []
              (send_outputs L st (send_Outputs tx) s))"
    by (auto elim: ParseSendTx_cases)
  have a: "addr = Address_String L (in_Address inp)"
    using send_inputs_addr [OF s(1)] assms(2) by simp
  note t = send_inputs_accounts [OF s(1), of b, simplified]
  show "account_delta GetThetaCurrency b ops
      = received L ThetaWei b (send_Outputs tx) - spent L ThetaWei b (send_Inputs tx)"
    unfolding s(2) by (simp add: send_totals t del: emit.simps)
  show "account_delta GetTFuelCurrency b ops
      = received L TFuelWei b (send_Outputs tx) - spent L TFuelWei b (send_Inputs tx)"
    unfolding s(2) by (simp add: send_totals t a assms(2) del: emit.simps)
qed

end
