(* ===== verification/ParseFunds.thy ===== *)
theory ParseFunds
  imports ParseTransfers
begin

text \<open>
  \<open>ParseReserveFundTx\<close>, \<open>ParseReleaseFundTx\<close>, \<open>ParseServicePaymentTx\<close> and
  \<open>ParseSplitRuleTx\<close> of \<open>common/utils.go\<close>, with their instances of the parser interface
  and what their operations add up to.
\<close>

section \<open>The parsers\<close>

definition ParseReserveFundTx ::
    "'a thetalib_scheme \<Rightarrow> ReserveFundTx_data \<Rightarrow> string option \<Rightarrow> TxType \<Rightarrow> parsed" where
  "ParseReserveFundTx L tx status txType =
     (let md = [''type'' \<mapsto> VTxType txType,
                ''collateral'' \<mapsto> VCoins (rsv_Collateral tx),
                ''resource_ids'' \<mapsto> VStrings (rsv_ResourceIDs tx),
                ''duration'' \<mapsto> VUint64 (rsv_Duration tx)];
          source = rsv_Source tx;
          a = Address_String L (in_Address source);
          thetaWei = ThetaWei (in_Coins source);
          tfuelWei = TFuelWei (in_Coins source);
          s0 = (0, [])
      in andThen (if not_nil_nor_fresh_zero thetaWei
                  then andThen (neg_text thetaWei) (\<lambda>v.
                    Inr (emit ReserveFundTxSource status a v GetThetaCurrency (input_md L source) [] s0))
                  else Inr s0) (\<lambda>s1.
         andThen (if not_nil_nor_fresh_zero tfuelWei
                  then andThen (neg_text tfuelWei) (\<lambda>v.
                    Inr (emit ReserveFundTxSource status a v GetTFuelCurrency (input_md L source) [] s1))
                  else Inr s1) (\<lambda>s2.
         andThen (neg_text (TFuelWei (rsv_Fee tx))) (\<lambda>v.
           Inr (md, snd (emit TxFee status a v GetTFuelCurrency Map.empty [1] s2))))))"

text \<open>The released THETA is credited; the TFUEL amount is negated.\<close>

definition ParseReleaseFundTx ::
    "'a thetalib_scheme \<Rightarrow> ReleaseFundTx_data \<Rightarrow> string option \<Rightarrow> TxType \<Rightarrow> parsed" where
  "ParseReleaseFundTx L tx status txType =
     (let md = [''type'' \<mapsto> VTxType txType,
                ''reserve_sequence'' \<mapsto> VUint64 (rel_ReserveSequence tx)];
          source = rel_Source tx;
          a = Address_String L (in_Address source);
          thetaWei = ThetaWei (in_Coins source);
          tfuelWei = TFuelWei (in_Coins source);
          s0 = (0, []);
          s1 = (if not_nil_nor_fresh_zero thetaWei
                then emit ReleaseFundTxSource status a (big_String thetaWei) GetThetaCurrency
                       (input_md L source) [] s0
                else s0)
      in andThen (if not_nil_nor_fresh_zero tfuelWei
                  then andThen (neg_text tfuelWei) (\<lambda>v.
                    Inr (emit ReleaseFundTxSource status a v GetTFuelCurrency (input_md L source) [] s1))
                  else Inr s1) (\<lambda>s2.
         andThen (neg_text (TFuelWei (rel_Fee tx))) (\<lambda>v.
           Inr (md, snd (emit TxFee status a v GetTFuelCurrency Map.empty [1] s2)))))"

text \<open>The fee is charged to the target.\<close>

definition ParseServicePaymentTx ::
    "'a thetalib_scheme \<Rightarrow> ServicePaymentTx_data \<Rightarrow> string option \<Rightarrow> TxType \<Rightarrow> parsed" where
  "ParseServicePaymentTx L tx status txType =
     (let md = [''type'' \<mapsto> VTxType txType,
                ''payment_sequence'' \<mapsto> VUint64 (sp_PaymentSequence tx),
                ''reserve_sequence'' \<mapsto> VUint64 (sp_ReserveSequence tx),
                ''resource_id'' \<mapsto> VString (sp_ResourceID tx)];
          source = sp_Source tx;
          target = sp_Target tx;
          tgt = Address_String L (in_Address target)
      in andThen (neg_text (TFuelWei (in_Coins source))) (\<lambda>v.
         let sourceOp = mk_op 0 [] ServicePaymentTxSource status
                          (Address_String L (in_Address source)) v GetTFuelCurrency (input_md L source);
             targetOp = mk_op 1 [0] ServicePaymentTxTarget status tgt
                          (big_String (TFuelWei (in_Coins target))) GetTFuelCurrency Map.empty
         in andThen (neg_text (TFuelWei (sp_Fee tx))) (\<lambda>f.
            Inr (md, [sourceOp, targetOp, mk_op 2 [1] TxFee status tgt f GetTFuelCurrency Map.empty]))))"

definition ParseSplitRuleTx ::
    "'a thetalib_scheme \<Rightarrow> SplitRuleTx_data \<Rightarrow> string option \<Rightarrow> TxType \<Rightarrow> parsed" where
  "ParseSplitRuleTx L tx status txType =
     (let md = [''type'' \<mapsto> VTxType txType,
                ''resource_id'' \<mapsto> VString (sr_ResourceID tx),
                ''splits'' \<mapsto> VSplits (sr_Splits tx),
                ''duration'' \<mapsto> VUint64 (sr_Duration tx)];
          initiator = sr_Initiator tx;
          a = Address_String L (in_Address initiator);
          op = mk_op 0 [] SplitRuleTxInitiator status a (big_String (TFuelWei (in_Coins initiator)))
                 GetTFuelCurrency (input_md L initiator)
      in andThen (neg_text (TFuelWei (sr_Fee tx))) (\<lambda>f.
           Inr (md, [op, mk_op 1 [0] TxFee status a f GetTFuelCurrency Map.empty])))"

lemmas fund_parser_defs [parser_defs] =
  ParseReserveFundTx_def ParseReleaseFundTx_def ParseServicePaymentTx_def ParseSplitRuleTx_def

section \<open>Instances of the parser interface\<close>

lemma running_facts: "ops_ok st (snd (0, []))" "fst (0 :: int, []) = 0"
  by simp_all

lemma list_ops_ok3:
  "ops_ok st [a, b, c] \<longleftrightarrow> op_ok st a \<and> op_ok st b \<and> op_ok st c \<and>
     op_Index a = 0 \<and> op_Index b = 1 \<and> op_Index c = 2"
  by (auto simp: ops_ok_def indexed_def upt_conv_Cons)

lemma list_ops_ok2:
  "ops_ok st [a, b] \<longleftrightarrow> op_ok st a \<and> op_ok st b \<and> op_Index a = 0 \<and> op_Index b = 1"
  by (auto simp: ops_ok_def indexed_def upt_conv_Cons)

lemma list_ops_ok1: "ops_ok st [a] \<longleftrightarrow> op_ok st a \<and> op_Index a = 0"
  by (auto simp: ops_ok_def indexed_def)

lemma list_backward:
  "backward (op # ops) \<longleftrightarrow> (\<forall>r \<in> set (op_Related op). 0 \<le> r \<and> r < op_Index op) \<and> backward ops"
  by (simp add: backward_def)

lemmas small_lists = list_ops_ok3 list_ops_ok2 list_ops_ok1 list_backward

text \<open>The source of a fund transaction carries at least one kind of coin.\<close>

definition has_coins :: "Coins \<Rightarrow> bool" where
  "has_coins c \<longleftrightarrow> ThetaWei c \<noteq> None \<or> TFuelWei c \<noteq> None"

interpretation reserve: linked_tx_parser "ParseReserveFundTx L" "\<lambda>tx. has_coins (in_Coins (rsv_Source tx))"
  for L :: "'a thetalib_scheme"
  by unfold_locales
    (auto simp: ParseReserveFundTx_def Let_def go_simps not_nil_nor_fresh_zero_def has_coins_def
      small_lists split: if_splits)

interpretation release: linked_tx_parser "ParseReleaseFundTx L" "\<lambda>tx. has_coins (in_Coins (rel_Source tx))"
  for L :: "'a thetalib_scheme"
  by unfold_locales
    (auto simp: ParseReleaseFundTx_def Let_def go_simps not_nil_nor_fresh_zero_def has_coins_def
      small_lists split: if_splits)

interpretation payment: linked_tx_parser "ParseServicePaymentTx L" "\<lambda>_. True"
  for L :: "'a thetalib_scheme"
  by unfold_locales (auto simp: ParseServicePaymentTx_def Let_def go_simps small_lists)

interpretation split_rule: linked_tx_parser "ParseSplitRuleTx L" "\<lambda>_. True"
  for L :: "'a thetalib_scheme"
  by unfold_locales (auto simp: ParseSplitRuleTx_def Let_def go_simps small_lists)

section \<open>What the operations add up to\<close>

lemma ParseReserveFundTx_deltas:
  assumes "ParseReserveFundTx L tx st ty = Inr (md, ops)" "TFuelWei (rsv_Fee tx) = Some f"
  shows "account_delta GetThetaCurrency (Address_String L (in_Address (rsv_Source tx))) ops
           = - or_zero (ThetaWei (in_Coins (rsv_Source tx)))"
    and "account_delta GetTFuelCurrency (Address_String L (in_Address (rsv_Source tx))) ops
           = - or_zero (TFuelWei (in_Coins (rsv_Source tx))) - f"
  using assms
  by (auto simp: ParseReserveFundTx_def Let_def go_simps not_nil_nor_fresh_zero_def split: if_splits)

lemma ParseReleaseFundTx_deltas:
  assumes "ParseReleaseFundTx L tx st ty = Inr (md, ops)" "TFuelWei (rel_Fee tx) = Some f"
  shows "account_delta GetThetaCurrency (Address_String L (in_Address (rel_Source tx))) ops
           = or_zero (ThetaWei (in_Coins (rel_Source tx)))"
    and "account_delta GetTFuelCurrency (Address_String L (in_Address (rel_Source tx))) ops
           = - or_zero (TFuelWei (in_Coins (rel_Source tx))) - f"
  using assms
  by (auto simp: ParseReleaseFundTx_def Let_def go_simps not_nil_nor_fresh_zero_def split: if_splits)

text \<open>
  A service payment moves the source's TFUEL to the target, who also pays the fee; the total
  shrinks by the fee when the two amounts agree.
\<close>

lemma ParseServicePaymentTx_total:
  assumes "ParseServicePaymentTx L tx st ty = Inr (md, ops)"
    and "TFuelWei (in_Coins (sp_Source tx)) = Some n" "TFuelWei (in_Coins (sp_Target tx)) = Some m"
    and "TFuelWei (sp_Fee tx) = Some f"
  shows "total_delta GetTFuelCurrency ops = m - n - f \<and> total_delta GetThetaCurrency ops = 0"
  using assms by (auto simp: ParseServicePaymentTx_def Let_def go_simps)

text \<open>With neither coin present the fee operation refers to an operation that does not exist.\<close>

lemma ParseReserveFundTx_dangling_fee:
  assumes "\<not> has_coins (in_Coins (rsv_Source tx))" "TFuelWei (rsv_Fee tx) = Some f"
  shows "\<exists>md op. ParseReserveFundTx L tx st ty = Inr (md, [op]) \<and> op_Related op = [1]"
  using assms by (auto simp: ParseReserveFundTx_def Let_def not_nil_nor_fresh_zero_def has_coins_def)

end
