(* ===== verification/ParseContracts.thy ===== *)
theory ParseContracts
  imports ParseFunds
begin

text \<open>
  \<open>ParseSmartContractTxForConstruction\<close> and \<open>ParseSmartContractTx\<close> of
  \<open>common/utils.go\<close>: the intent of a contract call under construction, and the balance
  changes that an executed call reports together with its gas fee.
\<close>

section \<open>The parsers\<close>

definition contract_md :: "SmartContractTx_data \<Rightarrow> TxType \<Rightarrow> metadata" where
  "contract_md tx txType =
     [''type'' \<mapsto> VTxType txType, ''gas_limit'' \<mapsto> VUint64 (sc_GasLimit tx),
      ''gas_price'' \<mapsto> VBigInt (sc_GasPrice tx), ''data'' \<mapsto> VBytes (sc_Data tx)]"

definition ParseSmartContractTxForConstruction ::
    "'a thetalib_scheme \<Rightarrow> SmartContractTx_data \<Rightarrow> TxType \<Rightarrow> parsed" where
  "ParseSmartContractTxForConstruction L tx txType =
     (let from = sc_From tx;
          to = sc_To tx;
          fromA = Address_String L (in_Address from);
          toA = Address_String L (out_Address to);
          md = input_md L from;
          s0 = (0, [])
      in andThen (if not_nil_nor_zero_bits (ThetaWei (in_Coins from))
                  then andThen (neg_text (ThetaWei (in_Coins from))) (\<lambda>v.
                    Inr (emit SmartContractTxFrom None fromA v GetThetaCurrency md [] s0))
                  else Inr s0) (\<lambda>s1.
         andThen (if not_nil_nor_zero_bits (TFuelWei (in_Coins from))
                  then andThen (neg_text (TFuelWei (in_Coins from))) (\<lambda>v.
                    Inr (emit SmartContractTxFrom None fromA v GetTFuelCurrency md [] s1))
                  else Inr s1) (\<lambda>s2.
         let s3 = (if not_nil_nor_zero_bits (ThetaWei (out_Coins to))
                   then emit SmartContractTxTo None toA (big_String (ThetaWei (out_Coins to)))
                          GetThetaCurrency Map.empty [] s2
                   else s2);
             s4 = (if not_nil_nor_zero_bits (TFuelWei (out_Coins to))
                   then emit SmartContractTxTo None toA (big_String (TFuelWei (out_Coins to)))
                          GetTFuelCurrency Map.empty [] s3
                   else s3)
         in Inr (contract_md tx txType, snd s4))))"

text \<open>
  The loop over the balance changes: token type 0 is THETA, 1 is TFUEL, anything above is
  skipped.
\<close>

fun balance_changes :: "'a thetalib_scheme \<Rightarrow> string option \<Rightarrow> BalanceChange list \<Rightarrow> op_state \<Rightarrow>
    op_state go" where
  "balance_changes L st [] s = Inr s"
| "balance_changes L st (change # rest) s =
     (if bc_TokenType change > 1 then balance_changes L st rest s
      else let currency = (if bc_TokenType change = 0 then GetThetaCurrency else GetTFuelCurrency);
               a = Address_String L (bc_Address change)
           in if bc_IsNegative change
              then andThen (neg_text (bc_Delta change)) (\<lambda>v.
                balance_changes L st rest (emit SmartContractTxFrom st a v currency Map.empty [] s))
              else balance_changes L st rest
                (emit SmartContractTxTo st a (big_String (bc_Delta change)) currency Map.empty [] s))"

definition ParseSmartContractTx ::
    "'a thetalib_scheme \<Rightarrow> SmartContractTx_data \<Rightarrow> string option \<Rightarrow> TxType \<Rightarrow> u64 \<Rightarrow>
     TxBalanceChangesEntry option \<Rightarrow> parsed" where
  "ParseSmartContractTx L tx status txType gasUsed balanceChanges =
     andThen (deref balanceChanges) (\<lambda>entry.
     andThen (balance_changes L status (BalanceChanges entry) (0, [])) (\<lambda>s.
       if gasUsed \<noteq> 0
       then andThen (deref (sc_GasPrice tx)) (\<lambda>price.
         Inr (contract_md tx txType,
              snd (emit TxFee status (Address_String L (in_Address (sc_From tx)))
                     (int_text (price * uint gasUsed * -1)) GetTFuelCurrency Map.empty [] s)))
       else Inr (contract_md tx txType, snd s)))"

lemmas contract_parser_defs [parser_defs] =
  ParseSmartContractTxForConstruction_def ParseSmartContractTx_def

section \<open>Instances of the parser interface\<close>

lemma contract_md_type [simp]: "contract_md tx ty ''type'' = Some (VTxType ty)"
  by (simp add: contract_md_def)

lemma balance_changes_running:
  "balance_changes L st cs s = Inr s' \<Longrightarrow> running_linked st s \<Longrightarrow> running_linked st s'"
proof (induction cs arbitrary: s)
  case (Cons c rest)
  from Cons.prems(1) consider
      "balance_changes L st rest s = Inr s'"
    | t v cur where
      "balance_changes L st rest
         (emit t st (Address_String L (bc_Address c)) v cur Map.empty [] s) = Inr s'"
      "cur = GetThetaCurrency \<or> cur = GetTFuelCurrency"
    by (auto simp: Let_def go_simps split: if_splits)
  then show ?case
  proof cases
    case 1
    then show ?thesis using Cons by blast
  next
    case 2
    show ?thesis
      by (rule Cons.IH [OF 2(1)]) (use 2(2) Cons.prems(2) in auto)
  qed
qed simp

text \<open>An executed call: the transaction, the gas used and the recorded balance changes.\<close>

type_synonym executed_call = "SmartContractTx_data \<times> u64 \<times> TxBalanceChangesEntry option"

abbreviation parse_executed :: "'a thetalib_scheme \<Rightarrow> executed_call \<Rightarrow> string option \<Rightarrow> TxType \<Rightarrow> parsed" where
  "parse_executed L call st ty \<equiv>
     ParseSmartContractTx L (fst call) st ty (fst (snd call)) (snd (snd call))"

lemma ParseSmartContractTx_cases:
  assumes "ParseSmartContractTx L tx st ty gas changes = Inr (md, ops)"
  obtains entry s where "changes = Some entry"
    "balance_changes L st (BalanceChanges entry) (0, []) = Inr s"
    "md = contract_md tx ty" "gas = 0" "ops = snd s"
  | entry s price where "changes = Some entry"
    "balance_changes L st (BalanceChanges entry) (0, []) = Inr s"
    "md = contract_md tx ty" "gas \<noteq> 0" "sc_GasPrice tx = Some price"
    "ops = snd (emit TxFee st (Address_String L (in_Address (sc_From tx)))
                  (int_text (- (price * uint gas))) GetTFuelCurrency Map.empty [] s)"
  using assms by (auto simp: ParseSmartContractTx_def go_simps split: if_splits)

lemma parse_executed_running:
  assumes "ParseSmartContractTx L tx st ty gas changes = Inr (md, ops)"
  shows "running_linked st (int (length ops), ops)"
  using assms
proof (cases rule: ParseSmartContractTx_cases)
  case (1 entry s)
  with balance_changes_running [OF 1(2)] show ?thesis
    by (simp add: running_linked_def running_def)
next
  case (2 entry s price)
  with running_linked_emit [OF balance_changes_running [OF 2(2)]] show ?thesis
    by (simp add: running_linked_def running_def del: emit.simps)
qed

interpretation contract: linked_tx_parser "parse_executed L" "\<lambda>_. True"
  for L :: "'a thetalib_scheme"
proof unfold_locales
  fix call st ty md ops
  assume p: "parse_executed L call st ty = Inr (md, ops)"
  then show "md ''type'' = Some (VTxType ty)"
    by (cases rule: ParseSmartContractTx_cases) simp_all
  from parse_executed_running [OF p] show "ops_ok st ops" "backward ops"
    by (simp_all add: running_linked_def running_def)
qed

lemma ForConstruction_running:
  assumes "ParseSmartContractTxForConstruction L tx ty = Inr (md, ops)"
  shows "ops_ok None ops \<and> backward ops \<and> md ''type'' = Some (VTxType ty)"
  using assms
  by (auto simp: ParseSmartContractTxForConstruction_def Let_def go_simps small_lists
      ops_ok_def indexed_def backward_def link_or_def upt_conv_Cons simp del: upt_Suc split: if_splits)

text \<open>It never panics: every amount it prints was tested against nil.\<close>

lemma ForConstruction_total:
  "\<exists>r. ParseSmartContractTxForConstruction L tx ty = Inr r"
  by (auto simp: ParseSmartContractTxForConstruction_def Let_def not_nil_nor_zero_bits_def
      split: option.splits if_splits)

section \<open>What the operations add up to\<close>

definition change_amount :: "BalanceChange \<Rightarrow> int" where
  "change_amount c = (if bc_IsNegative c then - or_zero (bc_Delta c) else or_zero (bc_Delta c))"

definition recorded_change :: "'a thetalib_scheme \<Rightarrow> (int \<Rightarrow> bool) \<Rightarrow> string \<Rightarrow> BalanceChange list \<Rightarrow> int" where
  "recorded_change L is_token b cs =
     sum_list (map change_amount
       (filter (\<lambda>c. is_token (bc_TokenType c) \<and> Address_String L (bc_Address c) = b) cs))"

lemma recorded_change_simps [simp]:
  "recorded_change L P b [] = 0"
  "recorded_change L P b (c # cs) =
     (if P (bc_TokenType c) \<and> Address_String L (bc_Address c) = b then change_amount c else 0)
     + recorded_change L P b cs"
  by (simp_all add: recorded_change_def)

definition theta_token :: "int \<Rightarrow> bool" where
  "theta_token k = (k = 0)"

definition tfuel_token :: "int \<Rightarrow> bool" where
  "tfuel_token k = (k \<le> 1 \<and> k \<noteq> 0)"

lemma SetString10_nil [simp]: "SetString10 ''<nil>'' = None"
proof -
  have "\<not> is_digit (CHR ''<'')" by (simp add: is_digit_def)
  then show ?thesis by (simp add: parse_digits_def)
qed

lemma emit_account_big [simp]:
  "account_delta c b (snd (emit t st a (big_String x) c' md rel s))
     = account_delta c b (snd s) + (if a = b \<and> c' = c then or_zero x else 0)"
proof (cases x)
  case None
  then show ?thesis by (cases s) (simp add: op_delta_def del: SetString10.simps)
next
  case (Some n)
  then show ?thesis by (simp del: emit.simps)
qed

lemma balance_changes_accounts:
  "balance_changes L st cs s = Inr s' \<Longrightarrow>
   account_delta GetThetaCurrency b (snd s')
     = account_delta GetThetaCurrency b (snd s) + recorded_change L theta_token b cs \<and>
   account_delta GetTFuelCurrency b (snd s')
     = account_delta GetTFuelCurrency b (snd s) + recorded_change L tfuel_token b cs"
proof (induction cs arbitrary: s)
  case (Cons c rest)
  let ?a = "Address_String L (bc_Address c)"
  let ?cur = "if bc_TokenType c = 0 then GetThetaCurrency else GetTFuelCurrency"
  from Cons.prems consider
      "bc_TokenType c > 1" "balance_changes L st rest s = Inr s'"
    | n where "\<not> bc_TokenType c > 1" "bc_IsNegative c" "bc_Delta c = Some n"
      "balance_changes L st rest (emit SmartContractTxFrom st ?a (int_text (- n)) ?cur Map.empty [] s)
        = Inr s'"
    | "\<not> bc_TokenType c > 1" "\<not> bc_IsNegative c"
      "balance_changes L st rest
        (emit SmartContractTxTo st ?a (big_String (bc_Delta c)) ?cur Map.empty [] s) = Inr s'"
    by (auto simp: Let_def go_simps simp del: emit.simps split: if_splits)
  then show ?case
  proof cases
    case 1
    from Cons.IH [OF 1(2)] 1(1) show ?thesis by (simp add: theta_token_def tfuel_token_def)
  next
    case 2
    from Cons.IH [OF 2(4)] 2(1-3) show ?thesis
      by (simp add: theta_token_def tfuel_token_def change_amount_def del: emit.simps)
  next
    case 3
    from Cons.IH [OF 3(3)] 3(1,2) show ?thesis
      by (simp add: theta_token_def tfuel_token_def change_amount_def del: emit.simps)
  qed
qed simp

lemma ParseSmartContractTx_accounts:
  assumes "ParseSmartContractTx L tx st ty gas (Some entry) = Inr (md, ops)"
  shows "account_delta GetThetaCurrency b ops
           = recorded_change L theta_token b (BalanceChanges entry)"
    and "account_delta GetTFuelCurrency b ops
           = recorded_change L tfuel_token b (BalanceChanges entry)
             - (if Address_String L (in_Address (sc_From tx)) = b
                then or_zero (sc_GasPrice tx) * uint gas else 0)"
  using assms
  by (cases rule: ParseSmartContractTx_cases;
      use balance_changes_accounts [of L st "BalanceChanges entry" "(0, [])" _ b] in
        \<open>force simp del: emit.simps\<close>)+

lemma ParseSmartContractTx_nil_changes:
  "ParseSmartContractTx L tx st ty gas None = Inl NilDereference"
  by (simp add: ParseSmartContractTx_def)

end
