(* ===== verification/ParseStakes.thy ===== *)
theory ParseStakes
  imports ParseContracts
begin

text \<open>
  \<open>ParseDepositStakeTx\<close>, \<open>ParseWithdrawStakeTx\<close>, \<open>ParseReturnStakeTx\<close> and
  \<open>ParseStakeRewardDistributionTx\<close> of \<open>common/utils.go\<close>. A withdrawal reports its fee
  only; the stake itself is reported when it is returned, by \<open>ParseReturnStakeTx\<close>.
\<close>

section \<open>The parsers\<close>

text \<open>\<open>if p != nil { metadata[k] = p }\<close>\<close>

definition put_present :: "string \<Rightarrow> ('a option \<Rightarrow> value) \<Rightarrow> 'a option \<Rightarrow> metadata \<Rightarrow> metadata" where
  "put_present k wrap p md = (if p \<noteq> None then md(k \<mapsto> wrap p) else md)"

definition ParseDepositStakeTx ::
    "'a thetalib_scheme \<Rightarrow> DepositStakeTxV2_data \<Rightarrow> string option \<Rightarrow> TxType \<Rightarrow> parsed" where
  "ParseDepositStakeTx L tx status txType =
     (let md = put_present ''holder_sig'' VSignature (ds_HolderSig tx)
                 (put_present ''bls_pop'' VBlsSignature (ds_BlsPop tx)
                   (put_present ''bls_pub_key'' VBlsPubkey (ds_BlsPubkey tx)
                     [''type'' \<mapsto> VTxType txType, ''purpose'' \<mapsto> VUint8 (ds_Purpose tx)]));
          source = ds_Source tx;
          a = Address_String L (in_Address source);
          thetaWei = ThetaWei (in_Coins source);
          tfuelWei = TFuelWei (in_Coins source);
          s0 = (0, [])
      in andThen (if not_nil_nor_fresh_zero thetaWei
                  then andThen (neg_text thetaWei) (\<lambda>v.
                    Inr (emit DepositStakeTxSource status a v GetThetaCurrency (input_md L source) [] s0))
                  else Inr s0) (\<lambda>s1.
         andThen (if not_nil_nor_fresh_zero tfuelWei
                  then andThen (neg_text tfuelWei) (\<lambda>v.
                    Inr (emit DepositStakeTxSource status a v GetTFuelCurrency (input_md L source) [] s1))
                  else Inr s1) (\<lambda>s2.
         andThen (neg_text (TFuelWei (ds_Fee tx))) (\<lambda>v.
           Inr (md, snd (emit TxFee status a v GetTFuelCurrency Map.empty [] s2))))))"

definition ParseWithdrawStakeTx ::
    "'a thetalib_scheme \<Rightarrow> WithdrawStakeTx_data \<Rightarrow> string option \<Rightarrow> TxType \<Rightarrow> parsed" where
  "ParseWithdrawStakeTx L tx status txType =
     andThen (neg_text (TFuelWei (ws_Fee tx))) (\<lambda>v.
       Inr ([''type'' \<mapsto> VTxType txType, ''purpose'' \<mapsto> VUint8 (ws_Purpose tx)],
            [mk_op 0 [] TxFee status (Address_String L (in_Address (ws_Source tx))) v
               GetTFuelCurrency Map.empty]))"

definition ParseReturnStakeTx ::
    "'a thetalib_scheme \<Rightarrow> WithdrawStakeTx_data \<Rightarrow> string option \<Rightarrow> TxType \<Rightarrow> parsed" where
  "ParseReturnStakeTx L tx status txType =
     (let md = [''type'' \<mapsto> VTxType txType, ''purpose'' \<mapsto> VUint8 (ws_Purpose tx)];
          source = ws_Source tx;
          a = Address_String L (in_Address source);
          thetaWei = ThetaWei (in_Coins source);
          tfuelWei = TFuelWei (in_Coins source);
          s0 = (0, []);
          s1 = (if not_nil_nor_fresh_zero thetaWei
                then emit WithdrawStakeTxSource status a (big_String thetaWei) GetThetaCurrency
                       (input_md L source) [] s0
                else s0);
          s2 = (if not_nil_nor_fresh_zero tfuelWei
                then emit WithdrawStakeTxSource status a (big_String tfuelWei) GetTFuelCurrency
                       (input_md L source) [] s1
                else s1)
      in Inr (md, snd s2))"

text \<open>
  The two operations of a reward distribution are built with \<open>RelatedOperations\<close> set to
  \<open>{{Index: i - 1}}\<close> from the start.
\<close>

definition ParseStakeRewardDistributionTx ::
    "'a thetalib_scheme \<Rightarrow> StakeRewardDistributionTx_data \<Rightarrow> string option \<Rightarrow> TxType \<Rightarrow> parsed" where
  "ParseStakeRewardDistributionTx L tx status txType =
     (let md = [''type'' \<mapsto> VTxType txType, ''split_basis_point'' \<mapsto> VUint (rd_SplitBasisPoint tx)];
          b = Address_String L (out_Address (rd_Beneficiary tx));
          thetaWei = ThetaWei (out_Coins (rd_Beneficiary tx));
          tfuelWei = TFuelWei (out_Coins (rd_Beneficiary tx));
          s0 = (0, []);
          s1 = (if not_nil_nor_fresh_zero thetaWei
                then emit StakeRewardDistributionTxBeneficiary status b (big_String thetaWei)
                       GetThetaCurrency Map.empty [fst s0 - 1] s0
                else s0);
          s2 = (if not_nil_nor_fresh_zero tfuelWei
                then emit StakeRewardDistributionTxBeneficiary status b (big_String tfuelWei)
                       GetTFuelCurrency Map.empty [fst s1 - 1] s1
                else s1)
      in andThen (neg_text (TFuelWei (rd_Fee tx))) (\<lambda>v.
           Inr (md, snd (emit TxFee status (Address_String L (in_Address (rd_Holder tx))) v
                            GetTFuelCurrency Map.empty [] s2))))"

lemmas stake_parser_defs [parser_defs] =
  ParseDepositStakeTx_def ParseWithdrawStakeTx_def ParseReturnStakeTx_def
  ParseStakeRewardDistributionTx_def

section \<open>Instances of the parser interface\<close>

lemma put_present_other [simp]: "k \<noteq> k' \<Longrightarrow> put_present k wrap p md k' = md k'"
  by (simp add: put_present_def)

interpretation deposit: linked_tx_parser "ParseDepositStakeTx L" "\<lambda>_. True"
  for L :: "'a thetalib_scheme"
  by unfold_locales
    (auto simp: ParseDepositStakeTx_def Let_def go_simps not_nil_nor_fresh_zero_def
      small_lists split: if_splits)

interpretation withdraw: linked_tx_parser "ParseWithdrawStakeTx L" "\<lambda>_. True"
  for L :: "'a thetalib_scheme"
  by unfold_locales (auto simp: ParseWithdrawStakeTx_def go_simps small_lists)

interpretation return_stake: linked_tx_parser "ParseReturnStakeTx L" "\<lambda>_. True"
  for L :: "'a thetalib_scheme"
  by unfold_locales
    (auto simp: ParseReturnStakeTx_def Let_def go_simps not_nil_nor_fresh_zero_def
      small_lists split: if_splits)

text \<open>
  A reward distribution meets the plain interface always, and the linked one only when the
  beneficiary has no coins at all: otherwise its first operation refers to index -1.
\<close>

interpretation reward: linked_tx_parser "ParseStakeRewardDistributionTx L"
    "\<lambda>tx. \<not> has_coins (out_Coins (rd_Beneficiary tx))"
  for L :: "'a thetalib_scheme"
  by unfold_locales
    (auto simp: ParseStakeRewardDistributionTx_def Let_def go_simps not_nil_nor_fresh_zero_def
      has_coins_def small_lists split: if_splits)

lemma reward_first_related:
  assumes "has_coins (out_Coins (rd_Beneficiary tx))"
    and "ParseStakeRewardDistributionTx L tx st ty = Inr (md, ops)"
  shows "op_Related (hd ops) = [-1]"
  using assms
  by (auto simp: ParseStakeRewardDistributionTx_def Let_def go_simps not_nil_nor_fresh_zero_def
      has_coins_def split: if_splits)

section \<open>What the operations add up to\<close>

lemma ParseDepositStakeTx_deltas:
  assumes "ParseDepositStakeTx L tx st ty = Inr (md, ops)" "TFuelWei (ds_Fee tx) = Some f"
  shows "account_delta GetThetaCurrency (Address_String L (in_Address (ds_Source tx))) ops
           = - or_zero (ThetaWei (in_Coins (ds_Source tx)))"
    and "account_delta GetTFuelCurrency (Address_String L (in_Address (ds_Source tx))) ops
           = - or_zero (TFuelWei (in_Coins (ds_Source tx))) - f"
  using assms
  by (auto simp: ParseDepositStakeTx_def Let_def go_simps not_nil_nor_fresh_zero_def split: if_splits)

lemma ParseReturnStakeTx_deltas:
  assumes "ParseReturnStakeTx L tx st ty = Inr (md, ops)"
  shows "account_delta GetThetaCurrency (Address_String L (in_Address (ws_Source tx))) ops
           = or_zero (ThetaWei (in_Coins (ws_Source tx)))"
    and "account_delta GetTFuelCurrency (Address_String L (in_Address (ws_Source tx))) ops
           = or_zero (TFuelWei (in_Coins (ws_Source tx)))"
  using assms
  by (auto simp: ParseReturnStakeTx_def Let_def go_simps not_nil_nor_fresh_zero_def split: if_splits)

lemma ParseWithdrawStakeTx_deltas:
  assumes "ParseWithdrawStakeTx L tx st ty = Inr (md, ops)" "TFuelWei (ws_Fee tx) = Some f"
  shows "account_delta GetThetaCurrency b ops = 0"
    and "account_delta GetTFuelCurrency b ops
           = (if Address_String L (in_Address (ws_Source tx)) = b then - f else 0)"
  using assms by (auto simp: ParseWithdrawStakeTx_def go_simps)

lemma ParseReturnStakeTx_total: "\<exists>r. ParseReturnStakeTx L tx st ty = Inr r"
  by (simp add: ParseReturnStakeTx_def Let_def)

text \<open>Depositing a stake and getting it back cancel out, up to the fee.\<close>

lemma deposit_return_cancel:
  assumes "ParseDepositStakeTx L d st ty = Inr (md, ops)" "TFuelWei (ds_Fee d) = Some f"
    and "ParseReturnStakeTx L w st' ty' = Inr (md', ops')"
    and "in_Address (ws_Source w) = in_Address (ds_Source d)"
    and "in_Coins (ws_Source w) = in_Coins (ds_Source d)"
  shows "account_delta GetThetaCurrency (Address_String L (in_Address (ds_Source d))) (ops @ ops') = 0 \<and>
         account_delta GetTFuelCurrency (Address_String L (in_Address (ds_Source d))) (ops @ ops') = - f"
  using ParseDepositStakeTx_deltas [OF assms(1,2)] ParseReturnStakeTx_deltas [OF assms(3)] assms(4,5)
  by simp

end
