(* ===== verification/KVStore.thy ===== *)
theory KVStore
  imports ParseStakes
begin

text \<open>
  \<open>common/db.go\<close> and \<open>common/kvstore.go\<close>: the LevelDB wrapper and the RLP-encoded
  key-value store on top of it, the interface \<open>Store\<close> as a locale with the laws its
  clients rely on, and its interpretation on \<open>KVStore\<close>. LevelDB and the RLP codec are
  third-party: parameters whose documented behaviour is \<open>leveldb_laws\<close> and \<open>rlp_laws\<close>.
\<close>

section \<open>Third-party interfaces\<close>

datatype ldb_error = ErrNotFound | ErrCorrupted string | LdbError string

record ldb_options =
  OpenFilesCacheCapacity :: int
  BlockCacheCapacity :: int
  WriteBuffer :: int
  BloomFilterBits :: int

text \<open>LevelDB over the type \<open>'d\<close> of open databases, and \<open>rlp\<close> for \<open>ReturnStakeTxs\<close>.\<close>

record 'd storelib =
  ldb_OpenFile :: "string \<Rightarrow> ldb_options \<Rightarrow> ldb_error + 'd"
  ldb_RecoverFile :: "string \<Rightarrow> ldb_error + 'd"
  ldb_Put :: "byte list \<Rightarrow> byte list \<Rightarrow> 'd \<Rightarrow> ldb_error option \<times> 'd"
  ldb_Has :: "byte list \<Rightarrow> 'd \<Rightarrow> ldb_error + bool"
  ldb_Get :: "byte list \<Rightarrow> 'd \<Rightarrow> ldb_error + byte list"
  ldb_Delete :: "byte list \<Rightarrow> 'd \<Rightarrow> ldb_error option \<times> 'd"
  ldb_Close :: "'d \<Rightarrow> ldb_error option \<times> 'd"
  MiB :: int
  rlp_EncodeToBytes :: "ReturnStakeTxs \<Rightarrow> string + byte list"
  rlp_DecodeBytes :: "byte list \<Rightarrow> string + ReturnStakeTxs"

section \<open>The LevelDB wrapper\<close>

datatype db_error = KeyNotFound | DbError ldb_error

record 'd LDBDatabase =
  fn :: string
  ldb :: 'd

definition ldb_capacities :: "int \<Rightarrow> int \<Rightarrow> int \<Rightarrow> ldb_options" where
  "ldb_capacities mib cache0 handles0 =
     (let cache = (if cache0 < 16 then 16 else cache0);
          handles = (if handles0 < 16 then 16 else handles0)
      in \<lparr>OpenFilesCacheCapacity = handles,
          BlockCacheCapacity = cache div 2 * mib,
          WriteBuffer = cache div 4 * mib,
          BloomFilterBits = 10\<rparr>)"

definition NewLDBDatabase ::
    "'d storelib \<Rightarrow> string \<Rightarrow> int \<Rightarrow> int \<Rightarrow> ldb_error + 'd LDBDatabase" where
  "NewLDBDatabase D file cache handles =
     (let opened = ldb_OpenFile D file (ldb_capacities (MiB D) cache handles);
          recovered = (case opened of Inl (ErrCorrupted _) \<Rightarrow> ldb_RecoverFile D file | _ \<Rightarrow> opened)
      in case recovered of Inl e \<Rightarrow> Inl e | Inr d \<Rightarrow> Inr \<lparr>fn = file, ldb = d\<rparr>)"

definition LDB_Path :: "'d LDBDatabase \<Rightarrow> string" where
  "LDB_Path db = fn db"

definition LDB_Put ::
    "'d storelib \<Rightarrow> byte list \<Rightarrow> byte list \<Rightarrow> 'd LDBDatabase \<Rightarrow> db_error option \<times> 'd LDBDatabase" where
  "LDB_Put D key v db =
     (case ldb_Put D key v (ldb db) of (e, d) \<Rightarrow> (map_option DbError e, db\<lparr>ldb := d\<rparr>))"

definition LDB_Has :: "'d storelib \<Rightarrow> byte list \<Rightarrow> 'd LDBDatabase \<Rightarrow> db_error + bool" where
  "LDB_Has D key db = (case ldb_Has D key (ldb db) of Inl e \<Rightarrow> Inl (DbError e) | Inr b \<Rightarrow> Inr b)"

definition LDB_Get :: "'d storelib \<Rightarrow> byte list \<Rightarrow> 'd LDBDatabase \<Rightarrow> db_error + byte list" where
  "LDB_Get D key db =
     (case ldb_Get D key (ldb db) of
        Inl e \<Rightarrow> if e = ErrNotFound then Inl KeyNotFound else Inl (DbError e)
      | Inr dat \<Rightarrow> Inr dat)"

definition LDB_Delete ::
    "'d storelib \<Rightarrow> byte list \<Rightarrow> 'd LDBDatabase \<Rightarrow> db_error option \<times> 'd LDBDatabase" where
  "LDB_Delete D key db =
     (case ldb_Delete D key (ldb db) of (e, d) \<Rightarrow>
        (case e of
           None \<Rightarrow> None
         | Some err \<Rightarrow> if err = ErrNotFound then Some KeyNotFound else Some (DbError err),
         db\<lparr>ldb := d\<rparr>))"

text \<open>\<open>Close\<close> logs the outcome and returns nothing.\<close>

definition LDB_Close :: "'d storelib \<Rightarrow> 'd LDBDatabase \<Rightarrow> 'd LDBDatabase" where
  "LDB_Close D db = (case ldb_Close D (ldb db) of (_, d) \<Rightarrow> db\<lparr>ldb := d\<rparr>)"

section \<open>The key-value store\<close>

datatype store_error = StoreDb db_error | StoreRlp string

definition KVStore_Put ::
    "'d storelib \<Rightarrow> byte list \<Rightarrow> ReturnStakeTxs \<Rightarrow> 'd LDBDatabase \<Rightarrow>
     store_error option \<times> 'd LDBDatabase" where
  "KVStore_Put D key v db =
     (case rlp_EncodeToBytes D v of
        Inl e \<Rightarrow> (Some (StoreRlp e), db)
      | Inr encodedValue \<Rightarrow>
          (case LDB_Put D key encodedValue db of (e, db') \<Rightarrow> (map_option StoreDb e, db')))"

definition KVStore_Delete ::
    "'d storelib \<Rightarrow> byte list \<Rightarrow> 'd LDBDatabase \<Rightarrow> store_error option \<times> 'd LDBDatabase" where
  "KVStore_Delete D key db =
     (case LDB_Delete D key db of (e, db') \<Rightarrow> (map_option StoreDb e, db'))"

definition KVStore_Get ::
    "'d storelib \<Rightarrow> byte list \<Rightarrow> 'd LDBDatabase \<Rightarrow> store_error + ReturnStakeTxs" where
  "KVStore_Get D key db =
     (case LDB_Get D key db of
        Inl e \<Rightarrow> Inl (StoreDb e)
      | Inr encodedValue \<Rightarrow>
          (case rlp_DecodeBytes D encodedValue of Inl e \<Rightarrow> Inl (StoreRlp e) | Inr v \<Rightarrow> Inr v))"

lemmas kvstore_defs =
  KVStore_Put_def KVStore_Get_def KVStore_Delete_def LDB_Put_def LDB_Get_def LDB_Delete_def

section \<open>The documented laws of the third parties\<close>

text \<open>
  A write is atomic: when it succeeds it is read back, when it fails it has happened or it has
  not; other keys are left alone. A successful delete is not read back.
\<close>

definition leveldb_laws :: "'d storelib \<Rightarrow> bool" where
  "leveldb_laws D \<longleftrightarrow>
     (\<forall>k v d e d'. ldb_Put D k v d = (e, d') \<longrightarrow>
        (ldb_Get D k d' = Inr v \<or> e \<noteq> None \<and> ldb_Get D k d' = ldb_Get D k d) \<and>
        (\<forall>k'. k' \<noteq> k \<longrightarrow> ldb_Get D k' d' = ldb_Get D k' d)) \<and>
     (\<forall>k d d'. ldb_Delete D k d = (None, d') \<longrightarrow>
        ldb_Get D k d' = Inl ErrNotFound \<and> (\<forall>k'. k' \<noteq> k \<longrightarrow> ldb_Get D k' d' = ldb_Get D k' d))"

text \<open>
  RLP writes a nil number as the empty string and reads it back as zero, so a value comes
  back as \<open>reread v\<close>, which agrees with \<open>v\<close> on everything the adaptor uses.
\<close>

definition same_stake :: "ReturnStakeTx \<Rightarrow> ReturnStakeTx \<Rightarrow> bool" where
  "same_stake r r' \<longleftrightarrow>
     rs_Hash r = rs_Hash r' \<and>
     ws_Purpose (rs_Tx r) = ws_Purpose (rs_Tx r') \<and>
     in_Address (ws_Source (rs_Tx r)) = in_Address (ws_Source (rs_Tx r')) \<and>
     out_Address (ws_Holder (rs_Tx r)) = out_Address (ws_Holder (rs_Tx r')) \<and>
     or_zero (ThetaWei (in_Coins (ws_Source (rs_Tx r))))
       = or_zero (ThetaWei (in_Coins (ws_Source (rs_Tx r')))) \<and>
     or_zero (TFuelWei (in_Coins (ws_Source (rs_Tx r))))
       = or_zero (TFuelWei (in_Coins (ws_Source (rs_Tx r'))))"

definition same_stakes :: "ReturnStakeTxs \<Rightarrow> ReturnStakeTxs \<Rightarrow> bool" where
  "same_stakes v v' \<longleftrightarrow> list_all2 same_stake (ReturnStakes v) (ReturnStakes v')"

definition rlp_laws :: "'d storelib \<Rightarrow> (ReturnStakeTxs \<Rightarrow> ReturnStakeTxs) \<Rightarrow> bool" where
  "rlp_laws D reread \<longleftrightarrow>
     (\<forall>v b. rlp_EncodeToBytes D v = Inr b \<longrightarrow> rlp_DecodeBytes D b = Inr (reread v)) \<and>
     (\<forall>v. same_stakes v (reread v))"

lemma same_stake_refl [simp]: "same_stake r r"
  by (simp add: same_stake_def)

lemma same_stakes_refl [simp]: "same_stakes v v"
  by (simp add: same_stakes_def list_all2_refl)

lemma same_stake_trans: "same_stake a b \<Longrightarrow> same_stake b c \<Longrightarrow> same_stake a c"
  by (simp add: same_stake_def)

lemma same_stakes_trans: "same_stakes a b \<Longrightarrow> same_stakes b c \<Longrightarrow> same_stakes a c"
  unfolding same_stakes_def by (rule list_all2_trans [OF same_stake_trans])

lemma same_stakes_hashes: "same_stakes v v' \<Longrightarrow> map rs_Hash (ReturnStakes v) = map rs_Hash (ReturnStakes v')"
  unfolding same_stakes_def by (induction rule: list_all2_induct) (auto simp: same_stake_def)

section \<open>The interface Store\<close>

text \<open>
  \<open>invar\<close> collects what must hold of the state for the laws, \<open>reread\<close> is what a written
  value reads back as.
\<close>

locale store =
  fixes put :: "'k \<Rightarrow> 'v \<Rightarrow> 's \<Rightarrow> 'e option \<times> 's"
    and get :: "'k \<Rightarrow> 's \<Rightarrow> 'e + 'v"
    and del :: "'k \<Rightarrow> 's \<Rightarrow> 'e option \<times> 's"
    and invar :: "'s \<Rightarrow> bool"
    and reread :: "'v \<Rightarrow> 'v"
  assumes get_put: "invar s \<Longrightarrow> put k v s = (None, s') \<Longrightarrow> get k s' = Inr (reread v)"
    and get_put_failed: "invar s \<Longrightarrow> put k v s = (Some e, s') \<Longrightarrow>
      get k s' = Inr (reread v) \<or> get k s' = get k s"
    and get_put_other: "invar s \<Longrightarrow> k' \<noteq> k \<Longrightarrow> get k' (snd (put k v s)) = get k' s"
    and get_del: "invar s \<Longrightarrow> del k s = (None, s') \<Longrightarrow> \<exists>e. get k s' = Inl e"
    and get_del_other: "invar s \<Longrightarrow> del k s = (None, s') \<Longrightarrow> k' \<noteq> k \<Longrightarrow> get k' s' = get k' s"
    and invar_put: "invar s \<Longrightarrow> invar (snd (put k v s))"
    and invar_del: "invar s \<Longrightarrow> invar (snd (del k s))"

text \<open>
  Writing a list of entries one after the other, the errors ignored, as
  \<open>GenStakesForSnapshot\<close> does, and the keys whose writes failed.
\<close>

fun put_all :: "('k \<Rightarrow> 'v \<Rightarrow> 's \<Rightarrow> 'e option \<times> 's) \<Rightarrow> ('k \<times> 'v) list \<Rightarrow> 's \<Rightarrow> 's" where
  "put_all put [] s = s"
| "put_all put ((k, v) # kvs) s = put_all put kvs (snd (put k v s))"

fun failed_puts :: "('k \<Rightarrow> 'v \<Rightarrow> 's \<Rightarrow> 'e option \<times> 's) \<Rightarrow> ('k \<times> 'v) list \<Rightarrow> 's \<Rightarrow> 'k set" where
  "failed_puts put [] s = {}"
| "failed_puts put ((k, v) # kvs) s =
     (if fst (put k v s) = None then {} else {k}) \<union> failed_puts put kvs (snd (put k v s))"

lemma failed_puts_keys: "failed_puts put kvs s \<subseteq> fst ` set kvs"
  by (induction put kvs s rule: failed_puts.induct) (auto split: if_splits)

context store begin

text \<open>A write that is not known to have succeeded leaves the old value or the new one.\<close>

lemma get_put_any:
  assumes "invar s"
  shows "get k (snd (put k v s)) = Inr (reread v) \<or> fst (put k v s) \<noteq> None \<and> get k (snd (put k v s)) = get k s"
proof (cases "put k v s")
  case (Pair e s')
  then show ?thesis
    using get_put [OF assms, of k v s'] get_put_failed [OF assms, of k v _ s'] by (cases e) auto
qed

lemma put_all_other:
  "invar s \<Longrightarrow> k \<notin> fst ` set kvs \<Longrightarrow> get k (put_all put kvs s) = get k s"
proof (induction kvs arbitrary: s)
  case (Cons kv kvs)
  then show ?case
    by (cases kv) (simp add: get_put_other invar_put)
qed simp

lemma put_all_get:
  "invar s \<Longrightarrow> distinct (map fst kvs) \<Longrightarrow> (k, v) \<in> set kvs \<Longrightarrow>
   get k (put_all put kvs s) = Inr (reread v) \<or>
   k \<in> failed_puts put kvs s \<and> get k (put_all put kvs s) = get k s"
proof (induction kvs arbitrary: s)
  case (Cons kv kvs)
  obtain k' v' where kv: "kv = (k', v')" by fastforce
  have inv: "invar (snd (put k' v' s))" using Cons.prems(1) by (rule invar_put)
  show ?case
  proof (cases "k = k'")
    case True
    then have "v = v'" "k \<notin> fst ` set kvs"
      using Cons.prems(2,3) by (force simp: kv)+
    with True put_all_other [OF inv, of k kvs] get_put_any [OF Cons.prems(1), of k v]
    show ?thesis by (auto simp: kv)
  next
    case False
    with Cons.prems Cons.IH [OF inv] show ?thesis
      by (simp add: kv get_put_other)
  qed
qed simp

end

section \<open>KVStore provides the interface\<close>

definition store_laws :: "'d storelib \<Rightarrow> (ReturnStakeTxs \<Rightarrow> ReturnStakeTxs) \<Rightarrow> bool" where
  "store_laws D reread \<longleftrightarrow> leveldb_laws D \<and> rlp_laws D reread"

lemma KVStore_get_put:
  assumes "store_laws D reread" "KVStore_Put D k v db = (e, db')"
  shows "KVStore_Get D k db' = Inr (reread v) \<or> e \<noteq> None \<and> KVStore_Get D k db' = KVStore_Get D k db"
    and "k' \<noteq> k \<Longrightarrow> KVStore_Get D k' db' = KVStore_Get D k' db"
proof -
  have "(KVStore_Get D k db' = Inr (reread v) \<or> e \<noteq> None \<and> KVStore_Get D k db' = KVStore_Get D k db) \<and>
    (k' \<noteq> k \<longrightarrow> KVStore_Get D k' db' = KVStore_Get D k' db)" for k'
  proof (cases "rlp_EncodeToBytes D v")
    case (Inl x)
    with assms(2) show ?thesis by (auto simp: KVStore_Put_def)
  next
    case (Inr b)
    obtain e' d' where p: "ldb_Put D k b (ldb db) = (e', d')" by fastforce
    then have db': "db' = db\<lparr>ldb := d'\<rparr>" "e = map_option StoreDb (map_option DbError e')"
      using assms(2) Inr by (auto simp: kvstore_defs)
    have "(ldb_Get D k d' = Inr b \<or> e' \<noteq> None \<and> ldb_Get D k d' = ldb_Get D k (ldb db)) \<and>
        (k' \<noteq> k \<longrightarrow> ldb_Get D k' d' = ldb_Get D k' (ldb db))"
      using assms(1) p by (fastforce simp: store_laws_def leveldb_laws_def)
    moreover have "rlp_DecodeBytes D b = Inr (reread v)"
      using assms(1) Inr by (simp add: store_laws_def rlp_laws_def)
    ultimately show ?thesis by (auto simp: KVStore_Get_def LDB_Get_def db')
  qed
  then show "KVStore_Get D k db' = Inr (reread v) \<or> e \<noteq> None \<and> KVStore_Get D k db' = KVStore_Get D k db"
    and "k' \<noteq> k \<Longrightarrow> KVStore_Get D k' db' = KVStore_Get D k' db"
    by blast+
qed

lemma KVStore_get_del:
  assumes "store_laws D reread" "KVStore_Delete D k db = (None, db')"
  shows "KVStore_Get D k db' = Inl (StoreDb KeyNotFound)"
    and "k' \<noteq> k \<Longrightarrow> KVStore_Get D k' db' = KVStore_Get D k' db"
proof -
  from assms(2) obtain d' where d: "ldb_Delete D k (ldb db) = (None, d')" "db' = db\<lparr>ldb := d'\<rparr>"
    by (auto simp: kvstore_defs split: prod.splits option.splits if_splits)
  have g: "ldb_Get D k d' = Inl ErrNotFound"
    and o': "\<And>k'. k' \<noteq> k \<Longrightarrow> ldb_Get D k' d' = ldb_Get D k' (ldb db)"
    using assms(1) d(1) by (fastforce simp: store_laws_def leveldb_laws_def)+
  show "KVStore_Get D k db' = Inl (StoreDb KeyNotFound)"
    by (simp add: kvstore_defs d(2) g)
  show "k' \<noteq> k \<Longrightarrow> KVStore_Get D k' db' = KVStore_Get D k' db"
    by (simp add: kvstore_defs d(2) o')
qed

interpretation kv: store "KVStore_Put D" "KVStore_Get D" "KVStore_Delete D"
    "\<lambda>_. store_laws D reread" reread
  for D :: "'d storelib" and reread
proof unfold_locales
  show "KVStore_Get D k' (snd (KVStore_Put D k v s)) = KVStore_Get D k' s"
    if "store_laws D reread" "k' \<noteq> k" for k k' v s
    using KVStore_get_put(2) [OF that(1) _ that(2), of v s] by (metis prod.collapse)
qed (use KVStore_get_put(1) KVStore_get_del in \<open>auto, blast+\<close>)

lemma KVStore_Put_fn: "fn (snd (KVStore_Put D k v db)) = fn db"
  by (auto simp: kvstore_defs split: sum.splits prod.splits)

section \<open>Heights as keys\<close>

text \<open>\<open>new(big.Int).SetUint64(height).Bytes()\<close>\<close>

definition height_key :: "u64 \<Rightarrow> byte list" where
  "height_key h = be_bytes (unat h)"

lemma height_key_inject [simp]: "height_key h = height_key h' \<longleftrightarrow> h = h'"
  by (simp add: height_key_def word_unat_eq_iff)

lemma height_key_value: "be_value (height_key h) = unat h"
  by (simp add: height_key_def be_value_be_bytes)

end
