(* ===== verification/Errors.thy ===== *)
theory Errors
  imports KVStore
begin

text \<open>
  \<open>common/errors.go\<close>: the error values are global variables holding pointers to mutable
  \<open>types.Error\<close> structs. They form a heap (\<open>error_heap\<close>); a handler fails with a pointer,
  and several handlers append to the message behind the pointer before returning it.
\<close>

section \<open>The error variables\<close>

record rosetta_error =
  Code :: int
  Message :: string
  Retriable :: bool

datatype errvar =
    ErrUnableToGetChainID
  | ErrInvalidBlockchain
  | ErrInvalidSubnetwork
  | ErrInvalidNetwork
  | ErrMissingNID
  | ErrUnableToGetLatestBlk
  | ErrUnableToGetGenesisBlk
  | ErrUnableToGetAccount
  | ErrMissingBlockHashOrHeight
  | ErrInvalidAccountAddress
  | ErrMustSpecifySubAccount
  | ErrUnableToGetBlk
  | ErrNotImplemented
  | ErrUnableToGetTxns
  | ErrUnableToSubmitTx
  | ErrUnableToGetNextNonce
  | ErrMalformedValue
  | ErrUnableToGetNodeStatus
  | ErrInvalidInputParam
  | ErrUnsupportedPublicKeyType
  | ErrUnableToParseTx
  | ErrInvalidGasPrice
  | ErrUnmarshal
  | ErrConstructionCheck
  | ErrServiceInternal
  | ErrExceededFee
  | ErrUnableToEstimateGas
  | ErrUnableToGetSuggestGas
  | ErrUnableToGetBlkTx
  | ErrUnableToGetMemPool
  | ErrUnableToGetMemPoolTx
  | ErrUnavailableOffline
  | ErrDBKeyNotFound

type_synonym error_heap = "errvar \<Rightarrow> rosetta_error"

definition err :: "int \<Rightarrow> string \<Rightarrow> bool \<Rightarrow> rosetta_error" where
  "err c m r = \<lparr>Code = c, Message = m, Retriable = r\<rparr>"

lemma err_simps [simp]: "Code (err c m r) = c" "Message (err c m r) = m" "Retriable (err c m r) = r"
  by (simp_all add: err_def)

text \<open>The heap that package initialisation builds.\<close>

fun initial_errors :: error_heap where
  "initial_errors ErrUnableToGetChainID = err 1 ''unable to get chain ID'' True"
| "initial_errors ErrInvalidBlockchain = err 2 ''invalid blockchain specified in network identifier'' False"
| "initial_errors ErrInvalidSubnetwork = err 3 ''invalid sub-network identifier'' False"
| "initial_errors ErrInvalidNetwork = err 4 ''invalid network specified in network identifier'' False"
| "initial_errors ErrMissingNID = err 5 ''network identifier is missing'' False"
| "initial_errors ErrUnableToGetLatestBlk = err 6 ''unable to get latest block'' True"
| "initial_errors ErrUnableToGetGenesisBlk = err 7 ''unable to get genesis block'' True"
| "initial_errors ErrUnableToGetAccount = err 8 ''unable to get account'' True"
| "initial_errors ErrMissingBlockHashOrHeight = err 9 ''missing block hash or height for querying block'' False"
| "initial_errors ErrInvalidAccountAddress = err 10 ''invalid account address'' False"
| "initial_errors ErrMustSpecifySubAccount = err 11 (''a valid subaccount must be specified ('' @ [CHR 0x27] @ ''general'' @ [CHR 0x27] @ '' or '' @ [CHR 0x27] @ ''escrow'' @ [CHR 0x27] @ '')'') False"
| "initial_errors ErrUnableToGetBlk = err 12 ''unable to get block'' False"
| "initial_errors ErrNotImplemented = err 13 ''operation not implemented'' False"
| "initial_errors ErrUnableToGetTxns = err 14 ''unable to get transactions'' False"
| "initial_errors ErrUnableToSubmitTx = err 15 ''unable to submit transaction'' False"
| "initial_errors ErrUnableToGetNextNonce = err 16 ''unable to get next nonce'' True"
| "initial_errors ErrMalformedValue = err 17 ''malformed value'' False"
| "initial_errors ErrUnableToGetNodeStatus = err 18 ''unable to get node status'' True"
| "initial_errors ErrInvalidInputParam = err 19 ''Invalid input param: '' False"
| "initial_errors ErrUnsupportedPublicKeyType = err 20 ''unsupported public key type'' False"
| "initial_errors ErrUnableToParseTx = err 21 ''unable to parse transaction'' False"
| "initial_errors ErrInvalidGasPrice = err 22 ''invalid gas price'' False"
| "initial_errors ErrUnmarshal = err 23 ''proto unmarshal error'' False"
| "initial_errors ErrConstructionCheck = err 24 ''operation construction check error: '' True"
| "initial_errors ErrServiceInternal = err 25 ''Internal error: '' False"
| "initial_errors ErrExceededFee = err 26 ''exceeded max fee'' True"
| "initial_errors ErrUnableToEstimateGas = err 27 ''unable to estimate gas: '' True"
| "initial_errors ErrUnableToGetSuggestGas = err 28 ''unable to get suggest gas: '' True"
| "initial_errors ErrUnableToGetBlkTx = err 29 ''unable to get block transaction'' True"
| "initial_errors ErrUnableToGetMemPool = err 30 ''unable to get mempool'' True"
| "initial_errors ErrUnableToGetMemPoolTx = err 31 ''unable to get mempool transaction'' True"
| "initial_errors ErrUnavailableOffline = err 32 ''Endpoint unavailable offline'' False"
| "initial_errors ErrDBKeyNotFound = err 33 ''db key not found'' False"

definition ErrorList :: "errvar list" where
  "ErrorList =
    [ErrUnableToGetChainID,
     ErrInvalidBlockchain,
     ErrInvalidSubnetwork,
     ErrInvalidNetwork,
     ErrMissingNID,
     ErrUnableToGetLatestBlk,
     ErrUnableToGetGenesisBlk,
     ErrUnableToGetAccount,
     ErrMissingBlockHashOrHeight,
     ErrInvalidAccountAddress,
     ErrMustSpecifySubAccount,
     ErrUnableToGetBlk,
     ErrNotImplemented,
     ErrUnableToGetTxns,
     ErrUnableToSubmitTx,
     ErrUnableToGetNextNonce,
     ErrMalformedValue,
     ErrUnableToGetNodeStatus,
     ErrInvalidInputParam,
     ErrUnsupportedPublicKeyType,
     ErrUnableToParseTx,
     ErrInvalidGasPrice,
     ErrUnmarshal,
     ErrConstructionCheck,
     ErrServiceInternal,
     ErrExceededFee,
     ErrUnableToEstimateGas,
     ErrUnableToGetSuggestGas,
     ErrUnableToGetBlkTx,
     ErrUnableToGetMemPool,
     ErrUnableToGetMemPoolTx,
     ErrUnavailableOffline,
     ErrDBKeyNotFound]"

section \<open>Errors ordered by their code\<close>

definition code_of :: "errvar \<Rightarrow> int" where
  "code_of e = Code (initial_errors e)"

lemma code_of_inject: "code_of e = code_of e' \<longleftrightarrow> e = e'"
proof -
  have i: "nth ErrorList (nat (code_of e - 1)) = e" for e
    by (cases e) (simp_all add: code_of_def ErrorList_def)
  show ?thesis by (metis i)
qed

instantiation errvar :: linorder
begin

definition less_eq_errvar :: "errvar \<Rightarrow> errvar \<Rightarrow> bool" where
  "less_eq_errvar e e' = (code_of e \<le> code_of e')"

definition less_errvar :: "errvar \<Rightarrow> errvar \<Rightarrow> bool" where
  "less_errvar e e' = (code_of e < code_of e')"

instance
  by standard (auto simp: less_eq_errvar_def less_errvar_def code_of_inject)

end

lemma ErrorList_sorted: "sorted_wrt (<) ErrorList"
  by (simp add: ErrorList_def less_errvar_def code_of_def)

lemma ErrorList_complete: "set ErrorList = UNIV"
proof -
  have "e \<in> set ErrorList" for e
    by (cases e) (simp_all add: ErrorList_def)
  then show ?thesis by blast
qed

section \<open>Growth of the heap\<close>

text \<open>\<open>terr := cmn.E; terr.Message += m\<close> changes the struct behind the global variable.\<close>

definition append_message :: "errvar \<Rightarrow> string \<Rightarrow> error_heap \<Rightarrow> error_heap" where
  "append_message e m h = h(e := (h e)\<lparr>Message := Message (h e) @ m\<rparr>)"

text \<open>Codes and flags stay, messages only get longer.\<close>

definition errors_extend :: "error_heap \<Rightarrow> error_heap \<Rightarrow> bool" where
  "errors_extend h h' \<longleftrightarrow>
     (\<forall>e. Code (h' e) = Code (h e) \<and> Retriable (h' e) = Retriable (h e) \<and>
          prefix (Message (h e)) (Message (h' e)))"

lemma errors_extend_refl [simp]: "errors_extend h h"
  by (simp add: errors_extend_def)

lemma errors_extend_trans: "errors_extend h h' \<Longrightarrow> errors_extend h' h'' \<Longrightarrow> errors_extend h h''"
  unfolding errors_extend_def by (metis prefix_order.trans)

lemma errors_extend_append [simp]: "errors_extend h (append_message e m h)"
  by (simp add: errors_extend_def append_message_def)

lemma append_message_Message [simp]:
  "Message (append_message e m h e') = (if e' = e then Message (h e) @ m else Message (h e'))"
  by (simp add: append_message_def)

end
