(* ===== verification/Rpc.thy ===== *)
theory Rpc
  imports Errors
begin

text \<open>
  The state every request handler runs on and the access to the Theta node: \<open>common/config.go\<close>,
  the client calls of \<open>common/utils.go\<close> (\<open>HandleThetaRPCResponse\<close>, \<open>GetStatus\<close>,
  \<open>GetBlockIdentifierByHeight\<close>, \<open>GetBlockIdentifierByHash\<close>) and
  \<open>ValidateNetworkIdentifier\<close>, with the interface \<open>endpoint\<close> that all handlers share.
\<close>

section \<open>Configuration\<close>

definition CfgConfigPath :: string where
  "CfgConfigPath = ''config.path''"

definition CfgThetaRPCEndpoint :: string where
  "CfgThetaRPCEndpoint = ''theta.rpcEndpoint''"

definition CfgRPCHttpAddress :: string where
  "CfgRPCHttpAddress = ''rpc.httpAddress''"

definition CfgRPCHttpPort :: string where
  "CfgRPCHttpPort = ''rpc.httpPort''"

definition CfgRosettaVersion :: string where
  "CfgRosettaVersion = ''rosetta.version''"

definition CfgRosettaMode :: string where
  "CfgRosettaMode = ''rosetta.mode''"

definition CfgRosettaModeOnline :: string where
  "CfgRosettaModeOnline = ''online''"

definition CfgRosettaModeOffline :: string where
  "CfgRosettaModeOffline = ''offline''"

text \<open>The defaults that package initialisation registers with viper.\<close>

definition config_defaults :: "string \<rightharpoonup> value" where
  "config_defaults =
     [CfgThetaRPCEndpoint \<mapsto> VString ''http://127.0.0.1:16888/rpc'',
      CfgRPCHttpAddress \<mapsto> VString ''0.0.0.0'',
      CfgRPCHttpPort \<mapsto> VString ''8080'',
      ''rpc.wsAddress'' \<mapsto> VString ''0.0.0.0'',
      ''rpc.wsPort'' \<mapsto> VString ''8081'',
      ''rpc.maxConnections'' \<mapsto> VFloat 2048,
      ''rpc.timeoutSecs'' \<mapsto> VFloat 600,
      ''log.levels'' \<mapsto> VString ''*:debug'',
      ''log.printSelfID'' \<mapsto> VBool False,
      CfgRosettaVersion \<mapsto> VString ''1.1.1'',
      CfgRosettaMode \<mapsto> VString ''online'']"

section \<open>The client\<close>

text \<open>JSON documents, as \<open>encoding/json\<close> reads them.\<close>

datatype json =
    JNull
  | JBool bool
  | JNum rat
  | JString string
  | JArray "json list"
  | JObject "(string \<times> json) list"

text \<open>The argument structs the adaptor sends.\<close>

datatype rpc_args =
    GetStatusArgs
  | GetBlockIdentifierByHashArgs hash
  | GetBlockIdentifierByHeightArgs u64
  | GetBlockArgs hash
  | GetBlockByHeightArgs u64
  | GetAccountArgs string u64 bool
  | GetTransactionArgs string
  | GetPendingTransactionsArgs
  | GetPeersArgs bool
  | BroadcastRawTransactionAsyncArgs string
  | GetStakeByHeightArgs u64
  | GetEenpStakeByHeightArgs u64 address address bool
  | NilArgs

type_synonym rpc_call = "string \<times> rpc_args"

record RPCError =
  RPCError_Code :: int
  RPCError_Message :: string

record RPCResponse =
  Result :: json
  Error :: "RPCError option"

text \<open>What \<open>client.Call\<close> returns: a response pointer and an error, given by its text.\<close>

type_synonym rpc_reply = "RPCResponse option \<times> string option"

record GetStatusResult =
  st_Address :: string
  st_ChainID :: string
  st_PeerID :: string
  st_LatestFinalizedBlockHash :: hash
  st_LatestFinalizedBlockHeight :: u64
  st_LatestFinalizedBlockTime :: bigint
  st_LatestFinalizedBlockEpoch :: u64
  st_CurrentEpoch :: u64
  st_CurrentHeight :: u64
  st_CurrentTime :: bigint
  st_Syncing :: bool
  st_GenesisBlockHash :: hash
  st_SnapshotBlockHeight :: u64
  st_SnapshotBlockHash :: hash

definition zero_status :: GetStatusResult where
  "zero_status =
     \<lparr>st_Address = [], st_ChainID = [], st_PeerID = [], st_LatestFinalizedBlockHash = 0,
      st_LatestFinalizedBlockHeight = 0, st_LatestFinalizedBlockTime = None,
      st_LatestFinalizedBlockEpoch = 0, st_CurrentEpoch = 0, st_CurrentHeight = 0,
      st_CurrentTime = None, st_Syncing = False, st_GenesisBlockHash = 0,
      st_SnapshotBlockHeight = 0, st_SnapshotBlockHash = 0\<rparr>"

text \<open>
  The node answers a call by \<open>rpc_Call\<close> from the calls it has seen so far, so two equal
  calls may be answered differently. \<open>unmarshal_\<dots>\<close> decode a JSON document other than null
  into a struct with the Theta library's \<open>UnmarshalJSON\<close> methods (errors ignored, as in the
  code); viper and the node are third-party too.
\<close>

record rpclib = thetalib +
  viper_GetString :: "string \<Rightarrow> string"
  rpc_Call :: "rpc_call list \<Rightarrow> rpc_call \<Rightarrow> rpc_reply"
  RPCError_Error :: "RPCError \<Rightarrow> string"
  unmarshal_Status :: "json \<Rightarrow> GetStatusResult"
  unmarshal_BlockIdentifier :: "json \<Rightarrow> (u64 \<times> hash) option"

section \<open>The state of the server\<close>

text \<open>
  \<open>chainId\<close> is the package variable set once at start-up, \<open>errs\<close> the heap of error
  values, \<open>db\<close> the (possibly nil) database pointer that the services share, and \<open>calls\<close>
  records every call made to the node, oldest first.
\<close>

record 'd world =
  chainId :: string
  errs :: error_heap
  calls :: "rpc_call list"
  db :: "'d LDBDatabase option"

text \<open>A handler returns a response or a pointer to an error, or panics.\<close>

datatype errptr = Global errvar | Fresh rosetta_error

datatype 'a outcome = Response 'a | Failure errptr | Crash panic

type_synonym ('d, 'a) step = "'d world \<Rightarrow> 'a \<times> 'd world"

fun error_value :: "errptr \<Rightarrow> 'd world \<Rightarrow> rosetta_error" where
  "error_value (Global e) w = errs w e"
| "error_value (Fresh r) w = r"

text \<open>\<open>terr := cmn.E; terr.Message += m; return nil, terr\<close>\<close>

definition fail_with :: "errvar \<Rightarrow> string \<Rightarrow> 'd world \<Rightarrow> 'a outcome \<times> 'd world" where
  "fail_with e m w = (Failure (Global e), w\<lparr>errs := append_message e m (errs w)\<rparr>)"

definition SetChainId :: "string \<Rightarrow> 'd world \<Rightarrow> 'd world" where
  "SetChainId chid w = w\<lparr>chainId := chid\<rparr>"

definition GetChainId :: "'d world \<Rightarrow> string" where
  "GetChainId w = chainId w"

definition GetThetaRPCEndpoint :: "'a rpclib_scheme \<Rightarrow> string" where
  "GetThetaRPCEndpoint L = viper_GetString L CfgThetaRPCEndpoint"

definition online :: "'a rpclib_scheme \<Rightarrow> bool" where
  "online L = EqualFold CfgRosettaModeOnline (viper_GetString L CfgRosettaMode)"

definition Call :: "'a rpclib_scheme \<Rightarrow> string \<Rightarrow> rpc_args \<Rightarrow> ('d, rpc_reply) step" where
  "Call L m args w = (rpc_Call L (calls w) (m, args), w\<lparr>calls := calls w @ [(m, args)]\<rparr>)"

text \<open>
  \<open>json.MarshalIndent\<close> of a value that was itself decoded from JSON succeeds, and the text
  stands for the same document.
\<close>

definition MarshalIndent :: "json \<Rightarrow> string + json" where
  "MarshalIndent j = Inr j"

text \<open>Unmarshalling null leaves the zero struct; anything else goes to the decoder.\<close>

definition Unmarshal_into :: "'r \<Rightarrow> (json \<Rightarrow> 'r) \<Rightarrow> json \<Rightarrow> 'r" where
  "Unmarshal_into zero dec j = (if j = JNull then zero else dec j)"

lemma Unmarshal_into_simps [simp]:
  "Unmarshal_into zero dec JNull = zero"
  "j \<noteq> JNull \<Longrightarrow> Unmarshal_into zero dec j = dec j"
  by (simp_all add: Unmarshal_into_def)

text \<open>
  \<open>HandleThetaRPCResponse\<close>; \<open>parse\<close> may use the state and panic. A nil response without
  an error is dereferenced.
\<close>

definition HandleThetaRPCResponse ::
    "'a rpclib_scheme \<Rightarrow> rpc_reply \<Rightarrow> (json \<Rightarrow> ('d, (string + 'r) go) step) \<Rightarrow>
     ('d, (string + 'r) go) step" where
  "HandleThetaRPCResponse L reply parse w =
     (case snd reply of
        Some e \<Rightarrow> (Inr (Inl (''failed to get theta RPC response: '' @ e)), w)
      | None \<Rightarrow>
         (case fst reply of
            None \<Rightarrow> (Inl NilDereference, w)
          | Some rpcRes \<Rightarrow>
             (case Error rpcRes of
                Some e \<Rightarrow> (Inr (Inl (''theta RPC returns an error: '' @ RPCError_Error L e)), w)
              | None \<Rightarrow>
                 (case MarshalIndent (Result rpcRes) of
                    Inl e \<Rightarrow> (Inr (Inl (''failed to parse theta RPC response: '' @ e)), w)
                  | Inr jsonBytes \<Rightarrow> parse jsonBytes w))))"

section \<open>Validation of the network identifier\<close>

record NetworkIdentifier =
  Blockchain :: string
  SubNetworkIdentifier :: "string option"
  Network :: string

definition ValidateNetworkIdentifier :: "NetworkIdentifier option \<Rightarrow> 'd world \<Rightarrow> errvar option" where
  "ValidateNetworkIdentifier ni w =
     (case ni of
        Some n \<Rightarrow>
          if \<not> EqualFold (Blockchain n) ChainName then Some ErrInvalidBlockchain
          else if SubNetworkIdentifier n \<noteq> None then Some ErrInvalidSubnetwork
          else if \<not> EqualFold (Network n) (GetChainId w) then Some ErrInvalidNetwork
          else None
      | None \<Rightarrow> Some ErrMissingNID)"

section \<open>GetStatus\<close>

text \<open>The response's \<open>Error\<close> field is not looked at.\<close>

definition GetStatus :: "'a rpclib_scheme \<Rightarrow> ('d, (string + GetStatusResult) go) step" where
  "GetStatus L w =
     (case Call L ''theta.GetStatus'' GetStatusArgs w of ((rpcRes, rpcErr), w1) \<Rightarrow>
        (case rpcErr of
           Some e \<Rightarrow> (Inr (Inl e), w1)
         | None \<Rightarrow>
            (case rpcRes of
               None \<Rightarrow> (Inl NilDereference, w1)
             | Some res \<Rightarrow>
                (case MarshalIndent (Result res) of
                   Inl e \<Rightarrow> (Inr (Inl (''failed to parse theta RPC response: '' @ e)), w1)
                 | Inr jsonBytes \<Rightarrow>
                     (Inr (Inr (Unmarshal_into zero_status (unmarshal_Status L) jsonBytes)), w1)))))"

section \<open>Block identifiers\<close>

definition parseBlockIdentifierResult ::
    "'a rpclib_scheme \<Rightarrow> RPCResponse option \<Rightarrow> (errptr + u64 \<times> hash) go" where
  "parseBlockIdentifierResult L rpcRes =
     andThen (deref rpcRes) (\<lambda>res.
       case MarshalIndent (Result res) of
         Inl e \<Rightarrow> Inr (Inl (Fresh (err 0 (''failed to parse theta RPC response: '' @ e) False)))
       | Inr jsonBytes \<Rightarrow>
           (case Unmarshal_into None (unmarshal_BlockIdentifier L) jsonBytes of
              None \<Rightarrow> Inr (Inl (Global ErrUnableToGetBlk))
            | Some inner \<Rightarrow> Inr (Inr inner)))"

definition block_identifier_reply ::
    "'a rpclib_scheme \<Rightarrow> string \<Rightarrow> rpc_reply \<Rightarrow> (errptr + u64 \<times> hash) go" where
  "block_identifier_reply L what reply =
     (case snd reply of
        Some e \<Rightarrow> Inr (Inl (Fresh (err 0 (what @ e) False)))
      | None \<Rightarrow>
         (case Option.bind (fst reply) Error of
            Some e \<Rightarrow>
              if RPCError_Code e = -32000 then Inr (Inl (Global ErrUnableToGetBlk))
              else Inr (Inl (Fresh (err 0 (what @ RPCError_Error L e) False)))
          | None \<Rightarrow> parseBlockIdentifierResult L (fst reply)))"

definition GetBlockIdentifierByHeight ::
    "'a rpclib_scheme \<Rightarrow> u64 \<Rightarrow> ('d, (errptr + u64 \<times> hash) go) step" where
  "GetBlockIdentifierByHeight L height w =
     (case Call L ''theta.GetBlockByHeight'' (GetBlockIdentifierByHeightArgs height) w of
        (reply, w1) \<Rightarrow>
          (block_identifier_reply L ''failed to get block by height: '' reply, w1))"

definition GetBlockIdentifierByHash ::
    "'a rpclib_scheme \<Rightarrow> string \<Rightarrow> ('d, (errptr + u64 \<times> hash) go) step" where
  "GetBlockIdentifierByHash L hash w =
     (case Call L ''theta.GetBlock'' (GetBlockIdentifierByHashArgs (HexToHash L hash)) w of
        (reply, w1) \<Rightarrow>
          (block_identifier_reply L ''failed to get block by hash: '' reply, w1))"

section \<open>How a step may change the state\<close>

text \<open>The chain id stays, errors only grow, calls are only added.\<close>

definition grows :: "'d world \<Rightarrow> 'd world \<Rightarrow> bool" where
  "grows w w' \<longleftrightarrow> chainId w' = chainId w \<and> errors_extend (errs w) (errs w') \<and> prefix (calls w) (calls w')"

lemma grows_refl [simp, intro]: "grows w w"
  by (simp add: grows_def)

lemma grows_trans [trans]: "grows w w' \<Longrightarrow> grows w' w'' \<Longrightarrow> grows w w''"
  unfolding grows_def by (metis errors_extend_trans prefix_order.trans)

lemma grows_calls [simp]: "grows w (w\<lparr>calls := calls w @ cs\<rparr>)"
  by (simp add: grows_def)

lemma grows_db [simp]: "grows w (w\<lparr>db := d\<rparr>)" "grows w (w'\<lparr>db := d\<rparr>) \<longleftrightarrow> grows w w'"
  by (simp_all add: grows_def)

lemma Call_grows [simp]: "grows w (snd (Call L m a w))"
  by (simp add: Call_def)

lemma fail_with_grows [simp]: "grows w (snd (fail_with e m w))"
  "grows w w' \<Longrightarrow> grows w (snd (fail_with e m w'))"
  by (auto simp: fail_with_def grows_def intro: errors_extend_trans)

lemma fail_with_fst [simp]: "fst (fail_with e m w) = Failure (Global e)"
  by (simp add: fail_with_def)

lemma fail_with_calls [simp]: "calls (snd (fail_with e m w)) = calls w"
  by (simp add: fail_with_def)

text \<open>The client calls add exactly one entry and change nothing else.\<close>

lemma GetStatus_world:
  "snd (GetStatus L w) = w\<lparr>calls := calls w @ [(''theta.GetStatus'', GetStatusArgs)]\<rparr>"
  by (simp add: GetStatus_def Call_def MarshalIndent_def split: prod.splits option.splits)

lemma GetBlockIdentifier_world:
  "snd (GetBlockIdentifierByHeight L h w)
     = w\<lparr>calls := calls w @ [(''theta.GetBlockByHeight'', GetBlockIdentifierByHeightArgs h)]\<rparr>"
  "snd (GetBlockIdentifierByHash L s w)
     = w\<lparr>calls := calls w @ [(''theta.GetBlock'', GetBlockIdentifierByHashArgs (HexToHash L s))]\<rparr>"
  by (simp_all add: GetBlockIdentifierByHeight_def GetBlockIdentifierByHash_def Call_def)

lemmas client_world = GetStatus_world GetBlockIdentifier_world

lemma client_grows [simp]:
  "grows w (snd (GetStatus L w))"
  "grows w (snd (GetBlockIdentifierByHeight L h w))"
  "grows w (snd (GetBlockIdentifierByHash L s w))"
  by (simp_all add: client_world)

text \<open>A response handler changes the state only through its parser.\<close>

lemma HandleThetaRPCResponse_world:
  "snd (HandleThetaRPCResponse L reply parse w) = w \<or>
   (\<exists>j. HandleThetaRPCResponse L reply parse w = parse j w)"
  by (auto simp: HandleThetaRPCResponse_def MarshalIndent_def split: option.splits)

lemma HandleThetaRPCResponse_grows:
  "(\<And>j. grows w (snd (parse j w))) \<Longrightarrow> grows w (snd (HandleThetaRPCResponse L reply parse w))"
  using HandleThetaRPCResponse_world [of L reply parse w] by auto

text \<open>A successful answer comes from the parser, applied to the result of the node.\<close>

lemma HandleThetaRPCResponse_Inr:
  "HandleThetaRPCResponse L reply parse w = (Inr (Inr r), w') \<Longrightarrow>
   \<exists>res. reply = (Some res, None) \<and> Error res = None \<and> parse (Result res) w = (Inr (Inr r), w')"
  by (cases reply) (auto simp: HandleThetaRPCResponse_def MarshalIndent_def split: option.splits)

lemma ValidateNetworkIdentifier_None:
  "ValidateNetworkIdentifier ni w = None \<longleftrightarrow>
   (\<exists>n. ni = Some n \<and> EqualFold (Blockchain n) ''theta'' \<and> SubNetworkIdentifier n = None \<and>
        EqualFold (Network n) (chainId w))"
  by (auto simp: ValidateNetworkIdentifier_def ChainName_def GetChainId_def split: option.splits)

text \<open>Most steps do not touch the database either.\<close>

definition quiet :: "'d world \<Rightarrow> 'd world \<Rightarrow> bool" where
  "quiet w w' \<longleftrightarrow> grows w w' \<and> db w' = db w"

lemma quiet_grows: "quiet w w' \<Longrightarrow> grows w w'"
  by (simp add: quiet_def)

lemma quiet_refl [simp, intro]: "quiet w w"
  by (simp add: quiet_def)

lemma quiet_trans [trans]: "quiet w w' \<Longrightarrow> quiet w' w'' \<Longrightarrow> quiet w w''"
  by (auto simp: quiet_def intro: grows_trans)

lemma quiet_calls [simp]: "quiet w (w\<lparr>calls := calls w @ cs\<rparr>)"
  by (simp add: quiet_def)

lemma Call_quiet [simp]: "quiet w (snd (Call L m a w))"
  by (simp add: Call_def)

lemma fail_with_quiet [simp]: "quiet w (snd (fail_with e m w))"
  "quiet w w' \<Longrightarrow> quiet w (snd (fail_with e m w'))"
  by (auto simp: quiet_def) (simp_all add: fail_with_def)

lemma client_quiet [simp]:
  "quiet w (snd (GetStatus L w))"
  "quiet w (snd (GetBlockIdentifierByHeight L h w))"
  "quiet w (snd (GetBlockIdentifierByHash L s w))"
  by (simp_all add: client_world)

lemma HandleThetaRPCResponse_quiet:
  "(\<And>j. quiet w (snd (parse j w))) \<Longrightarrow> quiet w (snd (HandleThetaRPCResponse L reply parse w))"
  using HandleThetaRPCResponse_world [of L reply parse w] by auto

section \<open>The interface of the endpoints\<close>

locale endpoint =
  fixes handle :: "'req \<Rightarrow> ('d, 'resp outcome) step"
  assumes handle_grows: "grows w (snd (handle req w))"
begin

lemma chain_kept: "chainId (snd (handle req w)) = chainId w"
  using handle_grows [of w req] by (simp add: grows_def)

lemma error_codes_kept:
  "Code (errs (snd (handle req w)) e) = Code (errs w e)"
  "Retriable (errs (snd (handle req w)) e) = Retriable (errs w e)"
  using handle_grows [of w req] by (simp_all add: grows_def errors_extend_def)

lemma messages_grow: "prefix (Message (errs w e)) (Message (errs (snd (handle req w)) e))"
  using handle_grows [of w req] by (simp add: grows_def errors_extend_def)

end

text \<open>Endpoints that need the node refuse to work offline, before doing anything.\<close>

locale online_endpoint = endpoint handle
  for handle :: "'req \<Rightarrow> ('d, 'resp outcome) step" +
  fixes is_online :: bool
  assumes offline_refused:
    "\<not> is_online \<Longrightarrow> handle req w = (Failure (Global ErrUnavailableOffline), w)"
begin

lemma offline_no_calls: "\<not> is_online \<Longrightarrow> calls (snd (handle req w)) = calls w"
  by (simp add: offline_refused)

end

text \<open>Endpoints that do not write to the database.\<close>

locale quiet_endpoint = endpoint handle
  for handle :: "'req \<Rightarrow> ('d, 'resp outcome) step" +
  assumes db_kept: "db (snd (handle req w)) = db w"
begin

lemma handle_quiet: "quiet w (snd (handle req w))"
  by (simp add: quiet_def handle_grows db_kept)

end

text \<open>Endpoints that must work offline never call the node.\<close>

locale offline_endpoint = quiet_endpoint handle
  for handle :: "'req \<Rightarrow> ('d, 'resp outcome) step" +
  assumes no_calls: "calls (snd (handle req w)) = calls w"

end
