(* ===== verification/StakeService.thy ===== *)
theory StakeService
  imports Rpc "HOL-Library.AList" "HOL-Library.Multiset"
begin

text \<open>
  \<open>common/stake_service.go\<close>: the withdrawn stakes of the snapshot height are entered in
  the database at the height they are returned (\<open>GenStakesForSnapshot\<close>), and the stake
  behind a withdrawal is looked up at the node (\<open>GetStakeForTx\<close>).
\<close>

section \<open>Candidate pools\<close>

text \<open>
  \<open>core.Stake\<close> and its holders (\<open>core.StakeHolder\<close>, a validator candidate, a guardian or
  an elite edge node); \<open>None\<close> is a nil pointer in a list, which a JSON null decodes to.
\<close>

record Stake =
  stk_Source :: address
  stk_Holder :: address
  stk_Amount :: bigint
  stk_Withdrawn :: bool
  stk_ReturnHeight :: u64

record StakeHolder =
  sh_Holder :: address
  sh_Stakes :: "Stake option list"

definition zero_stake :: Stake where
  "zero_stake = \<lparr>stk_Source = 0, stk_Holder = 0, stk_Amount = None, stk_Withdrawn = False,
     stk_ReturnHeight = 0\<rparr>"

text \<open>
  Decoders of the node's answers: block hashes paired with a pool (a nil pool pointer is
  \<open>None\<close>), and the order in which Go visits a map.
\<close>

record 'd stakelib = rpclib +
  unmarshal_Vcp :: "json \<Rightarrow> (hash \<times> StakeHolder option list option) list"
  unmarshal_Gcp :: "json \<Rightarrow> (hash \<times> StakeHolder option list option) list"
  unmarshal_Eenp :: "json \<Rightarrow> (hash \<times> StakeHolder option list) list"
  unmarshal_EenpStake :: "json \<Rightarrow> Stake"
  map_order :: "(u64 \<times> ReturnStakeTxs) list \<Rightarrow> (u64 \<times> ReturnStakeTxs) list"
  storage :: "'d storelib"

section \<open>The database behind a possibly nil pointer\<close>

definition Store_Put ::
    "'d storelib \<Rightarrow> byte list \<Rightarrow> ReturnStakeTxs \<Rightarrow> 'd LDBDatabase option \<Rightarrow>
     store_error option go \<times> 'd LDBDatabase option" where
  "Store_Put D key v dbo =
     (case dbo of
        None \<Rightarrow>
          (case rlp_EncodeToBytes D v of
             Inl e \<Rightarrow> (Inr (Some (StoreRlp e)), None)
           | Inr _ \<Rightarrow> (Inl NilDereference, None))
      | Some d \<Rightarrow> (case KVStore_Put D key v d of (e, d') \<Rightarrow> (Inr e, Some d')))"

definition Store_Get ::
    "'d storelib \<Rightarrow> byte list \<Rightarrow> 'd LDBDatabase option \<Rightarrow> (store_error + ReturnStakeTxs) go" where
  "Store_Get D key dbo = andThen (deref dbo) (\<lambda>d. Inr (KVStore_Get D key d))"

lemma Store_simps [simp]:
  "Store_Put D key v (Some d) = (Inr (fst (KVStore_Put D key v d)), Some (snd (KVStore_Put D key v d)))"
  "Store_Get D key (Some d) = Inr (KVStore_Get D key d)"
  "Store_Get D key None = Inl NilDereference"
  by (simp_all add: Store_Put_def Store_Get_def split: prod.splits)

section \<open>Calling the node\<close>

text \<open>The call, the error checks and the marshalling that every query of this file repeats.\<close>

definition fetch :: "'a rpclib_scheme \<Rightarrow> string \<Rightarrow> rpc_args \<Rightarrow> ('d, (string + json) go) step" where
  "fetch L m args w =
     (case Call L m args w of ((rpcRes, rpcErr), w1) \<Rightarrow>
        (case rpcErr of
           Some e \<Rightarrow> (Inr (Inl e), w1)
         | None \<Rightarrow>
            (case Option.bind rpcRes Error of
               Some e \<Rightarrow> (Inr (Inl (RPCError_Error L e)), w1)
             | None \<Rightarrow>
                (case rpcRes of
                   None \<Rightarrow> (Inl NilDereference, w1)
                 | Some res \<Rightarrow>
                    (case MarshalIndent (Result res) of
                       Inl e \<Rightarrow> (Inr (Inl (''failed to parse theta RPC response: '' @ e)), w1)
                     | Inr jsonBytes \<Rightarrow> (Inr (Inr jsonBytes), w1))))))"

lemma fetch_world: "snd (fetch L m args w) = w\<lparr>calls := calls w @ [(m, args)]\<rparr>"
  by (simp add: fetch_def Call_def MarshalIndent_def split: prod.splits option.splits)

section \<open>Collecting the stakes of the snapshot\<close>

type_synonym return_map = "(u64 \<times> ReturnStakeTxs) list"

definition StakeReturnPrefix :: string where
  "StakeReturnPrefix = ''stake_return''"

text \<open>\<open>fmt.Sprintf("<pool>_%s_%s_%d", StakeReturnPrefix, blockHash, i)\<close>, hashed.\<close>

definition stake_return_hash :: "'a thetalib_scheme \<Rightarrow> string \<Rightarrow> string \<Rightarrow> nat \<Rightarrow> string" where
  "stake_return_hash L pool blockHash i =
     Hash_Hex L (Keccak256Hash L (bytes_of
       (pool @ ''_'' @ StakeReturnPrefix @ ''_'' @ blockHash @ ''_'' @ int_text (int i))))"

definition snapshot_tx :: "Coins \<Rightarrow> Stake \<Rightarrow> WithdrawStakeTx_data" where
  "snapshot_tx coins stake =
     \<lparr>ws_Fee = \<lparr>ThetaWei = None, TFuelWei = None\<rparr>,
      ws_Source = \<lparr>in_Address = stk_Source stake, in_Coins = coins, in_Sequence = 0, in_Signature = None\<rparr>,
      ws_Holder = \<lparr>out_Address = stk_Holder stake, out_Coins = \<lparr>ThetaWei = None, TFuelWei = None\<rparr>\<rparr>,
      ws_Purpose = 0\<rparr>"

definition theta_stake :: "Stake \<Rightarrow> Coins" where
  "theta_stake stake = \<lparr>ThetaWei = stk_Amount stake, TFuelWei = Some 0\<rparr>"

definition tfuel_stake :: "Stake \<Rightarrow> Coins" where
  "tfuel_stake stake = \<lparr>ThetaWei = Some 0, TFuelWei = stk_Amount stake\<rparr>"

text \<open>
  The three pools store a return differently. For the VCP an existing entry is extended and
  put back into the map.
\<close>

definition vcp_record :: "ReturnStakeTx \<Rightarrow> u64 \<Rightarrow> return_map \<Rightarrow> return_map" where
  "vcp_record rtx h m =
     (case map_of m h of
        Some txs \<Rightarrow> AList.update h (txs\<lparr>ReturnStakes := ReturnStakes txs @ [rtx]\<rparr>) m
      | None \<Rightarrow> AList.update h \<lparr>ReturnStakes = [rtx]\<rparr> m)"

text \<open>
  For the GCP and the EENP an existing entry is copied out of the map, the copy is extended
  and not put back.
\<close>

definition gcp_record :: "ReturnStakeTx \<Rightarrow> u64 \<Rightarrow> return_map \<Rightarrow> return_map" where
  "gcp_record rtx h m =
     (case map_of m h of
        Some txs \<Rightarrow> m
      | None \<Rightarrow> AList.update h \<lparr>ReturnStakes = [rtx]\<rparr> m)"

text \<open>The loop over the stakes of one holder; \<open>i\<close> is the index within this holder.\<close>

fun vcp_stakes :: "'a thetalib_scheme \<Rightarrow> string \<Rightarrow> nat \<Rightarrow> Stake option list \<Rightarrow> return_map \<Rightarrow> return_map go" where
  "vcp_stakes L blockHash i [] m = Inr m"
| "vcp_stakes L blockHash i (p # rest) m =
     andThen (deref p) (\<lambda>stake.
     vcp_stakes L blockHash (Suc i) rest
       (if stk_Withdrawn stake
        then vcp_record \<lparr>rs_Hash = stake_return_hash L ''vcp'' blockHash i,
                         rs_Tx = snapshot_tx (theta_stake stake) stake\<rparr> (stk_ReturnHeight stake) m
        else m))"

fun gcp_stakes :: "'a thetalib_scheme \<Rightarrow> string \<Rightarrow> nat \<Rightarrow> Stake option list \<Rightarrow> return_map \<Rightarrow> return_map go" where
  "gcp_stakes L blockHash i [] m = Inr m"
| "gcp_stakes L blockHash i (p # rest) m =
     andThen (deref p) (\<lambda>stake.
     gcp_stakes L blockHash (Suc i) rest
       (if stk_Withdrawn stake
        then gcp_record \<lparr>rs_Hash = stake_return_hash L ''gcp'' blockHash i,
                         rs_Tx = snapshot_tx (theta_stake stake) stake\<rparr> (stk_ReturnHeight stake) m
        else m))"

fun eenp_stakes :: "'a thetalib_scheme \<Rightarrow> string \<Rightarrow> nat \<Rightarrow> Stake option list \<Rightarrow> return_map \<Rightarrow> return_map go" where
  "eenp_stakes L blockHash i [] m = Inr m"
| "eenp_stakes L blockHash i (p # rest) m =
     andThen (deref p) (\<lambda>stake.
     eenp_stakes L blockHash (Suc i) rest
       (if stk_Withdrawn stake
        then gcp_record \<lparr>rs_Hash = stake_return_hash L ''eenp'' blockHash i,
                         rs_Tx = snapshot_tx (tfuel_stake stake) stake\<rparr> (stk_ReturnHeight stake) m
        else m))"

fun vcp_holders :: "'a thetalib_scheme \<Rightarrow> string \<Rightarrow> StakeHolder option list \<Rightarrow> return_map \<Rightarrow> return_map go" where
  "vcp_holders L blockHash [] m = Inr m"
| "vcp_holders L blockHash (p # rest) m =
     andThen (deref p) (\<lambda>c.
     andThen (vcp_stakes L blockHash 0 (sh_Stakes c) m) (\<lambda>m'. vcp_holders L blockHash rest m'))"

fun gcp_holders :: "'a thetalib_scheme \<Rightarrow> string \<Rightarrow> StakeHolder option list \<Rightarrow> return_map \<Rightarrow> return_map go" where
  "gcp_holders L blockHash [] m = Inr m"
| "gcp_holders L blockHash (p # rest) m =
     andThen (deref p) (\<lambda>c.
     andThen (gcp_stakes L blockHash 0 (sh_Stakes c) m) (\<lambda>m'. gcp_holders L blockHash rest m'))"

fun eenp_holders :: "'a thetalib_scheme \<Rightarrow> string \<Rightarrow> StakeHolder option list \<Rightarrow> return_map \<Rightarrow> return_map go" where
  "eenp_holders L blockHash [] m = Inr m"
| "eenp_holders L blockHash (p # rest) m =
     andThen (deref p) (\<lambda>c.
     andThen (eenp_stakes L blockHash 0 (sh_Stakes c) m) (\<lambda>m'. eenp_holders L blockHash rest m'))"

text \<open>Only the first pair of an answer is used; its pool pointer is dereferenced.\<close>

definition collect_vcp ::
    "'a thetalib_scheme \<Rightarrow> (hash \<times> StakeHolder option list option) list \<Rightarrow> return_map \<Rightarrow> return_map go" where
  "collect_vcp L pairs m =
     (case pairs of
        [] \<Rightarrow> Inr m
      | (blockHash, pool) # _ \<Rightarrow>
          andThen (deref pool) (\<lambda>candidates. vcp_holders L (Hash_Hex L blockHash) candidates m))"

definition collect_gcp ::
    "'a thetalib_scheme \<Rightarrow> (hash \<times> StakeHolder option list option) list \<Rightarrow> return_map \<Rightarrow> return_map go" where
  "collect_gcp L pairs m =
     (case pairs of
        [] \<Rightarrow> Inr m
      | (blockHash, pool) # _ \<Rightarrow>
          andThen (deref pool) (\<lambda>guardians. gcp_holders L (Hash_Hex L blockHash) guardians m))"

definition collect_eenp ::
    "'a thetalib_scheme \<Rightarrow> (hash \<times> StakeHolder option list) list \<Rightarrow> return_map \<Rightarrow> return_map go" where
  "collect_eenp L pairs m =
     (case pairs of
        [] \<Rightarrow> Inr m
      | (blockHash, eens) # _ \<Rightarrow> eenp_holders L (Hash_Hex L blockHash) eens m)"

text \<open>
  The final loop writes every entry at its height plus one (a \<open>uint64\<close> sum) and ignores
  the errors of \<open>Put\<close>.
\<close>

fun store_return_stakes ::
    "'d storelib \<Rightarrow> return_map \<Rightarrow> 'd LDBDatabase option \<Rightarrow> unit go \<times> 'd LDBDatabase option" where
  "store_return_stakes D [] dbo = (Inr (), dbo)"
| "store_return_stakes D ((h, txs) # rest) dbo =
     (case Store_Put D (height_key (h + 1)) txs dbo of
        (Inl p, dbo') \<Rightarrow> (Inl p, dbo')
      | (Inr _, dbo') \<Rightarrow> store_return_stakes D rest dbo')"

text \<open>
  \<open>GenStakesForSnapshot\<close>: \<open>Some e\<close> is a returned error. A failing \<open>GetStatus\<close> is
  reported as success.
\<close>

definition GenStakesForSnapshot :: "('d, 'a) stakelib_scheme \<Rightarrow> ('d, string option go) step" where
  "GenStakesForSnapshot L w0 =
     (case GetStatus L w0 of
        (Inl p, w1) \<Rightarrow> (Inl p, w1)
      | (Inr (Inl e), w1) \<Rightarrow> (Inr None, w1)
      | (Inr (Inr status), w1) \<Rightarrow>
         (let args = GetStakeByHeightArgs (st_SnapshotBlockHeight status) in
          case fetch L ''theta.GetVcpByHeight'' args w1 of
            (Inl p, w2) \<Rightarrow> (Inl p, w2)
          | (Inr (Inl e), w2) \<Rightarrow> (Inr (Some e), w2)
          | (Inr (Inr j), w2) \<Rightarrow>
         (case collect_vcp L (Unmarshal_into [] (unmarshal_Vcp L) j) [] of
            Inl p \<Rightarrow> (Inl p, w2)
          | Inr m1 \<Rightarrow>
         (case fetch L ''theta.GetGcpByHeight'' args w2 of
            (Inl p, w3) \<Rightarrow> (Inl p, w3)
          | (Inr (Inl e), w3) \<Rightarrow> (Inr (Some e), w3)
          | (Inr (Inr j), w3) \<Rightarrow>
         (case collect_gcp L (Unmarshal_into [] (unmarshal_Gcp L) j) m1 of
            Inl p \<Rightarrow> (Inl p, w3)
          | Inr m2 \<Rightarrow>
         (case fetch L ''theta.GetEenpByHeight'' args w3 of
            (Inl p, w4) \<Rightarrow> (Inl p, w4)
          | (Inr (Inl e), w4) \<Rightarrow> (Inr (Some e), w4)
          | (Inr (Inr j), w4) \<Rightarrow>
         (case collect_eenp L (Unmarshal_into [] (unmarshal_Eenp L) j) m2 of
            Inl p \<Rightarrow> (Inl p, w4)
          | Inr m3 \<Rightarrow>
         (case store_return_stakes (storage L) (map_order L m3) (db w4) of
            (Inl p, dbo) \<Rightarrow> (Inl p, w4\<lparr>db := dbo\<rparr>)
          | (Inr _, dbo) \<Rightarrow> (Inr None, w4\<lparr>db := dbo\<rparr>)))))))))"

section \<open>The stake behind a withdrawal\<close>

fun find_stake :: "address \<Rightarrow> Stake option list \<Rightarrow> Stake option go" where
  "find_stake source [] = Inr None"
| "find_stake source (p # rest) =
     andThen (deref p) (\<lambda>stake.
       if stk_Source stake = source then Inr (Some stake) else find_stake source rest)"

fun find_holder_stake :: "address \<Rightarrow> address \<Rightarrow> StakeHolder option list \<Rightarrow> Stake option go" where
  "find_holder_stake holder source [] = Inr None"
| "find_holder_stake holder source (p # rest) =
     andThen (deref p) (\<lambda>c.
       if sh_Holder c = holder
       then andThen (find_stake source (sh_Stakes c)) (\<lambda>found.
              case found of
                Some stake \<Rightarrow> Inr (Some stake)
              | None \<Rightarrow> find_holder_stake holder source rest)
       else find_holder_stake holder source rest)"

definition stake_query :: "'a thetalib_scheme \<Rightarrow> WithdrawStakeTx_data \<Rightarrow> u64 \<Rightarrow> rpc_call" where
  "stake_query L tx blockHeight =
     (if ws_Purpose tx = StakeForValidator L
      then (''theta.'' @ ''GetVcpByHeight'', GetStakeByHeightArgs blockHeight)
      else if ws_Purpose tx = StakeForGuardian L
      then (''theta.'' @ ''GetGcpByHeight'', GetStakeByHeightArgs blockHeight)
      else if ws_Purpose tx = StakeForEliteEdgeNode L
      then (''theta.'' @ ''GetEenpStakeByHeight'',
            GetEenpStakeByHeightArgs blockHeight (in_Address (ws_Source tx))
              (out_Address (ws_Holder tx)) True)
      else (''theta.'', NilArgs))"

definition pool_stake ::
    "(hash \<times> StakeHolder option list option) list \<Rightarrow> WithdrawStakeTx_data \<Rightarrow> Stake option go" where
  "pool_stake pairs tx =
     (case pairs of
        [] \<Rightarrow> Inr None
      | (_, pool) # _ \<Rightarrow> andThen (deref pool) (\<lambda>holders.
          find_holder_stake (out_Address (ws_Holder tx)) (in_Address (ws_Source tx)) holders))"

text \<open>A stake that is not found is a nil pointer without an error.\<close>

definition GetStakeForTx ::
    "('d, 'a) stakelib_scheme \<Rightarrow> WithdrawStakeTx_data \<Rightarrow> u64 \<Rightarrow> ('d, (string + Stake option) go) step" where
  "GetStakeForTx L tx blockHeight w =
     (case stake_query L tx blockHeight of (rpcMethod, args) \<Rightarrow>
        case fetch L rpcMethod args w of
          (Inl p, w1) \<Rightarrow> (Inl p, w1)
        | (Inr (Inl e), w1) \<Rightarrow> (Inr (Inl e), w1)
        | (Inr (Inr j), w1) \<Rightarrow>
           (if ws_Purpose tx = StakeForValidator L
            then (andThen (pool_stake (Unmarshal_into [] (unmarshal_Vcp L) j) tx) (\<lambda>s. Inr (Inr s)), w1)
            else if ws_Purpose tx = StakeForGuardian L
            then (andThen (pool_stake (Unmarshal_into [] (unmarshal_Gcp L) j) tx) (\<lambda>s. Inr (Inr s)), w1)
            else if ws_Purpose tx = StakeForEliteEdgeNode L
            then (Inr (Inr (Some (Unmarshal_into zero_stake (unmarshal_EenpStake L) j))), w1)
            else (Inr (Inr None), w1)))"

section \<open>What the snapshot map holds\<close>

text \<open>
  The returns of a holder list due at height \<open>h\<close>, in the order of the loops; \<open>mk i stake\<close>
  is the return built for the stake at index \<open>i\<close> of its holder.
\<close>

fun stake_returns :: "(nat \<Rightarrow> Stake \<Rightarrow> ReturnStakeTx) \<Rightarrow> u64 \<Rightarrow> nat \<Rightarrow> Stake list \<Rightarrow> ReturnStakeTx list" where
  "stake_returns mk h i [] = []"
| "stake_returns mk h i (stake # rest) =
     (if stk_Withdrawn stake \<and> stk_ReturnHeight stake = h then [mk i stake] else [])
     @ stake_returns mk h (Suc i) rest"

definition pool_returns :: "(nat \<Rightarrow> Stake \<Rightarrow> ReturnStakeTx) \<Rightarrow> u64 \<Rightarrow> StakeHolder option list \<Rightarrow> ReturnStakeTx list" where
  "pool_returns mk h holders =
     concat (map (\<lambda>c. stake_returns mk h 0 (map the (sh_Stakes (the c)))) holders)"

lemma pool_returns_simps [simp]:
  "pool_returns mk h [] = []"
  "pool_returns mk h (Some c # cs) = stake_returns mk h 0 (map the (sh_Stakes c)) @ pool_returns mk h cs"
  by (simp_all add: pool_returns_def)

definition vcp_return :: "'a thetalib_scheme \<Rightarrow> string \<Rightarrow> nat \<Rightarrow> Stake \<Rightarrow> ReturnStakeTx" where
  "vcp_return L blockHash i stake =
     \<lparr>rs_Hash = stake_return_hash L ''vcp'' blockHash i, rs_Tx = snapshot_tx (theta_stake stake) stake\<rparr>"

definition gcp_return :: "'a thetalib_scheme \<Rightarrow> string \<Rightarrow> nat \<Rightarrow> Stake \<Rightarrow> ReturnStakeTx" where
  "gcp_return L blockHash i stake =
     \<lparr>rs_Hash = stake_return_hash L ''gcp'' blockHash i, rs_Tx = snapshot_tx (theta_stake stake) stake\<rparr>"

definition eenp_return :: "'a thetalib_scheme \<Rightarrow> string \<Rightarrow> nat \<Rightarrow> Stake \<Rightarrow> ReturnStakeTx" where
  "eenp_return L blockHash i stake =
     \<lparr>rs_Hash = stake_return_hash L ''eenp'' blockHash i, rs_Tx = snapshot_tx (tfuel_stake stake) stake\<rparr>"

text \<open>Entries that are extended, and entries that only ever receive their first return.\<close>

definition extended :: "ReturnStakeTx list \<Rightarrow> ReturnStakeTxs option \<Rightarrow> ReturnStakeTxs option" where
  "extended rs entry =
     (case entry of
        Some t \<Rightarrow> Some (t\<lparr>ReturnStakes := ReturnStakes t @ rs\<rparr>)
      | None \<Rightarrow> if rs = [] then None else Some \<lparr>ReturnStakes = rs\<rparr>)"

definition first_only :: "ReturnStakeTx list \<Rightarrow> ReturnStakeTxs option \<Rightarrow> ReturnStakeTxs option" where
  "first_only rs entry =
     (case entry of
        Some t \<Rightarrow> Some t
      | None \<Rightarrow> (case rs of [] \<Rightarrow> None | r # _ \<Rightarrow> Some \<lparr>ReturnStakes = [r]\<rparr>))"

lemma extended_append: "extended rs' (extended rs e) = extended (rs @ rs') e"
  by (auto simp: extended_def split: option.splits)

lemma first_only_append: "first_only rs' (first_only rs e) = first_only (rs @ rs') e"
  by (auto simp: first_only_def split: option.splits list.splits)

lemma extended_Nil [simp]: "extended [] e = e"
  by (auto simp: extended_def split: option.splits)

lemma first_only_Nil [simp]: "first_only [] e = e"
  by (auto simp: first_only_def split: option.splits)

lemma vcp_record_lookup:
  "map_of (vcp_record r h m) h' = (if h' = h then extended [r] (map_of m h) else map_of m h')"
  by (auto simp: vcp_record_def update_conv' extended_def split: option.splits)

lemma gcp_record_lookup:
  "map_of (gcp_record r h m) h' = (if h' = h then first_only [r] (map_of m h) else map_of m h')"
  by (auto simp: gcp_record_def update_conv' first_only_def split: option.splits)

lemma vcp_stakes_lookup:
  "vcp_stakes L bh i stakes m = Inr m' \<Longrightarrow>
   map_of m' h = extended (stake_returns (vcp_return L bh) h i (map the stakes)) (map_of m h)"
proof (induction stakes arbitrary: i m)
  case (Cons p stakes)
  then show ?case
    by (cases p) (auto simp: vcp_record_lookup vcp_return_def extended_append dest!: Cons.IH split: if_splits)
qed simp

lemma gcp_stakes_lookup:
  "gcp_stakes L bh i stakes m = Inr m' \<Longrightarrow>
   map_of m' h = first_only (stake_returns (gcp_return L bh) h i (map the stakes)) (map_of m h)"
proof (induction stakes arbitrary: i m)
  case (Cons p stakes)
  then show ?case
    by (cases p) (auto simp: gcp_record_lookup gcp_return_def first_only_append dest!: Cons.IH split: if_splits)
qed simp

lemma eenp_stakes_lookup:
  "eenp_stakes L bh i stakes m = Inr m' \<Longrightarrow>
   map_of m' h = first_only (stake_returns (eenp_return L bh) h i (map the stakes)) (map_of m h)"
proof (induction stakes arbitrary: i m)
  case (Cons p stakes)
  then show ?case
    by (cases p) (auto simp: gcp_record_lookup eenp_return_def first_only_append dest!: Cons.IH split: if_splits)
qed simp

lemma vcp_holders_lookup:
  "vcp_holders L bh holders m = Inr m' \<Longrightarrow>
   map_of m' h = extended (pool_returns (vcp_return L bh) h holders) (map_of m h)"
proof (induction holders arbitrary: m)
  case (Cons p holders)
  then obtain c m1 where c: "p = Some c" "vcp_stakes L bh 0 (sh_Stakes c) m = Inr m1"
    "vcp_holders L bh holders m1 = Inr m'"
    by (auto simp: go_simps)
  then show ?case
    by (simp add: Cons.IH [OF c(3)] vcp_stakes_lookup [OF c(2)] extended_append)
qed simp

lemma gcp_holders_lookup:
  "gcp_holders L bh holders m = Inr m' \<Longrightarrow>
   map_of m' h = first_only (pool_returns (gcp_return L bh) h holders) (map_of m h)"
proof (induction holders arbitrary: m)
  case (Cons p holders)
  then obtain c m1 where c: "p = Some c" "gcp_stakes L bh 0 (sh_Stakes c) m = Inr m1"
    "gcp_holders L bh holders m1 = Inr m'"
    by (auto simp: go_simps)
  then show ?case
    by (simp add: Cons.IH [OF c(3)] gcp_stakes_lookup [OF c(2)] first_only_append)
qed simp

lemma eenp_holders_lookup:
  "eenp_holders L bh holders m = Inr m' \<Longrightarrow>
   map_of m' h = first_only (pool_returns (eenp_return L bh) h holders) (map_of m h)"
proof (induction holders arbitrary: m)
  case (Cons p holders)
  then obtain c m1 where c: "p = Some c" "eenp_stakes L bh 0 (sh_Stakes c) m = Inr m1"
    "eenp_holders L bh holders m1 = Inr m'"
    by (auto simp: go_simps)
  then show ?case
    by (simp add: Cons.IH [OF c(3)] eenp_stakes_lookup [OF c(2)] first_only_append)
qed simp

lemmas holders_lookup = vcp_holders_lookup gcp_holders_lookup eenp_holders_lookup

text \<open>The keys of the map stay distinct.\<close>

lemma record_distinct:
  "distinct (map fst m) \<Longrightarrow> distinct (map fst (vcp_record r h m))"
  "distinct (map fst m) \<Longrightarrow> distinct (map fst (gcp_record r h m))"
  by (auto simp: vcp_record_def gcp_record_def distinct_update split: option.splits)

lemma stakes_distinct:
  "vcp_stakes L bh i stakes m = Inr m' \<Longrightarrow> distinct (map fst m) \<Longrightarrow> distinct (map fst m')"
  "gcp_stakes L bh i stakes m = Inr m' \<Longrightarrow> distinct (map fst m) \<Longrightarrow> distinct (map fst m')"
  "eenp_stakes L bh i stakes m = Inr m' \<Longrightarrow> distinct (map fst m) \<Longrightarrow> distinct (map fst m')"
  by (induction stakes arbitrary: i m) (auto simp: go_simps record_distinct split: if_splits)

lemma holders_distinct:
  "vcp_holders L bh holders m = Inr m' \<Longrightarrow> distinct (map fst m) \<Longrightarrow> distinct (map fst m')"
  "gcp_holders L bh holders m = Inr m' \<Longrightarrow> distinct (map fst m) \<Longrightarrow> distinct (map fst m')"
  "eenp_holders L bh holders m = Inr m' \<Longrightarrow> distinct (map fst m) \<Longrightarrow> distinct (map fst m')"
  by (induction holders arbitrary: m) (auto simp: go_simps dest: stakes_distinct)

section \<open>The map after the three pools\<close>

text \<open>The pool of the first pair of an answer.\<close>

fun first_pool :: "(hash \<times> StakeHolder option list option) list \<Rightarrow> hash \<times> StakeHolder option list" where
  "first_pool [] = (0, [])"
| "first_pool ((bh, pool) # _) = (bh, case pool of None \<Rightarrow> [] | Some hs \<Rightarrow> hs)"

fun first_eens :: "(hash \<times> StakeHolder option list) list \<Rightarrow> hash \<times> StakeHolder option list" where
  "first_eens [] = (0, [])"
| "first_eens (p # _) = p"

definition vcp_due :: "'a thetalib_scheme \<Rightarrow> (hash \<times> StakeHolder option list option) list \<Rightarrow> u64 \<Rightarrow> ReturnStakeTx list" where
  "vcp_due L pairs h =
     (case first_pool pairs of (bh, hs) \<Rightarrow> pool_returns (vcp_return L (Hash_Hex L bh)) h hs)"

definition gcp_due :: "'a thetalib_scheme \<Rightarrow> (hash \<times> StakeHolder option list option) list \<Rightarrow> u64 \<Rightarrow> ReturnStakeTx list" where
  "gcp_due L pairs h =
     (case first_pool pairs of (bh, hs) \<Rightarrow> pool_returns (gcp_return L (Hash_Hex L bh)) h hs)"

definition eenp_due :: "'a thetalib_scheme \<Rightarrow> (hash \<times> StakeHolder option list) list \<Rightarrow> u64 \<Rightarrow> ReturnStakeTx list" where
  "eenp_due L pairs h =
     (case first_eens pairs of (bh, hs) \<Rightarrow> pool_returns (eenp_return L (Hash_Hex L bh)) h hs)"

text \<open>
  What the code leaves at a height: all the VCP returns; failing those the first GCP return;
  failing that the first EENP return.
\<close>

definition snapshot_entry ::
    "ReturnStakeTx list \<Rightarrow> ReturnStakeTx list \<Rightarrow> ReturnStakeTx list \<Rightarrow> ReturnStakeTx list" where
  "snapshot_entry vs gs es =
     (if vs \<noteq> [] then vs else if gs \<noteq> [] then [hd gs] else take 1 es)"

lemma snapshot_entry_lookup:
  "first_only es (first_only gs (extended vs None)) =
     (if snapshot_entry vs gs es = [] then None else Some \<lparr>ReturnStakes = snapshot_entry vs gs es\<rparr>)"
  by (cases vs; cases gs; cases es) (simp_all add: snapshot_entry_def first_only_def extended_def)

lemma collect_vcp_lookup:
  "collect_vcp L pairs m = Inr m' \<Longrightarrow> map_of m' h = extended (vcp_due L pairs h) (map_of m h)"
  by (auto simp: collect_vcp_def vcp_due_def go_simps holders_lookup split: list.splits prod.splits)

lemma collect_gcp_lookup:
  "collect_gcp L pairs m = Inr m' \<Longrightarrow> map_of m' h = first_only (gcp_due L pairs h) (map_of m h)"
  by (auto simp: collect_gcp_def gcp_due_def go_simps holders_lookup split: list.splits prod.splits)

lemma collect_eenp_lookup:
  "collect_eenp L pairs m = Inr m' \<Longrightarrow> map_of m' h = first_only (eenp_due L pairs h) (map_of m h)"
  by (auto simp: collect_eenp_def eenp_due_def holders_lookup split: list.splits prod.splits)

lemma collect_distinct:
  "distinct (map fst m) \<Longrightarrow> collect_vcp L pairs m = Inr m' \<Longrightarrow> distinct (map fst m')"
  "distinct (map fst m) \<Longrightarrow> collect_gcp L pairs m = Inr m' \<Longrightarrow> distinct (map fst m')"
  "distinct (map fst m) \<Longrightarrow> collect_eenp L eens m = Inr m' \<Longrightarrow> distinct (map fst m')"
  by (auto simp: collect_vcp_def collect_gcp_def collect_eenp_def go_simps dest: holders_distinct
      split: list.splits prod.splits)

section \<open>Writing the map to the database\<close>

lemma store_return_stakes_put_all:
  "store_return_stakes D kvs (Some d) =
     (Inr (), Some (put_all (KVStore_Put D) (map (\<lambda>(h, t). (height_key (h + 1), t)) kvs) d))"
  by (induction kvs arbitrary: d) (auto split: prod.splits)

lemma height_keys_distinct:
  "distinct (map fst kvs) \<Longrightarrow> distinct (map fst (map (\<lambda>(h, t). (height_key (h + 1), t)) kvs))"
  by (simp add: distinct_map comp_def split_beta inj_on_def)

text \<open>Go visits every entry of a map once, in some order.\<close>

definition map_order_law :: "('d, 'a) stakelib_scheme \<Rightarrow> bool" where
  "map_order_law L \<longleftrightarrow> (\<forall>m. mset (map_order L m) = mset m)"

text \<open>The database entries that the last loop of \<open>GenStakesForSnapshot\<close> writes.\<close>

definition return_entries :: "return_map \<Rightarrow> (byte list \<times> ReturnStakeTxs) list" where
  "return_entries m = map (\<lambda>(h, t). (height_key (h + 1), t)) m"

lemma stored_entry:
  assumes laws: "store_laws D reread"
    and m: "distinct (map fst m)" "mset m' = mset m"
    and stored: "store_return_stakes D m' (Some d) = (Inr (), Some d')"
  shows "case map_of m h of
      Some t \<Rightarrow> KVStore_Get D (height_key (h + 1)) d' = Inr (reread t) \<or>
        height_key (h + 1) \<in> failed_puts (KVStore_Put D) (return_entries m') d \<and>
        KVStore_Get D (height_key (h + 1)) d' = KVStore_Get D (height_key (h + 1)) d
    | None \<Rightarrow> KVStore_Get D (height_key (h + 1)) d' = KVStore_Get D (height_key (h + 1)) d"
proof -
  let ?kvs = "return_entries m'"
  have d': "d' = put_all (KVStore_Put D) ?kvs d"
    using stored by (simp add: store_return_stakes_put_all return_entries_def)
  have dist: "distinct (map fst m')"
    using m by (metis mset_map mset_eq_imp_distinct_iff)
  have eq: "set m' = set m" using m(2) by (rule mset_eq_setD)
  show ?thesis
  proof (cases "map_of m h")
    case None
    then have "height_key (h + 1) \<notin> fst ` set ?kvs"
      by (auto simp: eq map_of_eq_None_iff image_iff return_entries_def)
    with None show ?thesis
      by (simp add: d' kv.put_all_other [OF laws])
  next
    case (Some t)
    then have "(height_key (h + 1), t) \<in> set ?kvs"
      by (force simp: eq return_entries_def dest: map_of_SomeD)
    from kv.put_all_get [OF laws height_keys_distinct [OF dist, folded return_entries_def] this] Some
    show ?thesis by (simp add: d')
  qed
qed

section \<open>Finding a stake\<close>

lemma find_stake_Some:
  "find_stake src stakes = Inr (Some stake) \<Longrightarrow> Some stake \<in> set stakes \<and> stk_Source stake = src"
  by (induction stakes) (auto simp: go_simps split: if_splits)

lemma find_holder_stake_Some:
  "find_holder_stake holder src hs = Inr (Some stake) \<Longrightarrow>
   \<exists>c. Some c \<in> set hs \<and> sh_Holder c = holder \<and> Some stake \<in> set (sh_Stakes c) \<and> stk_Source stake = src"
  by (induction hs) (auto simp: go_simps dest: find_stake_Some split: if_splits option.splits)

lemma GetStakeForTx_world:
  "snd (GetStakeForTx L tx h w) = w\<lparr>calls := calls w @ [stake_query L tx h]\<rparr>"
proof -
  obtain m a where q: "stake_query L tx h = (m, a)" by fastforce
  have "snd (fetch L m a w) = w\<lparr>calls := calls w @ [(m, a)]\<rparr>" by (rule fetch_world)
  then show ?thesis
    by (auto simp: GetStakeForTx_def q split: prod.splits sum.splits)
qed

end
