(* ===== verification/ParseTx.thy ===== *)
theory ParseTx
  imports StakeService
begin

text \<open>
  \<open>ParseTx\<close> of \<open>common/utils.go\<close>: the dispatch on the transaction type, and the entry in
  the return-stakes database that a withdrawal leaves for the height at which its stake
  comes back.
\<close>

section \<open>Decoding raw transactions\<close>

text \<open>
  \<open>json.Unmarshal(rawTx, &tx)\<close> per transaction struct, with the Theta library's methods;
  \<open>None\<close> is a missing \<open>raw\<close> member. Errors are ignored in the code, so the decoders are
  total.
\<close>

record 'd txlib = "'d stakelib" +
  unmarshal_CoinbaseTx :: "json option \<Rightarrow> CoinbaseTx_data"
  unmarshal_SlashTx :: "json option \<Rightarrow> SlashTx_data"
  unmarshal_SendTx :: "json option \<Rightarrow> SendTx_data"
  unmarshal_ReserveFundTx :: "json option \<Rightarrow> ReserveFundTx_data"
  unmarshal_ReleaseFundTx :: "json option \<Rightarrow> ReleaseFundTx_data"
  unmarshal_ServicePaymentTx :: "json option \<Rightarrow> ServicePaymentTx_data"
  unmarshal_SplitRuleTx :: "json option \<Rightarrow> SplitRuleTx_data"
  unmarshal_SmartContractTx :: "json option \<Rightarrow> SmartContractTx_data"
  unmarshal_DepositStakeTxV2 :: "json option \<Rightarrow> DepositStakeTxV2_data"
  unmarshal_WithdrawStakeTx :: "json option \<Rightarrow> WithdrawStakeTx_data"
  unmarshal_StakeRewardDistributionTx :: "json option \<Rightarrow> StakeRewardDistributionTx_data"

section \<open>Remembering a withdrawal\<close>

definition StakeWithdrawPrefix :: string where
  "StakeWithdrawPrefix = ''stake_withdraw''"

text \<open>The loop that looks for the hash, and the append when it is absent.\<close>

fun stake_exists :: "string \<Rightarrow> ReturnStakeTx list \<Rightarrow> bool" where
  "stake_exists hash [] = False"
| "stake_exists hash (stake # rest) = (if hash = rs_Hash stake then True else stake_exists hash rest)"

definition add_return_stake :: "ReturnStakeTx \<Rightarrow> ReturnStakeTxs \<Rightarrow> ReturnStakeTxs" where
  "add_return_stake rtx txs =
     (if \<not> stake_exists (rs_Hash rtx) (ReturnStakes txs)
      then txs\<lparr>ReturnStakes := ReturnStakes txs @ [rtx]\<rparr> else txs)"

text \<open>Extend the entry at \<open>key\<close> when it can be read, start a new one otherwise, write it back.\<close>

definition record_return_stake ::
    "'d storelib \<Rightarrow> byte list \<Rightarrow> ReturnStakeTx \<Rightarrow> 'd LDBDatabase option \<Rightarrow>
     store_error option go \<times> 'd LDBDatabase option" where
  "record_return_stake D key rtx dbo =
     (case Store_Get D key dbo of
        Inl p \<Rightarrow> (Inl p, dbo)
      | Inr (Inr txs) \<Rightarrow> Store_Put D key (add_return_stake rtx txs) dbo
      | Inr (Inl _) \<Rightarrow> Store_Put D key \<lparr>ReturnStakes = [rtx]\<rparr> dbo)"

text \<open>The withdrawn amount replaces the coins of the source, in the currency of the purpose.\<close>

definition withdrawn_tx :: "'a thetalib_scheme \<Rightarrow> WithdrawStakeTx_data \<Rightarrow> Stake \<Rightarrow> WithdrawStakeTx_data" where
  "withdrawn_tx L tx stake =
     tx\<lparr>ws_Source := (ws_Source tx)\<lparr>in_Coins :=
       (if ws_Purpose tx = StakeForValidator L \<or> ws_Purpose tx = StakeForGuardian L
        then \<lparr>ThetaWei = stk_Amount stake, TFuelWei = None\<rparr>
        else \<lparr>ThetaWei = None, TFuelWei = stk_Amount stake\<rparr>)\<rparr>\<rparr>"

text \<open>\<open>%v\<close> of an error of \<open>Put\<close>, and \<open>%d\<close> of a byte slice.\<close>

fun ldb_error_text :: "ldb_error \<Rightarrow> string" where
  "ldb_error_text ErrNotFound = ''leveldb: not found''"
| "ldb_error_text (ErrCorrupted s) = s"
| "ldb_error_text (LdbError s) = s"

fun store_error_text :: "store_error \<Rightarrow> string" where
  "store_error_text (StoreDb KeyNotFound) = ''KeyNotFound''"
| "store_error_text (StoreDb (DbError e)) = ldb_error_text e"
| "store_error_text (StoreRlp s) = s"

fun numbers_text :: "byte list \<Rightarrow> string" where
  "numbers_text [] = []"
| "numbers_text [b] = int_text (uint b)"
| "numbers_text (b # bs) = int_text (uint b) @ '' '' @ numbers_text bs"

text \<open>
  The branch for a withdrawal: look the stake up, build its return, record it at
  \<open>blockHeight + ReturnLockingPeriod\<close>; every failure is a panic.
  \<open>services\<close> tells whether the caller passed a database and a stake service.
\<close>

definition record_withdrawal ::
    "('d, 'a) stakelib_scheme \<Rightarrow> WithdrawStakeTx_data \<Rightarrow> hash \<Rightarrow> bool \<Rightarrow> u64 \<Rightarrow> ('d, unit go) step" where
  "record_withdrawal L tx txHash services blockHeight w =
     (if services \<and> db w \<noteq> None
      then (case GetStakeForTx L tx blockHeight w of
              (Inl p, w1) \<Rightarrow> (Inl p, w1)
            | (Inr (Inl e), w1) \<Rightarrow>
                (Inl (ExplicitPanic (''Failed to get stakes for '' @ Hash_Hex L txHash @ '' at '' @
                        int_text (uint blockHeight))), w1)
            | (Inr (Inr stake), w1) \<Rightarrow>
                (case deref stake of
                   Inl p \<Rightarrow> (Inl p, w1)
                 | Inr stk \<Rightarrow>
                     (let rtx = \<lparr>rs_Hash = Hash_Hex L txHash, rs_Tx = withdrawn_tx L tx stk\<rparr>;
                          key = height_key (blockHeight + ReturnLockingPeriod L)
                      in case record_return_stake (storage L) key rtx (db w1) of
                           (Inl p, dbo) \<Rightarrow> (Inl p, w1\<lparr>db := dbo\<rparr>)
                         | (Inr (Some e), dbo) \<Rightarrow>
                             (Inl (ExplicitPanic (''Failed to put stakes for '' @ Hash_Hex L txHash @
                                     '' at ['' @ numbers_text key @ ''], err: '' @ store_error_text e)),
                              w1\<lparr>db := dbo\<rparr>)
                         | (Inr None, dbo) \<Rightarrow> (Inr (), w1\<lparr>db := dbo\<rparr>))))
      else (Inl (ExplicitPanic ''return_stakes db or service is nil''), w))"

text \<open>The identifier a withdrawal is reported under.\<close>

definition withdraw_hash :: "'a thetalib_scheme \<Rightarrow> hash \<Rightarrow> string" where
  "withdraw_hash L txHash =
     Hash_Hex L (Keccak256Hash L (bytes_of (StakeWithdrawPrefix @ ''_'' @ Hash_Hex L txHash)))"

section \<open>ParseTx\<close>

definition transaction :: "string \<Rightarrow> metadata \<times> Operation list \<Rightarrow> Transaction" where
  "transaction h p = \<lparr>tr_Hash = h, tr_Metadata = fst p, tr_Operations = snd p\<rparr>"

lemma transaction_simps [simp]:
  "tr_Hash (transaction h p) = h"
  "tr_Metadata (transaction h p) = fst p"
  "tr_Operations (transaction h p) = snd p"
  by (simp_all add: transaction_def)

text \<open>The metadata and operations of each transaction type; an unknown type has none.\<close>

definition parse_by_type ::
    "('d, 'a) txlib_scheme \<Rightarrow> TxType \<Rightarrow> json option \<Rightarrow> string option \<Rightarrow> u64 \<Rightarrow>
     TxBalanceChangesEntry option \<Rightarrow> parsed" where
  "parse_by_type L txType rawTx status gasUsed balanceChanges =
     (if txType = CoinbaseTx then ParseCoinbaseTx L (unmarshal_CoinbaseTx L rawTx) status txType
      else if txType = SlashTx then ParseSlashTx L (unmarshal_SlashTx L rawTx) status txType
      else if txType = SendTx then ParseSendTx L (unmarshal_SendTx L rawTx) status txType
      else if txType = ReserveFundTx
        then ParseReserveFundTx L (unmarshal_ReserveFundTx L rawTx) status txType
      else if txType = ReleaseFundTx
        then ParseReleaseFundTx L (unmarshal_ReleaseFundTx L rawTx) status txType
      else if txType = ServicePaymentTx
        then ParseServicePaymentTx L (unmarshal_ServicePaymentTx L rawTx) status txType
      else if txType = SplitRuleTx
        then ParseSplitRuleTx L (unmarshal_SplitRuleTx L rawTx) status txType
      else if txType = SmartContractTx
        then ParseSmartContractTx L (unmarshal_SmartContractTx L rawTx) status txType gasUsed
               balanceChanges
      else if txType = DepositStakeTx \<or> txType = DepositStakeV2Tx
        then ParseDepositStakeTx L (unmarshal_DepositStakeTxV2 L rawTx) status txType
      else if txType = WithdrawStakeTx
        then ParseWithdrawStakeTx L (unmarshal_WithdrawStakeTx L rawTx) status txType
      else if txType = StakeRewardDistributionTx
        then ParseStakeRewardDistributionTx L (unmarshal_StakeRewardDistributionTx L rawTx) status txType
      else Inr (Map.empty, []))"

definition ParseTx ::
    "('d, 'a) txlib_scheme \<Rightarrow> TxType \<Rightarrow> json option \<Rightarrow> hash \<Rightarrow> string option \<Rightarrow> u64 \<Rightarrow>
     TxBalanceChangesEntry option \<Rightarrow> bool \<Rightarrow> u64 \<Rightarrow> ('d, Transaction go) step" where
  "ParseTx L txType rawTx txHash status gasUsed balanceChanges services blockHeight w =
     (case parse_by_type L txType rawTx status gasUsed balanceChanges of
        Inl p \<Rightarrow> (Inl p, w)
      | Inr parsed \<Rightarrow>
          if txType = WithdrawStakeTx
          then (case record_withdrawal L (unmarshal_WithdrawStakeTx L rawTx) txHash services
                       blockHeight w of
                  (Inl p, w1) \<Rightarrow> (Inl p, w1)
                | (Inr _, w1) \<Rightarrow> (Inr (transaction (withdraw_hash L txHash) parsed), w1))
          else (Inr (transaction (Hash_String L txHash) parsed), w))"

section \<open>Lemmas on the recorded returns\<close>

lemma stake_exists_iff: "stake_exists hash stakes \<longleftrightarrow> hash \<in> rs_Hash ` set stakes"
  by (induction stakes) auto

definition hashes :: "ReturnStakeTxs \<Rightarrow> string list" where
  "hashes txs = map rs_Hash (ReturnStakes txs)"

lemma add_return_stake_hashes:
  "hashes (add_return_stake r txs) =
     (if rs_Hash r \<in> set (hashes txs) then hashes txs else hashes txs @ [rs_Hash r])"
  by (simp add: add_return_stake_def hashes_def stake_exists_iff)

lemma add_return_stake_idem: "add_return_stake r (add_return_stake r txs) = add_return_stake r txs"
  by (simp add: add_return_stake_def stake_exists_iff)

lemma distinct_add_return_stake: "distinct (hashes txs) \<Longrightarrow> distinct (hashes (add_return_stake r txs))"
  by (simp add: add_return_stake_hashes)

lemma same_stakes_hashes': "same_stakes v v' \<Longrightarrow> hashes v' = hashes v"
  by (simp add: hashes_def same_stakes_hashes)

lemma same_stakes_add:
  assumes "same_stakes v v'"
  shows "same_stakes (add_return_stake r v) (add_return_stake r v')"
proof -
  from same_stakes_hashes' [OF assms]
  have "stake_exists (rs_Hash r) (ReturnStakes v) = stake_exists (rs_Hash r) (ReturnStakes v')"
    by (metis hashes_def list.set_map stake_exists_iff)
  with assms show ?thesis
    by (auto simp: add_return_stake_def same_stakes_def intro: list_all2_appendI)
qed

text \<open>What a reader finds at a key: nothing when the entry cannot be read.\<close>

definition returns_at :: "'d storelib \<Rightarrow> byte list \<Rightarrow> 'd LDBDatabase \<Rightarrow> ReturnStakeTxs" where
  "returns_at D key d =
     (case KVStore_Get D key d of Inl _ \<Rightarrow> \<lparr>ReturnStakes = []\<rparr> | Inr txs \<Rightarrow> txs)"

lemma record_return_stake_eq:
  "record_return_stake D key rtx (Some d) =
     Store_Put D key (add_return_stake rtx (returns_at D key d)) (Some d)"
  by (auto simp: record_return_stake_def returns_at_def add_return_stake_def split: sum.splits)

lemma reread_same: "store_laws D reread \<Longrightarrow> same_stakes v (reread v)"
  by (simp add: store_laws_def rlp_laws_def)

lemma reread_hashes: "store_laws D reread \<Longrightarrow> hashes (reread v) = hashes v"
  using reread_same same_stakes_hashes' by blast

section \<open>Lemmas on ParseTx\<close>

lemma record_withdrawal_nil:
  "\<not> services \<Longrightarrow> record_withdrawal L tx h services bh w =
     (Inl (ExplicitPanic ''return_stakes db or service is nil''), w)"
  by (simp add: record_withdrawal_def)

lemma GetStakeForTx_db: "db (snd (GetStakeForTx L tx h w)) = db w"
  by (simp add: GetStakeForTx_world)

text \<open>A successful withdrawal found a stake and wrote its return.\<close>

lemma record_withdrawal_Inr:
  assumes "record_withdrawal L tx txHash services bh w = (Inr u, w')"
  obtains stk d w1 dbo where
    "services" "db w = Some d"
    "GetStakeForTx L tx bh w = (Inr (Inr (Some stk)), w1)"
    "record_return_stake (storage L) (height_key (bh + ReturnLockingPeriod L))
       \<lparr>rs_Hash = Hash_Hex L txHash, rs_Tx = withdrawn_tx L tx stk\<rparr> (Some d) = (Inr None, dbo)"
    "w' = w1\<lparr>db := dbo\<rparr>"
proof -
  from assms obtain d where d: "services" "db w = Some d"
    by (auto simp: record_withdrawal_def split: if_splits)
  obtain r w1 where g: "GetStakeForTx L tx bh w = (r, w1)" by fastforce
  then have db1: "db w1 = Some d" using GetStakeForTx_db [of L tx bh w] d by simp
  show ?thesis
    using assms d g db1 that
    by (auto simp: record_withdrawal_def Let_def go_simps split: sum.splits option.splits prod.splits)
qed

lemma record_withdrawal_frame:
  "chainId (snd (record_withdrawal L tx h s bh w)) = chainId w \<and>
   errs (snd (record_withdrawal L tx h s bh w)) = errs w \<and>
   prefix (calls w) (calls (snd (record_withdrawal L tx h s bh w)))"
proof (cases "s \<and> db w \<noteq> None")
  case True
  obtain r w1 where g: "GetStakeForTx L tx bh w = (r, w1)" by fastforce
  then have "w1 = w\<lparr>calls := calls w @ [stake_query L tx bh]\<rparr>"
    using GetStakeForTx_world [of L tx bh w] by simp
  with True g show ?thesis
    by (simp add: record_withdrawal_def Let_def split: sum.splits option.splits prod.splits)
next
  case False
  then show ?thesis by (auto simp: record_withdrawal_def)
qed

lemma record_withdrawal_grows: "grows w (snd (record_withdrawal L tx h s bh w))"
  using record_withdrawal_frame [of L tx h s bh w] by (simp add: grows_def)

lemma ParseTx_other_world:
  "txType \<noteq> WithdrawStakeTx \<Longrightarrow>
   snd (ParseTx L txType rawTx h status gas changes services bh w) = w"
  by (simp add: ParseTx_def split: sum.splits)

lemma ParseTx_grows: "grows w (snd (ParseTx L txType rawTx h status gas changes services bh w))"
proof (cases "txType = WithdrawStakeTx")
  case True
  obtain r w1 where
    r: "record_withdrawal L (unmarshal_WithdrawStakeTx L rawTx) h services bh w = (r, w1)"
    by fastforce
  then have "grows w w1" by (metis record_withdrawal_grows snd_conv)
  moreover have "snd (ParseTx L txType rawTx h status gas changes services bh w) \<in> {w, w1}"
    by (cases r; cases "parse_by_type L txType rawTx status gas changes")
      (simp_all add: ParseTx_def r True del: TxType_consts)
  ultimately show ?thesis by auto
qed (simp add: ParseTx_other_world)

text \<open>
  Whatever the type, the operations are well formed; the metadata name the type of every
  known transaction, and a transaction of unknown type is reported empty.
\<close>

lemma parse_by_type_contract:
  assumes "parse_by_type L txType rawTx status gas changes = Inr (md, ops)"
  shows "ops_ok status ops \<and> (md ''type'' = Some (VTxType txType) \<or> md = Map.empty \<and> ops = [])"
proof -
  have c: "ops_ok status ops \<and> md ''type'' = Some (VTxType txType)"
    if "ParseSmartContractTx L tx status txType gas changes = Inr (md, ops)" for tx
    using contract.parse_ops_ok [of L "(tx, gas, changes)"]
      contract.parse_type [of L "(tx, gas, changes)"] that by simp
  show ?thesis
    using assms unfolding parse_by_type_def
    by (simp split: if_splits
      add: coinbase.parse_type coinbase.parse_ops_ok slash.parse_type slash.parse_ops_ok
        send.parse_type send.parse_ops_ok reserve.parse_type reserve.parse_ops_ok
        release.parse_type release.parse_ops_ok payment.parse_type payment.parse_ops_ok
        split_rule.parse_type split_rule.parse_ops_ok deposit.parse_type deposit.parse_ops_ok
        withdraw.parse_type withdraw.parse_ops_ok reward.parse_type reward.parse_ops_ok c)
qed

lemma ParseTx_ops_ok:
  assumes "ParseTx L txType rawTx h status gas changes services height w = (Inr tr, w')"
  shows "ops_ok status (tr_Operations tr) \<and>
    (tr_Metadata tr ''type'' = Some (VTxType txType) \<or>
     tr_Metadata tr = Map.empty \<and> tr_Operations tr = [])"
proof -
  from assms obtain md ops where "parse_by_type L txType rawTx status gas changes = Inr (md, ops)"
    "tr_Metadata tr = md" "tr_Operations tr = ops"
    by (auto simp: ParseTx_def split: sum.splits prod.splits if_splits simp del: TxType_consts)
  then show ?thesis using parse_by_type_contract by blast
qed

lemma parse_by_type_unknown:
  assumes "11 < unat txType"
  shows "parse_by_type L txType rawTx status gas changes = Inr (Map.empty, [])"
proof -
  have "txType \<noteq> k" if "unat k \<le> 11" for k :: TxType
    using assms that by auto
  then show ?thesis by (simp add: parse_by_type_def)
qed

end
