(* ===== verification/Services.thy ===== *)
theory Services
  imports ParseTx
begin

text \<open>
  What the endpoint handlers of \<open>services/\<close> share: the remaining third-party functions,
  the parts of \<open>encoding/json\<close> they use directly, the Rosetta block and peer data, and the
  last step of every handler that goes through \<open>HandleThetaRPCResponse\<close>.
\<close>

section \<open>Node data\<close>

record Account =
  acc_Sequence :: u64
  acc_Balance :: Coins

text \<open>A transaction of a block: \<open>Receipt\<close> is reduced to the gas it records.\<close>

record Tx =
  tx_Type :: TxType
  tx_Hash :: hash
  tx_Receipt :: "u64 option"
  tx_BalanceChanges :: "TxBalanceChangesEntry option"

record GetBlockResultInner =
  gb_Height :: u64
  gb_Parent :: hash
  gb_TxHash :: hash
  gb_StateHash :: hash
  gb_Timestamp :: bigint
  gb_Proposer :: address
  gb_Status :: BlockStatus
  gb_Hash :: hash
  gb_Txs :: "Tx list"

record GetTransactionResult =
  gt_Status :: string
  gt_TxHash :: hash
  gt_Type :: u8
  gt_Receipt :: "u64 option"
  gt_BalanceChanges :: "TxBalanceChangesEntry option"

definition zero_transaction_result :: GetTransactionResult where
  "zero_transaction_result =
     \<lparr>gt_Status = [], gt_TxHash = 0, gt_Type = 0, gt_Receipt = None, gt_BalanceChanges = None\<rparr>"

text \<open>
  \<open>unmarshal_Account\<close> answers the error and the account pointer after the attempt;
  \<open>node_version\<close> is the version string of the Theta node package.
\<close>

record 'd servlib = "'d txlib" +
  unmarshal_Account :: "json \<Rightarrow> string option \<times> Account option"
  unmarshal_Block :: "json \<Rightarrow> GetBlockResultInner option"
  unmarshal_Transaction :: "json \<Rightarrow> GetTransactionResult"
  node_version :: string

section \<open>JSON\<close>

text \<open>
  A member of a document read as \<open>map[string]json.RawMessage\<close>: the last one with this name;
  a document that is no object has none.
\<close>

definition json_field :: "string \<Rightarrow> json \<Rightarrow> json option" where
  "json_field k j = (case j of JObject kvs \<Rightarrow> map_of (rev kvs) k | _ \<Rightarrow> None)"

text \<open>A document read as \<open>[]map[string]json.RawMessage\<close>: one element per array element.\<close>

definition json_elements :: "json \<Rightarrow> json list" where
  "json_elements j = (case j of JArray xs \<Rightarrow> xs | _ \<Rightarrow> [])"

text \<open>
  A struct field of type \<open>[]string\<close>: members match without regard to case, the last one
  counts, null is the nil slice, an element that is no string stays empty.
\<close>

fun json_string_elem :: "json \<Rightarrow> string" where
  "json_string_elem (JString s) = s"
| "json_string_elem _ = []"

fun strings_member :: "json \<Rightarrow> string list \<Rightarrow> string list" where
  "strings_member JNull old = []"
| "strings_member (JArray xs) old = map json_string_elem xs"
| "strings_member _ old = old"

definition unmarshal_strings_field :: "string \<Rightarrow> json \<Rightarrow> string list" where
  "unmarshal_strings_field key j =
     (case j of
        JObject kvs \<Rightarrow> fold (\<lambda>(k, v) old. if EqualFold k key then strings_member v old else old) kvs []
      | _ \<Rightarrow> [])"

section \<open>Rosetta data\<close>

record BlockIdentifier =
  bi_Index :: int
  bi_Hash :: string

text \<open>\<open>types.PartialBlockIdentifier\<close>: an optional index and an optional hash.\<close>

type_synonym PartialBlockIdentifier = "int option \<times> string option"

section \<open>Integers of the responses\<close>

text \<open>\<open>int64(u)\<close> reads an unsigned word as two's complement; \<open>JSONUint64(i)\<close> goes back.\<close>

definition int64 :: "u64 \<Rightarrow> int" where
  "int64 u = sint u"

definition to_u64 :: "int \<Rightarrow> u64" where
  "to_u64 i = word_of_int i"

text \<open>\<open>t.ToInt().Int64() * 1000\<close>: the low 64 bits, multiplied with wrap-around.\<close>

definition millis :: "int \<Rightarrow> int" where
  "millis t = sint (word_of_int t * 1000 :: u64)"

lemma int64_small:
  assumes "uint u < 2 ^ 63"
  shows "int64 u = uint u"
proof -
  have "- (2 ^ 63) \<le> uint u"
    by (rule order_trans [OF _ uint_ge_0]) simp
  with assms show ?thesis
    by (simp add: int64_def sint_uint signed_take_bit_int_eq_self)
qed

lemma to_u64_int64 [simp]: "to_u64 (int64 u) = u"
  by (simp add: to_u64_def int64_def)

lemma millis_exact:
  assumes "- (2 ^ 63) \<le> t * 1000" "t * 1000 < 2 ^ 63"
  shows "millis t = t * 1000"
proof -
  have "(word_of_int t * 1000 :: u64) = word_of_int (t * 1000)"
    by (metis wi_hom_mult word_of_int_numeral)
  with assms show ?thesis
    unfolding millis_def by (simp only: sint_sbintrunc') (simp add: signed_take_bit_int_eq_self)
qed

section \<open>The last step of a handler\<close>

text \<open>
  \<open>res, err := HandleThetaRPCResponse(...); if err != nil { return nil, cmn.E }; return res\<close>
\<close>

fun finish :: "errvar \<Rightarrow> (string + 'r) go \<times> 'd world \<Rightarrow> 'r outcome \<times> 'd world" where
  "finish e (Inl p, w) = (Crash p, w)"
| "finish e (Inr (Inl _), w) = (Failure (Global e), w)"
| "finish e (Inr (Inr r), w) = (Response r, w)"

lemma finish_world [simp]: "snd (finish e rw) = snd rw"
  by (cases "(e, rw)" rule: finish.cases) auto

lemma finish_Response: "finish e rw = (Response r, w) \<longleftrightarrow> rw = (Inr (Inr r), w)"
  by (cases "(e, rw)" rule: finish.cases) auto

text \<open>The node says that it does not know what was asked for.\<close>

definition not_found :: "rpc_reply \<Rightarrow> bool" where
  "not_found reply =
     (case Option.bind (fst reply) Error of None \<Rightarrow> False | Some e \<Rightarrow> RPCError_Code e = -32000)"

text \<open>The checks in front of most handlers.\<close>

definition guarded ::
    "'a rpclib_scheme \<Rightarrow> NetworkIdentifier option \<Rightarrow> ('d, 'r outcome) step \<Rightarrow> ('d, 'r outcome) step" where
  "guarded L ni body w =
     (if \<not> online L then (Failure (Global ErrUnavailableOffline), w)
      else case ValidateNetworkIdentifier ni w of
             Some e \<Rightarrow> (Failure (Global e), w)
           | None \<Rightarrow> body w)"

definition validated ::
    "NetworkIdentifier option \<Rightarrow> ('d, 'r outcome) step \<Rightarrow> ('d, 'r outcome) step" where
  "validated ni body w =
     (case ValidateNetworkIdentifier ni w of
        Some e \<Rightarrow> (Failure (Global e), w)
      | None \<Rightarrow> body w)"

lemma guarded_offline: "\<not> online L \<Longrightarrow> guarded L ni body w = (Failure (Global ErrUnavailableOffline), w)"
  by (simp add: guarded_def)

lemma guarded_grows: "(\<And>w. grows w (snd (body w))) \<Longrightarrow> grows w (snd (guarded L ni body w))"
  by (simp add: guarded_def split: option.splits)

lemma validated_grows: "(\<And>w. grows w (snd (body w))) \<Longrightarrow> grows w (snd (validated ni body w))"
  by (simp add: validated_def split: option.splits)

lemma guarded_quiet: "(\<And>w. quiet w (snd (body w))) \<Longrightarrow> quiet w (snd (guarded L ni body w))"
  by (simp add: guarded_def split: option.splits)

lemma validated_quiet: "(\<And>w. quiet w (snd (body w))) \<Longrightarrow> quiet w (snd (validated ni body w))"
  by (simp add: validated_def split: option.splits)

lemma guarded_Response:
  "guarded L ni body w = (Response r, w') \<longleftrightarrow>
     online L \<and> ValidateNetworkIdentifier ni w = None \<and> body w = (Response r, w')"
  by (auto simp: guarded_def split: option.splits)

lemma validated_Response:
  "validated ni body w = (Response r, w') \<longleftrightarrow>
     ValidateNetworkIdentifier ni w = None \<and> body w = (Response r, w')"
  by (auto simp: validated_def split: option.splits)

lemma guarded_cong_world:
  "ValidateNetworkIdentifier ni w = Some e \<Longrightarrow> online L \<Longrightarrow>
   guarded L ni body w = (Failure (Global e), w)"
  by (simp add: guarded_def)

end
