(* ===== verification/AccountService.thy ===== *)
theory AccountService
  imports Services
begin

text \<open>
  \<open>services/account.go\<close>: \<open>/account/balance\<close> at a height, a hash or the latest finalized
  block, and \<open>/account/coins\<close>.
\<close>

section \<open>Requests and responses\<close>

record AccountBalanceRequest =
  abr_NetworkIdentifier :: "NetworkIdentifier option"
  abr_AccountIdentifier :: string
  abr_BlockIdentifier :: "PartialBlockIdentifier option"
  abr_Currencies :: "Currency list option"

record AccountBalanceResponse =
  ab_BlockIdentifier :: BlockIdentifier
  ab_Balances :: "Amount list"
  ab_Metadata :: metadata

record AccountCoinsRequest =
  acr_NetworkIdentifier :: "NetworkIdentifier option"
  acr_AccountIdentifier :: string
  acr_Currencies :: "Currency list option"

text \<open>\<open>types.Coin\<close>: its identifier and amount.\<close>

record Coin =
  coin_Identifier :: string
  coin_Amount :: Amount

record AccountCoinsResponse =
  ac_BlockIdentifier :: BlockIdentifier
  ac_Coins :: "Coin list"
  ac_Metadata :: metadata

section \<open>The requested currencies\<close>

fun needed_loop :: "Currency list \<Rightarrow> bool \<times> bool \<Rightarrow> bool \<times> bool" where
  "needed_loop [] (needTheta, needTFuel) = (needTheta, needTFuel)"
| "needed_loop (currency # rest) (needTheta, needTFuel) =
     (if EqualFold (Symbol currency) (Symbol GetThetaCurrency) then needed_loop rest (True, needTFuel)
      else if EqualFold (Symbol currency) (Symbol GetTFuelCurrency) then needed_loop rest (needTheta, True)
      else needed_loop rest (needTheta, needTFuel))"

definition needed :: "Currency list option \<Rightarrow> bool \<times> bool" where
  "needed currencies =
     (case currencies of Some cs \<Rightarrow> needed_loop cs (False, False) | None \<Rightarrow> (True, True))"

definition balances :: "Currency list option \<Rightarrow> Coins \<Rightarrow> Amount list" where
  "balances currencies coins =
     (case needed currencies of (needTheta, needTFuel) \<Rightarrow>
        (if needTheta then [amount (big_String (ThetaWei coins)) GetThetaCurrency] else []) @
        (if needTFuel then [amount (big_String (TFuelWei coins)) GetTFuelCurrency] else []))"

section \<open>AccountBalance\<close>

text \<open>The block the balance is asked for: its height and its hash as reported.\<close>

definition balance_block ::
    "'a rpclib_scheme \<Rightarrow> PartialBlockIdentifier option \<Rightarrow> ('d, (errptr + u64 \<times> string) go) step" where
  "balance_block L bid w =
     (case bid of
        None \<Rightarrow>
          (case GetStatus L w of
             (Inl p, w1) \<Rightarrow> (Inl p, w1)
           | (Inr (Inl e), w1) \<Rightarrow> (Inr (Inl (Global ErrUnableToGetAccount)), w1)
           | (Inr (Inr status), w1) \<Rightarrow>
               (Inr (Inr (st_LatestFinalizedBlockHeight status,
                          Hash_String L (st_LatestFinalizedBlockHash status))), w1))
      | Some (Some i, Some h) \<Rightarrow> (Inr (Inr (to_u64 i, h)), w)
      | Some (Some i, None) \<Rightarrow>
          (case GetBlockIdentifierByHeight L (to_u64 i) w of
             (Inl p, w1) \<Rightarrow> (Inl p, w1)
           | (Inr (Inl e), w1) \<Rightarrow> (Inr (Inl e), w1)
           | (Inr (Inr blk), w1) \<Rightarrow> (Inr (Inr (to_u64 i, Hash_Hex L (snd blk))), w1))
      | Some (None, hash) \<Rightarrow>
          (case deref hash of
             Inl p \<Rightarrow> (Inl p, w)
           | Inr h \<Rightarrow>
              (case GetBlockIdentifierByHash L h w of
                 (Inl p, w1) \<Rightarrow> (Inl p, w1)
               | (Inr (Inl e), w1) \<Rightarrow> (Inr (Inl e), w1)
               | (Inr (Inr blk), w1) \<Rightarrow> (Inr (Inr (fst blk, h)), w1))))"

definition parse_balance ::
    "('d, 'a) servlib_scheme \<Rightarrow> BlockIdentifier \<Rightarrow> Currency list option \<Rightarrow> json \<Rightarrow>
     ('d, (string + AccountBalanceResponse) go) step" where
  "parse_balance L block currencies j w =
     (case Unmarshal_into (None, None) (unmarshal_Account L) j of
        (Some e, _) \<Rightarrow> (Inr (Inl e), w)
      | (None, account) \<Rightarrow>
         (andThen (deref account) (\<lambda>acc.
            Inr (Inr \<lparr>ab_BlockIdentifier = block,
                      ab_Balances = balances currencies (acc_Balance acc),
                      ab_Metadata = [''sequence_number'' \<mapsto> VUint64 (acc_Sequence acc)]\<rparr>)), w))"

definition AccountBalance ::
    "('d, 'a) servlib_scheme \<Rightarrow> AccountBalanceRequest \<Rightarrow> ('d, AccountBalanceResponse outcome) step" where
  "AccountBalance L req =
     guarded L (abr_NetworkIdentifier req) (\<lambda>w.
       case balance_block L (abr_BlockIdentifier req) w of
         (Inl p, w1) \<Rightarrow> (Crash p, w1)
       | (Inr (Inl e), w1) \<Rightarrow> (Failure e, w1)
       | (Inr (Inr (blockHeight, blockHash)), w1) \<Rightarrow>
          (case Call L ''theta.GetAccount''
                  (GetAccountArgs (abr_AccountIdentifier req) blockHeight False) w1 of
             (reply, w2) \<Rightarrow>
               (let block = \<lparr>bi_Index = int64 blockHeight, bi_Hash = blockHash\<rparr> in
                if not_found reply
                then (Response \<lparr>ab_BlockIdentifier = block,
                                ab_Balances = [amount ''0'' GetThetaCurrency, amount ''0'' GetTFuelCurrency],
                                ab_Metadata = Map.empty\<rparr>, w2)
                else finish ErrUnableToGetAccount
                       (HandleThetaRPCResponse L reply
                          (parse_balance L block (abr_Currencies req)) w2))))"

section \<open>AccountCoins\<close>

definition coins_of :: "Amount list \<Rightarrow> Coin list" where
  "coins_of ams = map (\<lambda>am. \<lparr>coin_Identifier = Symbol (Amount_Currency am), coin_Amount = am\<rparr>) ams"

definition parse_coins ::
    "('d, 'a) servlib_scheme \<Rightarrow> BlockIdentifier \<Rightarrow> Currency list option \<Rightarrow> json \<Rightarrow>
     ('d, (string + AccountCoinsResponse) go) step" where
  "parse_coins L block currencies j w =
     (case Unmarshal_into (None, None) (unmarshal_Account L) j of
        (_, account) \<Rightarrow>
         (andThen (deref account) (\<lambda>acc.
            Inr (Inr \<lparr>ac_BlockIdentifier = block,
                      ac_Coins = coins_of (balances currencies (acc_Balance acc)),
                      ac_Metadata = [''sequence_number'' \<mapsto> VUint64 (acc_Sequence acc)]\<rparr>)), w))"

text \<open>The error of \<open>GetStatus\<close> is not looked at; the nil status is dereferenced.\<close>

definition AccountCoins ::
    "('d, 'a) servlib_scheme \<Rightarrow> AccountCoinsRequest \<Rightarrow> ('d, AccountCoinsResponse outcome) step" where
  "AccountCoins L req =
     guarded L (acr_NetworkIdentifier req) (\<lambda>w.
       case GetStatus L w of
         (Inl p, w1) \<Rightarrow> (Crash p, w1)
       | (Inr (Inl e), w1) \<Rightarrow> (Crash NilDereference, w1)
       | (Inr (Inr status), w1) \<Rightarrow>
          (let block = \<lparr>bi_Index = int64 (st_LatestFinalizedBlockHeight status),
                        bi_Hash = Hash_String L (st_LatestFinalizedBlockHash status)\<rparr>
           in case Call L ''theta.GetAccount'' (GetAccountArgs (acr_AccountIdentifier req) 0 False) w1 of
                (reply, w2) \<Rightarrow>
                  if not_found reply
                  then (Response \<lparr>ac_BlockIdentifier = block,
                                  ac_Coins = coins_of [amount ''0'' GetThetaCurrency, amount ''0'' GetTFuelCurrency],
                                  ac_Metadata = Map.empty\<rparr>, w2)
                  else finish ErrUnableToGetAccount
                         (HandleThetaRPCResponse L reply
                            (parse_coins L block (acr_Currencies req)) w2)))"

lemmas account_handler_defs [handler_defs] = AccountBalance_def AccountCoins_def

section \<open>The endpoint interface\<close>

lemma balance_block_world:
  "snd (balance_block L None w) = snd (GetStatus L w)"
  "snd (balance_block L (Some (Some i, Some h)) w) = w"
  "snd (balance_block L (Some (Some i, None)) w) = snd (GetBlockIdentifierByHeight L (to_u64 i) w)"
  "snd (balance_block L (Some (None, Some h)) w) = snd (GetBlockIdentifierByHash L h w)"
  "snd (balance_block L (Some (None, None)) w) = w"
  by (simp_all add: balance_block_def split: prod.splits sum.splits)

lemma balance_block_quiet: "quiet w (snd (balance_block L bid w))"
proof (cases bid)
  case (Some ih)
  then show ?thesis
    by (cases ih; cases "fst ih"; cases "snd ih") (simp_all add: balance_block_world)
qed (simp add: balance_block_world)

lemma parse_balance_world [simp]: "snd (parse_balance L b cs j w) = w"
  by (simp add: parse_balance_def split: prod.splits option.splits)

lemma parse_coins_world [simp]: "snd (parse_coins L b cs j w) = w"
  by (simp add: parse_coins_def split: prod.splits)

lemma Call_then_quiet:
  "quiet w w1 \<Longrightarrow> Call L m a w1 = (reply, w2) \<Longrightarrow> quiet w w2"
  using Call_quiet [of w1 L m a] by (auto intro: quiet_trans)

lemma HandleThetaRPCResponse_same_world:
  "(\<And>j. snd (parse j w) = w) \<Longrightarrow> snd (HandleThetaRPCResponse L reply parse w) = w"
  using HandleThetaRPCResponse_world [of L reply parse w] by auto

lemma AccountBalance_quiet: "quiet w (snd (AccountBalance L req w))"
  unfolding AccountBalance_def
proof (rule guarded_quiet, goal_cases)
  case (1 w)
  obtain r w1 where b: "balance_block L (abr_BlockIdentifier req) w = (r, w1)" by fastforce
  then have "quiet w w1" by (metis balance_block_quiet snd_conv)
  then show ?case
    by (auto simp: b Let_def HandleThetaRPCResponse_same_world dest: Call_then_quiet
        split: sum.splits prod.splits)
qed

interpretation balance: online_endpoint "AccountBalance L" "online L"
  for L :: "('d, 'a) servlib_scheme"
  by unfold_locales (simp add: quiet_grows [OF AccountBalance_quiet], simp add: AccountBalance_def guarded_offline)

interpretation balance_db: quiet_endpoint "AccountBalance L" for L :: "('d, 'a) servlib_scheme"
  by unfold_locales (use AccountBalance_quiet [of _ L] in \<open>simp add: quiet_def\<close>)

lemma AccountCoins_quiet: "quiet w (snd (AccountCoins L req w))"
  unfolding AccountCoins_def
proof (rule guarded_quiet, goal_cases)
  case (1 w)
  obtain r w1 where b: "GetStatus L w = (r, w1)" by fastforce
  then have "quiet w w1" by (metis client_quiet(1) snd_conv)
  then show ?case
    by (auto simp: b Let_def HandleThetaRPCResponse_same_world dest: Call_then_quiet
        split: sum.splits prod.splits)
qed

interpretation coins: online_endpoint "AccountCoins L" "online L"
  for L :: "('d, 'a) servlib_scheme"
  by unfold_locales (simp add: quiet_grows [OF AccountCoins_quiet], simp add: AccountCoins_def guarded_offline)

interpretation coins_db: quiet_endpoint "AccountCoins L" for L :: "('d, 'a) servlib_scheme"
  by unfold_locales (use AccountCoins_quiet [of _ L] in \<open>simp add: quiet_def\<close>)

section \<open>What is answered\<close>

lemma needed_loop_eq:
  "needed_loop cs (t, f) =
     (t \<or> (\<exists>c \<in> set cs. EqualFold (Symbol c) ''THETA''),
      f \<or> (\<exists>c \<in> set cs. \<not> EqualFold (Symbol c) ''THETA'' \<and> EqualFold (Symbol c) ''TFUEL''))"
  by (induction cs arbitrary: t f) auto

lemma not_both_symbols: "\<not> (EqualFold s ''THETA'' \<and> EqualFold s ''TFUEL'')"
  by (auto simp: EqualFold_def to_lower_def)

lemma needed_Some:
  "needed (Some cs) =
     ((\<exists>c \<in> set cs. EqualFold (Symbol c) ''THETA''), (\<exists>c \<in> set cs. EqualFold (Symbol c) ''TFUEL''))"
  using not_both_symbols by (fastforce simp: needed_def needed_loop_eq)

end
