(* ===== verification/BlockService.thy ===== *)
theory BlockService
  imports Services
begin

text \<open>
  \<open>services/block.go\<close>: \<open>/block\<close> with the loop over the transactions of a block and the
  returned stakes read back from the database, and \<open>/block/transaction\<close>.
\<close>

section \<open>Requests and responses\<close>

record BlockRequest =
  br_NetworkIdentifier :: "NetworkIdentifier option"
  br_BlockIdentifier :: "PartialBlockIdentifier option"

record Block_data =
  blk_BlockIdentifier :: BlockIdentifier
  blk_ParentBlockIdentifier :: BlockIdentifier
  blk_Timestamp :: int
  blk_Transactions :: "Transaction list"
  blk_Metadata :: metadata

record BlockTransactionRequest =
  btr_NetworkIdentifier :: "NetworkIdentifier option"
  btr_TransactionIdentifier :: string

section \<open>The transactions of a block\<close>

text \<open>
  \<open>for i, txMap := range txMaps\<close>: the decoded transaction is read at the same index as the
  raw one.
\<close>

fun parse_block_txs ::
    "('d, 'a) txlib_scheme \<Rightarrow> string \<Rightarrow> u64 \<Rightarrow> Tx list \<Rightarrow> nat \<Rightarrow> json list \<Rightarrow>
     ('d, Transaction list go) step" where
  "parse_block_txs L status height txs i [] w = (Inr [], w)"
| "parse_block_txs L status height txs i (txMap # rest) w =
     (case index txs i of
        Inl p \<Rightarrow> (Inl p, w)
      | Inr t \<Rightarrow>
          (let gasUsed = (case tx_Receipt t of Some gas \<Rightarrow> gas | None \<Rightarrow> 0) in
           case ParseTx L (tx_Type t) (json_field ''raw'' txMap) (tx_Hash t) (Some status) gasUsed
                  (tx_BalanceChanges t) True height w of
             (Inl p, w1) \<Rightarrow> (Inl p, w1)
           | (Inr tx, w1) \<Rightarrow>
               (case parse_block_txs L status height txs (Suc i) rest w1 of
                  (Inl p, w2) \<Rightarrow> (Inl p, w2)
                | (Inr parsed, w2) \<Rightarrow> (Inr (tx # parsed), w2))))"

text \<open>The stakes that are returned at this height.\<close>

fun parse_returns ::
    "'a thetalib_scheme \<Rightarrow> string \<Rightarrow> ReturnStakeTx list \<Rightarrow> Transaction list go" where
  "parse_returns L status [] = Inr []"
| "parse_returns L status (tx # rest) =
     andThen (ParseReturnStakeTx L (rs_Tx tx) (Some status) WithdrawStakeTx) (\<lambda>parsed.
     andThen (parse_returns L status rest) (\<lambda>txs.
       Inr (transaction (rs_Hash tx) parsed # txs)))"

definition block_metadata :: "'a thetalib_scheme \<Rightarrow> string \<Rightarrow> GetBlockResultInner \<Rightarrow> metadata" where
  "block_metadata L status tblock =
     [''status'' \<mapsto> VString status,
      ''transactions_hash'' \<mapsto> VHash (gb_TxHash tblock),
      ''state_hash'' \<mapsto> VString (Hash_Hex L (gb_StateHash tblock)),
      ''proposer'' \<mapsto> VString (Address_Hex L (gb_Proposer tblock))]"

definition parentHeight :: "u64 \<Rightarrow> int" where
  "parentHeight height = (if height = 0 then 0 else int64 (height - 1))"

definition block_transactions ::
    "('d, 'a) txlib_scheme \<Rightarrow> string \<Rightarrow> GetBlockResultInner \<Rightarrow> json \<Rightarrow>
     ('d, Transaction list go) step" where
  "block_transactions L status tblock j =
     (case json_field ''transactions'' j of
        None \<Rightarrow> (\<lambda>w. (Inr [], w))
      | Some raw \<Rightarrow>
          parse_block_txs L status (gb_Height tblock) (gb_Txs tblock) 0 (json_elements raw))"

definition block_returns ::
    "('d, 'a) stakelib_scheme \<Rightarrow> string \<Rightarrow> u64 \<Rightarrow> 'd world \<Rightarrow> Transaction list go" where
  "block_returns L status height w =
     andThen (Store_Get (storage L) (height_key height) (db w)) (\<lambda>r.
       case r of
         Inl _ \<Rightarrow> Inr []
       | Inr returnStakeTxs \<Rightarrow> parse_returns L status (ReturnStakes returnStakeTxs))"

definition parse_block ::
    "('d, 'a) servlib_scheme \<Rightarrow> json \<Rightarrow> ('d, (string + Block_data) go) step" where
  "parse_block L j w =
     (case Unmarshal_into None (unmarshal_Block L) j of
        None \<Rightarrow> (Inr (Inl (Message (errs w ErrUnableToGetBlk))), w)
      | Some tblock \<Rightarrow>
         (case andThen (deref (gb_Timestamp tblock)) (\<lambda>t.
                 andThen (BlockStatus_String (gb_Status tblock)) (\<lambda>status. Inr (t, status))) of
            Inl p \<Rightarrow> (Inl p, w)
          | Inr (t, status) \<Rightarrow>
             (case block_transactions L status tblock j w of
                (Inl p, w1) \<Rightarrow> (Inl p, w1)
              | (Inr txs, w1) \<Rightarrow>
                 (andThen (block_returns L status (gb_Height tblock) w1) (\<lambda>returns.
                    Inr (Inr
                      \<lparr>blk_BlockIdentifier =
                         \<lparr>bi_Index = int64 (gb_Height tblock), bi_Hash = Hash_Hex L (gb_Hash tblock)\<rparr>,
                       blk_ParentBlockIdentifier =
                         \<lparr>bi_Index = parentHeight (gb_Height tblock),
                          bi_Hash = Hash_Hex L (gb_Parent tblock)\<rparr>,
                       blk_Timestamp = millis t,
                       blk_Transactions = txs @ returns,
                       blk_Metadata = block_metadata L status tblock\<rparr>)), w1))))"

section \<open>Block\<close>

text \<open>With neither an index nor a hash no call is made and the reply stays nil.\<close>

definition block_reply ::
    "'a rpclib_scheme \<Rightarrow> PartialBlockIdentifier \<Rightarrow> ('d, rpc_reply) step" where
  "block_reply L bid w =
     (case bid of
        (Some i, _) \<Rightarrow> Call L ''theta.GetBlockByHeight'' (GetBlockByHeightArgs (to_u64 i)) w
      | (None, Some h) \<Rightarrow> Call L ''theta.GetBlock'' (GetBlockArgs (HexToHash L h)) w
      | (None, None) \<Rightarrow> ((None, None), w))"

definition Block :: "('d, 'a) servlib_scheme \<Rightarrow> BlockRequest \<Rightarrow> ('d, Block_data outcome) step" where
  "Block L req =
     guarded L (br_NetworkIdentifier req) (\<lambda>w.
       case deref (br_BlockIdentifier req) of
         Inl p \<Rightarrow> (Crash p, w)
       | Inr bid \<Rightarrow>
          (case block_reply L bid w of
             (reply, w1) \<Rightarrow>
               if snd reply \<noteq> None then (Failure (Global ErrUnableToGetBlk), w1)
               else finish ErrUnableToGetBlk (HandleThetaRPCResponse L reply (parse_block L) w1)))"

section \<open>BlockTransaction\<close>

text \<open>
  The transaction of a \<open>GetTransaction\<close> answer, parsed without a database and a stake
  service. The text of the error for an absent transaction is not looked at by the caller.
\<close>

definition parse_transaction ::
    "('d, 'a) servlib_scheme \<Rightarrow> json \<Rightarrow> ('d, (string + Transaction) go) step" where
  "parse_transaction L j w =
     (let txResult = Unmarshal_into zero_transaction_result (unmarshal_Transaction L) j;
          gasUsed = (case gt_Receipt txResult of Some gas \<Rightarrow> gas | None \<Rightarrow> 0);
          status = gt_Status txResult;
          missing = (Inr (Inl (Message (errs w ErrUnableToGetBlkTx))), w)
      in case json_field ''transaction'' j of
           None \<Rightarrow> missing
         | Some rawTx \<Rightarrow>
             if ''not_found'' \<noteq> status
             then (case ParseTx L (gt_Type txResult) (Some rawTx) (gt_TxHash txResult) (Some status)
                          gasUsed (gt_BalanceChanges txResult) False 0 w of
                     (Inl p, w1) \<Rightarrow> (Inl p, w1)
                   | (Inr tx, w1) \<Rightarrow> (Inr (Inr tx), w1))
             else missing)"

definition BlockTransaction ::
    "('d, 'a) servlib_scheme \<Rightarrow> BlockTransactionRequest \<Rightarrow> ('d, Transaction outcome) step" where
  "BlockTransaction L req =
     guarded L (btr_NetworkIdentifier req) (\<lambda>w.
       case Call L ''theta.GetTransaction'' (GetTransactionArgs (btr_TransactionIdentifier req)) w of
         (reply, w1) \<Rightarrow>
           finish ErrUnableToGetBlkTx (HandleThetaRPCResponse L reply (parse_transaction L) w1))"

lemmas block_handler_defs [handler_defs] = Block_def BlockTransaction_def

section \<open>The loops\<close>

lemma parse_returns_eq:
  "parse_returns L status rs =
     Inr (map (\<lambda>tx. transaction (rs_Hash tx)
                 (projr (ParseReturnStakeTx L (rs_Tx tx) (Some status) WithdrawStakeTx))) rs)"
proof (induction rs)
  case (Cons tx rs)
  obtain r where "ParseReturnStakeTx L (rs_Tx tx) (Some status) WithdrawStakeTx = Inr r"
    using ParseReturnStakeTx_total by blast
  with Cons show ?case by simp
qed simp

lemma parse_block_txs_grows: "grows w (snd (parse_block_txs L status height txs i maps w))"
proof (induction maps arbitrary: i w)
  case (Cons m maps)
  show ?case
  proof (cases "index txs i")
    case (Inr t)
    let ?p = "ParseTx L (tx_Type t) (json_field ''raw'' m) (tx_Hash t) (Some status)
      (case tx_Receipt t of Some gas \<Rightarrow> gas | None \<Rightarrow> 0) (tx_BalanceChanges t) True height w"
    obtain r w1 where p: "?p = (r, w1)" by fastforce
    then have "grows w w1" by (metis ParseTx_grows snd_conv)
    with Cons.IH [of w1 "Suc i"] show ?thesis
      by (auto simp: Inr p Let_def intro: grows_trans split: sum.splits prod.splits)
  qed simp
qed simp

text \<open>Every listed transaction comes from its own entry, in the order of the block.\<close>

lemma parse_block_txs_length:
  "parse_block_txs L status height txs i maps w = (Inr parsed, w') \<Longrightarrow>
   length parsed = length maps \<and> (maps \<noteq> [] \<longrightarrow> i + length maps \<le> length txs)"
proof (induction maps arbitrary: i w parsed)
  case (Cons m maps)
  from Cons.prems obtain t tx w1 rest where
    t: "index txs i = Inr t" "parsed = tx # rest"
      "parse_block_txs L status height txs (Suc i) maps w1 = (Inr rest, w')"
    by (auto simp: Let_def split: sum.splits prod.splits)
  from Cons.IH [OF t(3)] t(1,2) show ?case by (cases maps) (auto simp: go_simps)
qed auto

lemma parse_block_txs_nth:
  assumes "parse_block_txs L status height txs i maps w = (Inr parsed, w')" "k < length maps"
  shows "\<exists>u u'. ParseTx L (tx_Type (txs ! (i + k))) (json_field ''raw'' (maps ! k))
            (tx_Hash (txs ! (i + k))) (Some status)
            (case tx_Receipt (txs ! (i + k)) of Some gas \<Rightarrow> gas | None \<Rightarrow> 0)
            (tx_BalanceChanges (txs ! (i + k))) True height u = (Inr (parsed ! k), u')"
  using assms
proof (induction maps arbitrary: i w parsed k)
  case (Cons m maps)
  from Cons.prems(1) obtain t tx w1 rest where
    t: "index txs i = Inr t" "parsed = tx # rest"
      "ParseTx L (tx_Type t) (json_field ''raw'' m) (tx_Hash t) (Some status)
        (case tx_Receipt t of Some gas \<Rightarrow> gas | None \<Rightarrow> 0) (tx_BalanceChanges t) True height w
        = (Inr tx, w1)"
      "parse_block_txs L status height txs (Suc i) maps w1 = (Inr rest, w')"
    by (auto simp: Let_def split: sum.splits prod.splits)
  show ?case
  proof (cases k)
    case 0
    from t(1) have "txs ! i = t" by (simp add: go_simps)
    with t(2,3) 0 show ?thesis by auto
  next
    case (Suc k')
    with Cons.IH [OF t(4), of k'] Cons.prems(2) t(2) show ?thesis by simp
  qed
qed simp

text \<open>A block without withdrawals leaves the state alone.\<close>

lemma parse_block_txs_quiet:
  "\<forall>t \<in> set txs. tx_Type t \<noteq> WithdrawStakeTx \<Longrightarrow>
   snd (parse_block_txs L status height txs i maps w) = w"
proof (induction maps arbitrary: i w)
  case (Cons m maps)
  show ?case
  proof (cases "index txs i")
    case (Inr t)
    then have "t \<in> set txs" by (auto simp: go_simps)
    with Cons.prems have "tx_Type t \<noteq> WithdrawStakeTx" by blast
    then have q: "w1 = w" if "ParseTx L (tx_Type t) raw h st gas ch sv bh w = (r, w1)" for raw h st gas ch sv bh r w1
      using ParseTx_other_world that by (metis snd_conv)
    have ih: "w2 = w" if "parse_block_txs L status height txs (Suc i) maps w = (r, w2)" for r w2
      using Cons.IH [OF Cons.prems] that by (metis snd_conv)
    show ?thesis
      by (auto simp: Inr Let_def split: sum.splits prod.splits simp del: TxType_consts dest!: q ih)
  qed simp
qed simp

section \<open>The endpoint interface\<close>

lemma block_reply_world:
  "snd (block_reply L (Some i, h) w)
     = w\<lparr>calls := calls w @ [(''theta.GetBlockByHeight'', GetBlockByHeightArgs (to_u64 i))]\<rparr>"
  "snd (block_reply L (None, Some s) w)
     = w\<lparr>calls := calls w @ [(''theta.GetBlock'', GetBlockArgs (HexToHash L s))]\<rparr>"
  "snd (block_reply L (None, None) w) = w"
  by (simp_all add: block_reply_def Call_def)

lemma block_reply_grows: "grows w (snd (block_reply L bid w))"
  by (cases bid; cases "fst bid"; cases "snd bid") (simp_all add: block_reply_world)

lemma block_transactions_grows: "grows w (snd (block_transactions L status tblock j w))"
  by (simp add: block_transactions_def parse_block_txs_grows split: option.splits)

lemma parse_block_grows: "grows w (snd (parse_block L j w))"
proof (cases "Unmarshal_into None (unmarshal_Block L) j")
  case (Some tblock)
  have "grows w (snd (block_transactions L status tblock j w))" for status
    by (rule block_transactions_grows)
  then show ?thesis
    by (auto simp: parse_block_def Some split: sum.splits prod.splits) (metis snd_conv)+
qed (simp add: parse_block_def)

text \<open>Without a database nothing is written and no stake is asked for.\<close>

lemma ParseTx_no_services:
  "snd (ParseTx L ty raw h st gas changes False bh w) = w"
  by (cases "ty = WithdrawStakeTx")
    (simp_all add: ParseTx_def record_withdrawal_nil split: sum.splits del: TxType_consts)

lemma parse_transaction_world [simp]: "snd (parse_transaction L j w) = w"
  unfolding parse_transaction_def Let_def
  by (auto split: option.splits prod.splits sum.splits) (metis ParseTx_no_services snd_conv)+

lemma transaction_handle_world [simp]:
  "snd (HandleThetaRPCResponse L reply (parse_transaction L') w) = w"
  using HandleThetaRPCResponse_world [of L reply "parse_transaction L'" w] by auto

text \<open>A call, then the answer handled by a parser.\<close>

lemma call_handle_grows:
  assumes "\<And>j w. grows w (snd (parse j w))" "grows w w1"
  shows "grows w (snd (HandleThetaRPCResponse L reply parse w1))"
  using assms(2) HandleThetaRPCResponse_grows [of w1 parse L reply] assms(1)
  by (auto intro: grows_trans)

lemma block_handle_grows:
  "grows w w1 \<Longrightarrow> grows w (snd (HandleThetaRPCResponse L reply (parse_block L') w1))"
  by (rule call_handle_grows [OF parse_block_grows])

interpretation block: online_endpoint "Block L" "online L"
  for L :: "('d, 'a) servlib_scheme"
proof unfold_locales
  fix req :: BlockRequest and w :: "'d world"
  show "grows w (snd (Block L req w))"
    unfolding Block_def
  proof (rule guarded_grows, goal_cases)
    case (1 w)
    show ?case
    proof (cases "br_BlockIdentifier req")
      case (Some bid)
      obtain reply w1 where b: "block_reply L bid w = (reply, w1)" by fastforce
      then have "grows w w1" by (metis block_reply_grows snd_conv)
      then show ?thesis
        by (simp add: Some b block_handle_grows)
    qed simp
  qed
  show "\<not> online L \<Longrightarrow> Block L req w = (Failure (Global ErrUnavailableOffline), w)"
    by (simp add: Block_def guarded_offline)
qed

lemma BlockTransaction_quiet: "quiet w (snd (BlockTransaction L req w))"
  unfolding BlockTransaction_def by (rule guarded_quiet) (simp add: Call_def)

interpretation block_transaction: online_endpoint "BlockTransaction L" "online L"
  for L :: "('d, 'a) servlib_scheme"
  by unfold_locales
    (simp add: quiet_grows [OF BlockTransaction_quiet], simp add: BlockTransaction_def guarded_offline)

interpretation block_transaction_db: quiet_endpoint "BlockTransaction L"
  for L :: "('d, 'a) servlib_scheme"
  by unfold_locales (use BlockTransaction_quiet [of _ L] in \<open>simp add: quiet_def\<close>)

end
