(* ===== verification/Returns.thy ===== *)
theory Returns
  imports BlockService
begin

text \<open>
  The life of a withdrawn stake across requests: a block that contains the withdrawal
  records its return, nothing that is recorded gets lost, and the block at the height of the
  return lists it. LevelDB and RLP obey their documented laws; any write may fail.
\<close>

section \<open>The database only grows\<close>

definition db_ok :: "'d storelib \<Rightarrow> bool" where
  "db_ok D \<longleftrightarrow> (\<exists>reread. store_laws D reread)"

definition recorded :: "'d storelib \<Rightarrow> byte list \<Rightarrow> 'd world \<Rightarrow> string list" where
  "recorded D key w =
     (case db w of None \<Rightarrow> [] | Some d \<Rightarrow> hashes (returns_at D key d))"

definition db_grows :: "'d storelib \<Rightarrow> 'd world \<Rightarrow> 'd world \<Rightarrow> bool" where
  "db_grows D w w' \<longleftrightarrow>
     (db w = None \<longleftrightarrow> db w' = None) \<and> (\<forall>key. prefix (recorded D key w) (recorded D key w'))"

lemma db_grows_refl [simp, intro]: "db_grows D w w"
  by (simp add: db_grows_def)

lemma db_grows_trans [trans]: "db_grows D w w' \<Longrightarrow> db_grows D w' w'' \<Longrightarrow> db_grows D w w''"
  unfolding db_grows_def by (metis prefix_order.trans)

lemma recorded_cong: "db w = db w' \<Longrightarrow> recorded D key w = recorded D key w'"
  by (simp add: recorded_def)

lemma same_db_grows: "db w' = db w \<Longrightarrow> db_grows D w w'"
  by (simp add: db_grows_def recorded_cong [of w' w])

section \<open>Recording a return\<close>

text \<open>
  A write that succeeds leaves the hash in the entry, a write that fails may have left it
  there or not; the other entries keep their hashes.
\<close>

lemma record_return_stake_outcome:
  assumes "db_ok D" "record_return_stake D key rtx (Some d) = (r, dbo)"
  obtains d' where "dbo = Some d'"
    "hashes (returns_at D key d') =
       (if rs_Hash rtx \<in> set (hashes (returns_at D key d)) then hashes (returns_at D key d)
        else hashes (returns_at D key d) @ [rs_Hash rtx]) \<or>
     r \<noteq> Inr None \<and> hashes (returns_at D key d') = hashes (returns_at D key d)"
    "\<And>k. k \<noteq> key \<Longrightarrow> hashes (returns_at D k d') = hashes (returns_at D k d)"
proof -
  from assms(1) obtain reread where laws: "store_laws D reread" by (auto simp: db_ok_def)
  let ?v = "add_return_stake rtx (returns_at D key d)"
  let ?p = "KVStore_Put D key ?v d"
  have rec: "dbo = Some (snd ?p)" "r = Inr (fst ?p)"
    using assms(2) by (auto simp: record_return_stake_eq)
  have "returns_at D k (snd ?p) = returns_at D k d" if "k \<noteq> key" for k
    by (simp add: returns_at_def kv.get_put_other [OF laws that])
  moreover have "hashes (returns_at D key (snd ?p)) = hashes ?v \<or>
      r \<noteq> Inr None \<and> hashes (returns_at D key (snd ?p)) = hashes (returns_at D key d)"
    using kv.get_put_any [OF laws, where s = d and k = key and v = ?v] reread_hashes [OF laws, of ?v]
    by (auto simp: returns_at_def rec)
  ultimately show ?thesis
    using that [OF rec(1)] by (simp add: add_return_stake_hashes)
qed

lemma record_return_stake_recorded:
  assumes "db_ok D" "record_return_stake D key rtx (Some d) = (Inr None, dbo)"
  obtains d' where "dbo = Some d'"
    "hashes (returns_at D key d') =
       (if rs_Hash rtx \<in> set (hashes (returns_at D key d)) then hashes (returns_at D key d)
        else hashes (returns_at D key d) @ [rs_Hash rtx])"
    "\<And>k. k \<noteq> key \<Longrightarrow> hashes (returns_at D k d') = hashes (returns_at D k d)"
  using record_return_stake_outcome [OF assms] that by (metis (no_types, lifting))

lemma record_withdrawal_db_grows:
  assumes "db_ok (storage L)"
  shows "db_grows (storage L) w (snd (record_withdrawal L tx h s bh w))"
proof (cases "s \<and> db w \<noteq> None")
  case True
  then obtain d where d: "db w = Some d" by auto
  obtain r w1 where g: "GetStakeForTx L tx bh w = (r, w1)" by fastforce
  then have db1: "db w1 = Some d" using GetStakeForTx_db [of L tx bh w] d by simp
  have step: "db_grows (storage L) w (w1\<lparr>db := dbo\<rparr>)"
    if rec: "record_return_stake (storage L) key rtx (Some d) = (q, dbo)" for key rtx q dbo
  proof -
    from record_return_stake_outcome [OF assms rec] obtain d' where d':
      "dbo = Some d'"
      "prefix (hashes (returns_at (storage L) key d)) (hashes (returns_at (storage L) key d'))"
      "\<And>k. k \<noteq> key \<Longrightarrow> hashes (returns_at (storage L) k d') = hashes (returns_at (storage L) k d)"
      by (metis prefix_order.refl prefixI)
    have "prefix (hashes (returns_at (storage L) k d)) (hashes (returns_at (storage L) k d'))" for k
      using d'(2,3) by (cases "k = key") simp_all
    then show ?thesis by (simp add: db_grows_def recorded_def d d'(1))
  qed
  show ?thesis
    using True by (auto simp: record_withdrawal_def g db1 d Let_def intro: same_db_grows step
        split: sum.splits option.splits prod.splits)
qed (auto simp: record_withdrawal_def)

lemma ParseTx_db_grows:
  assumes "db_ok (storage L)"
  shows "db_grows (storage L) w (snd (ParseTx L ty raw h st gas changes s bh w))"
proof (cases "ty = WithdrawStakeTx")
  case True
  obtain r w1 where r: "record_withdrawal L (unmarshal_WithdrawStakeTx L raw) h s bh w = (r, w1)"
    by fastforce
  then have "db_grows (storage L) w w1"
    using record_withdrawal_db_grows [OF assms] by (metis snd_conv)
  moreover have "snd (ParseTx L ty raw h st gas changes s bh w) \<in> {w, w1}"
    by (cases r; cases "parse_by_type L ty raw st gas changes")
      (simp_all add: ParseTx_def r True del: TxType_consts)
  ultimately show ?thesis by auto
qed (simp add: ParseTx_other_world)

lemma parse_block_txs_db_grows:
  assumes "db_ok (storage L)"
  shows "db_grows (storage L) w (snd (parse_block_txs L status height txs i maps w))"
proof (induction maps arbitrary: i w)
  case (Cons m maps)
  show ?case
  proof (cases "index txs i")
    case (Inr t)
    let ?p = "ParseTx L (tx_Type t) (json_field ''raw'' m) (tx_Hash t) (Some status)
      (case tx_Receipt t of Some gas \<Rightarrow> gas | None \<Rightarrow> 0) (tx_BalanceChanges t) True height w"
    obtain r w1 where p: "?p = (r, w1)" by fastforce
    then have "db_grows (storage L) w w1" by (metis ParseTx_db_grows [OF assms] snd_conv)
    with Cons.IH [of w1 "Suc i"] show ?thesis
      by (auto simp: Inr p Let_def intro: db_grows_trans split: sum.splits prod.splits)
  qed simp
qed simp

text \<open>A withdrawal that is parsed leaves its hash at the height of the return.\<close>

lemma ParseTx_withdrawal_recorded:
  assumes "db_ok (storage L)"
    and "ParseTx L WithdrawStakeTx raw h st gas changes s bh w = (Inr tx, w')"
  shows "Hash_Hex L h \<in> set (recorded (storage L) (height_key (bh + ReturnLockingPeriod L)) w')"
proof -
  from assms(2) obtain u where
    "record_withdrawal L (unmarshal_WithdrawStakeTx L raw) h s bh w = (Inr u, w')"
    by (auto simp: ParseTx_def split: sum.splits prod.splits)
  then obtain stk d w1 dbo where r:
    "record_return_stake (storage L) (height_key (bh + ReturnLockingPeriod L))
       \<lparr>rs_Hash = Hash_Hex L h, rs_Tx = withdrawn_tx L (unmarshal_WithdrawStakeTx L raw) stk\<rparr>
       (Some d) = (Inr None, dbo)" "w' = w1\<lparr>db := dbo\<rparr>"
    by (metis record_withdrawal_Inr)
  show ?thesis
  proof (rule record_return_stake_recorded [OF assms(1) r(1)], goal_cases)
    case (1 d')
    from 1(2) have "Hash_Hex L h
        \<in> set (hashes (returns_at (storage L) (height_key (bh + ReturnLockingPeriod L)) d'))"
      by (simp split: if_splits)
    with 1(1) show ?case by (simp add: recorded_def r(2))
  qed
qed

lemma recorded_mono:
  "db_grows D w w' \<Longrightarrow> x \<in> set (recorded D key w) \<Longrightarrow> x \<in> set (recorded D key w')"
  unfolding db_grows_def by (meson set_mono_prefix subsetD)

lemma parse_block_txs_withdrawals_recorded:
  assumes "db_ok (storage L)"
  shows "parse_block_txs L status height txs i maps w = (Inr parsed, w') \<Longrightarrow>
    k < length maps \<Longrightarrow> tx_Type (txs ! (i + k)) = WithdrawStakeTx \<Longrightarrow>
    Hash_Hex L (tx_Hash (txs ! (i + k)))
      \<in> set (recorded (storage L) (height_key (height + ReturnLockingPeriod L)) w')"
proof (induction maps arbitrary: i w parsed k)
  case (Cons m maps)
  from Cons.prems(1) obtain t tx w1 rest where
    t: "index txs i = Inr t" "parsed = tx # rest"
      "ParseTx L (tx_Type t) (json_field ''raw'' m) (tx_Hash t) (Some status)
        (case tx_Receipt t of Some gas \<Rightarrow> gas | None \<Rightarrow> 0) (tx_BalanceChanges t) True height w
        = (Inr tx, w1)"
      "parse_block_txs L status height txs (Suc i) maps w1 = (Inr rest, w')"
    by (auto simp: Let_def split: sum.splits prod.splits)
  show ?case
  proof (cases k)
    case 0
    from t(1) have ti: "txs ! i = t" by (simp add: go_simps)
    with Cons.prems(3) 0 have "tx_Type t = WithdrawStakeTx" by simp
    from ParseTx_withdrawal_recorded [OF assms t(3) [unfolded this]]
    have "Hash_Hex L (tx_Hash t)
      \<in> set (recorded (storage L) (height_key (height + ReturnLockingPeriod L)) w1)" .
    moreover have "db_grows (storage L) w1 w'"
      using parse_block_txs_db_grows [OF assms] t(4) by (metis snd_conv)
    ultimately show ?thesis using ti 0 by (auto intro: recorded_mono)
  next
    case (Suc k')
    with Cons.IH [OF t(4), of k'] Cons.prems(2,3) show ?thesis by simp
  qed
qed simp

section \<open>Blocks\<close>

lemma parse_block_db_grows:
  assumes "db_ok (storage L)"
  shows "db_grows (storage L) w (snd (parse_block L j w))"
proof (cases "Unmarshal_into None (unmarshal_Block L) j")
  case (Some tblock)
  have "db_grows (storage L) w (snd (block_transactions L status tblock j w))" for status
    by (simp add: block_transactions_def parse_block_txs_db_grows [OF assms] split: option.splits)
  then show ?thesis
    by (auto simp: parse_block_def Some split: sum.splits prod.splits) (metis snd_conv)+
qed (simp add: parse_block_def)

lemma Block_db_grows:
  assumes "db_ok (storage L)"
  shows "db_grows (storage L) w (snd (Block L req w))"
proof -
  have body: "db_grows (storage L) w (snd (HandleThetaRPCResponse L reply (parse_block L) w))" for reply and w :: "'a world"
    using HandleThetaRPCResponse_world [of L reply "parse_block L" w]
    by (auto simp: parse_block_db_grows [OF assms])
  have same: "db (snd (block_reply L bid w)) = db w" for bid and w :: "'a world"
    by (cases bid; cases "fst bid"; cases "snd bid") (simp_all add: block_reply_world)
  have "db_grows (storage L) w (snd (HandleThetaRPCResponse L reply (parse_block L) w1))"
    if "block_reply L bid w = (reply, w1)" for bid reply w1
    using db_grows_trans [OF same_db_grows body] same [of bid w] that by simp
  then show ?thesis
    using same [of _ w]
    by (auto simp: Block_def guarded_def split: option.splits sum.splits prod.splits
        intro: same_db_grows) (metis same_db_grows snd_conv)+
qed

text \<open>What a block answer consists of.\<close>

lemma Block_Response:
  assumes "Block L req w = (Response b, w')"
  obtains j tblock status txs w1 where
    "Unmarshal_into None (unmarshal_Block L) j = Some tblock"
    "BlockStatus_String (gb_Status tblock) = Inr status"
    "grows w w1" "db w1 = db w"
    "block_transactions L status tblock j w1 = (Inr txs, w')"
    "\<exists>returns. block_returns L status (gb_Height tblock) w' = Inr returns \<and>
       blk_Transactions b = txs @ returns"
    "blk_BlockIdentifier b = \<lparr>bi_Index = int64 (gb_Height tblock), bi_Hash = Hash_Hex L (gb_Hash tblock)\<rparr>"
    "\<exists>t. gb_Timestamp tblock = Some t \<and> blk_Timestamp b = millis t"
proof -
  from assms obtain bid reply w1 where r: "br_BlockIdentifier req = Some bid"
    "block_reply L bid w = (reply, w1)"
    "HandleThetaRPCResponse L reply (parse_block L) w1 = (Inr (Inr b), w')"
    by (auto simp: Block_def guarded_Response finish_Response go_simps
        split: sum.splits prod.splits if_splits)
  from HandleThetaRPCResponse_Inr [OF r(3)] obtain res :: RPCResponse where
    p: "parse_block L (Result res) w1 = (Inr (Inr b), w')"
    by blast
  have g: "grows w w1" using r(2) by (metis block_reply_grows snd_conv)
  have d: "db w1 = db w"
    using r(2)
    by (cases bid; cases "fst bid"; cases "snd bid") (auto simp: block_reply_def Call_def)
  from p show ?thesis
    by (auto simp: parse_block_def go_simps intro!: that [OF _ _ g d]
        split: option.splits sum.splits prod.splits)
qed

end
