(* ===== verification/MempoolService.thy ===== *)
theory MempoolService
  imports BlockService
begin

text \<open>\<open>services/mempool.go\<close>: \<open>/mempool\<close> and \<open>/mempool/transaction\<close>.\<close>

definition parse_pending :: "json \<Rightarrow> ('d, (string + string list) go) step" where
  "parse_pending j w = (Inr (Inr (unmarshal_strings_field ''tx_hashes'' j)), w)"

definition Mempool ::
    "('d, 'a) servlib_scheme \<Rightarrow> NetworkIdentifier option \<Rightarrow> ('d, string list outcome) step" where
  "Mempool L ni =
     guarded L ni (\<lambda>w.
       case Call L ''theta.GetPendingTransactions'' GetPendingTransactionsArgs w of
         (reply, w1) \<Rightarrow>
           finish ErrUnableToGetMemPool (HandleThetaRPCResponse L reply parse_pending w1))"

text \<open>
  \<open>parse\<close> of \<open>MempoolTransaction\<close>, which the code writes out again for this endpoint: the gas is
  read first, the status only for a transaction that is present.
\<close>

definition parse_mempool_transaction ::
    "('d, 'a) servlib_scheme \<Rightarrow> json \<Rightarrow> ('d, (string + Transaction) go) step" where
  "parse_mempool_transaction L j w =
     (let txResult = Unmarshal_into zero_transaction_result (unmarshal_Transaction L) j;
          gasUsed = (if gt_Receipt txResult \<noteq> None then the (gt_Receipt txResult) else 0);
          found =
            (case json_field ''transaction'' j of
               None \<Rightarrow> (Inr None, w)
             | Some rawTx \<Rightarrow>
                 (let status = gt_Status txResult in
                  if ''not_found'' \<noteq> status
                  then (case ParseTx L (gt_Type txResult) (Some rawTx) (gt_TxHash txResult) (Some status)
                               gasUsed (gt_BalanceChanges txResult) False 0 w of
                          (Inl p, w1) \<Rightarrow> (Inl p, w1)
                        | (Inr tx, w1) \<Rightarrow> (Inr (Some tx), w1))
                  else (Inr None, w)))
      in case found of
           (Inl p, w1) \<Rightarrow> (Inl p, w1)
         | (Inr None, w1) \<Rightarrow> (Inr (Inl (Message (errs w1 ErrUnableToGetBlkTx))), w1)
         | (Inr (Some tx), w1) \<Rightarrow> (Inr (Inr tx), w1))"

text \<open>No check that the server is online.\<close>

definition MempoolTransaction ::
    "('d, 'a) servlib_scheme \<Rightarrow> NetworkIdentifier option \<Rightarrow> string \<Rightarrow>
     ('d, Transaction outcome) step" where
  "MempoolTransaction L ni hash =
     validated ni (\<lambda>w.
       case Call L ''theta.GetTransaction'' (GetTransactionArgs hash) w of
         (reply, w1) \<Rightarrow>
           finish ErrUnableToGetBlkTx (HandleThetaRPCResponse L reply (parse_mempool_transaction L) w1))"

lemmas mempool_handler_defs [handler_defs] = Mempool_def MempoolTransaction_def

lemma pending_handle_world [simp]:
  "snd (HandleThetaRPCResponse L reply parse_pending w) = w"
  using HandleThetaRPCResponse_world [of L reply parse_pending w] by (auto simp: parse_pending_def)

text \<open>The two copies do the same.\<close>

lemma found_case:
  "(case (case p of (Inl q, w1) \<Rightarrow> (Inl q, w1) | (Inr tx, w1) \<Rightarrow> (Inr (Some tx), w1)) of
      (Inl q, w1) \<Rightarrow> (Inl q, w1)
    | (Inr None, w1) \<Rightarrow> absent w1
    | (Inr (Some tx), w1) \<Rightarrow> (Inr (Inr tx), w1))
   = (case p of (Inl q, w1) \<Rightarrow> (Inl q, w1) | (Inr tx, w1) \<Rightarrow> (Inr (Inr tx), w1))"
  by (cases p) (simp split: sum.split)

lemma parse_mempool_transaction_eq: "parse_mempool_transaction L j w = parse_transaction L j w"
proof (cases "json_field ''transaction'' j")
  case (Some rawTx)
  then show ?thesis
    by (cases "gt_Receipt (Unmarshal_into zero_transaction_result (unmarshal_Transaction L) j)")
      (simp_all add: parse_mempool_transaction_def parse_transaction_def Let_def found_case)
qed (simp add: parse_mempool_transaction_def parse_transaction_def Let_def)

lemma parse_mempool_transaction_world [simp]: "snd (parse_mempool_transaction L j w) = w"
  by (simp add: parse_mempool_transaction_eq)

lemma mempool_transaction_handle_world [simp]:
  "snd (HandleThetaRPCResponse L reply (parse_mempool_transaction L') w) = w"
  using HandleThetaRPCResponse_world [of L reply "parse_mempool_transaction L'" w] by auto

lemma Mempool_quiet: "quiet w (snd (Mempool L ni w))"
  unfolding Mempool_def by (rule guarded_quiet) (simp add: Call_def)

lemma MempoolTransaction_quiet: "quiet w (snd (MempoolTransaction L ni hash w))"
  unfolding MempoolTransaction_def by (rule validated_quiet) (simp add: Call_def)

interpretation mempool: online_endpoint "Mempool L" "online L"
  for L :: "('d, 'a) servlib_scheme"
  by unfold_locales (simp add: quiet_grows [OF Mempool_quiet], simp add: Mempool_def guarded_offline)

interpretation mempool_db: quiet_endpoint "Mempool L" for L :: "('d, 'a) servlib_scheme"
  by unfold_locales (use Mempool_quiet [of _ L] in \<open>simp add: quiet_def\<close>)

interpretation mempool_transaction: quiet_endpoint "\<lambda>(ni, hash). MempoolTransaction L ni hash"
  for L :: "('d, 'a) servlib_scheme"
  by unfold_locales (use MempoolTransaction_quiet [of _ L] in \<open>auto simp: quiet_def\<close>)

text \<open>In offline mode too, a request that names the network makes a call to the node.\<close>

lemma MempoolTransaction_world:
  "ValidateNetworkIdentifier ni w = None \<Longrightarrow>
   snd (MempoolTransaction L ni hash w)
     = w\<lparr>calls := calls w @ [(''theta.GetTransaction'', GetTransactionArgs hash)]\<rparr>"
  by (simp add: MempoolTransaction_def validated_def Call_def)

end
