(* ===== verification/NetworkService.thy ===== *)
theory NetworkService
  imports Services
begin

text \<open>\<open>services/network.go\<close>: \<open>/network/list\<close>, \<open>/network/status\<close>, \<open>/network/options\<close>.\<close>

section \<open>Requests and responses\<close>

record NetworkRequest =
  nr_NetworkIdentifier :: "NetworkIdentifier option"
  nr_Metadata :: "metadata option"

record SyncStatus =
  ss_CurrentIndex :: int
  ss_TargetIndex :: int
  ss_Synced :: bool

record NetworkStatusResponse =
  ns_CurrentBlockIdentifier :: BlockIdentifier
  ns_CurrentBlockTimestamp :: int
  ns_GenesisBlockIdentifier :: BlockIdentifier
  ns_OldestBlockIdentifier :: BlockIdentifier
  ns_SyncStatus :: SyncStatus
  ns_Peers :: "string list"

record OperationStatus =
  os_Status :: string
  os_Successful :: bool

record NetworkOptionsResponse =
  no_RosettaVersion :: string
  no_NodeVersion :: string
  no_OperationStatuses :: "OperationStatus list"
  no_OperationTypes :: "string list"
  no_Errors :: "rosetta_error list"
  no_HistoricalBalanceLookup :: bool
  no_MempoolCoins :: bool

section \<open>NetworkList\<close>

definition NetworkList :: "'q \<Rightarrow> ('d, NetworkIdentifier list outcome) step" where
  "NetworkList req w =
     (Response [\<lparr>Blockchain = ''theta'', SubNetworkIdentifier = None, Network = GetChainId w\<rparr>], w)"

section \<open>NetworkStatus\<close>

text \<open>The response's \<open>Error\<close> field is not looked at here either.\<close>

definition GetPeers :: "'a rpclib_scheme \<Rightarrow> bool \<Rightarrow> ('d, (string + string list) go) step" where
  "GetPeers L skipEdgeNode w =
     (case Call L ''theta.GetPeers'' (GetPeersArgs skipEdgeNode) w of ((rpcRes, rpcErr), w1) \<Rightarrow>
        (case rpcErr of
           Some e \<Rightarrow> (Inr (Inl e), w1)
         | None \<Rightarrow>
            (case rpcRes of
               None \<Rightarrow> (Inl NilDereference, w1)
             | Some res \<Rightarrow>
                (case MarshalIndent (Result res) of
                   Inl e \<Rightarrow> (Inr (Inl (''failed to parse theta RPC response: '' @ e)), w1)
                 | Inr jsonBytes \<Rightarrow> (Inr (Inr (unmarshal_strings_field ''peers'' jsonBytes)), w1)))))"

text \<open>A \<open>skip_edge_node\<close> that is no bool fails the type assertion.\<close>

definition skip_edge_node :: "metadata option \<Rightarrow> bool go" where
  "skip_edge_node md =
     (case md of
        None \<Rightarrow> Inr True
      | Some m \<Rightarrow>
         (case m ''skip_edge_node'' of
            None \<Rightarrow> Inr True
          | Some (VBool b) \<Rightarrow> Inr b
          | Some _ \<Rightarrow> Inl FailedTypeAssertion))"

definition network_status_response ::
    "'a thetalib_scheme \<Rightarrow> GetStatusResult \<Rightarrow> string list \<Rightarrow> NetworkStatusResponse go" where
  "network_status_response L status peers =
     andThen (deref (st_LatestFinalizedBlockTime status)) (\<lambda>t.
       Inr \<lparr>ns_CurrentBlockIdentifier =
              \<lparr>bi_Index = int64 (st_LatestFinalizedBlockHeight status),
               bi_Hash = Hash_Hex L (st_LatestFinalizedBlockHash status)\<rparr>,
            ns_CurrentBlockTimestamp = millis t,
            ns_GenesisBlockIdentifier =
              \<lparr>bi_Index = 0, bi_Hash = Hash_Hex L (st_GenesisBlockHash status)\<rparr>,
            ns_OldestBlockIdentifier =
              \<lparr>bi_Index = int64 (st_SnapshotBlockHeight status),
               bi_Hash = Hash_Hex L (st_SnapshotBlockHash status)\<rparr>,
            ns_SyncStatus =
              \<lparr>ss_CurrentIndex = int64 (st_LatestFinalizedBlockHeight status),
               ss_TargetIndex = int64 (st_CurrentHeight status),
               ss_Synced = (\<not> st_Syncing status)\<rparr>,
            ns_Peers = peers\<rparr>)"

fun returned :: "'r go \<times> 'd world \<Rightarrow> 'r outcome \<times> 'd world" where
  "returned (Inl p, w) = (Crash p, w)"
| "returned (Inr r, w) = (Response r, w)"

lemma returned_world [simp]: "snd (returned rw) = snd rw"
  by (cases rw rule: returned.cases) auto

lemma returned_Response: "returned rw = (Response r, w) \<longleftrightarrow> rw = (Inr r, w)"
  by (cases rw rule: returned.cases) auto

definition NetworkStatus ::
    "('d, 'a) servlib_scheme \<Rightarrow> NetworkRequest \<Rightarrow> ('d, NetworkStatusResponse outcome) step" where
  "NetworkStatus L req =
     guarded L (nr_NetworkIdentifier req) (\<lambda>w.
       case GetStatus L w of
         (Inl p, w1) \<Rightarrow> (Crash p, w1)
       | (Inr (Inl e), w1) \<Rightarrow> (Failure (Global ErrUnableToGetNodeStatus), w1)
       | (Inr (Inr status), w1) \<Rightarrow>
          (case skip_edge_node (nr_Metadata req) of
             Inl p \<Rightarrow> (Crash p, w1)
           | Inr skipEdgeNode \<Rightarrow>
              (case GetPeers L skipEdgeNode w1 of
                 (Inl p, w2) \<Rightarrow> (Crash p, w2)
               | (Inr (Inl e), w2) \<Rightarrow> (Failure (Global ErrUnableToGetNodeStatus), w2)
               | (Inr (Inr peers), w2) \<Rightarrow>
                   returned (network_status_response L status peers, w2))))"

section \<open>NetworkOptions\<close>

definition operation_statuses :: "OperationStatus list go" where
  "operation_statuses =
     andThen (BlockStatus_String BlockStatusPending) (\<lambda>pending.
     andThen (BlockStatus_String BlockStatusValid) (\<lambda>valid.
     andThen (BlockStatus_String BlockStatusInvalid) (\<lambda>invalid.
     andThen (BlockStatus_String BlockStatusCommitted) (\<lambda>committed.
     andThen (BlockStatus_String BlockStatusDirectlyFinalized) (\<lambda>directly.
     andThen (BlockStatus_String BlockStatusIndirectlyFinalized) (\<lambda>indirectly.
     andThen (BlockStatus_String BlockStatusTrusted) (\<lambda>trusted.
     andThen (BlockStatus_String BlockStatusDisposed) (\<lambda>disposed.
       Inr [\<lparr>os_Status = pending, os_Successful = False\<rparr>,
            \<lparr>os_Status = valid, os_Successful = True\<rparr>,
            \<lparr>os_Status = invalid, os_Successful = False\<rparr>,
            \<lparr>os_Status = committed, os_Successful = True\<rparr>,
            \<lparr>os_Status = directly, os_Successful = True\<rparr>,
            \<lparr>os_Status = indirectly, os_Successful = True\<rparr>,
            \<lparr>os_Status = trusted, os_Successful = True\<rparr>,
            \<lparr>os_Status = disposed, os_Successful = True\<rparr>]))))))))"

definition NetworkOptions ::
    "('d, 'a) servlib_scheme \<Rightarrow> NetworkRequest \<Rightarrow> ('d, NetworkOptionsResponse outcome) step" where
  "NetworkOptions L req =
     validated (nr_NetworkIdentifier req) (\<lambda>w.
       returned
         (andThen operation_statuses (\<lambda>statuses.
            Inr \<lparr>no_RosettaVersion = viper_GetString L CfgRosettaVersion,
                 no_NodeVersion = node_version L,
                 no_OperationStatuses = statuses,
                 no_OperationTypes = TxOpTypes,
                 no_Errors = map (errs w) ErrorList,
                 no_HistoricalBalanceLookup = True,
                 no_MempoolCoins = True\<rparr>), w))"

lemmas network_handler_defs [handler_defs] = NetworkList_def NetworkStatus_def NetworkOptions_def

section \<open>The endpoint interface\<close>

lemma GetPeers_world:
  "snd (GetPeers L skip w) = w\<lparr>calls := calls w @ [(''theta.GetPeers'', GetPeersArgs skip)]\<rparr>"
  by (simp add: GetPeers_def Call_def MarshalIndent_def split: prod.splits option.splits)

lemma NetworkStatus_world:
  "snd (NetworkStatus L req w) \<in>
     {w, w\<lparr>calls := calls w @ [(''theta.GetStatus'', GetStatusArgs)]\<rparr>} \<union>
     range (\<lambda>skip. w\<lparr>calls := calls w @
        [(''theta.GetStatus'', GetStatusArgs), (''theta.GetPeers'', GetPeersArgs skip)]\<rparr>)"
proof -
  obtain r w1 where s: "GetStatus L w = (r, w1)" by fastforce
  have w1: "w1 = w\<lparr>calls := calls w @ [(''theta.GetStatus'', GetStatusArgs)]\<rparr>"
    using GetStatus_world [of L w] s by simp
  have p: "snd (GetPeers L skip w1) = w\<lparr>calls := calls w @
      [(''theta.GetStatus'', GetStatusArgs), (''theta.GetPeers'', GetPeersArgs skip)]\<rparr>" for skip
    by (simp add: GetPeers_world w1)
  have "snd (case GetPeers L skip w1 of
                 (Inl p, w2) \<Rightarrow> (Crash p, w2)
               | (Inr (Inl e), w2) \<Rightarrow> (Failure (Global ErrUnableToGetNodeStatus), w2)
               | (Inr (Inr peers), w2) \<Rightarrow>
                   returned (network_status_response L status peers, w2)) = snd (GetPeers L skip w1)"
    for skip status by (simp split: prod.splits sum.splits)
  with p show ?thesis
    by (auto simp: NetworkStatus_def guarded_def s w1 split: option.splits sum.splits)
qed

interpretation network_status: online_endpoint "NetworkStatus L" "online L"
  for L :: "('d, 'a) servlib_scheme"
proof unfold_locales
  fix req and w :: "'d world"
  show "grows w (snd (NetworkStatus L req w))"
    using NetworkStatus_world [of L req w] by auto
qed (simp add: NetworkStatus_def guarded_offline)

interpretation network_status_db: quiet_endpoint "NetworkStatus L"
  for L :: "('d, 'a) servlib_scheme"
proof unfold_locales
  fix req and w :: "'d world"
  show "db (snd (NetworkStatus L req w)) = db w"
    using NetworkStatus_world [of L req w] by auto
qed

interpretation network_list: offline_endpoint NetworkList
  by unfold_locales (simp_all add: NetworkList_def)

lemma NetworkOptions_world [simp]: "snd (NetworkOptions L req w) = w"
  by (simp add: NetworkOptions_def validated_def split: option.splits)

interpretation network_options: offline_endpoint "NetworkOptions L"
  for L :: "('d, 'a) servlib_scheme"
  by unfold_locales simp_all

lemma operation_statuses_eq:
  "operation_statuses =
     Inr (map (\<lambda>s. \<lparr>os_Status = s, os_Successful = (s \<notin> {''pending'', ''invalid''})\<rparr>)
           BlockStatus_names)"
  by (simp add: operation_statuses_def BlockStatus_String_def BlockStatus_names_def index_def)

end
