(* ===== verification/GoStd.thy ===== *)
theory GoStd
  imports Services
begin

text \<open>
  The parts of Go's standard library that \<open>services/construction.go\<close> relies on:
  \<open>encoding/hex\<close>, \<open>fmt.Sprintf\<close> with \<open>%f\<close>, conversions of a \<open>float64\<close>, \<open>big.Int.Uint64\<close>,
  slice expressions and \<open>elliptic.Marshal\<close>.
\<close>

section \<open>encoding/hex\<close>

definition hex_digit :: "nat \<Rightarrow> char" where
  "hex_digit d = (if d < 10 then char_of (48 + d) else char_of (87 + d))"

definition hex_byte :: "byte \<Rightarrow> string" where
  "hex_byte b = [hex_digit (unat b div 16), hex_digit (unat b mod 16)]"

text \<open>\<open>hex.EncodeToString\<close>\<close>

definition hex_encode :: "byte list \<Rightarrow> string" where
  "hex_encode bs = concat (map hex_byte bs)"

definition hex_val :: "char \<Rightarrow> nat option" where
  "hex_val c =
     (let n = of_char c :: nat in
      if 48 \<le> n \<and> n \<le> 57 then Some (n - 48)
      else if 97 \<le> n \<and> n \<le> 102 then Some (n - 87)
      else if 65 \<le> n \<and> n \<le> 70 then Some (n - 55)
      else None)"

definition upper_hex_digit :: "nat \<Rightarrow> char" where
  "upper_hex_digit d = (if d < 10 then char_of (48 + d) else char_of (55 + d))"

text \<open>
  \<open>%#U\<close> of a byte read as a rune: the code point, and the character in quotes when it is
  printable, in UTF-8.
\<close>

definition rune_text :: "char \<Rightarrow> string" where
  "rune_text c =
     (let n = of_char c :: nat in
      ''U+00'' @ [upper_hex_digit (n div 16), upper_hex_digit (n mod 16)] @
      (if 32 \<le> n \<and> n \<le> 126 then '' '' @ [CHR 0x27, c, CHR 0x27]
       else if 161 \<le> n \<and> n \<noteq> 173
         then '' '' @ [CHR 0x27, char_of (192 + n div 64), char_of (128 + n mod 64), CHR 0x27]
       else []))"

definition InvalidByteError :: "char \<Rightarrow> string" where
  "InvalidByteError c = ''encoding/hex: invalid byte: '' @ rune_text c"

definition ErrLength :: string where
  "ErrLength = ''encoding/hex: odd length hex string''"

text \<open>\<open>hex.DecodeString\<close>: pairs are read from the left, the first bad character is reported.\<close>

fun hex_decode :: "string \<Rightarrow> string + byte list" where
  "hex_decode [] = Inr []"
| "hex_decode [p] = (case hex_val p of None \<Rightarrow> Inl (InvalidByteError p) | Some _ \<Rightarrow> Inl ErrLength)"
| "hex_decode (p # q # rest) =
     (case hex_val p of
        None \<Rightarrow> Inl (InvalidByteError p)
      | Some a \<Rightarrow>
         (case hex_val q of
            None \<Rightarrow> Inl (InvalidByteError q)
          | Some b \<Rightarrow> andThen (hex_decode rest) (\<lambda>bs. Inr (of_nat (16 * a + b) # bs))))"

lemma hex_val_digit: "d < 16 \<Longrightarrow> hex_val (hex_digit d) = Some d"
  by (auto simp: hex_val_def hex_digit_def Let_def)

lemma byte_split: "(of_nat (16 * (unat b div 16) + unat b mod 16) :: byte) = b"
proof -
  have "16 * (unat b div 16) + unat b mod 16 = unat b" by (rule mult_div_mod_eq)
  then show ?thesis by simp
qed

lemma hex_decode_byte:
  "hex_decode (hex_byte b @ rest) = andThen (hex_decode rest) (\<lambda>bs. Inr (b # bs))"
proof -
  have "unat b < 256" by (rule order_less_le_trans [OF unsigned_less]) simp
  then have "unat b div 16 < 16" by simp
  then show ?thesis
    by (simp add: hex_byte_def hex_val_digit byte_split)
qed

lemma hex_decode_encode [simp]: "hex_decode (hex_encode bs) = Inr bs"
  by (induction bs) (simp_all add: hex_encode_def hex_decode_byte)

text \<open>What decodes has even length, two characters to a byte.\<close>

lemma hex_decode_length: "hex_decode s = Inr bs \<Longrightarrow> length s = 2 * length bs"
  by (induction s arbitrary: bs rule: hex_decode.induct)
    (auto simp: go_simps split: option.splits)

section \<open>Floating-point numbers\<close>

text \<open>
  A conversion truncates toward zero; for a value out of range the language leaves the
  result to the implementation, a parameter here.
\<close>

definition truncate :: "rat \<Rightarrow> int" where
  "truncate x = (if 0 \<le> x then \<lfloor>x\<rfloor> else - \<lfloor>- x\<rfloor>)"

definition float_to_word :: "(rat \<Rightarrow> 'w::len word) \<Rightarrow> rat \<Rightarrow> 'w word" where
  "float_to_word out_of_range x =
     (if -1 < x \<and> x < 2 ^ LENGTH('w) then word_of_int (truncate x) else out_of_range x)"

lemma truncate_of_int [simp]: "truncate (of_int n) = n"
proof (cases "0 \<le> n")
  case False
  then have "\<lfloor>- (of_int n :: rat)\<rfloor> = - n" by (metis floor_of_int of_int_minus)
  with False show ?thesis by (simp add: truncate_def)
qed (simp add: truncate_def)

lemma float_to_word_of_int:
  assumes "0 \<le> n" "n < 2 ^ LENGTH('w::len)"
  shows "float_to_word f (of_int n) = (word_of_int n :: 'w word)"
proof -
  have "(of_int n :: rat) < of_int (2 ^ LENGTH('w))" using assms(2) by (simp only: of_int_less_iff)
  moreover have "(-1 :: rat) < of_int n" using assms(1) by (simp add: less_le_trans [of _ 0])
  ultimately show ?thesis by (simp add: float_to_word_def)
qed

text \<open>
  \<open>%f\<close>: six digits after the point, the exact value rounded to nearest, ties to even.
\<close>

definition round_half_even :: "rat \<Rightarrow> int" where
  "round_half_even x =
     (let n = \<lfloor>x\<rfloor>; r = x - of_int n in
      if r < 1 / 2 then n
      else if 1 / 2 < r then n + 1
      else if even n then n else n + 1)"

definition pad6 :: "nat \<Rightarrow> string" where
  "pad6 n = replicate (6 - length (digits10 n)) CHR ''0'' @ digits10 n"

definition Sprintf_f :: "rat \<Rightarrow> string" where
  "Sprintf_f x =
     (let n = nat (round_half_even (\<bar>x\<bar> * 1000000)) in
      (if x < 0 then ''-'' else []) @ digits10 (n div 1000000) @ ''.'' @ pad6 (n mod 1000000))"

lemma pad6_0: "pad6 0 = ''000000''"
proof -
  have "digits10 0 = ''0''" by (subst digits10.simps) (simp add: digit_char_def char_of_def bit_0)
  then show ?thesis by (simp add: pad6_def numeral_eq_Suc)
qed

lemma round_half_even_of_int [simp]: "round_half_even (of_int n) = n"
  by (simp add: round_half_even_def)

text \<open>An integral value is printed as its digits and six zeros.\<close>

lemma Sprintf_f_of_nat: "Sprintf_f (of_nat n) = digits10 n @ ''.000000''"
proof -
  have "\<bar>of_nat n :: rat\<bar> * 1000000 = of_int (int n * 1000000)" by simp
  then have "nat (round_half_even (\<bar>of_nat n :: rat\<bar> * 1000000)) = n * 1000000"
    by (metis nat_int of_nat_mult of_nat_numeral round_half_even_of_int)
  then show ?thesis by (simp add: Sprintf_f_def Let_def pad6_0)
qed

section \<open>Words of big integers\<close>

text \<open>\<open>(*big.Int).Uint64\<close>: the low 64 bits of the magnitude.\<close>

definition big_Uint64 :: "int \<Rightarrow> u64" where
  "big_Uint64 n = word_of_int \<bar>n\<bar>"

text \<open>\<open>(*big.Int).SetUint64\<close>\<close>

definition SetUint64 :: "u64 \<Rightarrow> int" where
  "SetUint64 u = uint u"

section \<open>Slices\<close>

text \<open>\<open>xs[n:]\<close>\<close>

definition slice_from :: "nat \<Rightarrow> 'a list \<Rightarrow> 'a list go" where
  "slice_from n xs = (if n \<le> length xs then Inr (drop n xs) else Inl IndexOutOfRange)"

text \<open>\<open>copy(ret[i:], bs)\<close>, for an index \<open>i\<close> within the slice.\<close>

definition copy_at :: "'a list \<Rightarrow> nat \<Rightarrow> 'a list \<Rightarrow> 'a list" where
  "copy_at ret i bs = take i ret @ take (length ret - i) bs @ drop (i + length bs) ret"

lemma length_copy_at [simp]: "i \<le> length ret \<Longrightarrow> length (copy_at ret i bs) = length ret"
  by (simp add: copy_at_def)

section \<open>elliptic.Marshal\<close>

text \<open>The uncompressed point; a coordinate that is too long makes a slice index negative.\<close>

definition Marshal :: "nat \<Rightarrow> int \<Rightarrow> int \<Rightarrow> byte list go" where
  "Marshal bitSize x y =
     (let byteLen = (bitSize + 7) div 8;
          ret = 4 # replicate (2 * byteLen) 0;
          xBytes = be_bytes (nat \<bar>x\<bar>);
          yBytes = be_bytes (nat \<bar>y\<bar>)
      in if 1 + byteLen < length xBytes \<or> 1 + 2 * byteLen < length yBytes
         then Inl IndexOutOfRange
         else Inr (copy_at (copy_at ret (1 + byteLen - length xBytes) xBytes)
                     (1 + 2 * byteLen - length yBytes) yBytes))"

lemma Marshal_length:
  assumes "Marshal bitSize x y = Inr bs"
  shows "length bs = 1 + 2 * ((bitSize + 7) div 8)"
proof -
  obtain n where n: "n = (bitSize + 7) div 8" by blast
  have "Suc n - k \<le> Suc (2 * n)" "Suc (2 * n) - k \<le> Suc (2 * n)" for k by linarith+
  with assms show ?thesis
    by (auto simp: Marshal_def Let_def simp flip: n split: if_splits)
qed

end
