(* ===== verification/ConstructionService.thy ===== *)
theory ConstructionService
  imports GoStd
begin

text \<open>
  \<open>services/construction.go\<close>: the handlers of the construction flow. A transfer has five
  operations (THETA and TFUEL of the sender, THETA and TFUEL of the receiver, the fee), a
  contract call has two.
\<close>

definition CurveType :: string where
  "CurveType = ''secp256k1''"

definition SignatureType :: string where
  "SignatureType = ''ecdsa_recovery''"

section \<open>Third-party code\<close>

text \<open>The implementations of the interface \<open>ttypes.Tx\<close> by struct; the rest is \<open>OtherTx\<close>.\<close>

datatype ledger_tx =
    TxCoinbase CoinbaseTx_data
  | TxSlash SlashTx_data
  | TxSend SendTx_data
  | TxReserveFund ReserveFundTx_data
  | TxReleaseFund ReleaseFundTx_data
  | TxServicePayment ServicePaymentTx_data
  | TxSplitRule SplitRuleTx_data
  | TxSmartContract SmartContractTx_data
  | TxDepositStakeV2 DepositStakeTxV2_data
  | TxWithdrawStake WithdrawStakeTx_data
  | TxStakeRewardDistribution StakeRewardDistributionTx_data
  | TxOther string

text \<open>\<open>parser.OperationDescription\<close> with the fields that are set; all accounts must exist.\<close>

datatype AmountSign = NegativeOrZeroAmountSign | PositiveOrZeroAmountSign

record OperationDescription =
  od_Type :: string
  od_Sign :: AmountSign
  od_Currency :: Currency

text \<open>
  A \<open>parser.Match\<close> is given by what its method \<open>First\<close> answers: an operation pointer and
  an amount pointer. The fee functions answer non-nil numbers. \<open>float_\<dots>\<close> are the
  implementation-defined conversions of floats that are out of range.
\<close>

type_synonym Match = "Operation option \<times> bigint"

record 'd conslib = "'d servlib" +
  MatchOperations :: "OperationDescription list \<Rightarrow> Operation list \<Rightarrow> string + Match list"
  TxToBytes :: "ledger_tx \<Rightarrow> string + byte list"
  TxFromBytes :: "byte list \<Rightarrow> string + ledger_tx"
  SignBytes :: "ledger_tx \<Rightarrow> string \<Rightarrow> byte list"
  SendTx_SetSignature :: "address \<Rightarrow> signature \<Rightarrow> SendTx_data \<Rightarrow> SendTx_data"
  SmartContractTx_SetSignature :: "address \<Rightarrow> signature \<Rightarrow> SmartContractTx_data \<Rightarrow> SmartContractTx_data"
  SignatureFromBytes :: "byte list \<Rightarrow> string + signature"
  Signature_Verify :: "signature \<Rightarrow> byte list \<Rightarrow> address \<Rightarrow> bool"
  DecompressPubkey :: "byte list \<Rightarrow> bigint \<times> bigint"
  S256_BitSize :: nat
  sha3_Keccak256 :: "byte list \<Rightarrow> byte list"
  BytesToAddress :: "byte list \<Rightarrow> address"
  Hash_Bytes :: "hash \<Rightarrow> byte list"
  ParseCoinAmount :: "string \<Rightarrow> bigint \<times> bool"
  GetSendTxMinimumTransactionFeeTFuelWei :: "u64 \<Rightarrow> u64 \<Rightarrow> int"
  GetMaxGasLimit :: "u64 \<Rightarrow> int"
  GetMinimumGasPrice :: "u64 \<Rightarrow> int"
  float_u64 :: "rat \<Rightarrow> u64"
  float_u8 :: "rat \<Rightarrow> u8"

section \<open>Type assertions\<close>

definition as_float :: "value \<Rightarrow> rat go" where
  "as_float v = (case v of VFloat x \<Rightarrow> Inr x | _ \<Rightarrow> Inl FailedTypeAssertion)"

definition as_string :: "value \<Rightarrow> string go" where
  "as_string v = (case v of VString s \<Rightarrow> Inr s | _ \<Rightarrow> Inl FailedTypeAssertion)"

lemma assertions [go_simps]:
  "as_float v = Inr x \<longleftrightarrow> v = VFloat x"
  "as_string v = Inr s \<longleftrightarrow> v = VString s"
  by (cases v; simp add: as_float_def as_string_def)+

definition as_uint64 :: "('d, 'a) conslib_scheme \<Rightarrow> value \<Rightarrow> u64 go" where
  "as_uint64 L v = andThen (as_float v) (\<lambda>x. Inr (float_to_word (float_u64 L) x))"

definition as_TxType :: "('d, 'a) conslib_scheme \<Rightarrow> value \<Rightarrow> TxType go" where
  "as_TxType L v = andThen (as_float v) (\<lambda>x. Inr (float_to_word (float_u8 L) x))"

section \<open>Derive\<close>

record PublicKey =
  pk_Bytes :: "byte list"
  pk_CurveType :: string

definition decompressPubkey :: "('d, 'a) conslib_scheme \<Rightarrow> byte list \<Rightarrow> string + int \<times> bigint" where
  "decompressPubkey L pubkey =
     (case DecompressPubkey L pubkey of
        (None, y) \<Rightarrow> Inl ''invalid public key''
      | (Some x, y) \<Rightarrow> Inr (x, y))"

definition fromECDSAPub :: "('d, 'a) conslib_scheme \<Rightarrow> int \<times> bigint \<Rightarrow> byte list go" where
  "fromECDSAPub L pub =
     (case pub of
        (x, None) \<Rightarrow> Inr []
      | (x, Some y) \<Rightarrow> Marshal (S256_BitSize L) x y)"

definition keccak256 :: "('d, 'a) conslib_scheme \<Rightarrow> byte list list \<Rightarrow> byte list" where
  "keccak256 L dat = sha3_Keccak256 L (concat dat)"

definition pubkeyToAddress :: "('d, 'a) conslib_scheme \<Rightarrow> int \<times> bigint \<Rightarrow> address go" where
  "pubkeyToAddress L p =
     andThen (fromECDSAPub L p) (\<lambda>pubBytes.
     andThen (slice_from 1 pubBytes) (\<lambda>b.
     andThen (slice_from 12 (keccak256 L [b])) (\<lambda>h. Inr (BytesToAddress L h))))"

definition ConstructionDerive ::
    "('d, 'a) conslib_scheme \<Rightarrow> NetworkIdentifier option \<times> PublicKey option \<Rightarrow>
     ('d, string outcome) step" where
  "ConstructionDerive L req =
     (case req of (ni, key) \<Rightarrow> validated ni (\<lambda>w.
       case key of
         None \<Rightarrow> fail_with ErrInvalidInputParam ''public key is not provided'' w
       | Some pk \<Rightarrow>
          if length (pk_Bytes pk) = 0 \<or> pk_CurveType pk \<noteq> CurveType
          then fail_with ErrInvalidInputParam ''unsupported public key curve type'' w
          else case decompressPubkey L (pk_Bytes pk) of
                 Inl e \<Rightarrow>
                   fail_with ErrInvalidInputParam (''Unable to decompress public key: '' @ e) w
               | Inr pubkey \<Rightarrow>
                   (case pubkeyToAddress L pubkey of
                      Inl p \<Rightarrow> (Crash p, w)
                    | Inr addr \<Rightarrow> (Response (Address_Hex L addr), w))))"

section \<open>Matching the operations of a request\<close>

definition contract_descriptions :: "OperationDescription list" where
  "contract_descriptions =
     [\<lparr>od_Type = TxOpType_String SmartContractTxFrom, od_Sign = NegativeOrZeroAmountSign,
       od_Currency = GetTFuelCurrency\<rparr>,
      \<lparr>od_Type = TxOpType_String SmartContractTxTo, od_Sign = PositiveOrZeroAmountSign,
       od_Currency = GetTFuelCurrency\<rparr>]"

definition send_descriptions :: "OperationDescription list" where
  "send_descriptions =
     [\<lparr>od_Type = TxOpType_String SendTxInput, od_Sign = NegativeOrZeroAmountSign,
       od_Currency = GetThetaCurrency\<rparr>,
      \<lparr>od_Type = TxOpType_String SendTxInput, od_Sign = NegativeOrZeroAmountSign,
       od_Currency = GetTFuelCurrency\<rparr>,
      \<lparr>od_Type = TxOpType_String SendTxOutput, od_Sign = PositiveOrZeroAmountSign,
       od_Currency = GetThetaCurrency\<rparr>,
      \<lparr>od_Type = TxOpType_String SendTxOutput, od_Sign = PositiveOrZeroAmountSign,
       od_Currency = GetTFuelCurrency\<rparr>,
      \<lparr>od_Type = TxOpType_String TxFee, od_Sign = NegativeOrZeroAmountSign,
       od_Currency = GetTFuelCurrency\<rparr>]"

text \<open>The matches, or the text that is appended to \<open>ErrServiceInternal\<close>.\<close>

definition getOperationDescriptions ::
    "('d, 'a) conslib_scheme \<Rightarrow> Operation list \<Rightarrow> string + Match list" where
  "getOperationDescriptions L operations =
     (if length operations = 2 then MatchOperations L contract_descriptions operations
      else if length operations = 5 then MatchOperations L send_descriptions operations
      else Inl ''invalid number of operations'')"

definition match_address :: "Match \<Rightarrow> string go" where
  "match_address m = andThen (deref (fst m)) (\<lambda>op. deref (op_Account op))"

section \<open>Preprocess\<close>

record ConstructionPreprocessRequest =
  cpr_NetworkIdentifier :: "NetworkIdentifier option"
  cpr_Operations :: "Operation list"
  cpr_Metadata :: metadata

text \<open>\<open>if v, ok := src[k]; ok { dst[k] = v }\<close>\<close>

definition copy_key :: "string \<Rightarrow> metadata \<Rightarrow> metadata \<Rightarrow> metadata" where
  "copy_key k src dst = (case src k of Some v \<Rightarrow> dst(k \<mapsto> v) | None \<Rightarrow> dst)"

text \<open>
  The options of a transfer, or the text of the objection; conditions are evaluated from
  the left and stop early.
\<close>

definition send_options :: "Match list \<Rightarrow> (string + metadata) go" where
  "send_options matches =
     andThen (match_address (matches ! 0)) (\<lambda>fromTheta.
     andThen (match_address (matches ! 1)) (\<lambda>fromTFuel.
     andThen (if fromTheta \<noteq> fromTFuel then Inr True
              else andThen (match_address (matches ! 4)) (\<lambda>fee. Inr (fromTFuel \<noteq> fee))) (\<lambda>from_differs.
     if from_differs then Inr (Inl ''from address not matching'')
     else
       andThen (match_address (matches ! 2)) (\<lambda>toTheta.
       andThen (match_address (matches ! 3)) (\<lambda>toTFuel.
       if toTheta \<noteq> toTFuel then Inr (Inl ''to address not matching'')
       else if fromTFuel = toTFuel then Inr (Inl ''from and to accounts are the same'')
       else Inr (Inr [''type'' \<mapsto> VTxType SendTx, ''fee'' \<mapsto> VBigInt (snd (matches ! 4))]))))))"

definition preprocess_options :: "Match list \<Rightarrow> (string + metadata) go" where
  "preprocess_options matches =
     (if length matches = 2 then Inr (Inr [''type'' \<mapsto> VTxType SmartContractTx])
      else if length matches = 5 then send_options matches
      else Inr (Inl ''invalid number of operations''))"

definition ConstructionPreprocess ::
    "('d, 'a) conslib_scheme \<Rightarrow> ConstructionPreprocessRequest \<Rightarrow> ('d, metadata outcome) step" where
  "ConstructionPreprocess L req =
     validated (cpr_NetworkIdentifier req) (\<lambda>w.
       case getOperationDescriptions L (cpr_Operations req) of
         Inl e \<Rightarrow> fail_with ErrServiceInternal e w
       | Inr matches \<Rightarrow>
          (case preprocess_options matches of
             Inl p \<Rightarrow> (Crash p, w)
           | Inr (Inl e) \<Rightarrow> fail_with ErrServiceInternal e w
           | Inr (Inr options) \<Rightarrow>
              (case match_address (matches ! 0) of
                 Inl p \<Rightarrow> (Crash p, w)
               | Inr signer \<Rightarrow>
                   (Response
                     (copy_key ''data'' (cpr_Metadata req)
                     (copy_key ''gas_price'' (cpr_Metadata req)
                     (copy_key ''gas_limit'' (cpr_Metadata req)
                       (options(''signer'' \<mapsto> VString signer))))), w))))"

section \<open>Metadata\<close>

text \<open>The parser of the account answer: an error, a nil account or the sequence number.\<close>

definition parse_sequence ::
    "('d, 'a) servlib_scheme \<Rightarrow> json \<Rightarrow> ('d, (string + u64) go) step" where
  "parse_sequence L j w =
     (case Unmarshal_into (None, None) (unmarshal_Account L) j of
        (Some e, _) \<Rightarrow> (Inr (Inl e), w)
      | (None, account) \<Rightarrow> (andThen (deref account) (\<lambda>acc. Inr (Inr (acc_Sequence acc))), w))"

text \<open>Ask for the status once; its error is reported with a fixed text.\<close>

definition need_status ::
    "'a rpclib_scheme \<Rightarrow> GetStatusResult option \<Rightarrow> ('d, (string + GetStatusResult) go) step" where
  "need_status L status w =
     (case status of
        Some s \<Rightarrow> (Inr (Inr s), w)
      | None \<Rightarrow>
          (case GetStatus L w of
             (Inl p, w1) \<Rightarrow> (Inl p, w1)
           | (Inr (Inl e), w1) \<Rightarrow> (Inr (Inl ''can't get blockchain status''), w1)
           | (Inr (Inr s), w1) \<Rightarrow> (Inr (Inr s), w1)))"

text \<open>The suggested fee of a transfer: the one of the options, or the minimum when that is 0.\<close>

definition send_fee :: "('d, 'a) conslib_scheme \<Rightarrow> metadata \<Rightarrow> ('d, (string + int) go) step" where
  "send_fee L options w =
     (case (case options ''fee'' of
              Some fee \<Rightarrow> andThen (as_uint64 L fee) (\<lambda>u. Inr (SetUint64 u))
            | None \<Rightarrow> Inr 0) of
        Inl p \<Rightarrow> (Inl p, w)
      | Inr suggestedFee \<Rightarrow>
         (if suggestedFee \<noteq> 0 then (Inr (Inr suggestedFee), w)
          else case need_status L None w of
                 (Inl p, w1) \<Rightarrow> (Inl p, w1)
               | (Inr (Inl e), w1) \<Rightarrow> (Inr (Inl e), w1)
               | (Inr (Inr status), w1) \<Rightarrow>
                   (Inr (Inr (GetSendTxMinimumTransactionFeeTFuelWei L 2 (st_CurrentHeight status))), w1)))"

text \<open>A gas option, or a default computed from the current height of the status.\<close>

definition gas_option ::
    "'a rpclib_scheme \<Rightarrow> string \<Rightarrow> (u64 \<Rightarrow> int) \<Rightarrow> metadata \<Rightarrow> GetStatusResult option \<Rightarrow>
     ('d, (string + value \<times> GetStatusResult option) go) step" where
  "gas_option L key dflt options status w =
     (case options key of
        Some v \<Rightarrow> (Inr (Inr (v, status)), w)
      | None \<Rightarrow>
          (case need_status L status w of
             (Inl p, w1) \<Rightarrow> (Inl p, w1)
           | (Inr (Inl e), w1) \<Rightarrow> (Inr (Inl e), w1)
           | (Inr (Inr s), w1) \<Rightarrow>
               (Inr (Inr (VUint64 (big_Uint64 (dflt (st_CurrentHeight s))), Some s)), w1)))"

definition contract_gas ::
    "('d, 'a) conslib_scheme \<Rightarrow> metadata \<Rightarrow> metadata \<Rightarrow> ('d, (string + metadata) go) step" where
  "contract_gas L options md w =
     (case gas_option L ''gas_limit'' (GetMaxGasLimit L) options None w of
        (Inl p, w1) \<Rightarrow> (Inl p, w1)
      | (Inr (Inl e), w1) \<Rightarrow> (Inr (Inl e), w1)
      | (Inr (Inr (gasLimit, status)), w1) \<Rightarrow>
         (case gas_option L ''gas_price'' (GetMinimumGasPrice L) options status w1 of
            (Inl p, w2) \<Rightarrow> (Inl p, w2)
          | (Inr (Inl e), w2) \<Rightarrow> (Inr (Inl e), w2)
          | (Inr (Inr (gasPrice, _)), w2) \<Rightarrow>
             (Inr (Inr (copy_key ''data'' options
                (md(''gas_limit'' \<mapsto> gasLimit, ''gas_price'' \<mapsto> gasPrice)))), w2)))"

text \<open>The metadata and the suggested fee for a transaction type.\<close>

definition type_metadata ::
    "('d, 'a) conslib_scheme \<Rightarrow> metadata \<Rightarrow> TxType \<Rightarrow> metadata \<Rightarrow>
     ('d, (string + metadata \<times> int) go) step" where
  "type_metadata L options txType md w =
     (if txType = SendTx
      then (case send_fee L options w of
              (Inl p, w1) \<Rightarrow> (Inl p, w1)
            | (Inr (Inl e), w1) \<Rightarrow> (Inr (Inl e), w1)
            | (Inr (Inr fee), w1) \<Rightarrow> (Inr (Inr (md(''fee'' \<mapsto> VBigInt (Some fee)), fee)), w1))
      else if txType = SmartContractTx
      then (case contract_gas L options md w of
              (Inl p, w1) \<Rightarrow> (Inl p, w1)
            | (Inr (Inl e), w1) \<Rightarrow> (Inr (Inl e), w1)
            | (Inr (Inr md'), w1) \<Rightarrow> (Inr (Inr (md', 0)), w1))
      else (Inr (Inr (md, 0)), w))"

definition metadata_for ::
    "('d, 'a) conslib_scheme \<Rightarrow> metadata \<Rightarrow> u64 \<Rightarrow> ('d, (metadata \<times> Amount) outcome) step" where
  "metadata_for L options sequence w =
     (case options ''type'' of
        None \<Rightarrow> fail_with ErrInvalidInputParam ''tx type missing in metadata'' w
      | Some typ \<Rightarrow>
         (case as_TxType L typ of
            Inl p \<Rightarrow> (Crash p, w)
          | Inr txType \<Rightarrow>
             (case type_metadata L options txType [''sequence'' \<mapsto> VUint64 (sequence + 1)] w of
                (Inl p, w1) \<Rightarrow> (Crash p, w1)
              | (Inr (Inl e), w1) \<Rightarrow> fail_with ErrInvalidInputParam e w1
              | (Inr (Inr (md, fee)), w1) \<Rightarrow>
                  (Response (md, amount (int_text fee) GetTFuelCurrency), w1))))"

definition ConstructionMetadata ::
    "('d, 'a) conslib_scheme \<Rightarrow> NetworkIdentifier option \<times> metadata \<Rightarrow>
     ('d, (metadata \<times> Amount) outcome) step" where
  "ConstructionMetadata L req =
     (case req of (ni, options) \<Rightarrow> guarded L ni (\<lambda>w.
       case options ''signer'' of
         None \<Rightarrow> fail_with ErrInvalidInputParam ''empty signer address'' w
       | Some v \<Rightarrow>
          (case as_string v of
             Inl p \<Rightarrow> (Crash p, w)
           | Inr signer \<Rightarrow>
              (case Call L ''theta.GetAccount'' (GetAccountArgs signer 0 False) w of (reply, w1) \<Rightarrow>
                (case HandleThetaRPCResponse L reply (parse_sequence L) w1 of
                   (Inl p, w2) \<Rightarrow> (Crash p, w2)
                 | (Inr (Inl e), w2) \<Rightarrow> (Failure (Global ErrUnableToGetAccount), w2)
                 | (Inr (Inr sequence), w2) \<Rightarrow> metadata_for L options sequence w2)))))"

section \<open>Payloads\<close>

record ConstructionPayloadsRequest =
  cp_NetworkIdentifier :: "NetworkIdentifier option"
  cp_Operations :: "Operation list"
  cp_Metadata :: metadata

record SigningPayload =
  sp_Address :: string
  sp_Bytes :: "byte list"
  sp_SignatureType :: string

text \<open>\<open>new(big.Int).Mul(x, big.NewInt(-1))\<close>\<close>

definition negate :: "bigint \<Rightarrow> int go" where
  "negate x = andThen (deref x) (\<lambda>n. Inr (n * -1))"

lemma negate_eq_Inr [go_simps]: "negate x = Inr n \<longleftrightarrow> x = Some (- n)"
  by (cases x) (auto simp: negate_def)

text \<open>The three optional settings of a contract call, read in the order of the code.\<close>

definition gas_price_text :: "metadata \<Rightarrow> string go" where
  "gas_price_text md =
     (case md ''gas_price'' of
        None \<Rightarrow> Inr ''0wei''
      | Some v \<Rightarrow> andThen (as_float v) (\<lambda>x. Inr (Sprintf_f x @ ''wei'')))"

definition gas_limit :: "('d, 'a) conslib_scheme \<Rightarrow> metadata \<Rightarrow> u64 go" where
  "gas_limit L md = (case md ''gas_limit'' of None \<Rightarrow> Inr 10000000 | Some v \<Rightarrow> as_uint64 L v)"

definition data_text :: "metadata \<Rightarrow> string go" where
  "data_text md = (case md ''data'' of None \<Rightarrow> Inr [] | Some v \<Rightarrow> as_string v)"

definition contract_settings ::
    "('d, 'a) conslib_scheme \<Rightarrow> metadata \<Rightarrow> (string + bigint \<times> u64 \<times> byte list) go" where
  "contract_settings L md =
     andThen (gas_price_text md) (\<lambda>gasPriceStr.
       case ParseCoinAmount L gasPriceStr of
         (_, False) \<Rightarrow> Inr (Inl ''failed to parse gas price'')
       | (gasPrice, True) \<Rightarrow>
           andThen (gas_limit L md) (\<lambda>gasLimit.
           andThen (data_text md) (\<lambda>dataStr.
             case hex_decode dataStr of
               Inl e \<Rightarrow> Inr (Inl ''failed to parse data'')
             | Inr dat \<Rightarrow> Inr (Inr (gasPrice, gasLimit, dat)))))"

definition contract_tx ::
    "('d, 'a) conslib_scheme \<Rightarrow> u64 \<Rightarrow> metadata \<Rightarrow> Match list \<Rightarrow> (string + ledger_tx) go" where
  "contract_tx L sequence md matches =
     andThen (index matches 0) (\<lambda>m0.
     andThen (negate (snd m0)) (\<lambda>fromTFuelWei.
     andThen (match_address m0) (\<lambda>from.
     andThen (index matches 1) (\<lambda>m1.
     andThen (match_address m1) (\<lambda>to.
     andThen (contract_settings L md) (\<lambda>settings.
       case settings of
         Inl e \<Rightarrow> Inr (Inl e)
       | Inr (gasPrice, gasLimit, dat) \<Rightarrow>
           Inr (Inr (TxSmartContract
             \<lparr>sc_From = \<lparr>in_Address = HexToAddress L from,
                         in_Coins = \<lparr>ThetaWei = Some 0, TFuelWei = Some fromTFuelWei\<rparr>,
                         in_Sequence = sequence, in_Signature = None\<rparr>,
              sc_To = \<lparr>out_Address = HexToAddress L to,
                       out_Coins = \<lparr>ThetaWei = Some 0, TFuelWei = snd m1\<rparr>\<rparr>,
              sc_GasLimit = gasLimit, sc_GasPrice = gasPrice, sc_Data = dat\<rparr>))))))))"

definition send_tx ::
    "('d, 'a) conslib_scheme \<Rightarrow> u64 \<Rightarrow> Match list \<Rightarrow> ledger_tx go" where
  "send_tx L sequence matches =
     andThen (index matches 0) (\<lambda>m0.
     andThen (index matches 1) (\<lambda>m1.
     andThen (index matches 2) (\<lambda>m2.
     andThen (index matches 3) (\<lambda>m3.
     andThen (index matches 4) (\<lambda>m4.
     andThen (negate (snd m0)) (\<lambda>fromThetaWei.
     andThen (negate (snd m1)) (\<lambda>fromTFuelWei.
     andThen (negate (snd m4)) (\<lambda>feeWei.
     andThen (match_address m0) (\<lambda>from.
     andThen (match_address m2) (\<lambda>to.
       Inr (TxSend
         \<lparr>send_Fee = \<lparr>ThetaWei = Some 0, TFuelWei = Some feeWei\<rparr>,
          send_Inputs =
            [\<lparr>in_Address = HexToAddress L from,
              in_Coins = \<lparr>ThetaWei = Some fromThetaWei, TFuelWei = Some (fromTFuelWei + feeWei)\<rparr>,
              in_Sequence = sequence, in_Signature = None\<rparr>],
          send_Outputs =
            [\<lparr>out_Address = HexToAddress L to,
              out_Coins = \<lparr>ThetaWei = snd m2, TFuelWei = snd m3\<rparr>\<rparr>]\<rparr>)))))))))))"

definition payload_tx ::
    "('d, 'a) conslib_scheme \<Rightarrow> u64 \<Rightarrow> metadata \<Rightarrow> Operation list \<Rightarrow> Match list \<Rightarrow>
     (string + ledger_tx) go" where
  "payload_tx L sequence md operations matches =
     (if length operations = 2 then contract_tx L sequence md matches
      else if length operations = 5
        then andThen (send_tx L sequence matches) (\<lambda>tx. Inr (Inr tx))
      else Inr (Inl ''invalid number of operations''))"

definition signing_payload ::
    "('d, 'a) conslib_scheme \<Rightarrow> Operation list \<Rightarrow> ledger_tx \<Rightarrow> 'd world \<Rightarrow> SigningPayload go" where
  "signing_payload L operations tx w =
     andThen (index operations 0) (\<lambda>op.
     andThen (deref (op_Account op)) (\<lambda>a.
       Inr \<lparr>sp_Address = a,
            sp_Bytes = Hash_Bytes L (Keccak256Hash L (SignBytes L tx (GetChainId w))),
            sp_SignatureType = SignatureType\<rparr>))"

definition ConstructionPayloads ::
    "('d, 'a) conslib_scheme \<Rightarrow> ConstructionPayloadsRequest \<Rightarrow>
     ('d, (string \<times> SigningPayload) outcome) step" where
  "ConstructionPayloads L req =
     validated (cp_NetworkIdentifier req) (\<lambda>w.
       case cp_Metadata req ''sequence'' of
         None \<Rightarrow> fail_with ErrServiceInternal ''missing tx sequence'' w
       | Some seq \<Rightarrow>
      (case as_uint64 L seq of
         Inl p \<Rightarrow> (Crash p, w)
       | Inr sequence \<Rightarrow>
      (case getOperationDescriptions L (cp_Operations req) of
         Inl e \<Rightarrow> fail_with ErrServiceInternal e w
       | Inr matches \<Rightarrow>
      (case payload_tx L sequence (cp_Metadata req) (cp_Operations req) matches of
         Inl p \<Rightarrow> (Crash p, w)
       | Inr (Inl e) \<Rightarrow> fail_with ErrServiceInternal e w
       | Inr (Inr tx) \<Rightarrow>
      (case TxToBytes L tx of
         Inl e \<Rightarrow> fail_with ErrServiceInternal e w
       | Inr raw \<Rightarrow>
      (case signing_payload L (cp_Operations req) tx w of
         Inl p \<Rightarrow> (Crash p, w)
       | Inr payload \<Rightarrow> (Response (hex_encode raw, payload), w)))))))"

section \<open>Parse\<close>

record ConstructionParseRequest =
  cpa_NetworkIdentifier :: "NetworkIdentifier option"
  cpa_Signed :: bool
  cpa_Transaction :: string

record ConstructionParseResponse =
  cpa_Operations :: "Operation list"
  cpa_Signers :: "string list option"
  cpa_Metadata :: metadata

text \<open>The signer, metadata and operations of a decoded transaction.\<close>

definition parse_intent ::
    "('d, 'a) conslib_scheme \<Rightarrow> ledger_tx \<Rightarrow> (string + string \<times> metadata \<times> Operation list) go" where
  "parse_intent L tx =
     (case tx of
        TxSend tran \<Rightarrow>
          andThen (index (send_Inputs tran) 0) (\<lambda>input.
          andThen (ParseSendTx L tran None SendTx) (\<lambda>parsed.
            Inr (Inr (Address_String L (in_Address input), parsed))))
      | TxSmartContract tran \<Rightarrow>
          andThen (ParseSmartContractTxForConstruction L tran SmartContractTx) (\<lambda>parsed.
            Inr (Inr (Address_String L (in_Address (sc_From tran)), parsed)))
      | _ \<Rightarrow> Inr (Inl ''unsupported tx type''))"

definition ConstructionParse ::
    "('d, 'a) conslib_scheme \<Rightarrow> ConstructionParseRequest \<Rightarrow>
     ('d, ConstructionParseResponse outcome) step" where
  "ConstructionParse L req =
     validated (cpa_NetworkIdentifier req) (\<lambda>w.
       case hex_decode (cpa_Transaction req) of
         Inl e \<Rightarrow> fail_with ErrUnableToParseTx e w
       | Inr rawTx \<Rightarrow>
      (case TxFromBytes L rawTx of
         Inl e \<Rightarrow> fail_with ErrUnableToParseTx e w
       | Inr tx \<Rightarrow>
      (case parse_intent L tx of
         Inl p \<Rightarrow> (Crash p, w)
       | Inr (Inl e) \<Rightarrow> fail_with ErrUnableToParseTx e w
       | Inr (Inr (signer, md, ops)) \<Rightarrow>
           (Response \<lparr>cpa_Operations = ops,
                      cpa_Signers = (if cpa_Signed req then Some [signer] else None),
                      cpa_Metadata = md\<rparr>, w))))"

section \<open>Combine\<close>

text \<open>A signature: its bytes and the address of its signing payload, behind two pointers.\<close>

record Signature_data =
  sig_Bytes :: "byte list"
  sig_SigningPayload :: "string option option"

record ConstructionCombineRequest =
  cc_NetworkIdentifier :: "NetworkIdentifier option"
  cc_UnsignedTransaction :: string
  cc_Signatures :: "Signature_data list"

definition set_signature ::
    "('d, 'a) conslib_scheme \<Rightarrow> address \<Rightarrow> signature \<Rightarrow> ledger_tx \<Rightarrow> ledger_tx option" where
  "set_signature L signer sig tx =
     (case tx of
        TxSend tran \<Rightarrow> Some (TxSend (SendTx_SetSignature L signer sig tran))
      | TxSmartContract tran \<Rightarrow>
          Some (TxSmartContract (SmartContractTx_SetSignature L signer sig tran))
      | _ \<Rightarrow> None)"

text \<open>Verify the signature for the signer it names, attach it and encode the transaction.\<close>

definition attach_signature ::
    "('d, 'a) conslib_scheme \<Rightarrow> ledger_tx \<Rightarrow> signature \<Rightarrow> address \<Rightarrow> 'd world \<Rightarrow>
     string outcome \<times> 'd world" where
  "attach_signature L tx sig signer w =
     (let signBytes = SignBytes L tx (GetChainId w) in
      if \<not> Signature_Verify L sig signBytes signer
      then fail_with ErrInvalidInputParam
             (''Signature verification failed, SignBytes: '' @ hex_encode signBytes) w
      else case set_signature L signer sig tx of
             None \<Rightarrow> fail_with ErrUnableToParseTx ''unsupported tx type'' w
           | Some signedTx \<Rightarrow>
              (case TxToBytes L signedTx of
                 Inl e \<Rightarrow> fail_with ErrInvalidInputParam ''Failed to encode transaction'' w
               | Inr raw \<Rightarrow> (Response (hex_encode raw), w)))"

definition ConstructionCombine ::
    "('d, 'a) conslib_scheme \<Rightarrow> ConstructionCombineRequest \<Rightarrow> ('d, string outcome) step" where
  "ConstructionCombine L req =
     validated (cc_NetworkIdentifier req) (\<lambda>w.
       case hex_decode (cc_UnsignedTransaction req) of
         Inl e \<Rightarrow> fail_with ErrUnableToParseTx e w
       | Inr rawTx \<Rightarrow>
      (case TxFromBytes L rawTx of
         Inl e \<Rightarrow> fail_with ErrUnableToParseTx e w
       | Inr tx \<Rightarrow>
      (case cc_Signatures req of
         [signature] \<Rightarrow>
          (case SignatureFromBytes L (sig_Bytes signature) of
             Inl e \<Rightarrow> fail_with ErrInvalidInputParam ''Cannot convert signature from payload bytes'' w
           | Inr sig \<Rightarrow>
          (case andThen (deref (sig_SigningPayload signature)) deref of
             Inl p \<Rightarrow> (Crash p, w)
           | Inr a \<Rightarrow> attach_signature L tx sig (HexToAddress L a) w))
       | _ \<Rightarrow> fail_with ErrInvalidInputParam ''need exact 1 signature'' w)))"

section \<open>Hash and submit\<close>

definition ConstructionHash ::
    "('d, 'a) conslib_scheme \<Rightarrow> NetworkIdentifier option \<times> string \<Rightarrow> ('d, string outcome) step" where
  "ConstructionHash L req =
     (case req of (ni, signedTransaction) \<Rightarrow> validated ni (\<lambda>w.
       case hex_decode signedTransaction of
         Inl e \<Rightarrow> fail_with ErrInvalidInputParam (''invalid signed transaction format: '' @ e) w
       | Inr rawTx \<Rightarrow> (Response (Hash_String L (Keccak256Hash L rawTx)), w)))"

text \<open>
  \<open>json.Unmarshal\<close> into the one-field struct \<open>BroadcastRawTransactionAsyncResult\<close>: the
  first mismatch is reported after the whole object has been read.
\<close>

fun json_kind :: "json \<Rightarrow> string" where
  "json_kind JNull = ''null''"
| "json_kind (JBool b) = ''bool''"
| "json_kind (JNum x) = ''number''"
| "json_kind (JString s) = ''string''"
| "json_kind (JArray xs) = ''array''"
| "json_kind (JObject kvs) = ''object''"

fun broadcast_members :: "(string \<times> json) list \<Rightarrow> string option \<times> string \<Rightarrow> string option \<times> string" where
  "broadcast_members [] (e, h) = (e, h)"
| "broadcast_members ((k, v) # rest) (e, h) =
     (if EqualFold k ''hash''
      then (case v of
              JString s \<Rightarrow> broadcast_members rest (e, s)
            | JNull \<Rightarrow> broadcast_members rest (e, h)
            | _ \<Rightarrow> broadcast_members rest
                (case e of
                   Some m \<Rightarrow> Some m
                 | None \<Rightarrow> Some (''json: cannot unmarshal '' @ json_kind v @
                     '' into Go struct field BroadcastRawTransactionAsyncResult.hash of type string''), h))
      else broadcast_members rest (e, h))"

definition unmarshal_Broadcast :: "json \<Rightarrow> string option \<times> string" where
  "unmarshal_Broadcast j =
     (case j of
        JNull \<Rightarrow> (None, [])
      | JObject kvs \<Rightarrow> broadcast_members kvs (None, [])
      | _ \<Rightarrow> (Some (''json: cannot unmarshal '' @ json_kind j @
               '' into Go value of type services.BroadcastRawTransactionAsyncResult''), []))"

definition parse_broadcast :: "json \<Rightarrow> ('d, (string + string) go) step" where
  "parse_broadcast j w =
     (case unmarshal_Broadcast j of
        (Some e, _) \<Rightarrow> (Inr (Inl e), w)
      | (None, txHash) \<Rightarrow> (Inr (Inr txHash), w))"

definition ConstructionSubmit ::
    "('d, 'a) conslib_scheme \<Rightarrow> NetworkIdentifier option \<times> string \<Rightarrow> ('d, string outcome) step" where
  "ConstructionSubmit L req =
     (case req of (ni, signedTransaction) \<Rightarrow> guarded L ni (\<lambda>w.
       case Call L ''theta.BroadcastRawTransactionAsync''
              (BroadcastRawTransactionAsyncArgs signedTransaction) w of (reply, w1) \<Rightarrow>
         (case HandleThetaRPCResponse L reply parse_broadcast w1 of
            (Inl p, w2) \<Rightarrow> (Crash p, w2)
          | (Inr (Inl e), w2) \<Rightarrow> fail_with ErrUnableToSubmitTx e w2
          | (Inr (Inr txHash), w2) \<Rightarrow> (Response txHash, w2))))"

lemmas construction_handler_defs [handler_defs] =
  ConstructionDerive_def ConstructionPreprocess_def ConstructionMetadata_def
  ConstructionPayloads_def ConstructionParse_def ConstructionCombine_def ConstructionHash_def
  ConstructionSubmit_def

section \<open>The endpoint interface\<close>

text \<open>
  Every endpoint but metadata and submit changes nothing except error messages: it grows the
  world and makes no call.
\<close>

definition offline_step :: "'d world \<Rightarrow> 'd world \<Rightarrow> bool" where
  "offline_step w w' \<longleftrightarrow> grows w w' \<and> calls w' = calls w \<and> db w' = db w"

lemma offline_step_refl [simp]: "offline_step w w"
  by (simp add: offline_step_def)

lemma offline_step_fail [simp]: "offline_step w (snd (fail_with e m w))"
  by (simp add: offline_step_def fail_with_def grows_def)

lemma validated_offline:
  "(\<And>w. offline_step w (snd (body w))) \<Longrightarrow> offline_step w (snd (validated ni body w))"
  by (simp add: validated_def split: option.splits)

lemma derive_offline: "offline_step w (snd (ConstructionDerive L req w))"
  by (cases req) (auto simp: ConstructionDerive_def intro!: validated_offline
      split: option.splits sum.splits)

lemma preprocess_offline: "offline_step w (snd (ConstructionPreprocess L req w))"
  by (auto simp: ConstructionPreprocess_def intro!: validated_offline split: sum.splits)

lemma payloads_offline: "offline_step w (snd (ConstructionPayloads L req w))"
  by (auto simp: ConstructionPayloads_def intro!: validated_offline split: option.splits sum.splits)

lemma parse_offline: "offline_step w (snd (ConstructionParse L req w))"
  by (auto simp: ConstructionParse_def intro!: validated_offline split: sum.splits)

lemma combine_offline: "offline_step w (snd (ConstructionCombine L req w))"
  by (auto simp: ConstructionCombine_def attach_signature_def Let_def intro!: validated_offline
      split: option.splits sum.splits list.splits)

lemma hash_offline: "offline_step w (snd (ConstructionHash L req w))"
  by (cases req) (auto simp: ConstructionHash_def intro!: validated_offline split: sum.splits)

lemma offline_endpointI:
  "(\<And>req w. offline_step w (snd (handle req w))) \<Longrightarrow> offline_endpoint handle"
  by unfold_locales (simp_all add: offline_step_def)

interpretation derive: offline_endpoint "ConstructionDerive L" for L :: "('d, 'a) conslib_scheme"
  by (rule offline_endpointI derive_offline)+

interpretation preprocess: offline_endpoint "ConstructionPreprocess L" for L :: "('d, 'a) conslib_scheme"
  by (rule offline_endpointI preprocess_offline)+

interpretation payloads: offline_endpoint "ConstructionPayloads L" for L :: "('d, 'a) conslib_scheme"
  by (rule offline_endpointI payloads_offline)+

interpretation parse: offline_endpoint "ConstructionParse L" for L :: "('d, 'a) conslib_scheme"
  by (rule offline_endpointI parse_offline)+

interpretation combine: offline_endpoint "ConstructionCombine L" for L :: "('d, 'a) conslib_scheme"
  by (rule offline_endpointI combine_offline)+

interpretation hash: offline_endpoint "ConstructionHash L" for L :: "('d, 'a) conslib_scheme"
  by (rule offline_endpointI hash_offline)+

text \<open>Metadata and submit need the node.\<close>

lemma case_step_quiet:
  assumes "quiet w (snd r)"
    and "\<And>p w1. r = (Inl p, w1) \<Longrightarrow> quiet w w1 \<Longrightarrow> quiet w (snd (f p w1))"
    and "\<And>e w1. r = (Inr (Inl e), w1) \<Longrightarrow> quiet w w1 \<Longrightarrow> quiet w (snd (g e w1))"
    and "\<And>x w1. r = (Inr (Inr x), w1) \<Longrightarrow> quiet w w1 \<Longrightarrow> quiet w (snd (h x w1))"
  shows "quiet w (snd (case r of (Inl p, w1) \<Rightarrow> f p w1
                       | (Inr (Inl e), w1) \<Rightarrow> g e w1
                       | (Inr (Inr x), w1) \<Rightarrow> h x w1))"
  using assms by (auto split: prod.splits sum.splits)

lemma need_status_quiet: "quiet w (snd (need_status L status w))"
  unfolding need_status_def by (cases status) (auto intro: case_step_quiet)

lemma send_fee_quiet: "quiet w (snd (send_fee L options w))"
  unfolding send_fee_def
  by (auto intro!: case_step_quiet need_status_quiet split: sum.splits)

lemma gas_option_quiet: "quiet w (snd (gas_option L key dflt options status w))"
  unfolding gas_option_def
  by (cases "options key") (auto intro!: case_step_quiet need_status_quiet)

lemma contract_gas_quiet: "quiet w (snd (contract_gas L options md w))"
  unfolding contract_gas_def
proof (rule case_step_quiet [OF gas_option_quiet], goal_cases)
  case (3 x w1)
  have g: "quiet w (snd (gas_option L key dflt options status w1))" for key dflt status
    by (rule quiet_trans [OF 3(2) gas_option_quiet])
  show ?case
    by (cases x) (auto intro!: case_step_quiet [OF g])
qed simp_all

lemma type_metadata_quiet: "quiet w (snd (type_metadata L options txType md w))"
  unfolding type_metadata_def
  by (auto intro!: case_step_quiet send_fee_quiet contract_gas_quiet)

lemma metadata_for_quiet: "quiet w (snd (metadata_for L options sequence w))"
  unfolding metadata_for_def
  by (auto intro!: case_step_quiet type_metadata_quiet split: option.splits sum.splits)

lemma sequence_handle_quiet:
  "quiet w w1 \<Longrightarrow> quiet w (snd (HandleThetaRPCResponse L reply (parse_sequence L') w1))"
  by (rule quiet_trans, assumption, rule HandleThetaRPCResponse_quiet)
    (simp add: parse_sequence_def split: prod.splits option.splits)

lemma broadcast_handle_quiet:
  "quiet w w1 \<Longrightarrow> quiet w (snd (HandleThetaRPCResponse L reply parse_broadcast w1))"
  by (rule quiet_trans, assumption, rule HandleThetaRPCResponse_quiet)
    (simp add: parse_broadcast_def split: prod.splits option.splits)

lemma metadata_quiet: "quiet w (snd (ConstructionMetadata L req w))"
  unfolding ConstructionMetadata_def
  by (cases req) (auto intro!: guarded_quiet case_step_quiet sequence_handle_quiet
      intro: quiet_trans [OF _ metadata_for_quiet] simp: Call_def split: option.split sum.split)

lemma submit_quiet: "quiet w (snd (ConstructionSubmit L req w))"
  unfolding ConstructionSubmit_def
  by (cases req) (auto intro!: guarded_quiet case_step_quiet broadcast_handle_quiet simp: Call_def)

interpretation metadata: online_endpoint "ConstructionMetadata L" "online L"
  for L :: "('d, 'a) conslib_scheme"
  by unfold_locales
    (simp add: quiet_grows [OF metadata_quiet],
      simp add: ConstructionMetadata_def guarded_offline split_beta)

interpretation metadata_db: quiet_endpoint "ConstructionMetadata L" for L :: "('d, 'a) conslib_scheme"
  by unfold_locales (use metadata_quiet [of _ L] in \<open>simp add: quiet_def\<close>)

interpretation submit: online_endpoint "ConstructionSubmit L" "online L"
  for L :: "('d, 'a) conslib_scheme"
  by unfold_locales
    (simp add: quiet_grows [OF submit_quiet],
      simp add: ConstructionSubmit_def guarded_offline split_beta)

interpretation submit_db: quiet_endpoint "ConstructionSubmit L" for L :: "('d, 'a) conslib_scheme"
  by unfold_locales (use submit_quiet [of _ L] in \<open>simp add: quiet_def\<close>)

end
