(* ===== verification/Server.thy ===== *)
theory Server
  imports AccountService Returns MempoolService NetworkService ConstructionService
begin

text \<open>
  \<open>services/server.go\<close>: the start-up of the router and the server as a whole, a state that
  requests act on one after the other.
\<close>

section \<open>Start-up\<close>

text \<open>
  The asserter of the SDK (the text of its error, if any) and the test whether a path is
  missing (\<open>errors.Is(err, os.ErrNotExist)\<close> after \<open>os.Stat\<close>).
\<close>

record 'd startlib = "'d conslib" +
  asserter_NewServer ::
    "string list \<Rightarrow> bool \<Rightarrow> NetworkIdentifier list \<Rightarrow> string list \<Rightarrow> bool \<Rightarrow> string option"
  path_missing :: "string \<Rightarrow> bool"

definition return_stakes_path :: string where
  "return_stakes_path = ''/data/return_stakes''"

text \<open>The error of \<open>NewLDBDatabase\<close> is not looked at: the pointer is nil then.\<close>

definition open_db :: "'d storelib \<Rightarrow> 'd LDBDatabase option" where
  "open_db D =
     (case NewLDBDatabase D return_stakes_path 64 0 of Inl e \<Rightarrow> None | Inr d \<Rightarrow> Some d)"

text \<open>\<open>Some e\<close>: an error instead of a router.\<close>

definition NewThetaRouter :: "('d, 'a) startlib_scheme \<Rightarrow> ('d, string option go) step" where
  "NewThetaRouter L w =
     (case GetStatus L w of
        (Inl p, w1) \<Rightarrow> (Inl p, w1)
      | (Inr (Inl e), w1) \<Rightarrow> (Inr (Some e), w1)
      | (Inr (Inr status), w1) \<Rightarrow>
         (let w2 = SetChainId (st_ChainID status) w1 in
          case asserter_NewServer L TxOpTypes True
                 [\<lparr>Blockchain = ChainName, SubNetworkIdentifier = None,
                   Network = st_ChainID status\<rparr>] [] False of
            Some e \<Rightarrow> (Inr (Some e), w2)
          | None \<Rightarrow>
             (let w3 = w2\<lparr>db := open_db (storage L)\<rparr> in
              if path_missing L return_stakes_path
              then (case GenStakesForSnapshot L w3 of
                      (Inl p, w4) \<Rightarrow> (Inl p, w4)
                    | (Inr _, w4) \<Rightarrow> (Inr None, w4))
              else (Inr None, w3))))"

section \<open>Requests\<close>

datatype request =
    NetworkListRequest
  | NetworkStatusRequest NetworkRequest
  | NetworkOptionsRequest NetworkRequest
  | BalanceRequest AccountBalanceRequest
  | CoinsRequest AccountCoinsRequest
  | BlockRequest BlockRequest
  | BlockTxRequest BlockTransactionRequest
  | MempoolRequest "NetworkIdentifier option"
  | MempoolTxRequest "NetworkIdentifier option" string
  | DeriveRequest "NetworkIdentifier option \<times> PublicKey option"
  | PreprocessRequest ConstructionPreprocessRequest
  | MetadataRequest "NetworkIdentifier option \<times> metadata"
  | PayloadsRequest ConstructionPayloadsRequest
  | ParseRequest ConstructionParseRequest
  | CombineRequest ConstructionCombineRequest
  | HashRequest "NetworkIdentifier option \<times> string"
  | SubmitRequest "NetworkIdentifier option \<times> string"

datatype reply =
    NetworkListReply "NetworkIdentifier list"
  | NetworkStatusReply NetworkStatusResponse
  | NetworkOptionsReply NetworkOptionsResponse
  | BalanceReply AccountBalanceResponse
  | CoinsReply AccountCoinsResponse
  | BlockReply Block_data
  | TransactionReply Transaction
  | MempoolReply "string list"
  | DeriveReply string
  | PreprocessReply metadata
  | MetadataReply "metadata \<times> Amount"
  | PayloadsReply "string \<times> SigningPayload"
  | ParseReply ConstructionParseResponse
  | CombineReply string
  | TransactionIdentifierReply string

definition as_reply :: "('r \<Rightarrow> reply) \<Rightarrow> 'r outcome \<times> 'd world \<Rightarrow> reply outcome \<times> 'd world" where
  "as_reply f rw = (map_outcome f (fst rw), snd rw)"

lemma as_reply_world [simp]: "snd (as_reply f rw) = snd rw"
  by (simp add: as_reply_def)

text \<open>The controllers registered with the router: one handler per route.\<close>

fun serve :: "('d, 'a) startlib_scheme \<Rightarrow> request \<Rightarrow> ('d, reply outcome) step" where
  "serve L NetworkListRequest w = as_reply NetworkListReply (NetworkList () w)"
| "serve L (NetworkStatusRequest r) w = as_reply NetworkStatusReply (NetworkStatus L r w)"
| "serve L (NetworkOptionsRequest r) w = as_reply NetworkOptionsReply (NetworkOptions L r w)"
| "serve L (BalanceRequest r) w = as_reply BalanceReply (AccountBalance L r w)"
| "serve L (CoinsRequest r) w = as_reply CoinsReply (AccountCoins L r w)"
| "serve L (BlockRequest r) w = as_reply BlockReply (Block L r w)"
| "serve L (BlockTxRequest r) w = as_reply TransactionReply (BlockTransaction L r w)"
| "serve L (MempoolRequest ni) w = as_reply MempoolReply (Mempool L ni w)"
| "serve L (MempoolTxRequest ni h) w = as_reply TransactionReply (MempoolTransaction L ni h w)"
| "serve L (DeriveRequest r) w = as_reply DeriveReply (ConstructionDerive L r w)"
| "serve L (PreprocessRequest r) w = as_reply PreprocessReply (ConstructionPreprocess L r w)"
| "serve L (MetadataRequest r) w = as_reply MetadataReply (ConstructionMetadata L r w)"
| "serve L (PayloadsRequest r) w = as_reply PayloadsReply (ConstructionPayloads L r w)"
| "serve L (ParseRequest r) w = as_reply ParseReply (ConstructionParse L r w)"
| "serve L (CombineRequest r) w = as_reply CombineReply (ConstructionCombine L r w)"
| "serve L (HashRequest r) w = as_reply TransactionIdentifierReply (ConstructionHash L r w)"
| "serve L (SubmitRequest r) w = as_reply TransactionIdentifierReply (ConstructionSubmit L r w)"

text \<open>The node is not needed for these.\<close>

fun offline_request :: "request \<Rightarrow> bool" where
  "offline_request NetworkListRequest = True"
| "offline_request (NetworkOptionsRequest r) = True"
| "offline_request (DeriveRequest r) = True"
| "offline_request (PreprocessRequest r) = True"
| "offline_request (PayloadsRequest r) = True"
| "offline_request (ParseRequest r) = True"
| "offline_request (CombineRequest r) = True"
| "offline_request (HashRequest r) = True"
| "offline_request _ = False"

section \<open>Histories\<close>

text \<open>A panic of a handler ends the request (\<open>net/http\<close> recovers it), not the server.\<close>

fun run :: "('d, 'a) startlib_scheme \<Rightarrow> request list \<Rightarrow> 'd world \<Rightarrow> 'd world" where
  "run L [] w = w"
| "run L (r # rs) w = run L rs (snd (serve L r w))"

inductive reachable :: "('d, 'a) startlib_scheme \<Rightarrow> 'd world \<Rightarrow> 'd world \<Rightarrow> bool"
  for L :: "('d, 'a) startlib_scheme" and w0 :: "'d world" where
  start: "reachable L w0 w0"
| request: "reachable L w0 w \<Longrightarrow> reachable L w0 (snd (serve L r w))"

lemma run_append: "run L (rs @ rs') w = run L rs' (run L rs w)"
  by (induction rs arbitrary: w) auto

lemma reachable_run: "reachable L w0 (run L rs w0)"
proof (induction rs rule: rev_induct)
  case (snoc r rs)
  then show ?case by (simp add: run_append reachable.request)
qed (simp add: reachable.start)

lemma reachable_iff_run: "reachable L w0 w \<longleftrightarrow> (\<exists>rs. w = run L rs w0)"
proof
  show "\<exists>rs. w = run L rs w0" if "reachable L w0 w"
    using that
  proof (induction rule: reachable.induct)
    case start
    show ?case by (metis run.simps(1))
  next
    case (request w r)
    then show ?case by (metis run.simps run_append)
  qed
qed (auto intro: reachable_run)

section \<open>The server as one endpoint\<close>

interpretation serve: endpoint "serve L" for L :: "('d, 'a) startlib_scheme"
proof unfold_locales
  fix req and w :: "'d world"
  have "grows w (snd (MempoolTransaction L ni h w))" for ni h
    using mempool_transaction.handle_grows [of w L "(ni, h)"] by simp
  then show "grows w (snd (serve L req w))"
    by (cases req)
      (simp_all add: network_list.handle_grows network_status.handle_grows balance.handle_grows
        coins.handle_grows block.handle_grows block_transaction.handle_grows mempool.handle_grows
        derive.handle_grows preprocess.handle_grows metadata.handle_grows payloads.handle_grows
        parse.handle_grows combine.handle_grows hash.handle_grows submit.handle_grows)
qed

lemma reachable_grows: "reachable L w0 w \<Longrightarrow> grows w0 w"
  by (induction rule: reachable.induct) (auto intro: grows_trans serve.handle_grows)

text \<open>Offline, only \<open>/mempool/transaction\<close> makes a call.\<close>

lemma offline_request_calls: "offline_request r \<Longrightarrow> calls (snd (serve L r w)) = calls w"
  by (cases r)
    (simp_all add: network_list.no_calls derive.no_calls preprocess.no_calls payloads.no_calls
      parse.no_calls combine.no_calls hash.no_calls)

lemma serve_offline:
  assumes "\<not> online L" "\<not> offline_request r" "\<And>ni h. r \<noteq> MempoolTxRequest ni h"
  shows "serve L r w = (Failure (Global ErrUnavailableOffline), w)"
  using assms
  by (cases r)
    (auto simp add: as_reply_def network_status.offline_refused balance.offline_refused
      coins.offline_refused block.offline_refused block_transaction.offline_refused
      mempool.offline_refused metadata.offline_refused submit.offline_refused)

section \<open>The database over a history\<close>

lemma serve_same_db:
  assumes "\<And>q. r \<noteq> BlockRequest q"
  shows "db (snd (serve L r w)) = db w"
proof -
  have "db (snd (MempoolTransaction L ni h w)) = db w" for ni h
    using mempool_transaction.db_kept [of L "(ni, h)" w] by simp
  then show ?thesis
    using assms
    by (cases r)
      (auto simp add: network_list.db_kept network_status_db.db_kept balance_db.db_kept
        coins_db.db_kept block_transaction_db.db_kept mempool_db.db_kept derive.db_kept
        preprocess.db_kept metadata_db.db_kept payloads.db_kept parse.db_kept combine.db_kept
        hash.db_kept submit_db.db_kept)
qed

lemma serve_db_grows:
  assumes "db_ok (storage L)"
  shows "db_grows (storage L) w (snd (serve L r w))"
proof (cases "\<exists>q. r = BlockRequest q")
  case True
  then show ?thesis by (auto simp: Block_db_grows [OF assms])
next
  case False
  then show ?thesis by (intro same_db_grows serve_same_db) blast
qed

lemma run_db_grows:
  assumes "db_ok (storage L)"
  shows "db_grows (storage L) w (run L rs w)"
proof (induction rs arbitrary: w)
  case (Cons r rs)
  then show ?case using serve_db_grows [OF assms] by (auto intro: db_grows_trans)
qed simp

end
