(* ===== verification/ConstructionIntent.thy ===== *)
theory ConstructionIntent
  imports ConstructionService "HOL-Library.Multiset"
begin

text \<open>
  What the construction flow promises: the transaction that \<open>/construction/payloads\<close> builds
  from operations is read back by \<open>/construction/parse\<close> as the same operations. The matcher
  of the SDK, the transaction codec and the printing of addresses are third-party; their
  documented behaviour is \<open>match_law\<close>, \<open>codec_law\<close> and \<open>address_law\<close>.
\<close>

section \<open>The documented laws\<close>

definition sign_ok :: "AmountSign \<Rightarrow> int \<Rightarrow> bool" where
  "sign_ok s n = (case s of NegativeOrZeroAmountSign \<Rightarrow> n \<le> 0 | PositiveOrZeroAmountSign \<Rightarrow> 0 \<le> n)"

text \<open>An operation fits a description with the amount \<open>n\<close>.\<close>

definition fits :: "OperationDescription \<Rightarrow> Operation \<Rightarrow> int \<Rightarrow> bool" where
  "fits d op n \<longleftrightarrow>
     op_Type op = od_Type d \<and> op_Account op \<noteq> None \<and> sign_ok (od_Sign d) n \<and>
     (case op_Amount op of
        None \<Rightarrow> False
      | Some am \<Rightarrow> Amount_Currency am = od_Currency d \<and> SetString10 (Value am) = Some n)"

definition matched :: "OperationDescription \<Rightarrow> Match \<Rightarrow> bool" where
  "matched d m \<longleftrightarrow>
     (case m of (Some op, Some n) \<Rightarrow> fits d op n | _ \<Rightarrow> False)"

text \<open>
  With as many operations as descriptions and \<open>ErrUnmatched\<close>, a successful match pairs them
  one to one, in the order of the descriptions.
\<close>

definition match_law :: "('d, 'a) conslib_scheme \<Rightarrow> bool" where
  "match_law L \<longleftrightarrow>
     (\<forall>ds ops ms. length ds = length ops \<longrightarrow> MatchOperations L ds ops = Inr ms \<longrightarrow>
        list_all2 matched ds ms \<and> mset (map fst ms) = mset (map Some ops))"

text \<open>Encoding writes a nil number as zero; everything that matters is read back.\<close>

definition same_coins :: "Coins \<Rightarrow> Coins \<Rightarrow> bool" where
  "same_coins c c' \<longleftrightarrow>
     ThetaWei c' = Some (or_zero (ThetaWei c)) \<and> TFuelWei c' = Some (or_zero (TFuelWei c))"

definition same_input :: "TxInput \<Rightarrow> TxInput \<Rightarrow> bool" where
  "same_input i i' \<longleftrightarrow>
     in_Address i' = in_Address i \<and> same_coins (in_Coins i) (in_Coins i') \<and>
     in_Sequence i' = in_Sequence i"

definition same_output :: "TxOutput \<Rightarrow> TxOutput \<Rightarrow> bool" where
  "same_output o' o'' \<longleftrightarrow>
     out_Address o'' = out_Address o' \<and> same_coins (out_Coins o') (out_Coins o'')"

definition same_send :: "SendTx_data \<Rightarrow> SendTx_data \<Rightarrow> bool" where
  "same_send t t' \<longleftrightarrow>
     same_coins (send_Fee t) (send_Fee t') \<and>
     list_all2 same_input (send_Inputs t) (send_Inputs t') \<and>
     list_all2 same_output (send_Outputs t) (send_Outputs t')"

definition same_contract :: "SmartContractTx_data \<Rightarrow> SmartContractTx_data \<Rightarrow> bool" where
  "same_contract t t' \<longleftrightarrow>
     same_input (sc_From t) (sc_From t') \<and> same_output (sc_To t) (sc_To t') \<and>
     sc_GasLimit t' = sc_GasLimit t \<and> sc_GasPrice t' = Some (or_zero (sc_GasPrice t)) \<and>
     sc_Data t' = sc_Data t"

definition codec_law :: "('d, 'a) conslib_scheme \<Rightarrow> bool" where
  "codec_law L \<longleftrightarrow>
     (\<forall>t raw. TxToBytes L (TxSend t) = Inr raw \<longrightarrow>
        (\<exists>t'. TxFromBytes L raw = Inr (TxSend t') \<and> same_send t t')) \<and>
     (\<forall>t raw. TxToBytes L (TxSmartContract t) = Inr raw \<longrightarrow>
        (\<exists>t'. TxFromBytes L raw = Inr (TxSmartContract t') \<and> same_contract t t'))"

definition address_law :: "'a thetalib_scheme \<Rightarrow> bool" where
  "address_law L \<longleftrightarrow> (\<forall>a. HexToAddress L (Address_String L a) = a)"

section \<open>The intent of an operation\<close>

text \<open>What an operation says: its type, account, currency and amount.\<close>

definition intent :: "'a thetalib_scheme \<Rightarrow> Operation \<Rightarrow> string \<times> address option \<times> (Currency \<times> int option) option" where
  "intent L op =
     (op_Type op, map_option (HexToAddress L) (op_Account op),
      map_option (\<lambda>am. (Amount_Currency am, SetString10 (Value am))) (op_Amount op))"

lemma intent_mk_op:
  "intent L (mk_op i rel t st a (int_text n) c md) =
     (TxOpType_String t, Some (HexToAddress L a), Some (c, Some n))"
  by (simp add: intent_def)

lemma matched_intent:
  assumes "matched d m"
  obtains op a n where "m = (Some op, Some n)" "op_Account op = Some a"
    "intent L op = (od_Type d, Some (HexToAddress L a), Some (od_Currency d, Some n))"
proof -
  from assms obtain op n where m: "m = (Some op, Some n)" "fits d op n"
    by (auto simp: matched_def split: prod.splits option.splits)
  then obtain a where "op_Account op = Some a"
    by (auto simp: fits_def)
  with m that show ?thesis
    by (auto simp: fits_def intent_def split: option.splits)
qed

lemma list_all2_two:
  "list_all2 P [a, b] ms \<longleftrightarrow> (\<exists>x y. ms = [x, y] \<and> P a x \<and> P b y)"
  by (auto simp: list_all2_Cons1)

lemma list_all2_five:
  "list_all2 P [a, b, c, d, e] ms \<longleftrightarrow>
     (\<exists>v w x y z. ms = [v, w, x, y, z] \<and> P a v \<and> P b w \<and> P c x \<and> P d y \<and> P e z)"
  by (auto simp: list_all2_Cons1)

section \<open>Transfers\<close>

lemma ParseSendTx_single:
  assumes "send_Inputs t = [i]" "send_Outputs t = [o']" "TFuelWei (send_Fee t) = Some f"
    and "address_law L"
  shows "\<exists>md ops. ParseSendTx L t st ty = Inr (md, ops) \<and>
    map (intent L) ops =
      [(''SendTxInput'', Some (in_Address i), Some (GetThetaCurrency, Some (- or_zero (ThetaWei (in_Coins i))))),
       (''SendTxInput'', Some (in_Address i), Some (GetTFuelCurrency, Some (f - or_zero (TFuelWei (in_Coins i))))),
       (''SendTxOutput'', Some (out_Address o'), Some (GetThetaCurrency, Some (or_zero (ThetaWei (out_Coins o'))))),
       (''SendTxOutput'', Some (out_Address o'), Some (GetTFuelCurrency, Some (or_zero (TFuelWei (out_Coins o'))))),
       (''TxFee'', Some (in_Address i), Some (GetTFuelCurrency, Some (- f)))]"
  using assms by (simp add: ParseSendTx_def Let_def intent_mk_op address_law_def)

lemma send_round_trip:
  assumes ms: "list_all2 matched send_descriptions ms"
    and pre: "send_options ms = Inr (Inr opts)"
    and tx: "send_tx L seq ms = Inr (TxSend t)" and t': "same_send t t'"
    and addr: "address_law L"
  shows "\<exists>md ops. ParseSendTx L t' st ty = Inr (md, ops) \<and>
    map (intent L) ops = map (\<lambda>m. intent L (the (fst m))) ms"
proof -
  from ms obtain m0 m1 m2 m3 m4 where m: "ms = [m0, m1, m2, m3, m4]"
    and d: "list_all2 matched send_descriptions [m0, m1, m2, m3, m4]"
    by (auto simp: send_descriptions_def list_all2_five)
  note d = d [unfolded send_descriptions_def, simplified]
  obtain p0 a0 n0 where o0: "m0 = (Some p0, Some n0)" "op_Account p0 = Some a0"
    "intent L p0 = (''SendTxInput'', Some (HexToAddress L a0), Some (GetThetaCurrency, Some n0))"
    using d by (auto elim: matched_intent [where L = L])
  obtain p1 a1 n1 where o1: "m1 = (Some p1, Some n1)" "op_Account p1 = Some a1"
    "intent L p1 = (''SendTxInput'', Some (HexToAddress L a1), Some (GetTFuelCurrency, Some n1))"
    using d by (auto elim: matched_intent [where L = L])
  obtain p2 a2 n2 where o2: "m2 = (Some p2, Some n2)" "op_Account p2 = Some a2"
    "intent L p2 = (''SendTxOutput'', Some (HexToAddress L a2), Some (GetThetaCurrency, Some n2))"
    using d by (auto elim: matched_intent [where L = L])
  obtain p3 a3 n3 where o3: "m3 = (Some p3, Some n3)" "op_Account p3 = Some a3"
    "intent L p3 = (''SendTxOutput'', Some (HexToAddress L a3), Some (GetTFuelCurrency, Some n3))"
    using d by (auto elim: matched_intent [where L = L])
  obtain p4 a4 n4 where o4: "m4 = (Some p4, Some n4)" "op_Account p4 = Some a4"
    "intent L p4 = (''TxFee'', Some (HexToAddress L a4), Some (GetTFuelCurrency, Some n4))"
    using d by (auto elim: matched_intent [where L = L])
  note o = o0 o1 o2 o3 o4
  have same: "a1 = a0" "a4 = a0" "a3 = a2"
    using pre by (auto simp: m o send_options_def match_address_def go_simps split: if_splits)
  have t: "t = \<lparr>send_Fee = \<lparr>ThetaWei = Some 0, TFuelWei = Some (- n4)\<rparr>,
      send_Inputs = [\<lparr>in_Address = HexToAddress L a0,
        in_Coins = \<lparr>ThetaWei = Some (- n0), TFuelWei = Some (- n1 + - n4)\<rparr>,
        in_Sequence = seq, in_Signature = None\<rparr>],
      send_Outputs = [\<lparr>out_Address = HexToAddress L a2,
        out_Coins = \<lparr>ThetaWei = Some n2, TFuelWei = Some n3\<rparr>\<rparr>]\<rparr>"
    using tx by (simp add: m o send_tx_def match_address_def negate_def index_def)
  from t' obtain i out where i: "send_Inputs t' = [i]" "send_Outputs t' = [out]"
    "TFuelWei (send_Fee t') = Some (- n4)"
    "in_Address i = HexToAddress L a0" "or_zero (ThetaWei (in_Coins i)) = - n0"
    "or_zero (TFuelWei (in_Coins i)) = - n1 - n4"
    "out_Address out = HexToAddress L a2" "or_zero (ThetaWei (out_Coins out)) = n2"
    "or_zero (TFuelWei (out_Coins out)) = n3"
    by (auto simp: t same_send_def same_input_def same_output_def same_coins_def list_all2_Cons1)
  from ParseSendTx_single [OF i(1,2,3) addr, of st ty] show ?thesis
    by (simp add: m o i same)
qed

section \<open>Contract calls\<close>

text \<open>Amounts of zero are left out when a contract call is parsed.\<close>

lemma contract_round_trip:
  assumes ms: "list_all2 matched contract_descriptions ms"
    and tx: "contract_tx L seq md ms = Inr (Inr (TxSmartContract t))" and t': "same_contract t t'"
    and addr: "address_law L"
  shows "\<exists>md ops. ParseSmartContractTxForConstruction L t' ty = Inr (md, ops) \<and>
    map (intent L) ops = map (\<lambda>m. intent L (the (fst m))) (filter (\<lambda>m. snd m \<noteq> Some 0) ms)"
proof -
  from ms obtain m0 m1 where m: "ms = [m0, m1]"
    and d: "list_all2 matched contract_descriptions [m0, m1]"
    by (auto simp: contract_descriptions_def list_all2_two)
  note d = d [unfolded contract_descriptions_def, simplified]
  obtain p0 a0 n0 where o0: "m0 = (Some p0, Some n0)" "op_Account p0 = Some a0"
    "intent L p0 = (''SmartContractTxFrom'', Some (HexToAddress L a0), Some (GetTFuelCurrency, Some n0))"
    using d by (auto elim: matched_intent [where L = L])
  obtain p1 a1 n1 where o1: "m1 = (Some p1, Some n1)" "op_Account p1 = Some a1"
    "intent L p1 = (''SmartContractTxTo'', Some (HexToAddress L a1), Some (GetTFuelCurrency, Some n1))"
    using d by (auto elim: matched_intent [where L = L])
  have "in_Address (sc_From t) = HexToAddress L a0 \<and> out_Address (sc_To t) = HexToAddress L a1 \<and>
    in_Coins (sc_From t) = \<lparr>ThetaWei = Some 0, TFuelWei = Some (- n0)\<rparr> \<and>
    out_Coins (sc_To t) = \<lparr>ThetaWei = Some 0, TFuelWei = Some n1\<rparr>"
    using tx by (cases "contract_settings L md"; cases "projr (contract_settings L md)";
      auto simp: m o0 o1 contract_tx_def match_address_def negate_def index_def)
  with t' have c: "in_Address (sc_From t') = HexToAddress L a0" "out_Address (sc_To t') = HexToAddress L a1"
    "ThetaWei (in_Coins (sc_From t')) = Some 0" "TFuelWei (in_Coins (sc_From t')) = Some (- n0)"
    "ThetaWei (out_Coins (sc_To t')) = Some 0" "TFuelWei (out_Coins (sc_To t')) = Some n1"
    by (simp_all add: same_contract_def same_input_def same_output_def same_coins_def)
  show ?thesis
    using addr
    by (auto simp: m o0 o1 c ParseSmartContractTxForConstruction_def Let_def intent_mk_op
        address_law_def not_nil_nor_zero_bits_def)
qed

section \<open>Payloads and parse\<close>

lemma mset_matched:
  "mset (map fst ms) = mset (map Some ops) \<Longrightarrow> list_all2 matched ds ms \<Longrightarrow>
   mset (map (\<lambda>m. f (the (fst m))) ms) = mset (map f ops)"
proof -
  assume "mset (map fst ms) = mset (map Some ops)"
  then have "image_mset (f \<circ> the) (mset (map fst ms)) = image_mset (f \<circ> the) (mset (map Some ops))"
    by simp
  then show ?thesis by (simp add: multiset.map_comp comp_def)
qed

lemma fail_with_Response [simp]: "fail_with e m w \<noteq> (Response r, w')"
  by (simp add: fail_with_def)

lemma ConstructionPayloads_Response:
  assumes "ConstructionPayloads L req w = (Response (unsignedTx, payload), w')"
  obtains sequence matches tx raw where
    "getOperationDescriptions L (cp_Operations req) = Inr matches"
    "payload_tx L sequence (cp_Metadata req) (cp_Operations req) matches = Inr (Inr tx)"
    "TxToBytes L tx = Inr raw" "unsignedTx = hex_encode raw"
    "signing_payload L (cp_Operations req) tx w = Inr payload"
    "ValidateNetworkIdentifier (cp_NetworkIdentifier req) w = None" "w' = w"
proof -
  from assms obtain seq sequence matches where s: "ValidateNetworkIdentifier (cp_NetworkIdentifier req) w = None"
    "cp_Metadata req ''sequence'' = Some seq" "as_uint64 L seq = Inr sequence"
    "getOperationDescriptions L (cp_Operations req) = Inr matches"
    by (auto simp: ConstructionPayloads_def validated_Response split: option.splits sum.splits)
  from assms s show ?thesis
    by (cases "payload_tx L sequence (cp_Metadata req) (cp_Operations req) matches")
      (auto simp: ConstructionPayloads_def validated_Response intro: that split: sum.splits)
qed

lemma ConstructionPreprocess_Response:
  assumes "ConstructionPreprocess L req w = (Response options, w')"
  obtains matches opts where
    "getOperationDescriptions L (cpr_Operations req) = Inr matches"
    "preprocess_options matches = Inr (Inr opts)"
  using assms
  by (auto simp: ConstructionPreprocess_def validated_Response split: sum.splits)

lemma ConstructionParse_encoded:
  assumes "ValidateNetworkIdentifier ni w = None" "TxFromBytes L raw = Inr tx"
    and "parse_intent L tx = Inr (Inr (signer, md, ops))"
  shows "ConstructionParse L \<lparr>cpa_NetworkIdentifier = ni, cpa_Signed = s, cpa_Transaction = hex_encode raw\<rparr> w
    = (Response \<lparr>cpa_Operations = ops, cpa_Signers = (if s then Some [signer] else None),
                 cpa_Metadata = md\<rparr>, w)"
  using assms by (simp add: ConstructionParse_def validated_def)

end
