(* ===== verification/Samples.thy ===== *)
theory Samples
  imports Server ConstructionIntent
begin

text \<open>
  A concrete instance of everything the model takes as a parameter: a key-value database, a
  serialisation that is inverted by its parser, a node that answers a few calls. The
  witnesses evaluate the model on it, and it shows that the documented laws of the third
  parties can hold together.
\<close>

section \<open>A self-delimiting serialisation\<close>

text \<open>A number is written in unary, closed by a zero byte.\<close>

definition enc_nat :: "nat \<Rightarrow> byte list" where
  "enc_nat n = replicate n 1 @ [0]"

fun dec_nat :: "byte list \<Rightarrow> nat \<times> byte list" where
  "dec_nat [] = (0, [])"
| "dec_nat (b # bs) = (if b = 1 then (case dec_nat bs of (n, r) \<Rightarrow> (Suc n, r)) else (0, bs))"

lemma dec_enc_nat [simp]: "dec_nat (enc_nat n @ r) = (n, r)"
  by (induction n) (simp_all add: enc_nat_def)

definition enc_word :: "'w::len word \<Rightarrow> byte list" where
  "enc_word w = enc_nat (unat w)"

definition dec_word :: "byte list \<Rightarrow> 'w::len word \<times> byte list" where
  "dec_word bs = (case dec_nat bs of (n, r) \<Rightarrow> (of_nat n, r))"

lemma dec_enc_word [simp]: "dec_word (enc_word w @ r) = (w, r)"
  by (simp add: enc_word_def dec_word_def)

text \<open>A nil number is written as zero.\<close>

definition enc_big :: "bigint \<Rightarrow> byte list" where
  "enc_big x = enc_nat (if or_zero x < 0 then 1 else 0) @ enc_nat (nat \<bar>or_zero x\<bar>)"

definition dec_big :: "byte list \<Rightarrow> bigint \<times> byte list" where
  "dec_big bs =
     (case dec_nat bs of (s, bs1) \<Rightarrow> case dec_nat bs1 of (n, r) \<Rightarrow>
        (Some (if s = 1 then - int n else int n), r))"

lemma dec_enc_big [simp]: "dec_big (enc_big x @ r) = (Some (or_zero x), r)"
  by (simp add: enc_big_def dec_big_def)

fun dec_list :: "(byte list \<Rightarrow> 'a \<times> byte list) \<Rightarrow> nat \<Rightarrow> byte list \<Rightarrow> 'a list \<times> byte list" where
  "dec_list dec 0 bs = ([], bs)"
| "dec_list dec (Suc n) bs =
     (case dec bs of (x, bs1) \<Rightarrow> case dec_list dec n bs1 of (xs, r) \<Rightarrow> (x # xs, r))"

definition enc_many :: "('a \<Rightarrow> byte list) \<Rightarrow> 'a list \<Rightarrow> byte list" where
  "enc_many enc xs = enc_nat (length xs) @ concat (map enc xs)"

definition dec_many :: "(byte list \<Rightarrow> 'a \<times> byte list) \<Rightarrow> byte list \<Rightarrow> 'a list \<times> byte list" where
  "dec_many dec bs = (case dec_nat bs of (n, bs1) \<Rightarrow> dec_list dec n bs1)"

lemma dec_enc_many:
  assumes "\<And>x r. dec (enc x @ r) = (canon x, r)"
  shows "dec_many dec (enc_many enc xs @ r) = (map canon xs, r)"
proof -
  have "dec_list dec (length xs) (concat (map enc xs) @ r) = (map canon xs, r)"
    by (induction xs) (simp_all add: assms)
  then show ?thesis by (simp add: dec_many_def enc_many_def)
qed

definition dec_byte :: "byte list \<Rightarrow> byte \<times> byte list" where
  "dec_byte bs = (hd bs, tl bs)"

definition enc_bytes :: "byte list \<Rightarrow> byte list" where
  "enc_bytes = enc_many (\<lambda>b. [b])"

definition dec_bytes :: "byte list \<Rightarrow> byte list \<times> byte list" where
  "dec_bytes = dec_many dec_byte"

lemma dec_enc_bytes [simp]: "dec_bytes (enc_bytes bs @ r) = (bs, r)"
  using dec_enc_many [of dec_byte "\<lambda>b. [b]" id bs r]
  by (simp add: enc_bytes_def dec_bytes_def dec_byte_def)

definition text_of :: "byte list \<Rightarrow> string" where
  "text_of bs = map (\<lambda>b. char_of (unat b)) bs"

lemma char_of_byte: "char_of (unat (of_char c :: byte)) = c"
proof -
  have "(of_char c :: byte) = of_nat (of_char c)" by (metis of_nat_of_char)
  moreover have "(of_char c :: nat) < 256" by simp
  ultimately have "unat (of_char c :: byte) = of_char c" by (simp add: unat_of_nat)
  then show ?thesis by simp
qed

lemma text_of_bytes_of [simp]: "text_of (bytes_of s) = s"
  by (simp add: text_of_def bytes_of_def comp_def char_of_byte)

section \<open>Coins, inputs and outputs\<close>

definition canon_coins :: "Coins \<Rightarrow> Coins" where
  "canon_coins c = \<lparr>ThetaWei = Some (or_zero (ThetaWei c)), TFuelWei = Some (or_zero (TFuelWei c))\<rparr>"

definition enc_coins :: "Coins \<Rightarrow> byte list" where
  "enc_coins c = enc_big (ThetaWei c) @ enc_big (TFuelWei c)"

definition dec_coins :: "byte list \<Rightarrow> Coins \<times> byte list" where
  "dec_coins bs =
     (case dec_big bs of (t, bs1) \<Rightarrow> case dec_big bs1 of (f, r) \<Rightarrow> (\<lparr>ThetaWei = t, TFuelWei = f\<rparr>, r))"

lemma dec_enc_coins [simp]: "dec_coins (enc_coins c @ r) = (canon_coins c, r)"
  by (simp add: enc_coins_def dec_coins_def canon_coins_def)

text \<open>An absent signature is written as the empty one.\<close>

definition canon_input :: "TxInput \<Rightarrow> TxInput" where
  "canon_input i = i\<lparr>in_Coins := canon_coins (in_Coins i),
     in_Signature := Some (case in_Signature i of None \<Rightarrow> [] | Some s \<Rightarrow> s)\<rparr>"

definition enc_input :: "TxInput \<Rightarrow> byte list" where
  "enc_input i = enc_word (in_Address i) @ enc_coins (in_Coins i) @ enc_word (in_Sequence i) @
     enc_bytes (case in_Signature i of None \<Rightarrow> [] | Some s \<Rightarrow> s)"

definition dec_input :: "byte list \<Rightarrow> TxInput \<times> byte list" where
  "dec_input bs =
     (case dec_word bs of (a, bs1) \<Rightarrow> case dec_coins bs1 of (c, bs2) \<Rightarrow>
      case dec_word bs2 of (n, bs3) \<Rightarrow> case dec_bytes bs3 of (s, r) \<Rightarrow>
        (\<lparr>in_Address = a, in_Coins = c, in_Sequence = n, in_Signature = Some s\<rparr>, r))"

lemma dec_enc_input [simp]: "dec_input (enc_input i @ r) = (canon_input i, r)"
  by (cases i) (simp add: enc_input_def dec_input_def canon_input_def)

definition canon_output :: "TxOutput \<Rightarrow> TxOutput" where
  "canon_output o' = o'\<lparr>out_Coins := canon_coins (out_Coins o')\<rparr>"

definition enc_output :: "TxOutput \<Rightarrow> byte list" where
  "enc_output o' = enc_word (out_Address o') @ enc_coins (out_Coins o')"

definition dec_output :: "byte list \<Rightarrow> TxOutput \<times> byte list" where
  "dec_output bs =
     (case dec_word bs of (a, bs1) \<Rightarrow> case dec_coins bs1 of (c, r) \<Rightarrow>
        (\<lparr>out_Address = a, out_Coins = c\<rparr>, r))"

lemma dec_enc_output [simp]: "dec_output (enc_output o' @ r) = (canon_output o', r)"
  by (cases o') (simp add: enc_output_def dec_output_def canon_output_def)

section \<open>Recorded returns\<close>

definition canon_return :: "ReturnStakeTx \<Rightarrow> ReturnStakeTx" where
  "canon_return s = s\<lparr>rs_Tx := (rs_Tx s)\<lparr>ws_Fee := canon_coins (ws_Fee (rs_Tx s)),
     ws_Source := canon_input (ws_Source (rs_Tx s)), ws_Holder := canon_output (ws_Holder (rs_Tx s))\<rparr>\<rparr>"

definition enc_return :: "ReturnStakeTx \<Rightarrow> byte list" where
  "enc_return s = enc_bytes (bytes_of (rs_Hash s)) @ enc_coins (ws_Fee (rs_Tx s)) @
     enc_input (ws_Source (rs_Tx s)) @ enc_output (ws_Holder (rs_Tx s)) @ enc_word (ws_Purpose (rs_Tx s))"

definition dec_return :: "byte list \<Rightarrow> ReturnStakeTx \<times> byte list" where
  "dec_return bs =
     (case dec_bytes bs of (h, bs1) \<Rightarrow> case dec_coins bs1 of (f, bs2) \<Rightarrow>
      case dec_input bs2 of (s, bs3) \<Rightarrow> case dec_output bs3 of (o', bs4) \<Rightarrow>
      case dec_word bs4 of (p, r) \<Rightarrow>
        (\<lparr>rs_Hash = text_of h,
          rs_Tx = \<lparr>ws_Fee = f, ws_Source = s, ws_Holder = o', ws_Purpose = p\<rparr>\<rparr>, r))"

lemma dec_enc_return: "dec_return (enc_return s @ r) = (canon_return s, r)"
  by (cases s; cases "rs_Tx s") (simp add: enc_return_def dec_return_def canon_return_def)

definition canon_returns :: "ReturnStakeTxs \<Rightarrow> ReturnStakeTxs" where
  "canon_returns v = \<lparr>ReturnStakes = map canon_return (ReturnStakes v)\<rparr>"

definition enc_returns :: "ReturnStakeTxs \<Rightarrow> byte list" where
  "enc_returns v = enc_many enc_return (ReturnStakes v)"

definition dec_returns :: "byte list \<Rightarrow> ReturnStakeTxs" where
  "dec_returns bs = \<lparr>ReturnStakes = fst (dec_many dec_return bs)\<rparr>"

lemma dec_enc_returns: "dec_returns (enc_returns v) = canon_returns v"
  using dec_enc_many [of dec_return enc_return canon_return "ReturnStakes v" "[]"] dec_enc_return
  by (simp add: dec_returns_def enc_returns_def canon_returns_def)

lemma same_stakes_canon: "same_stakes v (canon_returns v)"
  by (auto simp: same_stakes_def canon_returns_def same_stake_def canon_return_def canon_input_def
      canon_output_def canon_coins_def list_all2_conv_all_nth)

text \<open>RLP has no encoding of a negative number.\<close>

definition non_negative :: "Coins \<Rightarrow> bool" where
  "non_negative c \<longleftrightarrow> 0 \<le> or_zero (ThetaWei c) \<and> 0 \<le> or_zero (TFuelWei c)"

definition encodable :: "ReturnStakeTxs \<Rightarrow> bool" where
  "encodable v \<longleftrightarrow> list_all (\<lambda>r. non_negative (ws_Fee (rs_Tx r)) \<and>
     non_negative (in_Coins (ws_Source (rs_Tx r))) \<and> non_negative (out_Coins (ws_Holder (rs_Tx r))))
     (ReturnStakes v)"

section \<open>A database\<close>

type_synonym sample_db = "byte list \<rightharpoonup> byte list"

definition sample_store :: "sample_db storelib" where
  "sample_store =
     \<lparr>ldb_OpenFile = (\<lambda>file opts. Inr Map.empty),
      ldb_RecoverFile = (\<lambda>file. Inr Map.empty),
      ldb_Put = (\<lambda>k v d. (None, d(k \<mapsto> v))),
      ldb_Has = (\<lambda>k d. Inr (d k \<noteq> None)),
      ldb_Get = (\<lambda>k d. case d k of None \<Rightarrow> Inl ErrNotFound | Some v \<Rightarrow> Inr v),
      ldb_Delete = (\<lambda>k d. (None, d(k := None))),
      ldb_Close = (\<lambda>d. (None, d)),
      MiB = 1048576,
      rlp_EncodeToBytes = (\<lambda>v. if encodable v then Inr (enc_returns v)
        else Inl ''rlp: cannot encode negative *big.Int''),
      rlp_DecodeBytes = (\<lambda>bs. Inr (dec_returns bs))\<rparr>"

lemma sample_store_laws: "store_laws sample_store canon_returns"
  by (auto simp: store_laws_def leveldb_laws_def rlp_laws_def sample_store_def dec_enc_returns
      same_stakes_canon split: if_splits)

lemma sample_put: "fst (KVStore_Put sample_store k v d) = None \<longleftrightarrow> encodable v"
  by (simp add: sample_store_def KVStore_Put_def LDB_Put_def)

lemma sample_db_ok: "db_ok sample_store"
  using sample_store_laws by (auto simp: db_ok_def)

section \<open>Encoded transactions\<close>

definition canon_send :: "SendTx_data \<Rightarrow> SendTx_data" where
  "canon_send t =
     \<lparr>send_Fee = canon_coins (send_Fee t), send_Inputs = map canon_input (send_Inputs t),
      send_Outputs = map canon_output (send_Outputs t)\<rparr>"

definition enc_send :: "SendTx_data \<Rightarrow> byte list" where
  "enc_send t = enc_coins (send_Fee t) @ enc_many enc_input (send_Inputs t) @
     enc_many enc_output (send_Outputs t)"

definition dec_send :: "byte list \<Rightarrow> SendTx_data" where
  "dec_send bs =
     (case dec_coins bs of (f, bs1) \<Rightarrow> case dec_many dec_input bs1 of (ins, bs2) \<Rightarrow>
      case dec_many dec_output bs2 of (outs, r) \<Rightarrow>
        \<lparr>send_Fee = f, send_Inputs = ins, send_Outputs = outs\<rparr>)"

lemma dec_enc_send: "dec_send (enc_send t) = canon_send t"
  using dec_enc_many [of dec_input enc_input canon_input]
    dec_enc_many [of dec_output enc_output canon_output "send_Outputs t" "[]"]
  by (simp add: enc_send_def dec_send_def canon_send_def)

definition canon_contract :: "SmartContractTx_data \<Rightarrow> SmartContractTx_data" where
  "canon_contract t = t\<lparr>sc_From := canon_input (sc_From t), sc_To := canon_output (sc_To t),
     sc_GasPrice := Some (or_zero (sc_GasPrice t))\<rparr>"

definition enc_contract :: "SmartContractTx_data \<Rightarrow> byte list" where
  "enc_contract t = enc_input (sc_From t) @ enc_output (sc_To t) @ enc_word (sc_GasLimit t) @
     enc_big (sc_GasPrice t) @ enc_bytes (sc_Data t)"

definition dec_contract :: "byte list \<Rightarrow> SmartContractTx_data" where
  "dec_contract bs =
     (case dec_input bs of (f, bs1) \<Rightarrow> case dec_output bs1 of (o', bs2) \<Rightarrow>
      case dec_word bs2 of (l, bs3) \<Rightarrow> case dec_big bs3 of (p, bs4) \<Rightarrow>
      case dec_bytes bs4 of (d, r) \<Rightarrow>
        \<lparr>sc_From = f, sc_To = o', sc_GasLimit = l, sc_GasPrice = p, sc_Data = d\<rparr>)"

lemma dec_enc_contract: "dec_contract (enc_contract t) = canon_contract t"
  using dec_enc_bytes [of "sc_Data t" "[]"]
  by (cases t) (simp add: enc_contract_def dec_contract_def canon_contract_def)

fun sample_TxToBytes :: "ledger_tx \<Rightarrow> string + byte list" where
  "sample_TxToBytes (TxSend t) = Inr (1 # enc_send t)"
| "sample_TxToBytes (TxSmartContract t) = Inr (2 # enc_contract t)"
| "sample_TxToBytes _ = Inl ''unknown transaction''"

fun sample_TxFromBytes :: "byte list \<Rightarrow> string + ledger_tx" where
  "sample_TxFromBytes [] = Inl ''empty''"
| "sample_TxFromBytes (b # bs) =
     (if b = 1 then Inr (TxSend (dec_send bs))
      else if b = 2 then Inr (TxSmartContract (dec_contract bs))
      else Inl ''unknown transaction'')"

section \<open>A matcher\<close>

text \<open>Every description takes the first operation left that fits it.\<close>

definition op_value :: "Operation \<Rightarrow> int option" where
  "op_value op = Option.bind (op_Amount op) (\<lambda>am. SetString10 (Value am))"

definition candidate :: "OperationDescription \<Rightarrow> Operation \<Rightarrow> bool" where
  "candidate d op = (case op_value op of None \<Rightarrow> False | Some n \<Rightarrow> fits d op n)"

fun sample_match :: "OperationDescription list \<Rightarrow> Operation list \<Rightarrow> string + Match list" where
  "sample_match [] ops = (if ops = [] then Inr [] else Inl ''unmatched operation'')"
| "sample_match (d # ds) ops =
     (case List.extract (candidate d) ops of
        None \<Rightarrow> Inl ''missing operation''
      | Some (before, op, behind) \<Rightarrow>
          andThen (sample_match ds (before @ behind)) (\<lambda>ms. Inr ((Some op, op_value op) # ms)))"

lemma sample_match_law:
  "sample_match ds ops = Inr ms \<Longrightarrow>
   list_all2 matched ds ms \<and> mset (map fst ms) = mset (map Some ops)"
proof (induction ds ops arbitrary: ms rule: sample_match.induct)
  case (2 d ds ops)
  from "2.prems" obtain before op behind ms' where e:
    "List.extract (candidate d) ops = Some (before, op, behind)"
    "sample_match ds (before @ behind) = Inr ms'" "ms = (Some op, op_value op) # ms'"
    by (auto simp: go_simps split: option.splits)
  have ih: "list_all2 matched ds ms' \<and> mset (map fst ms') = mset (map Some (before @ behind))"
    using "2.IH" [OF e(1) refl refl e(2)] .
  from e(1) have "ops = before @ op # behind" "candidate d op"
    by (auto simp: extract_Some_iff)
  moreover from this(2) have "matched d (Some op, op_value op)"
    by (auto simp: candidate_def matched_def split: option.splits)
  ultimately show ?case using ih by (simp add: e(3))
qed (auto split: if_splits)

section \<open>A node\<close>

definition answer :: "json \<Rightarrow> rpc_reply" where
  "answer j = (Some \<lparr>Result = j, Error = None\<rparr>, None)"

definition withdrawal_block :: json where
  "withdrawal_block = JObject [(''transactions'', JArray [JObject []])]"

definition later_block :: json where
  "later_block = JObject []"

fun sample_call :: "rpc_call list \<Rightarrow> rpc_call \<Rightarrow> rpc_reply" where
  "sample_call hist (m, GetStatusArgs) = answer (JString ''status'')"
| "sample_call hist (m, GetBlockByHeightArgs h) =
     answer (if h = 5 then withdrawal_block else later_block)"
| "sample_call hist (m, GetStakeByHeightArgs h) = answer (JString ''stakes'')"
| "sample_call hist (m, GetTransactionArgs t) = answer (JObject [(''transaction'', JObject [])])"
| "sample_call hist (m, GetAccountArgs a h p) =
     (if a = ''nobody'' then (Some \<lparr>Result = JNull, Error = Some \<lparr>RPCError_Code = -32000, RPCError_Message = ''missing''\<rparr>\<rparr>, None)
      else answer (JString a))"
| "sample_call hist (m, BroadcastRawTransactionAsyncArgs t) = answer (JObject [(''hash'', JString ''0x7'')])"
| "sample_call hist (m, _) = (None, Some ''refused'')"

definition sample_withdrawal :: WithdrawStakeTx_data where
  "sample_withdrawal =
     \<lparr>ws_Fee = \<lparr>ThetaWei = Some 0, TFuelWei = Some 3\<rparr>,
      ws_Source = \<lparr>in_Address = 1, in_Coins = \<lparr>ThetaWei = None, TFuelWei = None\<rparr>,
                   in_Sequence = 8, in_Signature = None\<rparr>,
      ws_Holder = \<lparr>out_Address = 2, out_Coins = \<lparr>ThetaWei = None, TFuelWei = None\<rparr>\<rparr>,
      ws_Purpose = 0\<rparr>"

definition sample_stake :: Stake where
  "sample_stake = \<lparr>stk_Source = 1, stk_Holder = 2, stk_Amount = Some 700, stk_Withdrawn = True,
     stk_ReturnHeight = 30\<rparr>"

definition sample_inner :: "u64 \<Rightarrow> Tx list \<Rightarrow> GetBlockResultInner" where
  "sample_inner h txs =
     \<lparr>gb_Height = h, gb_Parent = 0, gb_TxHash = 0, gb_StateHash = 0, gb_Timestamp = Some 1600000000,
      gb_Proposer = 3, gb_Status = 4, gb_Hash = 6, gb_Txs = txs\<rparr>"

definition sample_block :: "json \<Rightarrow> GetBlockResultInner option" where
  "sample_block j =
     Some (if j = withdrawal_block
           then sample_inner 5
             [\<lparr>tx_Type = 9, tx_Hash = 77, tx_Receipt = None, tx_BalanceChanges = None\<rparr>]
           else sample_inner 28805 [])"

definition sample_status :: GetStatusResult where
  "sample_status = zero_status\<lparr>st_ChainID := ''mainnet'', st_LatestFinalizedBlockHeight := 90,
     st_LatestFinalizedBlockTime := Some 1600000000, st_CurrentHeight := 92\<rparr>"

definition sample_transaction :: GetTransactionResult where
  "sample_transaction = zero_transaction_result\<lparr>gt_Status := ''finalized'', gt_Type := 9, gt_TxHash := 77\<rparr>"

definition no_coins :: Coins where
  "no_coins = \<lparr>ThetaWei = None, TFuelWei = None\<rparr>"

definition no_input :: TxInput where
  "no_input = \<lparr>in_Address = 1, in_Coins = no_coins, in_Sequence = 0, in_Signature = None\<rparr>"

definition no_output :: TxOutput where
  "no_output = \<lparr>out_Address = 2, out_Coins = no_coins\<rparr>"

definition number_text :: "'w::len word \<Rightarrow> string" where
  "number_text w = ''0x'' @ digits10 (unat w)"

definition text_number :: "string \<Rightarrow> 'w::len word" where
  "text_number s = of_nat (digits_value (drop 2 s))"

lemma text_number_text [simp]: "text_number (number_text w) = w"
  by (simp add: text_number_def number_text_def digits10_value)

definition sample :: "string \<Rightarrow> sample_db startlib" where
  "sample mode =
     \<lparr>Address_String = number_text, Address_Hex = number_text, HexToAddress = text_number,
      Hash_String = number_text, Hash_Hex = number_text, HexToHash = text_number,
      Keccak256Hash = (\<lambda>bs. of_nat (be_value bs)), Signature_MarshalJSON = (\<lambda>s. []),
      StakeForValidator = 0, StakeForGuardian = 1, StakeForEliteEdgeNode = 2,
      ReturnLockingPeriod = 28800,
      viper_GetString = (\<lambda>k. if k = CfgRosettaMode then mode else []),
      rpc_Call = sample_call, RPCError_Error = RPCError_Message,
      unmarshal_Status = (\<lambda>j. sample_status), unmarshal_BlockIdentifier = (\<lambda>j. Some (9, 9)),
      unmarshal_Vcp = (\<lambda>j. [(9, Some [Some \<lparr>sh_Holder = 2, sh_Stakes = [Some sample_stake]\<rparr>])]),
      unmarshal_Gcp = (\<lambda>j. []), unmarshal_Eenp = (\<lambda>j. []),
      unmarshal_EenpStake = (\<lambda>j. sample_stake), map_order = rev, storage = sample_store,
      unmarshal_CoinbaseTx = (\<lambda>j. \<lparr>cb_Proposer = no_input, cb_Outputs = [no_output], cb_BlockHeight = 5\<rparr>),
      unmarshal_SlashTx = (\<lambda>j. \<lparr>sl_Proposer = no_input, sl_SlashedAddress = 4, sl_ReserveSequence = 0,
        sl_SlashProof = []\<rparr>),
      unmarshal_SendTx = (\<lambda>j. \<lparr>send_Fee = no_coins, send_Inputs = [no_input], send_Outputs = [no_output]\<rparr>),
      unmarshal_ReserveFundTx = (\<lambda>j. \<lparr>rsv_Fee = no_coins, rsv_Source = no_input, rsv_Collateral = no_coins,
        rsv_ResourceIDs = [], rsv_Duration = 0\<rparr>),
      unmarshal_ReleaseFundTx = (\<lambda>j. \<lparr>rel_Fee = no_coins, rel_Source = no_input, rel_ReserveSequence = 0\<rparr>),
      unmarshal_ServicePaymentTx = (\<lambda>j. \<lparr>sp_Fee = no_coins, sp_Source = no_input, sp_Target = no_input,
        sp_PaymentSequence = 0, sp_ReserveSequence = 0, sp_ResourceID = []\<rparr>),
      unmarshal_SplitRuleTx = (\<lambda>j. \<lparr>sr_Fee = no_coins, sr_ResourceID = [], sr_Initiator = no_input,
        sr_Splits = [], sr_Duration = 0\<rparr>),
      unmarshal_SmartContractTx = (\<lambda>j. \<lparr>sc_From = no_input, sc_To = no_output, sc_GasLimit = 0,
        sc_GasPrice = None, sc_Data = []\<rparr>),
      unmarshal_DepositStakeTxV2 = (\<lambda>j. \<lparr>ds_Fee = no_coins, ds_Source = no_input, ds_Holder = no_output,
        ds_Purpose = 0, ds_BlsPubkey = None, ds_BlsPop = None, ds_HolderSig = None\<rparr>),
      unmarshal_WithdrawStakeTx = (\<lambda>j. sample_withdrawal),
      unmarshal_StakeRewardDistributionTx = (\<lambda>j. \<lparr>rd_Fee = no_coins, rd_Holder = no_input,
        rd_Beneficiary = no_output, rd_SplitBasisPoint = 0\<rparr>),
      unmarshal_Account = (\<lambda>j. (None, Some \<lparr>acc_Sequence = 41,
        acc_Balance = \<lparr>ThetaWei = Some 12, TFuelWei = Some 34\<rparr>\<rparr>)),
      unmarshal_Block = sample_block, unmarshal_Transaction = (\<lambda>j. sample_transaction),
      node_version = ''4.0.0'',
      MatchOperations = sample_match, TxToBytes = sample_TxToBytes, TxFromBytes = sample_TxFromBytes,
      SignBytes = (\<lambda>tx chain. bytes_of chain), SendTx_SetSignature = (\<lambda>a s t. t),
      SmartContractTx_SetSignature = (\<lambda>a s t. t), SignatureFromBytes = (\<lambda>bs. Inr bs),
      Signature_Verify = (\<lambda>s bs a. s = bs), DecompressPubkey = (\<lambda>bs. (Some 1, Some 2)),
      S256_BitSize = 256, sha3_Keccak256 = (\<lambda>bs. replicate 32 0), BytesToAddress = (\<lambda>bs. 0),
      Hash_Bytes = (\<lambda>h. []), ParseCoinAmount = (\<lambda>s. (Some 4, True)),
      GetSendTxMinimumTransactionFeeTFuelWei = (\<lambda>n h. 300), GetMaxGasLimit = (\<lambda>h. 20000000),
      GetMinimumGasPrice = (\<lambda>h. 4000), float_u64 = (\<lambda>x. 0), float_u8 = (\<lambda>x. 0),
      asserter_NewServer = (\<lambda>types lookup networks calls coins. None), path_missing = (\<lambda>p. False)\<rparr>"

definition sample_world :: "sample_db world" where
  "sample_world = \<lparr>chainId = ''mainnet'', errs = initial_errors, calls = [],
     db = Some \<lparr>fn = ''/data/return_stakes'', ldb = Map.empty\<rparr>\<rparr>"

definition sample_network :: "NetworkIdentifier option" where
  "sample_network = Some \<lparr>Blockchain = ''theta'', SubNetworkIdentifier = None, Network = ''mainnet''\<rparr>"

section \<open>The laws hold together\<close>

lemma sample_network_valid: "ValidateNetworkIdentifier sample_network sample_world = None"
  by (simp add: ValidateNetworkIdentifier_def sample_network_def sample_world_def ChainName_def
      GetChainId_def)

lemma sample_online: "online (sample ''online'')" "\<not> online (sample ''offline'')"
  by (simp_all add: online_def sample_def CfgRosettaModeOnline_def EqualFold_def to_lower_def)

lemma sample_storage [simp]: "storage (sample mode) = sample_store"
  by (simp add: sample_def)

lemma sample_match_laws: "match_law (sample mode)"
  using sample_match_law by (simp add: match_law_def sample_def)

lemma sample_address_law: "address_law (sample mode)"
  by (simp add: address_law_def sample_def)

lemma same_canon:
  "same_coins c (canon_coins c)"
  "same_input i (canon_input i)"
  "same_output o' (canon_output o')"
  "same_send t (canon_send t)"
  "same_contract sc (canon_contract sc)"
proof -
  show c: "same_coins c (canon_coins c)" for c
    by (simp add: same_coins_def canon_coins_def)
  show i: "same_input i (canon_input i)" for i
    by (simp add: same_input_def canon_input_def c)
  show o': "same_output o' (canon_output o')" for o'
    by (simp add: same_output_def canon_output_def c)
  show "same_send t (canon_send t)"
    by (simp add: same_send_def canon_send_def c i o' list_all2_conv_all_nth)
  show "same_contract sc (canon_contract sc)"
    by (simp add: same_contract_def canon_contract_def i o')
qed

lemma sample_codec_law: "codec_law (sample mode)"
  by (auto simp: codec_law_def sample_def dec_enc_send dec_enc_contract same_canon)

end
