(* ===== verification/ParserProperties.thy ===== *)
theory ParserProperties
  imports Samples
begin

text \<open>
  The properties of the transaction parsers: well-formed operation lists, operations that
  add up to what the ledger did, and the places where they do not.
\<close>

section \<open>Sample transactions\<close>

definition two_coins :: "int \<Rightarrow> int \<Rightarrow> Coins" where
  "two_coins t f = \<lparr>ThetaWei = Some t, TFuelWei = Some f\<rparr>"

definition input_of :: "address \<Rightarrow> int \<Rightarrow> int \<Rightarrow> TxInput" where
  "input_of a t f = \<lparr>in_Address = a, in_Coins = two_coins t f, in_Sequence = 1, in_Signature = None\<rparr>"

definition output_of :: "address \<Rightarrow> int \<Rightarrow> int \<Rightarrow> TxOutput" where
  "output_of a t f = \<lparr>out_Address = a, out_Coins = two_coins t f\<rparr>"

lemmas sample_coins [simp] = two_coins_def input_of_def output_of_def

definition one_to_one :: SendTx_data where
  "one_to_one = \<lparr>send_Fee = two_coins 0 5, send_Inputs = [input_of 1 70 45], send_Outputs = [output_of 2 70 40]\<rparr>"

definition two_to_one :: SendTx_data where
  "two_to_one = \<lparr>send_Fee = two_coins 0 5, send_Inputs = [input_of 1 70 45, input_of 3 10 0],
     send_Outputs = [output_of 2 80 40]\<rparr>"

definition sample_call_tx :: SmartContractTx_data where
  "sample_call_tx = \<lparr>sc_From = input_of 1 0 0, sc_To = output_of 2 0 0, sc_GasLimit = 100,
     sc_GasPrice = Some 4, sc_Data = []\<rparr>"

definition sample_changes :: TxBalanceChangesEntry where
  "sample_changes = \<lparr>BalanceChanges =
     [\<lparr>bc_Address = 1, bc_TokenType = 1, bc_IsNegative = True, bc_Delta = Some 9\<rparr>,
      \<lparr>bc_Address = 2, bc_TokenType = 1, bc_IsNegative = False, bc_Delta = Some 9\<rparr>]\<rparr>"

definition sample_deposit :: DepositStakeTxV2_data where
  "sample_deposit = \<lparr>ds_Fee = two_coins 0 5, ds_Source = input_of 1 700 0, ds_Holder = output_of 2 0 0,
     ds_Purpose = 0, ds_BlsPubkey = None, ds_BlsPop = None, ds_HolderSig = None\<rparr>"

definition sample_return :: WithdrawStakeTx_data where
  "sample_return = \<lparr>ws_Fee = two_coins 0 0, ws_Source = input_of 1 700 0, ws_Holder = output_of 2 0 0,
     ws_Purpose = 0\<rparr>"

definition sample_reserve :: ReserveFundTx_data where
  "sample_reserve = \<lparr>rsv_Fee = two_coins 0 5, rsv_Source = no_input, rsv_Collateral = no_coins,
     rsv_ResourceIDs = [], rsv_Duration = 7\<rparr>"

lemmas sample_txs = one_to_one_def two_to_one_def sample_call_tx_def sample_changes_def
  sample_deposit_def sample_return_def sample_reserve_def

section \<open>Well-formed operations\<close>

text \<open>
  C10. Every transaction that \<open>ParseTx\<close> answers carries operations numbered 0, 1, 2, ... in
  order, each with the status of the block, a type the adaptor announces, an account and an
  amount in THETA or TFUEL; its metadata name the transaction type, unless the type is unknown
  and the transaction is reported empty.
\<close>

theorem ParseTx_well_formed:
  assumes "ParseTx L txType rawTx h status gas changes services height w = (Inr tr, w')"
  shows "ops_ok status (tr_Operations tr) \<and>
    (tr_Metadata tr ''type'' = Some (VTxType txType) \<or>
     tr_Metadata tr = Map.empty \<and> tr_Operations tr = [])"
  using assms by (rule ParseTx_ops_ok)

theorem ParseTx_well_formed_witness:
  "ops_ok (Some ''valid'') (tr_Operations (projr (fst
     (ParseTx (sample ''online'') CoinbaseTx None 7 (Some ''valid'') 0 None False 5 sample_world))))"
proof -
  have "fst (ParseTx (sample ''online'') CoinbaseTx None 7 (Some ''valid'') 0 None False 5 sample_world)
    = Inr (projr (fst (ParseTx (sample ''online'') CoinbaseTx None 7 (Some ''valid'') 0 None False 5 sample_world)))"
    by (simp add: ParseTx_def parse_by_type_def ParseCoinbaseTx_def Let_def)
  then show ?thesis using ParseTx_well_formed by (metis prod.collapse)
qed

text \<open>
  C11. An operation refers only to earlier operations of the same transaction, for every
  transaction type except a send without inputs, a reserve or release whose source has no
  coins and a reward distribution whose beneficiary has some.
\<close>

theorem parse_by_type_links:
  assumes "parse_by_type L txType rawTx status gas changes = Inr (md, ops)"
    and "txType = SendTx \<Longrightarrow> send_Inputs (unmarshal_SendTx L rawTx) \<noteq> []"
    and "txType = ReserveFundTx \<Longrightarrow> has_coins (in_Coins (rsv_Source (unmarshal_ReserveFundTx L rawTx)))"
    and "txType = ReleaseFundTx \<Longrightarrow> has_coins (in_Coins (rel_Source (unmarshal_ReleaseFundTx L rawTx)))"
    and "txType = StakeRewardDistributionTx \<Longrightarrow>
      \<not> has_coins (out_Coins (rd_Beneficiary (unmarshal_StakeRewardDistributionTx L rawTx)))"
  shows "backward ops"
proof -
  have c: "backward ops"
    if "ParseSmartContractTx L tx status ty gas changes = Inr (md, ops)" for tx ty
    using contract.parse_backward [where L = L and tx = "(tx, gas, changes)"] that by simp
  show ?thesis
    using assms unfolding parse_by_type_def
    by (auto split: if_splits simp del: TxType_consts
        dest: c coinbase.parse_backward [OF TrueI] slash.parse_backward [OF TrueI]
          send.parse_backward [rotated] reserve.parse_backward [rotated]
          release.parse_backward [rotated] payment.parse_backward [OF TrueI]
          split_rule.parse_backward [OF TrueI] deposit.parse_backward [OF TrueI]
          withdraw.parse_backward [OF TrueI] reward.parse_backward [rotated])
qed

theorem parse_by_type_links_witness:
  "backward (snd (projr (parse_by_type (sample ''online'') CoinbaseTx None (Some ''valid'') 0 None)))"
proof -
  have "parse_by_type (sample ''online'') CoinbaseTx None (Some ''valid'') 0 None
    = Inr (fst (projr (parse_by_type (sample ''online'') CoinbaseTx None (Some ''valid'') 0 None)),
           snd (projr (parse_by_type (sample ''online'') CoinbaseTx None (Some ''valid'') 0 None)))"
    by (simp add: parse_by_type_def ParseCoinbaseTx_def Let_def)
  from parse_by_type_links [OF this] show ?thesis by simp
qed

section \<open>Transfers\<close>

text \<open>
  C4. For a transfer with one input the operations of every address add up, in both
  currencies, to the coins of its outputs less the coins of its input: nothing the ledger
  moved is lost and the fee is counted once.
\<close>

theorem send_accounts:
  assumes "ParseSendTx L tx status txType = Inr (md, ops)" "send_Inputs tx = [inp]"
  shows "account_delta GetThetaCurrency b ops
           = received L ThetaWei b (send_Outputs tx) - spent L ThetaWei b (send_Inputs tx) \<and>
         account_delta GetTFuelCurrency b ops
           = received L TFuelWei b (send_Outputs tx) - spent L TFuelWei b (send_Inputs tx)"
  using ParseSendTx_accounts [OF assms] by blast

theorem send_accounts_witness:
  "account_delta GetTFuelCurrency ''0x1''
     (snd (projr (ParseSendTx (sample ''online'') one_to_one (Some ''valid'') SendTx))) = - 45"
proof -
  obtain md ops where p: "ParseSendTx (sample ''online'') one_to_one (Some ''valid'') SendTx = Inr (md, ops)"
    by (simp add: ParseSendTx_def Let_def sample_txs)
  have "account_delta GetTFuelCurrency ''0x1'' ops = - 45"
    using send_accounts [OF p, of "input_of 1 70 45" "''0x1''"]
    by (simp add: sample_txs sample_def number_text_def digits10.simps digit_char_def char_of_def bit_0)
  then show ?thesis by (simp only: p sum.sel prod.sel)
qed

text \<open>
  C16. With several inputs the fee of the transaction is taken off every input: the operations
  of a transfer with n inputs overstate the TFUEL that stays by n - 1 fees, while THETA is
  reported exactly.
\<close>

theorem send_totals:
  assumes "ParseSendTx L tx status txType = Inr (md, ops)" "TFuelWei (send_Fee tx) = Some f"
  shows "total_delta GetThetaCurrency ops
           = outputs_sum ThetaWei (send_Outputs tx) - inputs_sum ThetaWei (send_Inputs tx) \<and>
         total_delta GetTFuelCurrency ops
           = outputs_sum TFuelWei (send_Outputs tx) - inputs_sum TFuelWei (send_Inputs tx)
             + (int (length (send_Inputs tx)) - 1) * f"
  using ParseSendTx_totals [OF assms] by blast

theorem send_totals_witness:
  "total_delta GetTFuelCurrency
     (snd (projr (ParseSendTx (sample ''online'') two_to_one (Some ''valid'') SendTx))) = 0 \<and>
   outputs_sum TFuelWei (send_Outputs two_to_one) - inputs_sum TFuelWei (send_Inputs two_to_one) = - 5"
proof -
  obtain md ops where p: "ParseSendTx (sample ''online'') two_to_one (Some ''valid'') SendTx = Inr (md, ops)"
    by (simp add: ParseSendTx_def Let_def sample_txs)
  have "total_delta GetTFuelCurrency ops = 0"
    using send_totals [OF p, of 5] by (simp add: sample_txs)
  moreover have "outputs_sum TFuelWei (send_Outputs two_to_one)
      - inputs_sum TFuelWei (send_Inputs two_to_one) = - 5"
    by (simp add: sample_txs)
  ultimately show ?thesis by (simp only: p sum.sel prod.sel)
qed

section \<open>Contract calls\<close>

text \<open>
  C15. For an executed contract call the operations of every address add up to the balance
  changes the node recorded for it, less the gas for the caller.
\<close>

theorem contract_accounts:
  assumes "ParseSmartContractTx L tx status txType gas (Some entry) = Inr (md, ops)"
  shows "account_delta GetThetaCurrency b ops
           = recorded_change L theta_token b (BalanceChanges entry) \<and>
         account_delta GetTFuelCurrency b ops
           = recorded_change L tfuel_token b (BalanceChanges entry)
             - (if Address_String L (in_Address (sc_From tx)) = b
                then or_zero (sc_GasPrice tx) * uint gas else 0)"
  using ParseSmartContractTx_accounts [OF assms] by blast

theorem contract_accounts_witness:
  "account_delta GetTFuelCurrency ''0x1''
     (snd (projr (ParseSmartContractTx (sample ''online'') sample_call_tx (Some ''valid'') SmartContractTx 21
        (Some sample_changes)))) = - 93"
proof -
  obtain md ops where p: "ParseSmartContractTx (sample ''online'') sample_call_tx (Some ''valid'')
      SmartContractTx 21 (Some sample_changes) = Inr (md, ops)"
    by (simp add: ParseSmartContractTx_def Let_def sample_txs)
  have "account_delta GetTFuelCurrency ''0x1'' ops = - 93"
    using contract_accounts [OF p, of "''0x1''"]
    by (simp add: sample_txs sample_def number_text_def digits10.simps digit_char_def char_of_def
        bit_0 tfuel_token_def change_amount_def)
  then show ?thesis by (simp only: p sum.sel prod.sel)
qed

section \<open>Stakes\<close>

text \<open>
  C17. Depositing a stake and getting the same coins back leaves the source with exactly the
  deposit fee less.
\<close>

theorem deposit_then_return:
  assumes "ParseDepositStakeTx L d st ty = Inr (md, ops)" "TFuelWei (ds_Fee d) = Some f"
    and "ParseReturnStakeTx L w st' ty' = Inr (md', ops')"
    and "in_Address (ws_Source w) = in_Address (ds_Source d)"
    and "in_Coins (ws_Source w) = in_Coins (ds_Source d)"
  shows "account_delta GetThetaCurrency (Address_String L (in_Address (ds_Source d))) (ops @ ops') = 0 \<and>
         account_delta GetTFuelCurrency (Address_String L (in_Address (ds_Source d))) (ops @ ops') = - f"
  using deposit_return_cancel [OF assms] .

theorem deposit_then_return_witness:
  "account_delta GetTFuelCurrency (number_text (1 :: address))
     (snd (projr (ParseDepositStakeTx (sample ''online'') sample_deposit (Some ''valid'') DepositStakeV2Tx)) @
      snd (projr (ParseReturnStakeTx (sample ''online'') sample_return (Some ''valid'') WithdrawStakeTx))) = - 5"
proof -
  obtain md ops where p: "ParseDepositStakeTx (sample ''online'') sample_deposit (Some ''valid'')
      DepositStakeV2Tx = Inr (md, ops)"
    by (simp add: ParseDepositStakeTx_def Let_def sample_txs not_nil_nor_fresh_zero_def)
  obtain md' ops' where q: "ParseReturnStakeTx (sample ''online'') sample_return (Some ''valid'')
      WithdrawStakeTx = Inr (md', ops')"
    by (simp add: ParseReturnStakeTx_def Let_def)
  have "account_delta GetTFuelCurrency (number_text (1 :: address)) (ops @ ops') = - 5"
    using deposit_then_return [OF p _ q, of 5] by (simp add: sample_txs sample_def)
  then show ?thesis by (simp only: p q sum.sel prod.sel)
qed

text \<open>
  C18. The return that a withdrawal leaves behind credits its source with the amount of the
  stake: in THETA when the stake was for a validator or a guardian, in TFUEL otherwise, and
  with nothing in the other currency.
\<close>

theorem withdrawal_returns_stake:
  "\<exists>md ops. ParseReturnStakeTx L (withdrawn_tx L tx stake) status txType = Inr (md, ops) \<and>
     account_delta GetThetaCurrency (Address_String L (in_Address (ws_Source tx))) ops
       = (if ws_Purpose tx \<in> {StakeForValidator L, StakeForGuardian L}
          then or_zero (stk_Amount stake) else 0) \<and>
     account_delta GetTFuelCurrency (Address_String L (in_Address (ws_Source tx))) ops
       = (if ws_Purpose tx \<in> {StakeForValidator L, StakeForGuardian L}
          then 0 else or_zero (stk_Amount stake))"
proof -
  obtain md ops where p: "ParseReturnStakeTx L (withdrawn_tx L tx stake) status txType = Inr (md, ops)"
    using ParseReturnStakeTx_total by (metis surj_pair)
  have "in_Address (ws_Source (withdrawn_tx L tx stake)) = in_Address (ws_Source tx)"
    "in_Coins (ws_Source (withdrawn_tx L tx stake)) =
       (if ws_Purpose tx \<in> {StakeForValidator L, StakeForGuardian L}
        then \<lparr>ThetaWei = stk_Amount stake, TFuelWei = None\<rparr>
        else \<lparr>ThetaWei = None, TFuelWei = stk_Amount stake\<rparr>)"
    by (simp_all add: withdrawn_tx_def)
  with ParseReturnStakeTx_deltas [OF p] p show ?thesis
    by (intro exI [of _ md] exI [of _ ops]) simp
qed

section \<open>Names\<close>

text \<open>
  C31. Looking up the name of an operation type gives back the type, and every other name is
  rejected: the nineteen names are unambiguous.
\<close>

theorem GetTxOpType_exact: "(GetTxOpType s = Inr t) = (s = TxOpType_String t)"
proof
  assume a: "GetTxOpType s = Inr t"
  then have "s \<in> set TxOpTypes"
    by (metis GetTxOpType_def GetTxOpType_loop_none Inl_Inr_False)
  then obtain t' where "s = TxOpType_String t'"
    by (auto simp: TxOpTypes_map)
  with a show "s = TxOpType_String t" by (simp add: GetTxOpType_String)
qed (simp add: GetTxOpType_String)

text \<open>The transaction types by the names of their constants.\<close>

definition declared_types :: "(TxType \<times> string) list" where
  "declared_types =
     [(CoinbaseTx, ''CoinbaseTx''), (SlashTx, ''SlashTx''), (SendTx, ''SendTx''),
      (ReserveFundTx, ''ReserveFundTx''), (ReleaseFundTx, ''ReleaseFundTx''),
      (ServicePaymentTx, ''ServicePaymentTx''), (SplitRuleTx, ''SplitRuleTx''),
      (SmartContractTx, ''SmartContractTx''), (DepositStakeTx, ''DepositStakeTx''),
      (WithdrawStakeTx, ''WithdrawStakeTx''), (DepositStakeV2Tx, ''DepositStakeV2Tx''),
      (StakeRewardDistributionTx, ''StakeRewardDistributionTx'')]"

lemma TxTypes_shift:
  "TxTypes = map (\<lambda>i. snd (declared_types ! (if i < 4 then i else i + 1))) [0..<11]"
  by (simp add: TxTypes_def declared_types_def upt_rec)

text \<open>
  C38. The name table of the transaction types lacks an entry. The types are the bytes from 0
  in the order of their declaration; a type is printed under its own name exactly when it is
  declared before \<open>ReleaseFundTx\<close>; from there on every type is printed under the name of the
  type declared after it; and the last type, like every byte that is no type, panics.
\<close>

theorem TxType_names_shifted:
  "map fst declared_types = map of_nat [0..<12] \<and>
   TxType_String t =
     (let i = unat t in
      if i < 4 then Inr (snd (declared_types ! i))
      else if i < 11 then Inr (snd (declared_types ! (i + 1)))
      else Inl IndexOutOfRange)"
proof
  show "map fst declared_types = map of_nat [0..<12]"
    by (simp add: declared_types_def upt_rec)
  show "TxType_String t =
     (let i = unat t in
      if i < 4 then Inr (snd (declared_types ! i))
      else if i < 11 then Inr (snd (declared_types ! (i + 1)))
      else Inl IndexOutOfRange)"
    by (simp add: TxType_String_def index_def TxTypes_shift Let_def)
qed

end
