(* ===== verification/StoreProperties.thy ===== *)
theory StoreProperties
  imports Samples
begin

text \<open>
  The properties of the return-stakes database: what the snapshot leaves in it, and how a
  withdrawal is recorded, found again and listed by a later block.
\<close>

section \<open>The snapshot\<close>

text \<open>
  C8. After the stakes of the snapshot have been collected and stored, the entry at height
  h + 1 holds all the withdrawn validator stakes that return at h; when there is none, only
  the first guardian stake; failing that, only the first elite edge node stake; and when no
  stake returns at h the entry is what it was. A write that fails, in LevelDB or because RLP
  cannot encode the value, is passed over: such an entry may be left as it was, without any
  error. The order in which Go walks the map is irrelevant.
\<close>

theorem snapshot_stored:
  assumes "store_laws (storage L) reread" "map_order_law L"
    and "collect_vcp L vs [] = Inr m1" "collect_gcp L gs m1 = Inr m2" "collect_eenp L es m2 = Inr m"
  shows "\<exists>d'. store_return_stakes (storage L) (map_order L m) (Some d) = (Inr (), Some d') \<and>
    (let due = snapshot_entry (vcp_due L vs h) (gcp_due L gs h) (eenp_due L es h);
         key = height_key (h + 1);
         failed = failed_puts (KVStore_Put (storage L)) (return_entries (map_order L m)) d
     in if due = [] then KVStore_Get (storage L) key d' = KVStore_Get (storage L) key d
        else KVStore_Get (storage L) key d' = Inr (reread \<lparr>ReturnStakes = due\<rparr>) \<or>
             key \<in> failed \<and> KVStore_Get (storage L) key d' = KVStore_Get (storage L) key d)"
proof -
  have dist: "distinct (map fst m)"
    using collect_distinct(1) [OF _ assms(3)] collect_distinct(2) [OF _ assms(4)]
    by (simp add: collect_distinct(3) [OF _ assms(5)])
  have order: "mset (map_order L m) = mset m"
    using assms(2) by (simp add: map_order_law_def)
  obtain d' where d': "store_return_stakes (storage L) (map_order L m) (Some d) = (Inr (), Some d')"
    by (simp add: store_return_stakes_put_all)
  have "map_of m h = first_only (eenp_due L es h) (first_only (gcp_due L gs h) (extended (vcp_due L vs h) None))"
    by (simp add: collect_eenp_lookup [OF assms(5)] collect_gcp_lookup [OF assms(4)] collect_vcp_lookup [OF assms(3)])
  with stored_entry [OF assms(1) dist order d', of h] d' show ?thesis
    by (simp add: snapshot_entry_lookup Let_def split: if_splits)
qed

definition snapshot_pools :: "(hash \<times> StakeHolder option list option) list" where
  "snapshot_pools = [(9, Some [Some \<lparr>sh_Holder = 2, sh_Stakes = [Some sample_stake]\<rparr>])]"

definition snapshot_map :: return_map where
  "snapshot_map = projr (collect_vcp (sample ''online'') snapshot_pools [])"

theorem snapshot_stored_witness:
  "KVStore_Get sample_store (height_key 31)
     (the (snd (store_return_stakes sample_store (rev snapshot_map) (Some \<lparr>fn = [], ldb = Map.empty\<rparr>))))
   = Inr (canon_returns \<lparr>ReturnStakes =
       [\<lparr>rs_Hash = stake_return_hash (sample ''online'') ''vcp'' (number_text (9 :: hash)) 0,
         rs_Tx = snapshot_tx (theta_stake sample_stake) sample_stake\<rparr>]\<rparr>)"
proof -
  let ?L = "sample ''online''"
  have m: "collect_vcp ?L snapshot_pools [] = Inr snapshot_map"
    by (simp add: snapshot_map_def snapshot_pools_def collect_vcp_def)
  have g: "collect_gcp ?L [] snapshot_map = Inr snapshot_map"
    by (simp add: collect_gcp_def)
  have e: "collect_eenp ?L [] snapshot_map = Inr snapshot_map" "map_order ?L snapshot_map = rev snapshot_map"
    by (simp_all add: collect_eenp_def) (simp add: sample_def)
  have laws: "store_laws (storage ?L) canon_returns" "map_order_law ?L"
    by (simp add: sample_store_laws) (simp add: map_order_law_def sample_def)
  have ok: "failed_puts (KVStore_Put sample_store) (return_entries (rev snapshot_map)) \<lparr>fn = [], ldb = Map.empty\<rparr> = {}"
    by (simp add: snapshot_map_def snapshot_pools_def collect_vcp_def sample_stake_def vcp_record_def
        return_entries_def sample_put encodable_def non_negative_def snapshot_tx_def theta_stake_def)
  have v: "vcp_due ?L snapshot_pools 30 =
      [\<lparr>rs_Hash = stake_return_hash ?L ''vcp'' (number_text (9 :: hash)) 0,
        rs_Tx = snapshot_tx (theta_stake sample_stake) sample_stake\<rparr>]"
    by (simp add: vcp_due_def snapshot_pools_def pool_returns_def vcp_return_def sample_stake_def)
      (simp add: sample_def)
  from snapshot_stored [OF laws m g e(1), of "\<lparr>fn = [], ldb = Map.empty\<rparr>" 30] show ?thesis
    unfolding e(2) sample_storage ok by (auto simp: v snapshot_entry_def Let_def)
qed

section \<open>Recording a withdrawal\<close>

lemma ParseTx_withdrawal_step:
  assumes "db_ok (storage L)"
    and "ParseTx L WithdrawStakeTx raw h st gas changes services bh w = (Inr tr, w')"
  obtains d w1 d' where "db w = Some d" "w' = w1\<lparr>db := Some d'\<rparr>"
    "recorded (storage L) (height_key (bh + ReturnLockingPeriod L)) w' =
       (let old = recorded (storage L) (height_key (bh + ReturnLockingPeriod L)) w in
        if Hash_Hex L h \<in> set old then old else old @ [Hash_Hex L h])"
    "\<And>k. k \<noteq> height_key (bh + ReturnLockingPeriod L) \<Longrightarrow>
       recorded (storage L) k w' = recorded (storage L) k w"
proof -
  from assms(2) obtain u where
    "record_withdrawal L (unmarshal_WithdrawStakeTx L raw) h services bh w = (Inr u, w')"
    by (auto simp: ParseTx_def split: sum.splits prod.splits)
  then obtain stk d w1 dbo where r: "db w = Some d"
    "record_return_stake (storage L) (height_key (bh + ReturnLockingPeriod L))
       \<lparr>rs_Hash = Hash_Hex L h, rs_Tx = withdrawn_tx L (unmarshal_WithdrawStakeTx L raw) stk\<rparr>
       (Some d) = (Inr None, dbo)" "w' = w1\<lparr>db := dbo\<rparr>"
    by (metis record_withdrawal_Inr)
  show ?thesis
  proof (rule record_return_stake_recorded [OF assms(1) r(2)], goal_cases)
    case (1 d')
    show ?case
      by (rule that [OF r(1)]) (use 1 r in \<open>simp_all add: recorded_def Let_def\<close>)
  qed
qed

lemma sample_world_recorded: "recorded sample_store key sample_world = []"
  by (simp add: recorded_def sample_world_def returns_at_def KVStore_Get_def LDB_Get_def
      sample_store_def hashes_def)

lemma sample_stake_found:
  "fst (GetStakeForTx (sample ''online'') sample_withdrawal bh w) = Inr (Inr (Some sample_stake))"
proof -
  have q: "stake_query (sample ''online'') sample_withdrawal bh = (''theta.GetVcpByHeight'', GetStakeByHeightArgs bh)"
    by (simp add: stake_query_def sample_def sample_withdrawal_def)
  show ?thesis
    by (simp add: GetStakeForTx_def q)
      (simp add: sample_def sample_withdrawal_def fetch_def Call_def answer_def MarshalIndent_def
        pool_stake_def sample_stake_def)
qed

lemma sample_withdrawal_parses:
  "\<exists>tr w'. ParseTx (sample ''online'') WithdrawStakeTx raw 77 status 0 None True 5 sample_world
     = (Inr tr, w')"
proof -
  let ?L = "sample ''online''"
  obtain w1 where g: "GetStakeForTx ?L sample_withdrawal 5 sample_world = (Inr (Inr (Some sample_stake)), w1)"
    using sample_stake_found by (metis prod.collapse)
  then have d: "db w1 = db sample_world"
    using GetStakeForTx_db [of ?L sample_withdrawal 5 sample_world] by simp
  have u: "unmarshal_WithdrawStakeTx ?L raw = sample_withdrawal"
    by (simp add: sample_def)
  let ?d = "\<lparr>fn = ''/data/return_stakes'', ldb = Map.empty\<rparr> :: sample_db LDBDatabase"
  have dw: "db sample_world = Some ?d"
    by (simp add: sample_world_def)
  let ?rtx = "\<lparr>rs_Hash = Hash_Hex ?L 77, rs_Tx = withdrawn_tx ?L sample_withdrawal sample_stake\<rparr>"
  let ?key = "height_key (5 + ReturnLockingPeriod ?L)"
  have "returns_at sample_store ?key ?d = \<lparr>ReturnStakes = []\<rparr>"
    by (simp add: returns_at_def KVStore_Get_def LDB_Get_def sample_store_def)
  moreover have "encodable \<lparr>ReturnStakes = [?rtx]\<rparr>"
    by (simp add: encodable_def non_negative_def withdrawn_tx_def sample_withdrawal_def sample_stake_def)
  ultimately obtain d' where r: "record_return_stake sample_store ?key ?rtx (Some ?d) = (Inr None, Some d')"
    by (simp add: record_return_stake_eq sample_put add_return_stake_def)
  have "record_withdrawal ?L sample_withdrawal 77 True 5 sample_world = (Inr (), w1\<lparr>db := Some d'\<rparr>)"
    unfolding record_withdrawal_def g Let_def d dw sample_storage prod.case sum.case deref_simps r
    by simp
  moreover have "\<exists>p. parse_by_type ?L WithdrawStakeTx raw status 0 None = Inr p"
    by (simp add: parse_by_type_def u ParseWithdrawStakeTx_def sample_withdrawal_def)
  ultimately show ?thesis
    by (auto simp: ParseTx_def u simp del: TxType_consts)
qed

section \<open>Block answers\<close>

lemma parse_block_txs_hashes:
  "parse_block_txs L status height txs i maps w = (Inr parsed, w') \<Longrightarrow>
   map tr_Hash parsed = map (\<lambda>t. if tx_Type t = WithdrawStakeTx then withdraw_hash L (tx_Hash t)
     else Hash_String L (tx_Hash t)) (take (length maps) (drop i txs))"
proof (induction maps arbitrary: i w parsed)
  case (Cons m maps)
  from Cons.prems obtain t tx w1 rest where
    t: "index txs i = Inr t" "parsed = tx # rest"
      "ParseTx L (tx_Type t) (json_field ''raw'' m) (tx_Hash t) (Some status)
        (case tx_Receipt t of Some gas \<Rightarrow> gas | None \<Rightarrow> 0) (tx_BalanceChanges t) True height w
        = (Inr tx, w1)"
      "parse_block_txs L status height txs (Suc i) maps w1 = (Inr rest, w')"
    by (auto simp: Let_def split: sum.splits prod.splits)
  from t(3) have "tr_Hash tx = (if tx_Type t = WithdrawStakeTx then withdraw_hash L (tx_Hash t)
      else Hash_String L (tx_Hash t))"
    by (auto simp: ParseTx_def split: sum.splits prod.splits if_splits simp del: TxType_consts)
  moreover from t(1) have "drop i txs = t # drop (Suc i) txs"
    by (metis Cons_nth_drop_Suc index_eq_Inr)
  ultimately show ?case using Cons.IH [OF t(4)] by (simp add: t(2) del: TxType_consts)
qed simp

lemma block_returns_hashes:
  "block_returns L status h w = Inr returns \<Longrightarrow>
   map tr_Hash returns = recorded (storage L) (height_key h) w"
  by (cases "db w")
    (auto simp: block_returns_def parse_returns_eq recorded_def returns_at_def hashes_def comp_def
      split: sum.splits)

lemma block_returns_total: "db w \<noteq> None \<Longrightarrow> \<exists>r. block_returns L status h w = Inr r"
  by (cases "KVStore_Get (storage L) (height_key h) (the (db w))")
    (auto simp: block_returns_def parse_returns_eq)

definition reported_hashes :: "'a thetalib_scheme \<Rightarrow> Tx list \<Rightarrow> string list" where
  "reported_hashes L txs =
     map (\<lambda>t. if tx_Type t = WithdrawStakeTx then withdraw_hash L (tx_Hash t)
              else Hash_String L (tx_Hash t)) txs"

text \<open>
  C5. The answer to \<open>/block\<close> lists exactly the transactions of the block, in its order, a
  withdrawal under its own derived hash, followed by exactly the returns recorded for this
  height.
\<close>

theorem block_lists:
  assumes "parse_block L j w = (Inr (Inr b), w')"
    and "Unmarshal_into None (unmarshal_Block L) j = Some tblock"
    and "json_field ''transactions'' j = Some raw"
  shows "map tr_Hash (blk_Transactions b) =
    reported_hashes L (take (length (json_elements raw)) (gb_Txs tblock)) @
    recorded (storage L) (height_key (gb_Height tblock)) w'"
proof -
  from assms obtain status txs returns where
    t: "parse_block_txs L status (gb_Height tblock) (gb_Txs tblock) 0 (json_elements raw) w = (Inr txs, w')"
    "block_returns L status (gb_Height tblock) w' = Inr returns" "blk_Transactions b = txs @ returns"
    by (auto simp: parse_block_def block_transactions_def go_simps split: sum.splits prod.splits)
  from parse_block_txs_hashes [OF t(1)] block_returns_hashes [OF t(2)] t(3) show ?thesis
    by (simp add: reported_hashes_def del: TxType_consts)
qed

lemma parse_block_cases:
  assumes "parse_block L j w = (Inr (Inr b), w')"
    and "Unmarshal_into None (unmarshal_Block L) j = Some tblock"
  obtains status txs returns where
    "BlockStatus_String (gb_Status tblock) = Inr status"
    "block_transactions L status tblock j w = (Inr txs, w')"
    "block_returns L status (gb_Height tblock) w' = Inr returns" "blk_Transactions b = txs @ returns"
  using assms
  by (auto simp: parse_block_def go_simps simp del: BlockStatus_String_defined
      split: sum.splits prod.splits)

lemma sample_block_parses:
  "\<exists>b w'. parse_block (sample ''online'') withdrawal_block sample_world = (Inr (Inr b), w') \<and>
     db w' \<noteq> None"
proof -
  let ?L = "sample ''online''"
  obtain tr w' where p: "ParseTx ?L WithdrawStakeTx None 77 (Some ''directly_finalized'') 0 None True 5 sample_world
      = (Inr tr, w')"
    using sample_withdrawal_parses by blast
  have "db w' \<noteq> None"
    using ParseTx_db_grows [of ?L, OF _, of sample_world WithdrawStakeTx None 77 "Some ''directly_finalized''" 0 None True 5]
    by (simp only: p prod.sel sample_storage sample_db_ok simp_thms)
      (simp add: db_grows_def sample_world_def)
  then obtain d where d: "db w' = Some d" by auto
  have u: "Unmarshal_into None (unmarshal_Block ?L) withdrawal_block =
      Some (sample_inner 5 [\<lparr>tx_Type = WithdrawStakeTx, tx_Hash = 77, tx_Receipt = None, tx_BalanceChanges = None\<rparr>])"
    by (simp add: Unmarshal_into_def withdrawal_block_def) (simp add: sample_def sample_block_def withdrawal_block_def)
  have raw: "json_field ''raw'' (JObject []) = None" by (simp add: json_field_def)
  have t: "block_transactions ?L ''directly_finalized''
      (sample_inner 5 [\<lparr>tx_Type = WithdrawStakeTx, tx_Hash = 77, tx_Receipt = None, tx_BalanceChanges = None\<rparr>])
      withdrawal_block sample_world = (Inr [tr], w')"
    using p by (simp add: block_transactions_def withdrawal_block_def json_field_def json_elements_def
        sample_inner_def Let_def raw [unfolded json_field_def])
  obtain r where r: "block_returns ?L ''directly_finalized'' 5 w' = Inr r"
    using block_returns_total d by blast
  have s: "BlockStatus_String 4 = Inr ''directly_finalized''"
    by (simp add: BlockStatus_String_def BlockStatus_names_def index_def)
  show ?thesis
    using t r d by (auto simp: parse_block_def u s sample_inner_def)
qed

theorem block_lists_witness:
  "\<exists>b w'. parse_block (sample ''online'') withdrawal_block sample_world = (Inr (Inr b), w') \<and>
     map tr_Hash (blk_Transactions b) =
       [withdraw_hash (sample ''online'') 77] @ recorded sample_store (height_key 5) w'"
proof -
  let ?L = "sample ''online''"
  obtain b w' where p: "parse_block ?L withdrawal_block sample_world = (Inr (Inr b), w')"
    using sample_block_parses by blast
  have u: "Unmarshal_into None (unmarshal_Block ?L) withdrawal_block =
      Some (sample_inner 5 [\<lparr>tx_Type = WithdrawStakeTx, tx_Hash = 77, tx_Receipt = None, tx_BalanceChanges = None\<rparr>])"
    by (simp add: Unmarshal_into_def withdrawal_block_def) (simp add: sample_def sample_block_def withdrawal_block_def)
  have j: "json_field ''transactions'' withdrawal_block = Some (JArray [JObject []])"
    by (simp add: json_field_def withdrawal_block_def)
  from block_lists [OF p u j] p show ?thesis
    by (auto simp: json_elements_def reported_hashes_def sample_inner_def)
qed

section \<open>A withdrawn stake comes back\<close>

text \<open>
  C1. Once the server has answered a block at height h that contains a withdrawal, then, after
  any further requests, its answer to the block at height h + \<open>ReturnLockingPeriod\<close> lists a
  transaction with the hash of the withdrawal: the return of the stake. (\<open>parse_block\<close> is the
  part of \<open>/block\<close> that reads the node's answer.)
\<close>

theorem withdrawn_stake_is_returned:
  assumes db: "db_ok (storage L)"
    and first: "parse_block L j w = (Inr (Inr b), w1)"
      "Unmarshal_into None (unmarshal_Block L) j = Some tblock"
      "json_field ''transactions'' j = Some raw"
    and withdrawal: "k < length (json_elements raw)" "tx_Type (gb_Txs tblock ! k) = WithdrawStakeTx"
    and later: "parse_block L j' (run L rs w1) = (Inr (Inr b'), w2)"
      "Unmarshal_into None (unmarshal_Block L) j' = Some tblock'"
      "gb_Height tblock' = gb_Height tblock + ReturnLockingPeriod L"
  shows "Hash_Hex L (tx_Hash (gb_Txs tblock ! k)) \<in> tr_Hash ` set (blk_Transactions b')"
proof -
  let ?key = "height_key (gb_Height tblock + ReturnLockingPeriod L)"
  let ?hash = "Hash_Hex L (tx_Hash (gb_Txs tblock ! k))"
  from parse_block_cases [OF first(1,2)] obtain status txs where
    "block_transactions L status tblock j w = (Inr txs, w1)" by metis
  then have "parse_block_txs L status (gb_Height tblock) (gb_Txs tblock) 0 (json_elements raw) w = (Inr txs, w1)"
    by (simp add: block_transactions_def first(3))
  from parse_block_txs_withdrawals_recorded [OF db this withdrawal(1)] withdrawal(2)
  have "?hash \<in> set (recorded (storage L) ?key w1)" by simp
  then have "?hash \<in> set (recorded (storage L) ?key (run L rs w1))"
    by (rule recorded_mono [OF run_db_grows [OF db]])
  moreover have "db_grows (storage L) (run L rs w1) w2"
    using parse_block_db_grows [OF db, of "run L rs w1" j'] by (simp add: later(1))
  ultimately have "?hash \<in> set (recorded (storage L) ?key w2)"
    by (blast intro: recorded_mono)
  moreover obtain status' txs' returns where
    "block_returns L status' (gb_Height tblock') w2 = Inr returns" "blk_Transactions b' = txs' @ returns"
    using parse_block_cases [OF later(1,2)] by metis
  ultimately have "?hash \<in> set (map tr_Hash returns)"
    using block_returns_hashes [of L status' "gb_Height tblock'" w2 returns] later(3) by simp
  with \<open>blk_Transactions b' = txs' @ returns\<close> show ?thesis by auto
qed

lemma sample_later_block_parses:
  assumes "db w \<noteq> None"
  shows "\<exists>b w'. parse_block (sample ''online'') later_block w = (Inr (Inr b), w')"
proof -
  let ?L = "sample ''online''"
  have u: "Unmarshal_into None (unmarshal_Block ?L) later_block = Some (sample_inner 28805 [])"
    by (simp add: Unmarshal_into_def later_block_def)
      (simp add: sample_def sample_block_def withdrawal_block_def)
  have t: "block_transactions ?L status tb later_block w = (Inr [], w)" for status tb
    by (simp add: block_transactions_def later_block_def json_field_def)
  obtain r where r: "block_returns ?L ''directly_finalized'' 28805 w = Inr r"
    using block_returns_total [OF assms] by blast
  have s: "BlockStatus_String 4 = Inr ''directly_finalized''"
    by (simp add: BlockStatus_String_def BlockStatus_names_def index_def)
  show ?thesis
    using r by (auto simp: parse_block_def u s t sample_inner_def)
qed

theorem withdrawn_stake_is_returned_witness:
  "\<exists>b' w1 w2. parse_block (sample ''online'') later_block
       (run (sample ''online'') [NetworkListRequest] w1) = (Inr (Inr b'), w2) \<and>
     number_text (77 :: hash) \<in> tr_Hash ` set (blk_Transactions b')"
proof -
  let ?L = "sample ''online''"
  obtain b w1 where p: "parse_block ?L withdrawal_block sample_world = (Inr (Inr b), w1)" "db w1 \<noteq> None"
    using sample_block_parses by blast
  have u: "Unmarshal_into None (unmarshal_Block ?L) withdrawal_block =
      Some (sample_inner 5 [\<lparr>tx_Type = WithdrawStakeTx, tx_Hash = 77, tx_Receipt = None, tx_BalanceChanges = None\<rparr>])"
    by (simp add: Unmarshal_into_def withdrawal_block_def) (simp add: sample_def sample_block_def withdrawal_block_def)
  have j: "json_field ''transactions'' withdrawal_block = Some (JArray [JObject []])"
    by (simp add: json_field_def withdrawal_block_def)
  have "db (run ?L [NetworkListRequest] w1) \<noteq> None"
    using p(2) by (simp add: NetworkList_def)
  then obtain b' w2 where p': "parse_block ?L later_block (run ?L [NetworkListRequest] w1) = (Inr (Inr b'), w2)"
    using sample_later_block_parses by blast
  have u': "Unmarshal_into None (unmarshal_Block ?L) later_block = Some (sample_inner 28805 [])"
    by (simp add: Unmarshal_into_def later_block_def)
      (simp add: sample_def sample_block_def withdrawal_block_def)
  have h: "ReturnLockingPeriod ?L = 28800" "Hash_Hex ?L 77 = number_text (77 :: hash)"
    by (simp_all add: sample_def)
  have "number_text (77 :: hash) \<in> tr_Hash ` set (blk_Transactions b')"
    using withdrawn_stake_is_returned [OF _ p(1) u j _ _ p' u', of 0]
    by (simp add: sample_db_ok json_elements_def h) (simp add: sample_inner_def h)
  with p' show ?thesis by blast
qed

end
