(* ===== verification/ReturnLedger.thy ===== *)
theory ReturnLedger
  imports StoreProperties
begin

text \<open>
  The abstract specification of the return-stakes database: a ledger that promises, for a
  database key, a list of withdrawal hashes, and whose only operation adds a hash to a key
  once. Every request refines a run of this operation, a block the run given by its
  withdrawals.
\<close>

section \<open>The abstract ledger\<close>

type_synonym ledger = "byte list \<Rightarrow> string list"

definition promise :: "byte list \<Rightarrow> string \<Rightarrow> ledger \<Rightarrow> ledger" where
  "promise key h l = (if h \<in> set (l key) then l else l(key := l key @ [h]))"

inductive promised :: "ledger \<Rightarrow> ledger \<Rightarrow> bool" for l0 :: ledger where
  nothing: "promised l0 l0"
| more: "promised l0 l \<Longrightarrow> promised l0 (promise key h l)"

lemma promised_trans: "promised l l' \<Longrightarrow> promised l' l'' \<Longrightarrow> promised l l''"
  by (rotate_tac, induction rule: promised.induct) (auto intro: promised.intros)

lemma promised_step: "promised l (promise key h l)"
  by (intro promised.intros)

lemma promised_distinct: "promised l0 l \<Longrightarrow> distinct (l0 key) \<Longrightarrow> distinct (l key)"
  by (induction rule: promised.induct) (auto simp: promise_def)

lemma promised_prefix: "promised l0 l \<Longrightarrow> prefix (l0 key) (l key)"
  by (induction rule: promised.induct) (auto simp: promise_def)

lemma promise_comm_key: "key \<noteq> key' \<Longrightarrow> promise key h l key' = l key'"
  by (simp add: promise_def)

section \<open>The abstraction\<close>

definition ledger_of :: "'d storelib \<Rightarrow> 'd world \<Rightarrow> ledger" where
  "ledger_of D w = (\<lambda>key. recorded D key w)"

lemma ledger_of_cong: "db w = db w' \<Longrightarrow> ledger_of D w = ledger_of D w'"
  by (simp add: ledger_of_def recorded_cong [of w w'])

lemma ledger_of_promise:
  assumes "recorded D key w' =
      (let old = recorded D key w in if h \<in> set old then old else old @ [h])"
    and "\<And>k. k \<noteq> key \<Longrightarrow> recorded D k w' = recorded D k w"
  shows "ledger_of D w' = promise key h (ledger_of D w)"
proof
  show "ledger_of D w' k = promise key h (ledger_of D w) k" for k
    using assms(1) assms(2) [of k]
    by (cases "k = key") (auto simp: ledger_of_def promise_def Let_def)
qed

text \<open>A withdrawal that is parsed is one promise; any other transaction is none.\<close>

lemma ParseTx_ledger:
  assumes "db_ok (storage L)" "ParseTx L ty raw h st gas changes services bh w = (Inr tr, w')"
  shows "ledger_of (storage L) w' =
    (if ty = WithdrawStakeTx
     then promise (height_key (bh + ReturnLockingPeriod L)) (Hash_Hex L h) (ledger_of (storage L) w)
     else ledger_of (storage L) w)"
proof (cases "ty = WithdrawStakeTx")
  case True
  show ?thesis
    by (rule ParseTx_withdrawal_step [OF assms(1) assms(2) [unfolded True]])
      (simp only: True if_True refl, rule ledger_of_promise)
next
  case False
  with assms(2) have "w' = w" using ParseTx_other_world by (metis snd_conv)
  with False show ?thesis by simp
qed

text \<open>Panics included, a transaction makes at most one promise.\<close>

lemma record_withdrawal_promised:
  assumes "db_ok (storage L)"
  shows "promised (ledger_of (storage L) w) (ledger_of (storage L) (snd (record_withdrawal L tx h s bh w)))"
proof (cases "s \<and> db w \<noteq> None")
  case True
  then obtain d where d: "db w = Some d" by auto
  obtain r w1 where g: "GetStakeForTx L tx bh w = (r, w1)" by fastforce
  then have db1: "db w1 = Some d" using GetStakeForTx_db [of L tx bh w] d by simp
  have same: "promised (ledger_of (storage L) w) (ledger_of (storage L) w1)"
    using ledger_of_cong [of w1 w "storage L"] by (simp add: d db1 promised.nothing)
  have step: "promised (ledger_of (storage L) w) (ledger_of (storage L) (w1\<lparr>db := dbo\<rparr>))"
    if rec: "record_return_stake (storage L) key rtx (Some d) = (q, dbo)" for key rtx q dbo
  proof (rule record_return_stake_outcome [OF assms rec])
    fix d' assume d': "dbo = Some d'"
      "hashes (returns_at (storage L) key d') =
         (if rs_Hash rtx \<in> set (hashes (returns_at (storage L) key d)) then hashes (returns_at (storage L) key d)
          else hashes (returns_at (storage L) key d) @ [rs_Hash rtx]) \<or>
       q \<noteq> Inr None \<and> hashes (returns_at (storage L) key d') = hashes (returns_at (storage L) key d)"
      "\<And>k. k \<noteq> key \<Longrightarrow> hashes (returns_at (storage L) k d') = hashes (returns_at (storage L) k d)"
    from d'(2) show ?thesis
    proof
      assume h: "hashes (returns_at (storage L) key d') =
         (if rs_Hash rtx \<in> set (hashes (returns_at (storage L) key d)) then hashes (returns_at (storage L) key d)
          else hashes (returns_at (storage L) key d) @ [rs_Hash rtx])"
      have "ledger_of (storage L) (w1\<lparr>db := dbo\<rparr>) = promise key (rs_Hash rtx) (ledger_of (storage L) w)"
        by (rule ledger_of_promise) (simp_all add: recorded_def d d'(1,3) h)
      then show ?thesis by (simp add: promised_step)
    next
      assume "q \<noteq> Inr None \<and> hashes (returns_at (storage L) key d') = hashes (returns_at (storage L) key d)"
      then have "ledger_of (storage L) (w1\<lparr>db := dbo\<rparr>) k = ledger_of (storage L) w k" for k
        using d'(3) by (cases "k = key") (simp_all add: ledger_of_def recorded_def d d'(1))
      then have "ledger_of (storage L) (w1\<lparr>db := dbo\<rparr>) = ledger_of (storage L) w" by blast
      then show ?thesis by (simp add: promised.nothing)
    qed
  qed
  show ?thesis
    using True same by (auto simp: record_withdrawal_def g db1 Let_def intro: step
        split: sum.splits option.splits prod.splits)
qed (auto simp: record_withdrawal_def intro: promised.nothing)

lemma ParseTx_promised:
  assumes "db_ok (storage L)"
  shows "promised (ledger_of (storage L) w)
    (ledger_of (storage L) (snd (ParseTx L ty raw h st gas changes services bh w)))"
proof (cases "ty = WithdrawStakeTx")
  case True
  obtain r w1 where r: "record_withdrawal L (unmarshal_WithdrawStakeTx L raw) h services bh w = (r, w1)"
    by fastforce
  then have "promised (ledger_of (storage L) w) (ledger_of (storage L) w1)"
    using record_withdrawal_promised [OF assms] by (metis snd_conv)
  moreover have "snd (ParseTx L ty raw h st gas changes services bh w) \<in> {w, w1}"
    by (cases r; cases "parse_by_type L ty raw st gas changes")
      (simp_all add: ParseTx_def r True del: TxType_consts)
  ultimately show ?thesis by (auto intro: promised.nothing)
qed (simp add: ParseTx_other_world promised.nothing)

section \<open>Blocks\<close>

lemma parse_block_txs_promised:
  assumes "db_ok (storage L)"
  shows "promised (ledger_of (storage L) w)
    (ledger_of (storage L) (snd (parse_block_txs L status height txs i maps w)))"
proof (induction maps arbitrary: i w)
  case (Cons m maps)
  show ?case
  proof (cases "index txs i")
    case (Inr t)
    let ?p = "ParseTx L (tx_Type t) (json_field ''raw'' m) (tx_Hash t) (Some status)
      (case tx_Receipt t of Some gas \<Rightarrow> gas | None \<Rightarrow> 0) (tx_BalanceChanges t) True height w"
    obtain r w1 where p: "?p = (r, w1)" by fastforce
    then have "promised (ledger_of (storage L) w) (ledger_of (storage L) w1)"
      by (metis ParseTx_promised [OF assms] snd_conv)
    with Cons.IH [of w1 "Suc i"] show ?thesis
      by (auto simp: Inr p Let_def intro: promised_trans split: sum.splits prod.splits)
  qed (simp add: promised.nothing)
qed (simp add: promised.nothing)

text \<open>The hashes of the withdrawals among some transactions, and the promises they stand for.\<close>

definition withdrawal_hashes :: "'a thetalib_scheme \<Rightarrow> Tx list \<Rightarrow> string list" where
  "withdrawal_hashes L txs =
     map (\<lambda>t. Hash_Hex L (tx_Hash t)) (filter (\<lambda>t. tx_Type t = WithdrawStakeTx) txs)"

lemma parse_block_txs_ledger:
  assumes "db_ok (storage L)"
  shows "parse_block_txs L status height txs i maps w = (Inr parsed, w') \<Longrightarrow>
    ledger_of (storage L) w' =
      fold (promise (height_key (height + ReturnLockingPeriod L)))
        (withdrawal_hashes L (take (length maps) (drop i txs))) (ledger_of (storage L) w)"
proof (induction maps arbitrary: i w parsed)
  case (Cons m maps)
  from Cons.prems obtain t tx w1 rest where
    t: "index txs i = Inr t" "parsed = tx # rest"
      "ParseTx L (tx_Type t) (json_field ''raw'' m) (tx_Hash t) (Some status)
        (case tx_Receipt t of Some gas \<Rightarrow> gas | None \<Rightarrow> 0) (tx_BalanceChanges t) True height w
        = (Inr tx, w1)"
      "parse_block_txs L status height txs (Suc i) maps w1 = (Inr rest, w')"
    by (auto simp: Let_def split: sum.splits prod.splits)
  from t(1) have "drop i txs = t # drop (Suc i) txs"
    by (metis Cons_nth_drop_Suc index_eq_Inr)
  then show ?case
    using Cons.IH [OF t(4)] ParseTx_ledger [OF assms t(3)]
    by (simp add: withdrawal_hashes_def del: TxType_consts)
qed (simp add: withdrawal_hashes_def)

lemma parse_block_promised:
  assumes "db_ok (storage L)"
  shows "promised (ledger_of (storage L) w) (ledger_of (storage L) (snd (parse_block L j w)))"
proof (cases "Unmarshal_into None (unmarshal_Block L) j")
  case (Some tblock)
  have "promised (ledger_of (storage L) w) (ledger_of (storage L) (snd (block_transactions L status tblock j w)))"
    for status
    by (simp add: block_transactions_def parse_block_txs_promised [OF assms] promised.nothing split: option.splits)
  then show ?thesis
    by (auto simp: parse_block_def Some promised.nothing split: sum.splits prod.splits) (metis snd_conv)+
qed (simp add: parse_block_def promised.nothing)

section \<open>Requests and histories\<close>

lemma Block_promised:
  assumes "db_ok (storage L)"
  shows "promised (ledger_of (storage L) w) (ledger_of (storage L) (snd (Block L req w)))"
proof -
  have body: "promised (ledger_of (storage L) w)
      (ledger_of (storage L) (snd (HandleThetaRPCResponse L reply (parse_block L) w)))"
    for reply and w :: "'a world"
    using HandleThetaRPCResponse_world [of L reply "parse_block L" w] parse_block_promised [OF assms, of w]
    by (auto intro: promised.nothing)
  have "ledger_of (storage L) (snd (block_reply L bid w)) = ledger_of (storage L) w" for bid and w :: "'a world"
    by (rule ledger_of_cong, cases bid; cases "fst bid"; cases "snd bid") (simp_all add: block_reply_world)
  then have "promised (ledger_of (storage L) w) (ledger_of (storage L) w1)" "promised (ledger_of (storage L) w)
      (ledger_of (storage L) (snd (HandleThetaRPCResponse L reply (parse_block L) w1)))"
    if "block_reply L bid w = (reply, w1)" for bid reply w1
    using body [of w1] that by (metis promised.nothing snd_conv)+
  then show ?thesis
    by (auto simp: Block_def guarded_def promised.nothing split: option.splits sum.splits prod.splits)
qed

lemma serve_promised:
  assumes "db_ok (storage L)"
  shows "promised (ledger_of (storage L) w) (ledger_of (storage L) (snd (serve L r w)))"
proof (cases "\<exists>q. r = BlockRequest q")
  case True
  then show ?thesis by (auto simp: Block_promised [OF assms])
next
  case False
  then have "ledger_of (storage L) (snd (serve L r w)) = ledger_of (storage L) w"
    by (intro ledger_of_cong serve_same_db) blast
  then show ?thesis by (simp add: promised.nothing)
qed

text \<open>
  C3. The database refines the abstract ledger: a block that is answered makes exactly the
  promises of its withdrawals, in their order, for the height \<open>ReturnLockingPeriod\<close> later,
  and its answer ends with exactly the promises held for its own height.
\<close>

theorem block_refines_ledger:
  assumes "db_ok (storage L)"
    and "parse_block L j w = (Inr (Inr b), w')"
    and "Unmarshal_into None (unmarshal_Block L) j = Some tblock"
    and "json_field ''transactions'' j = Some raw"
  shows "let txs = take (length (json_elements raw)) (gb_Txs tblock);
             l = fold (promise (height_key (gb_Height tblock + ReturnLockingPeriod L)))
                   (withdrawal_hashes L txs) (ledger_of (storage L) w)
         in ledger_of (storage L) w' = l \<and>
            map tr_Hash (drop (length txs) (blk_Transactions b)) = l (height_key (gb_Height tblock))"
proof -
  from assms(2-4) obtain status txs returns where
    t: "parse_block_txs L status (gb_Height tblock) (gb_Txs tblock) 0 (json_elements raw) w = (Inr txs, w')"
    "block_returns L status (gb_Height tblock) w' = Inr returns" "blk_Transactions b = txs @ returns"
    by (auto simp: parse_block_def block_transactions_def go_simps split: sum.splits prod.splits)
  have "length txs = length (take (length (json_elements raw)) (gb_Txs tblock))"
    using parse_block_txs_length [OF t(1)] by auto
  with parse_block_txs_ledger [OF assms(1) t(1)] block_returns_hashes [OF t(2)] t(3) show ?thesis
    by (simp add: Let_def fun_eq_iff ledger_of_def)
qed

text \<open>
  C7. Whatever requests are served, in whatever order, the database stays a run of the
  abstract ledger from where it started, also when a write fails and the request panics: no
  promise is lost or reordered, and a key that holds no hash twice never will. (Requests follow
  one another here; for those that overlap see the theory \<open>Concurrency\<close>.)
\<close>

theorem server_refines_ledger:
  assumes "db_ok (storage L)" "reachable L w0 w"
  shows "promised (ledger_of (storage L) w0) (ledger_of (storage L) w) \<and>
    prefix (recorded (storage L) key w0) (recorded (storage L) key w) \<and>
    (distinct (recorded (storage L) key w0) \<longrightarrow> distinct (recorded (storage L) key w))"
proof -
  from assms(2) have p: "promised (ledger_of (storage L) w0) (ledger_of (storage L) w)"
    by (induction rule: reachable.induct)
      (auto intro: promised.nothing promised_trans serve_promised [OF assms(1)])
  from promised_prefix [OF this, of key] promised_distinct [OF this, of key] show ?thesis
    using p by (simp add: ledger_of_def)
qed

section \<open>Witnesses\<close>

theorem block_refines_ledger_witness:
  "\<exists>b w'. parse_block (sample ''online'') withdrawal_block sample_world = (Inr (Inr b), w') \<and>
     ledger_of sample_store w' (height_key 28805) = [number_text (77 :: hash)]"
proof -
  let ?L = "sample ''online''"
  obtain b w' where p: "parse_block ?L withdrawal_block sample_world = (Inr (Inr b), w')"
    using sample_block_parses by blast
  have u: "Unmarshal_into None (unmarshal_Block ?L) withdrawal_block =
      Some (sample_inner 5 [\<lparr>tx_Type = WithdrawStakeTx, tx_Hash = 77, tx_Receipt = None, tx_BalanceChanges = None\<rparr>])"
    by (simp add: Unmarshal_into_def withdrawal_block_def) (simp add: sample_def sample_block_def withdrawal_block_def)
  have j: "json_field ''transactions'' withdrawal_block = Some (JArray [JObject []])"
    by (simp add: json_field_def withdrawal_block_def)
  have h: "ReturnLockingPeriod ?L = 28800" "Hash_Hex ?L = number_text" by (simp_all add: sample_def)
  have "db_ok (storage ?L)" by (simp add: sample_db_ok)
  from block_refines_ledger [OF this p u j] have
    "ledger_of sample_store w' = promise (height_key 28805) (number_text (77 :: hash)) (ledger_of sample_store sample_world)"
    by (simp add: Let_def withdrawal_hashes_def json_elements_def sample_inner_def h)
  with p show ?thesis
    by (simp add: promise_def) (simp add: ledger_of_def sample_world_recorded)
qed

theorem server_refines_ledger_witness:
  "distinct (recorded sample_store (height_key 28805) (run (sample ''online'')
     [NetworkListRequest, BlockRequest \<lparr>br_NetworkIdentifier = sample_network,
        br_BlockIdentifier = Some (Some 5, None)\<rparr>] sample_world))"
proof -
  have ok: "db_ok (storage (sample ''online''))" by (simp add: sample_db_ok)
  have "distinct (recorded (storage (sample ''online'')) key sample_world)" for key
    by (simp add: sample_world_recorded)
  with server_refines_ledger [OF ok reachable_run] show ?thesis
    by (metis sample_storage)
qed

end
