(* ===== verification/Concurrency.thy ===== *)
theory Concurrency
  imports ReturnLedger
begin

text \<open>
  Overlapping \<open>/block\<close> requests. \<open>net/http\<close> runs every request in a goroutine of its own, and
  nothing guards the database between the \<open>Get\<close> and the \<open>Put\<close> with which \<open>ParseTx\<close> records a
  withdrawal (\<open>common/utils.go\<close>). A recorder is the part of a \<open>/block\<close> request that works on
  the shared state, its withdrawals one after the other; recorders interleave at the call to the
  node, the \<open>Get\<close> and the \<open>Put\<close>.
\<close>

section \<open>The three parts of a recording\<close>

text \<open>The stake is looked up and its return built.\<close>

definition lookup_return ::
    "('d, 'a) stakelib_scheme \<Rightarrow> WithdrawStakeTx_data \<Rightarrow> hash \<Rightarrow> u64 \<Rightarrow> ('d, ReturnStakeTx go) step" where
  "lookup_return L tx txHash blockHeight w =
     (if db w \<noteq> None
      then (case GetStakeForTx L tx blockHeight w of
              (Inl p, w1) \<Rightarrow> (Inl p, w1)
            | (Inr (Inl e), w1) \<Rightarrow>
                (Inl (ExplicitPanic (''Failed to get stakes for '' @ Hash_Hex L txHash @ '' at '' @
                        int_text (uint blockHeight))), w1)
            | (Inr (Inr stake), w1) \<Rightarrow>
                (andThen (deref stake) (\<lambda>stk.
                   Inr \<lparr>rs_Hash = Hash_Hex L txHash, rs_Tx = withdrawn_tx L tx stk\<rparr>), w1))
      else (Inl (ExplicitPanic ''return_stakes db or service is nil''), w))"

text \<open>The entry is read and extended in memory.\<close>

definition read_entry ::
    "'d storelib \<Rightarrow> byte list \<Rightarrow> ReturnStakeTx \<Rightarrow> 'd LDBDatabase option \<Rightarrow> ReturnStakeTxs go" where
  "read_entry D key rtx dbo =
     andThen (Store_Get D key dbo) (\<lambda>r.
       case r of
         Inr txs \<Rightarrow> Inr (add_return_stake rtx txs)
       | Inl _ \<Rightarrow> Inr \<lparr>ReturnStakes = [rtx]\<rparr>)"

text \<open>It is written back.\<close>

definition write_entry ::
    "('d, 'a) stakelib_scheme \<Rightarrow> string \<Rightarrow> byte list \<Rightarrow> ReturnStakeTxs \<Rightarrow> ('d, unit go) step" where
  "write_entry L txHash key v w =
     (case Store_Put (storage L) key v (db w) of
        (Inl p, dbo) \<Rightarrow> (Inl p, w\<lparr>db := dbo\<rparr>)
      | (Inr (Some e), dbo) \<Rightarrow>
          (Inl (ExplicitPanic (''Failed to put stakes for '' @ txHash @ '' at ['' @ numbers_text key @
                  ''], err: '' @ store_error_text e)), w\<lparr>db := dbo\<rparr>)
      | (Inr None, dbo) \<Rightarrow> (Inr (), w\<lparr>db := dbo\<rparr>))"

section \<open>Recorders\<close>

text \<open>A withdrawal of a block: its hash and the transaction.\<close>

type_synonym withdrawal = "hash \<times> WithdrawStakeTx_data"

datatype recorder =
    Waiting "withdrawal list"
  | Found ReturnStakeTx "withdrawal list"
  | Extended ReturnStakeTx ReturnStakeTxs "withdrawal list"
  | Panicked panic

definition due_key :: "'a thetalib_scheme \<Rightarrow> u64 \<Rightarrow> byte list" where
  "due_key L blockHeight = height_key (blockHeight + ReturnLockingPeriod L)"

fun recorder_step ::
    "('d, 'a) stakelib_scheme \<Rightarrow> u64 \<Rightarrow> recorder \<Rightarrow> ('d, recorder) step" where
  "recorder_step L bh (Waiting []) w = (Waiting [], w)"
| "recorder_step L bh (Waiting ((h, tx) # rest)) w =
     (case lookup_return L tx h bh w of
        (Inl p, w1) \<Rightarrow> (Panicked p, w1)
      | (Inr rtx, w1) \<Rightarrow> (Found rtx rest, w1))"
| "recorder_step L bh (Found rtx rest) w =
     (case read_entry (storage L) (due_key L bh) rtx (db w) of
        Inl p \<Rightarrow> (Panicked p, w)
      | Inr v \<Rightarrow> (Extended rtx v rest, w))"
| "recorder_step L bh (Extended rtx v rest) w =
     (case write_entry L (rs_Hash rtx) (due_key L bh) v w of
        (Inl p, w1) \<Rightarrow> (Panicked p, w1)
      | (Inr _, w1) \<Rightarrow> (Waiting rest, w1))"
| "recorder_step L bh (Panicked p) w = (Panicked p, w)"

text \<open>
  Requests for blocks of given heights, and the state they share; a schedule says whose turn
  it is.
\<close>

type_synonym 'd overlap = "(u64 \<times> recorder) list \<times> 'd world"

fun schedule :: "('d, 'a) stakelib_scheme \<Rightarrow> nat list \<Rightarrow> 'd overlap \<Rightarrow> 'd overlap" where
  "schedule L [] c = c"
| "schedule L (i # turns) (rs, w) =
     (if i < length rs
      then (case recorder_step L (fst (rs ! i)) (snd (rs ! i)) w of
              (r', w') \<Rightarrow> schedule L turns (rs[i := (fst (rs ! i), r')], w'))
      else schedule L turns (rs, w))"


section \<open>A recorder that is left alone\<close>






text \<open>The withdrawals among the transactions of a block.\<close>

fun block_withdrawals :: "('d, 'a) txlib_scheme \<Rightarrow> Tx list \<Rightarrow> json list \<Rightarrow> withdrawal list" where
  "block_withdrawals L (t # txs) (m # maps) =
     (if tx_Type t = WithdrawStakeTx
      then (tx_Hash t, unmarshal_WithdrawStakeTx L (json_field ''raw'' m)) # block_withdrawals L txs maps
      else block_withdrawals L txs maps)"
| "block_withdrawals L _ _ = []"


section \<open>Requests for different blocks\<close>

text \<open>What a recorder has still to promise.\<close>

definition due_hashes :: "'a thetalib_scheme \<Rightarrow> withdrawal list \<Rightarrow> string list" where
  "due_hashes L ws = map (\<lambda>x. Hash_Hex L (fst x)) ws"

fun pending :: "'a thetalib_scheme \<Rightarrow> recorder \<Rightarrow> string list" where
  "pending L (Waiting ws) = due_hashes L ws"
| "pending L (Found rtx ws) = rs_Hash rtx # due_hashes L ws"
| "pending L (Extended rtx v ws) = rs_Hash rtx # due_hashes L ws"
| "pending L (Panicked p) = []"

text \<open>What it is about to write extends the entry as it is now.\<close>

fun up_to_date :: "('d, 'a) stakelib_scheme \<Rightarrow> u64 \<Rightarrow> recorder \<Rightarrow> 'd world \<Rightarrow> bool" where
  "up_to_date L bh (Extended rtx v ws) w \<longleftrightarrow>
     db w \<noteq> None \<and> read_entry (storage L) (due_key L bh) rtx (db w) = Inr v"
| "up_to_date L bh _ w \<longleftrightarrow> True"

lemma lookup_return_db: "db (snd (lookup_return L tx h bh w)) = db w"
  using GetStakeForTx_db [of L tx bh w]
  by (auto simp: lookup_return_def split: prod.split sum.split)

lemma lookup_return_Inr: "lookup_return L tx h bh w = (Inr rtx, w') \<Longrightarrow> rs_Hash rtx = Hash_Hex L h \<and> db w \<noteq> None"
  by (auto simp: lookup_return_def go_simps split: if_splits prod.splits sum.splits)

text \<open>An entry that is up to date is written as \<open>record_return_stake\<close> writes it.\<close>

lemma write_read:
  "read_entry D key rtx (Some d) = Inr v \<Longrightarrow>
   record_return_stake D key rtx (Some d) = Store_Put D key v (Some d)"
  by (auto simp: read_entry_def record_return_stake_def go_simps split: sum.splits)

lemma write_entry_promise:
  assumes "db_ok (storage L)" "db w = Some d" "read_entry (storage L) key rtx (Some d) = Inr v"
    and "write_entry L (rs_Hash rtx) key v w = (q, w')"
  shows "ledger_of (storage L) w' = promise key (rs_Hash rtx) (ledger_of (storage L) w) \<or>
    q \<noteq> Inr () \<and> ledger_of (storage L) w' = ledger_of (storage L) w"
    and "db w' \<noteq> None"
proof -
  obtain r dbo where put: "Store_Put (storage L) key v (Some d) = (r, dbo)" by fastforce
  with write_read [OF assms(3)] have rec: "record_return_stake (storage L) key rtx (Some d) = (r, dbo)" by simp
  have w': "w' = w\<lparr>db := dbo\<rparr>" and q: "r \<noteq> Inr None \<Longrightarrow> q \<noteq> Inr ()"
    using assms(4) put by (auto simp: write_entry_def assms(2) split: sum.splits option.splits)
  from record_return_stake_outcome [OF assms(1) rec] obtain d' where d': "dbo = Some d'"
    "hashes (returns_at (storage L) key d') =
       (if rs_Hash rtx \<in> set (hashes (returns_at (storage L) key d)) then hashes (returns_at (storage L) key d)
        else hashes (returns_at (storage L) key d) @ [rs_Hash rtx]) \<or>
     r \<noteq> Inr None \<and> hashes (returns_at (storage L) key d') = hashes (returns_at (storage L) key d)"
    "\<And>k. k \<noteq> key \<Longrightarrow> hashes (returns_at (storage L) k d') = hashes (returns_at (storage L) k d)"
    by blast
  show "db w' \<noteq> None" by (simp add: w' d'(1))
  have led: "ledger_of (storage L) w' k =
      (if k = key then hashes (returns_at (storage L) key d') else ledger_of (storage L) w k)" for k
    using d'(3) by (simp add: ledger_of_def recorded_def assms(2) w' d'(1))
  have old: "ledger_of (storage L) w key = hashes (returns_at (storage L) key d)"
    by (simp add: ledger_of_def recorded_def assms(2))
  from d'(2) show "ledger_of (storage L) w' = promise key (rs_Hash rtx) (ledger_of (storage L) w) \<or>
    q \<noteq> Inr () \<and> ledger_of (storage L) w' = ledger_of (storage L) w"
  proof
    assume "hashes (returns_at (storage L) key d') =
       (if rs_Hash rtx \<in> set (hashes (returns_at (storage L) key d)) then hashes (returns_at (storage L) key d)
        else hashes (returns_at (storage L) key d) @ [rs_Hash rtx])"
    then have "ledger_of (storage L) w' = promise key (rs_Hash rtx) (ledger_of (storage L) w)"
      by (simp add: fun_eq_iff led promise_def old)
    then show ?thesis ..
  next
    assume "r \<noteq> Inr None \<and> hashes (returns_at (storage L) key d') = hashes (returns_at (storage L) key d)"
    with q show ?thesis by (simp add: fun_eq_iff led old)
  qed
qed

text \<open>A recorder writes under its own key only, whatever it writes.\<close>

lemma write_entry_frame:
  assumes "db_ok (storage L)" "write_entry L h k v w = (q, w')" "key \<noteq> k"
  shows "Store_Get (storage L) key (db w') = Store_Get (storage L) key (db w) \<and>
    ledger_of (storage L) w' key = ledger_of (storage L) w key \<and> (db w' = None \<longleftrightarrow> db w = None)"
proof (cases "db w")
  case None
  then have "db w' = None"
    using assms(2) by (auto simp: write_entry_def Store_Put_def split: sum.splits option.splits)
  with None show ?thesis by (simp add: ledger_of_def recorded_def)
next
  case (Some d)
  from assms(1) obtain reread where laws: "store_laws (storage L) reread" by (auto simp: db_ok_def)
  have "db w' = Some (snd (KVStore_Put (storage L) k v d))"
    using assms(2) Some by (auto simp: write_entry_def split: sum.splits option.splits prod.splits)
  then show ?thesis
    by (simp add: Some ledger_of_def recorded_def returns_at_def kv.get_put_other [OF laws assms(3)])
qed

lemma recorder_step_frame:
  assumes "db_ok (storage L)" "recorder_step L bh r w = (r', w')" "key \<noteq> due_key L bh"
  shows "Store_Get (storage L) key (db w') = Store_Get (storage L) key (db w) \<and>
    ledger_of (storage L) w' key = ledger_of (storage L) w key \<and> (db w' = None \<longleftrightarrow> db w = None)"
proof (cases r)
  case (Waiting ws)
  have "db w' = db w"
    using assms(2) lookup_return_db [of L _ _ bh w]
    by (auto simp: Waiting split: prod.splits sum.splits elim!: recorder_step.elims) (metis snd_conv)+
  then show ?thesis by (simp add: ledger_of_cong [of w' w])
next
  case (Extended rtx v ws)
  obtain q w1 where q: "write_entry L (rs_Hash rtx) (due_key L bh) v w = (q, w1)" by fastforce
  with assms(2) have "w' = w1" by (auto simp: Extended split: sum.splits)
  with write_entry_frame [OF assms(1) q assms(3)] show ?thesis by simp
qed (use assms(2) in \<open>auto split: sum.splits\<close>)

lemma up_to_date_cong:
  assumes "Store_Get (storage L) (due_key L bh) (db w') = Store_Get (storage L) (due_key L bh) (db w)"
    and "db w' = None \<longleftrightarrow> db w = None"
  shows "up_to_date L bh r w' \<longleftrightarrow> up_to_date L bh r w"
  using assms by (cases r) (simp_all add: read_entry_def)

text \<open>A recorder that is up to date makes a promise or none, and stays so.\<close>

lemma recorder_step_promise:
  assumes "db_ok (storage L)" "recorder_step L bh r w = (r', w')" "up_to_date L bh r w" "db w \<noteq> None"
  shows "up_to_date L bh r' w' \<and> db w' \<noteq> None \<and>
    ((\<exists>p. r' = Panicked p) \<and>
       ledger_of (storage L) w' \<in> {ledger_of (storage L) w, promise (due_key L bh) (hd (pending L r)) (ledger_of (storage L) w)} \<or>
     ledger_of (storage L) w' = ledger_of (storage L) w \<and> pending L r' = pending L r \<or>
     (\<exists>h. pending L r = h # pending L r' \<and>
       ledger_of (storage L) w' = promise (due_key L bh) h (ledger_of (storage L) w)))"
proof (cases r)
  case (Waiting ws)
  show ?thesis
  proof (cases ws)
    case (Cons x rest)
    obtain h tx where x: "x = (h, tx)" by fastforce
    obtain q w1 where q: "lookup_return L tx h bh w = (q, w1)" by fastforce
    then have d: "db w1 = db w" using lookup_return_db by (metis snd_conv)
    with ledger_of_cong [OF this, of "storage L"] assms(2,4) lookup_return_Inr [of L tx h bh w _ w1] q show ?thesis
      by (auto simp: Waiting Cons x due_hashes_def split: sum.splits)
  qed (use assms(2,4) Waiting in auto)
next
  case (Extended rtx v ws)
  with assms(3) obtain d where d: "db w = Some d" "read_entry (storage L) (due_key L bh) rtx (Some d) = Inr v"
    by auto
  obtain q w1 where q: "write_entry L (rs_Hash rtx) (due_key L bh) v w = (q, w1)" by fastforce
  with assms(2) write_entry_promise [OF assms(1) d q] show ?thesis
    by (cases q) (auto simp: Extended)
qed (use assms in \<open>auto split: sum.splits\<close>)

text \<open>
  The invariant of a request \<open>q\<close> whose recorder is \<open>r\<close>: unless it has panicked, what it has
  promised and what is pending make up all of its withdrawals.
\<close>

definition on_course ::
    "('d, 'a) stakelib_scheme \<Rightarrow> ledger \<Rightarrow> u64 \<times> withdrawal list \<Rightarrow> u64 \<times> recorder \<Rightarrow> 'd world \<Rightarrow> bool" where
  "on_course L l0 q c w \<longleftrightarrow>
     fst c = fst q \<and> up_to_date L (fst c) (snd c) w \<and>
     ((\<forall>p. snd c \<noteq> Panicked p) \<longrightarrow>
        fold (promise (due_key L (fst q))) (pending L (snd c)) (ledger_of (storage L) w) (due_key L (fst q)) =
        fold (promise (due_key L (fst q))) (due_hashes L (snd q)) l0 (due_key L (fst q)))"

text \<open>Promises for a key depend on that key only.\<close>

lemma fold_promise_cong: "l key = l' key \<Longrightarrow> fold (promise key) hs l key = fold (promise key) hs l' key"
proof (induction hs arbitrary: l l')
  case (Cons h hs)
  then have "promise key h l key = promise key h l' key" by (simp add: promise_def)
  then show ?case by (simp add: Cons.IH [of "promise key h l" "promise key h l'"])
qed simp

lemma on_course_own:
  assumes "db_ok (storage L)" "on_course L l0 q (bh, r) w" "recorder_step L bh r w = (r', w')" "db w \<noteq> None"
  shows "on_course L l0 q (bh, r') w'" "promised (ledger_of (storage L) w) (ledger_of (storage L) w')"
    "db w' \<noteq> None"
proof -
  from assms(2) have up: "up_to_date L bh r w"
    unfolding on_course_def fst_conv snd_conv by (elim conjE)
  note step = recorder_step_promise [OF assms(1,3) up assms(4)]
  have "r' = r" if "r = Panicked p" for p using assms(3) that by simp
  with step assms(2) show "on_course L l0 q (bh, r') w'"
    by (auto simp: on_course_def)
  from step have "ledger_of (storage L) w' = ledger_of (storage L) w \<or>
      (\<exists>h. ledger_of (storage L) w' = promise (due_key L bh) h (ledger_of (storage L) w))"
    by blast
  then show "promised (ledger_of (storage L) w) (ledger_of (storage L) w')"
    by (elim disjE exE) (simp_all only: promised.nothing promised_step)
  from step show "db w' \<noteq> None" by blast
qed

lemma on_course_other:
  assumes "db_ok (storage L)" "on_course L l0 q c w" "recorder_step L bh r w = (r', w')" "fst c \<noteq> bh"
  shows "on_course L l0 q c w'"
proof -
  have "due_key L (fst c) \<noteq> due_key L bh" using assms(4) by (simp add: due_key_def)
  note f = recorder_step_frame [OF assms(1,3) this]
  then have "up_to_date L (fst c) (snd c) w' \<longleftrightarrow> up_to_date L (fst c) (snd c) w"
    by (intro up_to_date_cong) simp_all
  moreover have "fold (promise (due_key L (fst c))) hs (ledger_of (storage L) w') (due_key L (fst c)) =
      fold (promise (due_key L (fst c))) hs (ledger_of (storage L) w) (due_key L (fst c))" for hs
    using f by (intro fold_promise_cong) simp
  ultimately show ?thesis
    using assms(2) unfolding on_course_def by metis
qed

lemma schedule_on_course:
  assumes "db_ok (storage L)"
  shows "\<lbrakk>schedule L turns (cs, w) = (rs, w'); length cs = length qs; distinct (map fst qs); db w \<noteq> None;
      \<forall>i<length qs. on_course L l0 (qs ! i) (cs ! i) w\<rbrakk> \<Longrightarrow>
    promised (ledger_of (storage L) w) (ledger_of (storage L) w') \<and> length rs = length qs \<and>
    (\<forall>i<length qs. on_course L l0 (qs ! i) (rs ! i) w')"
proof (induction turns arbitrary: cs w)
  case Nil
  then show ?case by (simp add: promised.nothing)
next
  case (Cons i turns)
  show ?case
  proof (cases "i < length qs")
    case True
    obtain bh r where c: "cs ! i = (bh, r)" by fastforce
    obtain r' w1 where s: "recorder_step L bh r w = (r', w1)" by fastforce
    have on: "on_course L l0 (qs ! i) (bh, r) w" using Cons.prems(5) True c by metis
    note own = on_course_own [OF assms on s Cons.prems(4)]
    have all: "\<forall>j<length qs. on_course L l0 (qs ! j) (cs[i := (bh, r')] ! j) w1"
    proof (intro allI impI)
      fix j assume j: "j < length qs"
      show "on_course L l0 (qs ! j) (cs[i := (bh, r')] ! j) w1"
      proof (cases "j = i")
        case False
        have oj: "on_course L l0 (qs ! j) (cs ! j) w" using Cons.prems(5) j by simp
        have "fst (qs ! j) \<noteq> fst (qs ! i)"
          using nth_eq_iff_index_eq [OF Cons.prems(3), of j i] j True False by simp
        with oj on have "fst (cs ! j) \<noteq> bh" by (simp add: on_course_def)
        with on_course_other [OF assms oj s] False show ?thesis by simp
      qed (use own(1) j Cons.prems(2) in simp)
    qed
    have "schedule L turns (cs[i := (bh, r')], w1) = (rs, w')"
      using Cons.prems(1,2) True by (simp add: c s)
    from Cons.IH [OF this _ Cons.prems(3) own(3) all] Cons.prems(2) promised_trans [OF own(2)] show ?thesis
      by auto
  qed (use Cons in simp)
qed

text \<open>The withdrawals of a block, and those it promises as \<open>withdrawal_hashes\<close> has them.\<close>

lemma due_hashes_block:
  "length maps = length txs \<Longrightarrow> due_hashes L (block_withdrawals L txs maps) = withdrawal_hashes L txs"
  by (induction L txs maps rule: block_withdrawals.induct) (auto simp: due_hashes_def withdrawal_hashes_def)

section \<open>Properties\<close>


text \<open>
  C9. Overlapping requests for blocks of different heights do not disturb one another, however
  their look-ups, reads and writes interleave and whichever of them panic: the database stays a
  run of the abstract ledger, and a request that finishes has left under its key exactly what it
  would have left alone.
\<close>

theorem different_blocks_overlap:
  assumes "db_ok (storage L)" "db w \<noteq> None" "distinct (map fst reqs)"
    and "schedule L turns (map (\<lambda>q. (fst q, Waiting (snd q))) reqs, w) = (rs, w')"
  shows "promised (ledger_of (storage L) w) (ledger_of (storage L) w') \<and>
    (\<forall>i<length reqs. snd (rs ! i) = Waiting [] \<longrightarrow>
       (let key = due_key L (fst (reqs ! i)) in
        ledger_of (storage L) w' key =
          fold (promise key) (due_hashes L (snd (reqs ! i))) (ledger_of (storage L) w) key))"
proof -
  have "\<forall>i<length reqs. on_course L (ledger_of (storage L) w) (reqs ! i)
      (map (\<lambda>q. (fst q, Waiting (snd q))) reqs ! i) w"
    by (simp add: on_course_def)
  from schedule_on_course [OF assms(1,4) _ assms(3,2) this] show ?thesis
    by (auto simp: on_course_def Let_def due_hashes_def)
qed

section \<open>A lost withdrawal\<close>

definition sample_return :: "hash \<Rightarrow> ReturnStakeTx" where
  "sample_return h = \<lparr>rs_Hash = number_text h, rs_Tx = withdrawn_tx (sample ''online'') sample_withdrawal sample_stake\<rparr>"

text \<open>The entry of the sample database that a block at height \<open>bh\<close> writes.\<close>

definition sample_entry :: "u64 \<Rightarrow> string list \<Rightarrow> sample_db world \<Rightarrow> bool" where
  "sample_entry bh hs w \<longleftrightarrow>
     (\<exists>d. db w = Some d \<and> hashes (returns_at sample_store (height_key (bh + 28800)) d) = hs \<and>
       encodable (returns_at sample_store (height_key (bh + 28800)) d))"

lemma sample_entry_cong: "db w' = db w \<Longrightarrow> sample_entry bh hs w \<Longrightarrow> sample_entry bh hs w'"
  by (simp add: sample_entry_def)

lemma sample_due_key: "due_key (sample ''online'') bh = height_key (bh + 28800)"
  by (simp add: due_key_def sample_def)

lemma encodable_add:
  "encodable v \<Longrightarrow> encodable (add_return_stake (sample_return h) v)"
  by (auto simp: encodable_def add_return_stake_def non_negative_def sample_return_def withdrawn_tx_def
      sample_withdrawal_def sample_stake_def)

lemma sample_read:
  "read_entry sample_store key rtx (Some d) = Inr (add_return_stake rtx (returns_at sample_store key d))"
  by (auto simp: read_entry_def returns_at_def add_return_stake_def split: sum.splits)

text \<open>Two turns look a withdrawal up and read the entry, one more writes it.\<close>

lemma sample_Found:
  assumes "sample_entry bh hs w" "i < length rs" "rs ! i = (bh, Waiting ((h, sample_withdrawal) # ws))"
    "\<And>v. rs' v = rs[i := (bh, Extended (sample_return h) v ws)]"
    "hs' = (if number_text h \<in> set hs then hs else hs @ [number_text h])"
  obtains v w1 where
    "\<And>turns. schedule (sample ''online'') (i # i # turns) (rs, w) =
       schedule (sample ''online'') turns (rs' v, w1)"
    "hashes v = hs'" "encodable v" "db w1 = db w"
proof -
  let ?L = "sample ''online''"
  from assms(1) obtain d where d: "db w = Some d" "hashes (returns_at sample_store (height_key (bh + 28800)) d) = hs"
    "encodable (returns_at sample_store (height_key (bh + 28800)) d)"
    by (auto simp: sample_entry_def)
  obtain w1 where g: "GetStakeForTx ?L sample_withdrawal bh w = (Inr (Inr (Some sample_stake)), w1)"
    using sample_stake_found by (metis prod.collapse)
  then have d1: "db w1 = Some d"
    using GetStakeForTx_db [of ?L sample_withdrawal bh w] d(1) by simp
  have "Hash_Hex ?L = number_text" by (simp add: sample_def)
  then have found: "lookup_return ?L sample_withdrawal h bh w = (Inr (sample_return h), w1)"
    by (simp add: lookup_return_def g d(1) sample_return_def)
  let ?v = "add_return_stake (sample_return h) (returns_at sample_store (height_key (bh + 28800)) d)"
  have "schedule ?L (i # i # turns) (rs, w) = schedule ?L turns (rs' ?v, w1)" for turns
    by (simp add: assms(2-4) found d1 sample_read sample_due_key)
  then show ?thesis
    by (rule that)
      (use assms(5) d d1 encodable_add [OF d(3)] in
        \<open>simp_all add: sample_entry_def add_return_stake_hashes sample_return_def\<close>)
qed

lemma encodable_canon: "encodable v \<Longrightarrow> encodable (canon_returns v)"
  by (simp add: encodable_def canon_returns_def list_all_iff canon_return_def canon_input_def
      canon_output_def canon_coins_def non_negative_def)

lemma sample_Extended:
  assumes "sample_entry bh hs w" "i < length rs" "rs ! i = (bh, Extended r v ws)" "encodable v"
    "rs' = rs[i := (bh, Waiting ws)]"
  obtains w1 where
    "\<And>turns. schedule (sample ''online'') (i # turns) (rs, w) =
       schedule (sample ''online'') turns (rs', w1)"
    "sample_entry bh (hashes v) w1"
proof -
  let ?L = "sample ''online''"
  from assms(1) obtain d where d: "db w = Some d"
    by (auto simp: sample_entry_def)
  let ?d' = "snd (KVStore_Put sample_store (height_key (bh + 28800)) v d)"
  have ok: "fst (KVStore_Put sample_store (height_key (bh + 28800)) v d) = None"
    by (simp add: sample_put assms(4))
  with KVStore_get_put(1) [OF sample_store_laws, of "height_key (bh + 28800)" v d None ?d']
  have at: "returns_at sample_store (height_key (bh + 28800)) ?d' = canon_returns v"
    by (simp add: returns_at_def prod_eq_iff)
  have "write_entry ?L (rs_Hash r) (height_key (bh + 28800)) v w = (Inr (), w\<lparr>db := Some ?d'\<rparr>)"
    using ok by (simp add: write_entry_def d split: prod.split)
  then have "schedule ?L (i # turns) (rs, w) = schedule ?L turns (rs', w\<lparr>db := Some ?d'\<rparr>)" for turns
    by (simp add: assms(2,3,5) sample_due_key)
  then show ?thesis
    by (rule that)
      (simp add: sample_entry_def at encodable_canon assms(4) same_stakes_hashes' [OF same_stakes_canon])
qed

lemma number_text_inject: "number_text a = number_text b \<longleftrightarrow> a = b"
  by (metis text_number_text)

lemma sample_recorded:
  assumes "sample_entry bh hs w" "i < length rs" "rs ! i = (bh, Waiting ((h, sample_withdrawal) # ws))"
    "rs' = rs[i := (bh, Waiting ws)]" "hs' = (if number_text h \<in> set hs then hs else hs @ [number_text h])"
  obtains w1 where
    "\<And>turns. schedule (sample ''online'') (i # i # i # turns) (rs, w) =
       schedule (sample ''online'') turns (rs', w1)"
    "sample_entry bh hs' w1"
proof -
  obtain v w0 where f:
    "\<And>turns. schedule (sample ''online'') (i # i # turns) (rs, w) =
       schedule (sample ''online'') turns (rs[i := (bh, Extended (sample_return h) v ws)], w0)"
    "hashes v = hs'" "encodable v" "db w0 = db w"
    by (rule sample_Found [OF assms(1-3) refl assms(5)]) (rule that)
  have "(rs[i := (bh, Extended (sample_return h) v ws)]) ! i = (bh, Extended (sample_return h) v ws)"
    "i < length (rs[i := (bh, Extended (sample_return h) v ws)])"
    using assms(2) by simp_all
  from sample_Extended [OF sample_entry_cong [OF f(4) assms(1)] this(2,1) f(3) refl] obtain w1 where
    "\<And>turns. schedule (sample ''online'') (i # turns) (rs[i := (bh, Extended (sample_return h) v ws)], w0) =
       schedule (sample ''online'') turns (rs', w1)"
    "sample_entry bh (hashes v) w1"
    unfolding assms(4) list_update_overwrite by blast
  with f show ?thesis by (intro that) simp_all
qed

lemma sample_world_entry: "sample_entry bh [] sample_world"
  using sample_world_recorded [of "height_key (bh + 28800)"]
  by (simp add: sample_entry_def recorded_def sample_world_def returns_at_def KVStore_Get_def LDB_Get_def
      sample_store_def encodable_def)

lemma sample_entry_ledger: "sample_entry bh hs w \<Longrightarrow> ledger_of sample_store w (height_key (bh + 28800)) = hs"
  by (auto simp: sample_entry_def ledger_of_def recorded_def)

text \<open>
  C26. Two requests for the same block lose a withdrawal: the second reads the entry and rests,
  the first records two hashes, the second writes its stale entry back, the first reads that,
  the second finishes, the first writes. Both have recorded three withdrawals without an error
  and the entry holds two of them.
\<close>

theorem same_block_loses_withdrawal:
  "let ws = map (\<lambda>h. (h, sample_withdrawal)) [77, 78, 79];
       turns = [1, 1, 0, 0, 0, 0, 0, 0, 1, 0, 0, 1, 1, 1, 1, 1, 1, 0]
   in case schedule (sample ''online'') turns ([(5, Waiting ws), (5, Waiting ws)], sample_world) of
        (rs, w') \<Rightarrow> rs = [(5, Waiting []), (5, Waiting [])] \<and>
          ledger_of sample_store w' (height_key 28805) = map number_text [77, 79 :: hash]"
proof -
  let ?L = "sample ''online''" and ?n = "number_text :: hash \<Rightarrow> string"
    and ?ws = "map (\<lambda>h. (h, sample_withdrawal))"
  let ?W = "\<lambda>hs. (5 :: u64, Waiting (?ws hs))"
  let ?E = "\<lambda>h v hs. (5 :: u64, Extended (sample_return h) v (?ws hs))"
  obtain v1 w1 where s1: "\<And>ts. schedule ?L (1 # 1 # ts) ([?W [77, 78, 79], ?W [77, 78, 79]], sample_world) =
      schedule ?L ts ([?W [77, 78, 79], ?E 77 v1 [78, 79]], w1)"
    and v1: "hashes v1 = [?n 77]" "encodable v1" and d1: "db w1 = db sample_world"
    by (rule sample_Found [OF sample_world_entry [of 5],
          where i = 1 and h = 77 and ws = "?ws [78, 79]"
          and rs = "[?W [77, 78, 79], ?W [77, 78, 79]]"
          and rs' = "\<lambda>v. [?W [77, 78, 79], ?E 77 v [78, 79]]"
          and hs' = "[?n 77]"], simp, simp, simp, simp add: number_text_inject) (rule that)
  obtain w2 where s2: "\<And>ts. schedule ?L (0 # 0 # 0 # ts) ([?W [77, 78, 79], ?E 77 v1 [78, 79]], w1) =
      schedule ?L ts ([?W [78, 79], ?E 77 v1 [78, 79]], w2)"
    and e2: "sample_entry 5 [?n 77] w2"
    by (rule sample_recorded [OF sample_entry_cong [OF d1 sample_world_entry [of 5]],
          where i = 0 and h = 77 and ws = "?ws [78, 79]"
          and rs = "[?W [77, 78, 79], ?E 77 v1 [78, 79]]"
          and rs' = "[?W [78, 79], ?E 77 v1 [78, 79]]"
          and hs' = "[?n 77]"], simp, simp, simp, simp add: number_text_inject) (rule that)
  obtain w3 where s3: "\<And>ts. schedule ?L (0 # 0 # 0 # ts) ([?W [78, 79], ?E 77 v1 [78, 79]], w2) =
      schedule ?L ts ([?W [79], ?E 77 v1 [78, 79]], w3)"
    and e3: "sample_entry 5 [?n 77, ?n 78] w3"
    by (rule sample_recorded [OF e2,
          where i = 0 and h = 78 and ws = "?ws [79]"
          and rs = "[?W [78, 79], ?E 77 v1 [78, 79]]"
          and rs' = "[?W [79], ?E 77 v1 [78, 79]]"
          and hs' = "[?n 77, ?n 78]"], simp, simp, simp, simp add: number_text_inject) (rule that)
  obtain w4 where s4: "\<And>ts. schedule ?L (1 # ts) ([?W [79], ?E 77 v1 [78, 79]], w3) =
      schedule ?L ts ([?W [79], ?W [78, 79]], w4)"
    and e4: "sample_entry 5 (hashes v1) w4"
    by (rule sample_Extended [OF e3 _ _ v1(2),
          where i = 1 and ws = "?ws [78, 79]"
          and rs = "[?W [79], ?E 77 v1 [78, 79]]"
          and rs' = "[?W [79], ?W [78, 79]]"], simp, simp, simp) (rule that)
  obtain v5 w5 where s5: "\<And>ts. schedule ?L (0 # 0 # ts) ([?W [79], ?W [78, 79]], w4) =
      schedule ?L ts ([?E 79 v5 [], ?W [78, 79]], w5)"
    and v5: "hashes v5 = [?n 77, ?n 79]" "encodable v5" and d5: "db w5 = db w4"
    by (rule sample_Found [OF e4 [unfolded v1(1)],
          where i = 0 and h = 79 and ws = "?ws []"
          and rs = "[?W [79], ?W [78, 79]]"
          and rs' = "\<lambda>v. [?E 79 v [], ?W [78, 79]]"
          and hs' = "[?n 77, ?n 79]"], simp, simp, simp, simp add: number_text_inject) (rule that)
  obtain w6 where s6: "\<And>ts. schedule ?L (1 # 1 # 1 # ts) ([?E 79 v5 [], ?W [78, 79]], w5) =
      schedule ?L ts ([?E 79 v5 [], ?W [79]], w6)"
    and e6: "sample_entry 5 [?n 77, ?n 78] w6"
    by (rule sample_recorded [OF sample_entry_cong [OF d5 e4 [unfolded v1(1)]],
          where i = 1 and h = 78 and ws = "?ws [79]"
          and rs = "[?E 79 v5 [], ?W [78, 79]]"
          and rs' = "[?E 79 v5 [], ?W [79]]"
          and hs' = "[?n 77, ?n 78]"], simp, simp, simp, simp add: number_text_inject) (rule that)
  obtain w7 where s7: "\<And>ts. schedule ?L (1 # 1 # 1 # ts) ([?E 79 v5 [], ?W [79]], w6) =
      schedule ?L ts ([?E 79 v5 [], ?W []], w7)"
    and e7: "sample_entry 5 [?n 77, ?n 78, ?n 79] w7"
    by (rule sample_recorded [OF e6, where i = 1 and h = 79 and ws = "?ws []" and rs = "[?E 79 v5 [], ?W [79]]"
          and rs' = "[?E 79 v5 [], ?W []]"
          and hs' = "[?n 77, ?n 78, ?n 79]"], simp, simp, simp, simp add: number_text_inject) (rule that)
  obtain w8 where s8: "\<And>ts. schedule ?L (0 # ts) ([?E 79 v5 [], ?W []], w7) =
      schedule ?L ts ([?W [], ?W []], w8)"
    and e8: "sample_entry 5 (hashes v5) w8"
    by (rule sample_Extended [OF e7 _ _ v5(2), where i = 0 and ws = "?ws []" and rs = "[?E 79 v5 [], ?W []]"
          and rs' = "[?W [], ?W []]"], simp, simp, simp) (rule that)
  show ?thesis
    using s1 s2 s3 s4 s5 s6 s7 s8 [of "[]"] sample_entry_ledger [OF e8 [unfolded v5(1)]]
    by (simp add: Let_def del: schedule.simps(2))
qed

section \<open>Witnesses\<close>



text \<open>The second request has read its entry while the first records its withdrawal.\<close>

theorem different_blocks_overlap_witness:
  "case schedule (sample ''online'') [1, 1, 0, 0, 0]
      ([(5, Waiting [(77, sample_withdrawal)]), (6, Waiting [(78, sample_withdrawal)])], sample_world) of
     (rs, w') \<Rightarrow> rs ! 0 = (5, Waiting []) \<and> ledger_of sample_store w' (height_key 28805) = [number_text (77 :: hash)]"
proof -
  let ?L = "sample ''online''"
  let ?reqs = "[(5, [(77, sample_withdrawal)]), (6, [(78, sample_withdrawal)])] :: (u64 \<times> withdrawal list) list"
  obtain v w1 where s1: "\<And>ts. schedule ?L (1 # 1 # ts)
        ([(5, Waiting [(77, sample_withdrawal)]), (6, Waiting [(78, sample_withdrawal)])], sample_world) =
      schedule ?L ts ([(5, Waiting [(77, sample_withdrawal)]), (6, Extended (sample_return 78) v [])], w1)"
    and e1: "db w1 = db sample_world"
    by (rule sample_Found [OF sample_world_entry [of 6], where i = 1 and h = 78 and ws = "[]"
          and rs = "[(5, Waiting [(77, sample_withdrawal)]), (6, Waiting [(78, sample_withdrawal)])]"
          and rs' = "\<lambda>v. [(5, Waiting [(77, sample_withdrawal)]), (6, Extended (sample_return 78) v [])]"],
        simp, simp, simp, rule refl) (rule that)
  obtain w2 where s2: "\<And>ts. schedule ?L (0 # 0 # 0 # ts)
        ([(5, Waiting [(77, sample_withdrawal)]), (6, Extended (sample_return 78) v [])], w1) =
      schedule ?L ts ([(5, Waiting []), (6, Extended (sample_return 78) v [])], w2)"
    by (rule sample_recorded [OF sample_entry_cong [OF e1 sample_world_entry [of 5]] _ _ _ refl,
          where i = 0 and h = 77 and ws = "[]"
          and rs = "[(5, Waiting [(77, sample_withdrawal)]), (6, Extended (sample_return 78) v [])]"
          and rs' = "[(5, Waiting []), (6, Extended (sample_return 78) v [])]"],
        simp, simp, simp) (rule that)
  have run: "schedule ?L [1, 1, 0, 0, 0] (map (\<lambda>q. (fst q, Waiting (snd q))) ?reqs, sample_world) =
      ([(5, Waiting []), (6, Extended (sample_return 78) v [])], w2)"
    using s1 s2 [of "[]"] by (simp del: schedule.simps(2))
  have "db_ok (storage ?L)" "db sample_world \<noteq> None" by (simp_all add: sample_db_ok sample_world_def)
  from different_blocks_overlap [OF this _ run]
  have "ledger_of sample_store w2 (height_key 28805) =
      promise (height_key 28805) (number_text (77 :: hash)) (ledger_of sample_store sample_world) (height_key 28805)"
    by (auto dest!: spec [of _ 0] simp: due_hashes_def sample_due_key Let_def) (simp add: sample_def)
  with run show ?thesis
    by (simp add: promise_def del: schedule.simps) (simp add: ledger_of_def sample_world_recorded)
qed

end
