(* ===== verification/ServiceProperties.thy ===== *)
theory ServiceProperties
  imports Samples
begin

text \<open>
  The properties of the data endpoints: which requests are accepted, what balances and blocks
  are answered, and how the endpoints fail.
\<close>

section \<open>Balances\<close>

lemma parse_balance_Response:
  "parse_balance L block cs j w = (Inr (Inr r), w') \<Longrightarrow>
   \<exists>acc. Unmarshal_into (None, None) (unmarshal_Account L) j = (None, Some acc) \<and>
     r = \<lparr>ab_BlockIdentifier = block, ab_Balances = balances cs (acc_Balance acc),
          ab_Metadata = [''sequence_number'' \<mapsto> VUint64 (acc_Sequence acc)]\<rparr>"
  by (auto simp: parse_balance_def go_simps split: prod.splits option.splits)

definition wants :: "Currency list option \<Rightarrow> string \<Rightarrow> bool" where
  "wants cs symbol = (case cs of None \<Rightarrow> True | Some l \<Rightarrow> \<exists>c \<in> set l. EqualFold (Symbol c) symbol)"

lemma needed_wants: "needed cs = (wants cs ''THETA'', wants cs ''TFUEL'')"
  by (cases cs) (simp_all add: wants_def needed_Some, simp add: needed_def)

text \<open>
  C12. An answer to \<open>/account/balance\<close> comes from one call for the account at the reported
  height. When the node does not know the account, both balances are zero; otherwise the
  answer lists, in this order and at most once each, the THETA and the TFUEL of the account:
  both when no currencies are given, else those whose symbol occurs in the request up to case.
\<close>

theorem balance_answer:
  assumes "AccountBalance L req w = (Response r, w')"
  shows "\<exists>h hist call reply.
    call = (''theta.GetAccount'', GetAccountArgs (abr_AccountIdentifier req) h False) \<and>
    prefix (calls w) hist \<and> calls w' = hist @ [call] \<and> reply = rpc_Call L hist call \<and>
    bi_Index (ab_BlockIdentifier r) = int64 h \<and>
    (not_found reply \<and> ab_Balances r = [amount ''0'' GetThetaCurrency, amount ''0'' GetTFuelCurrency] \<or>
     (\<exists>res acc. reply = (Some res, None) \<and>
        Unmarshal_into (None, None) (unmarshal_Account L) (Result res) = (None, Some acc) \<and>
        ab_Metadata r = [''sequence_number'' \<mapsto> VUint64 (acc_Sequence acc)] \<and>
        ab_Balances r =
          (if wants (abr_Currencies req) ''THETA''
           then [amount (big_String (ThetaWei (acc_Balance acc))) GetThetaCurrency] else []) @
          (if wants (abr_Currencies req) ''TFUEL''
           then [amount (big_String (TFuelWei (acc_Balance acc))) GetTFuelCurrency] else [])))"
proof -
  from assms obtain h hash w1 where b:
    "balance_block L (abr_BlockIdentifier req) w = (Inr (Inr (h, hash)), w1)"
    by (auto simp: AccountBalance_def guarded_Response split: prod.splits sum.splits)
  let ?call = "(''theta.GetAccount'', GetAccountArgs (abr_AccountIdentifier req) h False)"
  let ?reply = "rpc_Call L (calls w1) ?call"
  let ?block = "\<lparr>bi_Index = int64 h, bi_Hash = hash\<rparr>"
  have pre: "prefix (calls w) (calls w1)"
    using balance_block_quiet [of w L "abr_BlockIdentifier req"] by (simp add: b quiet_def grows_def)
  have c: "Call L ''theta.GetAccount'' (GetAccountArgs (abr_AccountIdentifier req) h False) w1
      = (?reply, w1\<lparr>calls := calls w1 @ [?call]\<rparr>)"
    by (simp add: Call_def)
  show ?thesis
  proof (cases "not_found ?reply")
    case True
    with assms b c have "r = \<lparr>ab_BlockIdentifier = ?block,
         ab_Balances = [amount ''0'' GetThetaCurrency, amount ''0'' GetTFuelCurrency],
         ab_Metadata = Map.empty\<rparr> \<and> w' = w1\<lparr>calls := calls w1 @ [?call]\<rparr>"
      by (auto simp: AccountBalance_def guarded_Response Let_def)
    with True pre show ?thesis
      by (intro exI [of _ h] exI [of _ "calls w1"]) simp
  next
    case False
    with assms b c have h: "HandleThetaRPCResponse L ?reply (parse_balance L ?block (abr_Currencies req))
        (w1\<lparr>calls := calls w1 @ [?call]\<rparr>) = (Inr (Inr r), w')"
      by (auto simp: AccountBalance_def guarded_Response Let_def finish_Response)
    from HandleThetaRPCResponse_Inr [OF h] obtain res :: RPCResponse where res: "?reply = (Some res, None)"
      "parse_balance L ?block (abr_Currencies req) (Result res) (w1\<lparr>calls := calls w1 @ [?call]\<rparr>)
         = (Inr (Inr r), w')"
      by blast
    from res(2) have w': "w' = w1\<lparr>calls := calls w1 @ [?call]\<rparr>"
      using parse_balance_world by (metis snd_conv)
    from parse_balance_Response [OF res(2)] pre show ?thesis
      by (intro exI [of _ h] exI [of _ "calls w1"]) (auto simp: res(1) w' balances_def needed_wants)
  qed
qed

definition sample_balance_request :: AccountBalanceRequest where
  "sample_balance_request = \<lparr>abr_NetworkIdentifier = sample_network, abr_AccountIdentifier = ''0x1'',
     abr_BlockIdentifier = Some (Some 7, Some ''0x9''),
     abr_Currencies = Some [\<lparr>Symbol = ''tfuel'', Decimals = 18\<rparr>]\<rparr>"

definition sample_balance :: AccountBalanceResponse where
  "sample_balance = \<lparr>ab_BlockIdentifier = \<lparr>bi_Index = 7, bi_Hash = ''0x9''\<rparr>,
     ab_Balances = [amount ''34'' GetTFuelCurrency],
     ab_Metadata = [''sequence_number'' \<mapsto> VUint64 41]\<rparr>"

lemma tfuel_symbol: "EqualFold ''tfuel'' ''TFUEL''" "\<not> EqualFold ''tfuel'' ''THETA''"
  by code_simp+

lemma text_34: "int_text 34 = ''34''"
  by code_simp

lemma sample_balance_answered:
  "AccountBalance (sample ''online'') sample_balance_request sample_world =
     (Response sample_balance, sample_world\<lparr>calls := [(''theta.GetAccount'', GetAccountArgs ''0x1'' 7 False)]\<rparr>)"
proof -
  have "int64 7 = 7" by (simp add: int64_def)
  moreover have "to_u64 7 = 7" by (simp add: to_u64_def)
  moreover have "calls sample_world = []" by (simp add: sample_world_def)
  moreover have "unmarshal_Account (sample ''online'') j =
     (None, Some \<lparr>acc_Sequence = 41, acc_Balance = \<lparr>ThetaWei = Some 12, TFuelWei = Some 34\<rparr>\<rparr>)" for j
    by (simp add: sample_def)
  moreover have "rpc_Call (sample ''online'') = sample_call" by (simp add: sample_def)
  moreover have "needed (Some [\<lparr>Symbol = ''tfuel'', Decimals = 18\<rparr>]) = (False, True)"
    by (simp add: needed_Some tfuel_symbol)
  ultimately show ?thesis
    by (simp add: AccountBalance_def guarded_def sample_online sample_network_valid Call_def
        sample_balance_request_def sample_balance_def balance_block_def not_found_def answer_def
        HandleThetaRPCResponse_def MarshalIndent_def parse_balance_def balances_def Let_def go_simps
        text_34)
qed

theorem balance_answer_witness:
  "\<exists>h hist call reply res acc.
     call = (''theta.GetAccount'', GetAccountArgs ''0x1'' h False) \<and>
     reply = rpc_Call (sample ''online'') hist call \<and> 7 = int64 h \<and> reply = (Some res, None) \<and>
     Unmarshal_into (None, None) (unmarshal_Account (sample ''online'')) (Result res) = (None, Some acc) \<and>
     [amount ''34'' GetTFuelCurrency] = [amount (big_String (TFuelWei (acc_Balance acc))) GetTFuelCurrency]"
  using balance_answer [OF sample_balance_answered]
  by (auto simp: sample_balance_def sample_balance_request_def wants_def amount_def tfuel_symbol)

section \<open>The status of the network\<close>

lemma int64_value: "int64 u = (if uint u < 2 ^ 63 then uint u else uint u - 2 ^ 64)"
proof (cases "uint u < 2 ^ 63")
  case True
  then show ?thesis by (simp add: int64_small)
next
  case False
  have u: "uint u < 2 ^ 64" using uint_lt2p [of u] by simp
  have "signed_take_bit 63 (uint u) = signed_take_bit 63 (uint u - 2 ^ 64)"
    by (subst signed_take_bit_eq_iff_take_bit_eq) (simp add: take_bit_eq_mod)
  moreover have "signed_take_bit 63 (uint u - 2 ^ 64) = uint u - 2 ^ 64"
    using False u by (intro signed_take_bit_int_eq_self) auto
  ultimately show ?thesis using False by (simp add: int64_def sint_uint)
qed

text \<open>
  C40. An answer to \<open>/network/status\<close> takes exactly two calls, for the status and for the
  peers. The current block is the latest finalized one, with its height as a signed 64-bit
  number and its time in milliseconds as long as that fits into 64 bits; genesis has index 0,
  the oldest block is the snapshot, each with its own hash; the peers come in the order of the
  node. \<open>/block\<close> gives the current block the same identifier and timestamp.
\<close>

theorem network_status_answer:
  assumes "NetworkStatus L req w = (Response r, w')"
  shows "\<exists>skip reply st t preply.
    w' = w\<lparr>calls := calls w @
      [(''theta.GetStatus'', GetStatusArgs), (''theta.GetPeers'', GetPeersArgs skip)]\<rparr> \<and>
    skip_edge_node (nr_Metadata req) = Inr skip \<and>
    rpc_Call L (calls w) (''theta.GetStatus'', GetStatusArgs) = (Some reply, None) \<and>
    st = Unmarshal_into zero_status (unmarshal_Status L) (Result reply) \<and>
    st_LatestFinalizedBlockTime st = Some t \<and>
    (let signed_height = (\<lambda>h. if uint h < 2 ^ 63 then uint h else uint h - 2 ^ 64) in
     ns_CurrentBlockIdentifier r =
       \<lparr>bi_Index = signed_height (st_LatestFinalizedBlockHeight st),
        bi_Hash = Hash_Hex L (st_LatestFinalizedBlockHash st)\<rparr> \<and>
     (- (2 ^ 63) \<le> t * 1000 \<and> t * 1000 < 2 ^ 63 \<longrightarrow> ns_CurrentBlockTimestamp r = t * 1000) \<and>
     ns_GenesisBlockIdentifier r = \<lparr>bi_Index = 0, bi_Hash = Hash_Hex L (st_GenesisBlockHash st)\<rparr> \<and>
     ns_OldestBlockIdentifier r =
       \<lparr>bi_Index = signed_height (st_SnapshotBlockHeight st), bi_Hash = Hash_Hex L (st_SnapshotBlockHash st)\<rparr> \<and>
     ns_SyncStatus r = \<lparr>ss_CurrentIndex = signed_height (st_LatestFinalizedBlockHeight st),
       ss_TargetIndex = signed_height (st_CurrentHeight st), ss_Synced = (\<not> st_Syncing st)\<rparr>) \<and>
    rpc_Call L (calls w @ [(''theta.GetStatus'', GetStatusArgs)]) (''theta.GetPeers'', GetPeersArgs skip)
      = (Some preply, None) \<and>
    ns_Peers r = unmarshal_strings_field ''peers'' (Result preply) \<and>
    (\<forall>j v b v' tblock. parse_block L j v = (Inr (Inr b), v') \<and>
       Unmarshal_into None (unmarshal_Block L) j = Some tblock \<and>
       gb_Height tblock = st_LatestFinalizedBlockHeight st \<and> gb_Hash tblock = st_LatestFinalizedBlockHash st \<and>
       gb_Timestamp tblock = Some t \<longrightarrow>
       blk_BlockIdentifier b = ns_CurrentBlockIdentifier r \<and> blk_Timestamp b = ns_CurrentBlockTimestamp r)"
proof -
  from assms obtain st w1 skip peers w2 where a: "GetStatus L w = (Inr (Inr st), w1)"
    "skip_edge_node (nr_Metadata req) = Inr skip" "GetPeers L skip w1 = (Inr (Inr peers), w2)"
    "network_status_response L st peers = Inr r" "w2 = w'"
    by (auto simp: NetworkStatus_def guarded_Response returned_Response split: prod.splits sum.splits)
  from a(1) obtain reply where b: "rpc_Call L (calls w) (''theta.GetStatus'', GetStatusArgs) = (Some reply, None)"
    "st = Unmarshal_into zero_status (unmarshal_Status L) (Result reply)"
    by (auto simp: GetStatus_def Call_def MarshalIndent_def split: prod.splits option.splits)
  have "calls w1 = calls w @ [(''theta.GetStatus'', GetStatusArgs)]"
    using GetStatus_world [of L w] a(1) by simp
  with a(3) obtain preply where c: "rpc_Call L (calls w @ [(''theta.GetStatus'', GetStatusArgs)])
      (''theta.GetPeers'', GetPeersArgs skip) = (Some preply, None)"
    "peers = unmarshal_strings_field ''peers'' (Result preply)"
    by (auto simp: GetPeers_def Call_def MarshalIndent_def split: prod.splits option.splits)
  have d: "w' = w\<lparr>calls := calls w @
      [(''theta.GetStatus'', GetStatusArgs), (''theta.GetPeers'', GetPeersArgs skip)]\<rparr>"
    using GetStatus_world [of L w] GetPeers_world [of L skip w1] a(1,3,5) by simp
  from a(4) obtain t where t: "st_LatestFinalizedBlockTime st = Some t"
    by (auto simp: network_status_response_def go_simps)
  have r: "r = \<lparr>ns_CurrentBlockIdentifier =
        \<lparr>bi_Index = int64 (st_LatestFinalizedBlockHeight st), bi_Hash = Hash_Hex L (st_LatestFinalizedBlockHash st)\<rparr>,
      ns_CurrentBlockTimestamp = millis t,
      ns_GenesisBlockIdentifier = \<lparr>bi_Index = 0, bi_Hash = Hash_Hex L (st_GenesisBlockHash st)\<rparr>,
      ns_OldestBlockIdentifier =
        \<lparr>bi_Index = int64 (st_SnapshotBlockHeight st), bi_Hash = Hash_Hex L (st_SnapshotBlockHash st)\<rparr>,
      ns_SyncStatus = \<lparr>ss_CurrentIndex = int64 (st_LatestFinalizedBlockHeight st),
        ss_TargetIndex = int64 (st_CurrentHeight st), ss_Synced = (\<not> st_Syncing st)\<rparr>,
      ns_Peers = peers\<rparr>"
    using a(4) t by (simp add: network_status_response_def)
  have "blk_BlockIdentifier blk = \<lparr>bi_Index = int64 (gb_Height tblock), bi_Hash = Hash_Hex L (gb_Hash tblock)\<rparr> \<and>
      blk_Timestamp blk = millis t"
    if "parse_block L j v = (Inr (Inr blk), v')" "Unmarshal_into None (unmarshal_Block L) j = Some tblock"
      "gb_Timestamp tblock = Some t" for j v blk v' tblock
    using that by (auto simp: parse_block_def go_simps split: sum.splits prod.splits)
  then have blocks: "\<forall>j v blk v' tblock. parse_block L j v = (Inr (Inr blk), v') \<and>
       Unmarshal_into None (unmarshal_Block L) j = Some tblock \<and>
       gb_Height tblock = st_LatestFinalizedBlockHeight st \<and> gb_Hash tblock = st_LatestFinalizedBlockHash st \<and>
       gb_Timestamp tblock = Some t \<longrightarrow>
       blk_BlockIdentifier blk = ns_CurrentBlockIdentifier r \<and> blk_Timestamp blk = ns_CurrentBlockTimestamp r"
    using r by fastforce
  show ?thesis
    by (rule exI [of _ skip], rule exI [of _ reply], rule exI [of _ st], rule exI [of _ t],
        rule exI [of _ preply], intro conjI)
      (use a(2) b c d t blocks millis_exact [of t] in \<open>simp_all add: r Let_def int64_value\<close>)
qed

definition peers_sample :: "sample_db startlib" where
  "peers_sample = (sample ''online'')\<lparr>rpc_Call :=
     (\<lambda>hist call. answer (JObject [(''peers'', JArray [JString ''a'', JString ''b''])]))\<rparr>"

lemma peers_sample_online: "online peers_sample"
  using sample_online(1) by (simp add: online_def peers_sample_def)

theorem network_status_answer_witness:
  "\<exists>r w'. NetworkStatus peers_sample \<lparr>nr_NetworkIdentifier = sample_network, nr_Metadata = None\<rparr>
      sample_world = (Response r, w') \<and>
    ns_Peers r = [''a'', ''b''] \<and> length (calls w') = 2 \<and>
    ns_CurrentBlockTimestamp r = 1600000000000"
proof -
  have "rpc_Call peers_sample = (\<lambda>hist call. answer (JObject [(''peers'', JArray [JString ''a'', JString ''b''])]))"
    "unmarshal_Status peers_sample = (\<lambda>j. sample_status)"
    by (simp_all add: peers_sample_def sample_def)
  note s = this
  have "\<exists>r w'. NetworkStatus peers_sample \<lparr>nr_NetworkIdentifier = sample_network, nr_Metadata = None\<rparr>
      sample_world = (Response r, w')"
    by (simp add: NetworkStatus_def guarded_def peers_sample_online sample_network_valid GetStatus_def
        GetPeers_def Call_def s answer_def MarshalIndent_def skip_edge_node_def sample_status_def
        network_status_response_def)
  then obtain r w' where a: "NetworkStatus peers_sample
      \<lparr>nr_NetworkIdentifier = sample_network, nr_Metadata = None\<rparr> sample_world = (Response r, w')"
    by blast
  have st: "Unmarshal_into zero_status (\<lambda>j. sample_status) (JObject x) = sample_status" for x
    by (simp add: Unmarshal_into_def)
  have "st_LatestFinalizedBlockTime sample_status = Some 1600000000" by (simp add: sample_status_def)
  moreover have "calls sample_world = []" by (simp add: sample_world_def)
  ultimately have "ns_Peers r = [''a'', ''b''] \<and> length (calls w') = 2 \<and> ns_CurrentBlockTimestamp r = 1600000000000"
    using network_status_answer [OF a]
    by (elim exE conjE) (clarsimp simp: s answer_def st Let_def unmarshal_strings_field_def EqualFold_def)
  with a show ?thesis by blast
qed

section \<open>The header of a block\<close>

lemma uint_pred: "u \<noteq> 0 \<Longrightarrow> uint (u - 1 :: u64) = uint u - 1"
proof -
  assume "u \<noteq> 0"
  then have "1 \<le> uint u" by (metis int_one_le_iff_zero_less order_le_less uint_0_iff uint_ge_0)
  moreover have "uint u < 2 ^ 64" using uint_lt2p [of u] by simp
  ultimately show ?thesis by (simp add: uint_word_ariths)
qed

text \<open>
  C32. The header of a block answer: the index is the height read as a signed 64-bit number,
  so exact below \<open>2 ^ 63\<close>, the parent's index is one less, 0 for genesis, and the timestamp is the
  block time in milliseconds as long as that fits into 64 bits.
\<close>

theorem block_header:
  assumes "parse_block L j w = (Inr (Inr b), w')"
    and "Unmarshal_into None (unmarshal_Block L) j = Some tblock"
    and "gb_Timestamp tblock = Some t" "- (2 ^ 63) \<le> t * 1000" "t * 1000 < 2 ^ 63"
  shows "let h = uint (gb_Height tblock) in
    bi_Index (blk_BlockIdentifier b) = (if h < 2 ^ 63 then h else h - 2 ^ 64) \<and>
    bi_Index (blk_ParentBlockIdentifier b) =
      (if h = 0 then 0 else if h \<le> 2 ^ 63 then h - 1 else h - 1 - 2 ^ 64) \<and>
    blk_Timestamp b = t * 1000"
proof -
  from assms(1-3) have b: "bi_Index (blk_BlockIdentifier b) = int64 (gb_Height tblock)"
    "bi_Index (blk_ParentBlockIdentifier b) = parentHeight (gb_Height tblock)" "blk_Timestamp b = millis t"
    by (auto simp: parse_block_def go_simps split: sum.splits prod.splits)
  have "parentHeight (gb_Height tblock) =
      (let h = uint (gb_Height tblock) in if h = 0 then 0 else if h \<le> 2 ^ 63 then h - 1 else h - 1 - 2 ^ 64)"
    by (auto simp: parentHeight_def int64_value uint_pred uint_0_iff)
  with b millis_exact [OF assms(4,5)] show ?thesis
    by (simp add: Let_def int64_value)
qed

section \<open>Statuses and types of the operations\<close>

lemma parse_returns_ops_ok:
  "parse_returns L status rs = Inr txs \<Longrightarrow> tr \<in> set txs \<Longrightarrow> ops_ok (Some status) (tr_Operations tr)"
  by (induction rs arbitrary: txs) (auto simp: go_simps return_stake.parse_ops_ok)

lemma block_operations_ok:
  assumes "Block L req w = (Response b, w')" "tr \<in> set (blk_Transactions b)"
  shows "\<exists>status. status \<in> set BlockStatus_names \<and> ops_ok (Some status) (tr_Operations tr)"
proof -
  from Block_Response [OF assms(1)] obtain j tblock status txs w1 where
    b: "BlockStatus_String (gb_Status tblock) = Inr status"
      "block_transactions L status tblock j w1 = (Inr txs, w')"
      "\<exists>returns. block_returns L status (gb_Height tblock) w' = Inr returns \<and>
         blk_Transactions b = txs @ returns"
    by (metis (no_types, lifting))
  from b(3) obtain returns where r: "block_returns L status (gb_Height tblock) w' = Inr returns"
    "blk_Transactions b = txs @ returns" by blast
  have "status \<in> set BlockStatus_names"
    using b(1) by (auto simp: BlockStatus_String_def go_simps simp del: BlockStatus_String_defined)
  moreover have "ops_ok (Some status) (tr_Operations tr)"
    if "tr \<in> set txs"
  proof -
    from b(2) that obtain raw where p: "parse_block_txs L status (gb_Height tblock) (gb_Txs tblock) 0
        (json_elements raw) w1 = (Inr txs, w')"
      by (auto simp: block_transactions_def split: option.splits)
    from that obtain k where k: "k < length txs" "txs ! k = tr" by (auto simp: in_set_conv_nth)
    with parse_block_txs_length [OF p] parse_block_txs_nth [OF p, of k] show ?thesis
      by (auto dest!: ParseTx_ops_ok)
  qed
  moreover have "ops_ok (Some status) (tr_Operations tr)"
    if "tr \<in> set returns"
  proof -
    from r(1) that obtain rs where "parse_returns L status rs = Inr returns"
      by (auto simp: block_returns_def go_simps split: sum.splits) (metis sum.exhaust)
    with that show ?thesis by (simp add: parse_returns_ops_ok)
  qed
  ultimately show ?thesis
    using assms(2) r(2) by auto
qed

text \<open>
  C14. Every operation of a block answered by \<open>/block\<close>, returned stakes included, has a type
  and a status that \<open>/network/options\<close> announces.
\<close>

theorem block_operations_announced:
  assumes "Block L req w = (Response b, w')"
    and "NetworkOptions L' opt v = (Response r, v')"
    and "tr \<in> set (blk_Transactions b)" "op \<in> set (tr_Operations tr)"
  shows "op_Type op \<in> set (no_OperationTypes r) \<and>
    (\<exists>s. op_Status op = Some s \<and> s \<in> set (map os_Status (no_OperationStatuses r)))"
proof -
  from block_operations_ok [OF assms(1,3)] obtain status where
    "status \<in> set BlockStatus_names" "op_ok (Some status) op"
    using assms(4) by (auto simp: ops_ok_def list_all_iff)
  moreover from assms(2) have "no_OperationTypes r = TxOpTypes"
    "map os_Status (no_OperationStatuses r) = BlockStatus_names"
    by (auto simp: NetworkOptions_def validated_Response returned_Response operation_statuses_eq comp_def)
  ultimately show ?thesis by (auto simp: op_ok_def simp flip: set_map)
qed

definition coinbase_sample :: "sample_db startlib" where
  "coinbase_sample = (sample ''online'')\<lparr>unmarshal_Block := (\<lambda>j. Some (sample_inner 5
     [\<lparr>tx_Type = CoinbaseTx, tx_Hash = 77, tx_Receipt = None, tx_BalanceChanges = None\<rparr>]))\<rparr>"

definition sample_block_request :: BlockRequest where
  "sample_block_request = \<lparr>br_NetworkIdentifier = sample_network, br_BlockIdentifier = Some (Some 5, None)\<rparr>"

definition coinbase_transaction :: Transaction where
  "coinbase_transaction = transaction (Hash_String coinbase_sample 77)
     (projr (ParseCoinbaseTx coinbase_sample
        \<lparr>cb_Proposer = no_input, cb_Outputs = [no_output], cb_BlockHeight = 5\<rparr>
        (Some ''directly_finalized'') CoinbaseTx))"

lemma coinbase_sample_fields:
  "online coinbase_sample"
  "rpc_Call coinbase_sample = sample_call"
  "unmarshal_Block coinbase_sample = (\<lambda>j. Some (sample_inner 5
     [\<lparr>tx_Type = CoinbaseTx, tx_Hash = 77, tx_Receipt = None, tx_BalanceChanges = None\<rparr>]))"
  "unmarshal_CoinbaseTx coinbase_sample =
     (\<lambda>j. \<lparr>cb_Proposer = no_input, cb_Outputs = [no_output], cb_BlockHeight = 5\<rparr>)"
  "storage coinbase_sample = sample_store"
  using sample_online(1)
  by (simp_all add: coinbase_sample_def sample_def online_def)

lemma coinbase_block_parses:
  "\<exists>b. parse_block coinbase_sample withdrawal_block w = (Inr (Inr b), w) \<and>
     coinbase_transaction \<in> set (blk_Transactions b)"
  if "db w = Some \<lparr>fn = f, ldb = Map.empty\<rparr>"
proof -
  have p: "ParseTx coinbase_sample CoinbaseTx raw 77 (Some ''directly_finalized'') 0 None True 5 w
      = (Inr coinbase_transaction, w)" for raw
    by (simp add: ParseTx_def parse_by_type_def coinbase_sample_fields coinbase_transaction_def
        ParseCoinbaseTx_def Let_def)
  have r: "block_returns coinbase_sample ''directly_finalized'' 5 w = Inr []"
    using that by (simp add: block_returns_def coinbase_sample_fields KVStore_Get_def LDB_Get_def
        sample_store_def)
  have s: "BlockStatus_String 4 = Inr ''directly_finalized''"
    by (simp add: BlockStatus_String_def BlockStatus_names_def index_def)
  have j: "withdrawal_block \<noteq> JNull" "json_field ''transactions'' withdrawal_block = Some (JArray [JObject []])"
    by (simp_all add: withdrawal_block_def json_field_def)
  show ?thesis
    using r p
    by (simp add: parse_block_def s j coinbase_sample_fields sample_inner_def block_transactions_def
        json_elements_def Let_def del: TxType_consts)
qed

theorem block_header_witness:
  "\<exists>b. parse_block coinbase_sample withdrawal_block sample_world = (Inr (Inr b), sample_world) \<and>
     bi_Index (blk_BlockIdentifier b) = 5 \<and> bi_Index (blk_ParentBlockIdentifier b) = 4 \<and>
     blk_Timestamp b = 1600000000000"
proof -
  obtain b where b: "parse_block coinbase_sample withdrawal_block sample_world = (Inr (Inr b), sample_world)"
    using coinbase_block_parses [of sample_world] by (auto simp: sample_world_def)
  have "Unmarshal_into None (unmarshal_Block coinbase_sample) withdrawal_block = Some (sample_inner 5
     [\<lparr>tx_Type = CoinbaseTx, tx_Hash = 77, tx_Receipt = None, tx_BalanceChanges = None\<rparr>])"
    by (simp add: coinbase_sample_fields withdrawal_block_def)
  from block_header [OF b this, of 1600000000] b show ?thesis
    by (simp add: sample_inner_def)
qed

theorem block_operations_announced_witness:
  "\<exists>b w' r op. Block coinbase_sample sample_block_request sample_world = (Response b, w') \<and>
     NetworkOptions (sample ''offline'') \<lparr>nr_NetworkIdentifier = sample_network, nr_Metadata = None\<rparr>
       sample_world = (Response r, sample_world) \<and>
     op \<in> set (tr_Operations coinbase_transaction) \<and> op_Type op \<in> set (no_OperationTypes r)"
proof -
  let ?w = "sample_world\<lparr>calls := [(''theta.GetBlockByHeight'', GetBlockByHeightArgs 5)]\<rparr>"
  obtain b where b: "parse_block coinbase_sample withdrawal_block ?w = (Inr (Inr b), ?w)"
    "coinbase_transaction \<in> set (blk_Transactions b)"
    using coinbase_block_parses [of ?w] by (auto simp: sample_world_def)
  have "calls sample_world = []" "to_u64 5 = 5" by (simp_all add: sample_world_def to_u64_def)
  with b(1) have e: "Block coinbase_sample sample_block_request sample_world = (Response b, ?w)"
    by (simp add: Block_def sample_block_request_def guarded_def coinbase_sample_fields sample_network_valid
        block_reply_def Call_def answer_def HandleThetaRPCResponse_def MarshalIndent_def)
  obtain r where r: "NetworkOptions (sample ''offline'')
      \<lparr>nr_NetworkIdentifier = sample_network, nr_Metadata = None\<rparr> sample_world = (Response r, sample_world)"
    using sample_network_valid by (simp add: NetworkOptions_def validated_def operation_statuses_eq)
  obtain op where op: "op \<in> set (tr_Operations coinbase_transaction)"
    by (simp add: coinbase_transaction_def ParseCoinbaseTx_def Let_def) blast
  show ?thesis
    using block_operations_announced [OF e r b(2) op] e r op by blast
qed

lemma parse_transaction_Response:
  assumes "parse_transaction L j w = (Inr (Inr tr), w')"
  shows "ops_ok (Some (gt_Status (Unmarshal_into zero_transaction_result (unmarshal_Transaction L) j)))
      (tr_Operations tr)"
  using assms
  by (auto simp: parse_transaction_def Let_def dest!: ParseTx_ops_ok
      split: option.splits prod.splits sum.splits if_splits)

text \<open>
  C33. The operations that \<open>/block/transaction\<close> answers carry the status of the transaction
  instead of a block status, so that for a transaction that the node reports as \<open>finalized\<close>
  no operation has a status that \<open>/network/options\<close> announces.
\<close>

theorem transaction_status_unannounced:
  assumes "BlockTransaction L req w = (Response tr, w')"
    and "NetworkOptions L' opt v = (Response r, v')"
    and "\<And>res. rpc_Call L (calls w) (''theta.GetTransaction'', GetTransactionArgs (btr_TransactionIdentifier req))
        = (Some res, None) \<Longrightarrow>
      gt_Status (Unmarshal_into zero_transaction_result (unmarshal_Transaction L) (Result res)) = ''finalized''"
    and "op \<in> set (tr_Operations tr)"
  shows "op_Status op = Some ''finalized'' \<and>
    ''finalized'' \<notin> set (map os_Status (no_OperationStatuses r))"
proof -
  let ?call = "(''theta.GetTransaction'', GetTransactionArgs (btr_TransactionIdentifier req))"
  from assms(1) have "HandleThetaRPCResponse L (rpc_Call L (calls w) ?call) (parse_transaction L)
      (w\<lparr>calls := calls w @ [?call]\<rparr>) = (Inr (Inr tr), w')"
    by (simp add: BlockTransaction_def guarded_Response Call_def finish_Response)
  from HandleThetaRPCResponse_Inr [OF this] obtain res :: RPCResponse where
    "rpc_Call L (calls w) ?call = (Some res, None)"
    "parse_transaction L (Result res) (w\<lparr>calls := calls w @ [?call]\<rparr>) = (Inr (Inr tr), w')"
    by blast
  with parse_transaction_Response assms(3,4) have "op_Status op = Some ''finalized''"
    by (fastforce simp: ops_ok_def list_all_iff op_ok_def)
  moreover from assms(2) have "map os_Status (no_OperationStatuses r) = BlockStatus_names"
    by (auto simp: NetworkOptions_def validated_Response returned_Response operation_statuses_eq comp_def)
  ultimately show ?thesis by (simp add: BlockStatus_names_def)
qed

definition finalized_sample :: "sample_db startlib" where
  "finalized_sample = (sample ''online'')\<lparr>unmarshal_Transaction :=
     (\<lambda>j. sample_transaction\<lparr>gt_Type := CoinbaseTx\<rparr>)\<rparr>"

theorem transaction_status_unannounced_witness:
  "\<exists>tr w' r op. BlockTransaction finalized_sample
       \<lparr>btr_NetworkIdentifier = sample_network, btr_TransactionIdentifier = ''0x77''\<rparr> sample_world = (Response tr, w') \<and>
     NetworkOptions (sample ''offline'') \<lparr>nr_NetworkIdentifier = sample_network, nr_Metadata = None\<rparr>
       sample_world = (Response r, sample_world) \<and>
     op \<in> set (tr_Operations tr) \<and> op_Status op = Some ''finalized'' \<and>
     ''finalized'' \<notin> set (map os_Status (no_OperationStatuses r))"
proof -
  have f: "online finalized_sample" "rpc_Call finalized_sample = sample_call"
    "unmarshal_Transaction finalized_sample = (\<lambda>j. sample_transaction\<lparr>gt_Type := CoinbaseTx\<rparr>)"
    "unmarshal_CoinbaseTx finalized_sample =
     (\<lambda>j. \<lparr>cb_Proposer = no_input, cb_Outputs = [no_output], cb_BlockHeight = 5\<rparr>)"
    using sample_online(1) by (simp_all add: finalized_sample_def sample_def online_def)
  obtain tr w' op where t: "BlockTransaction finalized_sample
       \<lparr>btr_NetworkIdentifier = sample_network, btr_TransactionIdentifier = ''0x77''\<rparr> sample_world = (Response tr, w')"
    "op \<in> set (tr_Operations tr)"
    by (simp add: BlockTransaction_def guarded_def f sample_network_valid Call_def answer_def
        HandleThetaRPCResponse_def MarshalIndent_def parse_transaction_def Let_def json_field_def
        sample_transaction_def zero_transaction_result_def ParseTx_def parse_by_type_def ParseCoinbaseTx_def)
      (metis list.set_intros(1) snd_conv transaction_simps(3))
  obtain r where r: "NetworkOptions (sample ''offline'')
      \<lparr>nr_NetworkIdentifier = sample_network, nr_Metadata = None\<rparr> sample_world = (Response r, sample_world)"
    using sample_network_valid by (simp add: NetworkOptions_def validated_def operation_statuses_eq)
  show ?thesis
    using transaction_status_unannounced [OF t(1) r _ t(2)] t r
    by (fastforce simp: f answer_def Unmarshal_into_def sample_transaction_def)
qed

section \<open>Single transactions\<close>

lemma parse_transaction_withdrawal:
  assumes "json_field ''transaction'' j = Some raw" "j \<noteq> JNull"
    and "gt_Type (unmarshal_Transaction L j) = WithdrawStakeTx"
    and "gt_Status (unmarshal_Transaction L j) \<noteq> ''not_found''"
    and "TFuelWei (ws_Fee (unmarshal_WithdrawStakeTx L (Some raw))) = Some fee"
  shows "parse_transaction L j w = (Inl (ExplicitPanic ''return_stakes db or service is nil''), w)"
proof -
  have "ParseTx L WithdrawStakeTx (Some raw) h st gas ch False 0 w
      = (Inl (ExplicitPanic ''return_stakes db or service is nil''), w)" for h st gas ch
  proof -
    obtain parsed where "parse_by_type L WithdrawStakeTx (Some raw) st gas ch = Inr parsed"
      using assms(5) by (simp add: parse_by_type_def ParseWithdrawStakeTx_def Let_def neg_text_def)
    then show ?thesis
      by (simp add: ParseTx_def record_withdrawal_def del: TxType_consts)
  qed
  with assms show ?thesis by (simp add: parse_transaction_def Let_def del: TxType_consts)
qed

text \<open>
  C34. Looking a withdrawal up by its hash panics in \<open>/block/transaction\<close> and in
  \<open>/mempool/transaction\<close>, which hand no database to \<open>ParseTx\<close>.
\<close>

theorem withdrawal_lookup_panics:
  assumes "online L" "ValidateNetworkIdentifier ni w = None"
    and "rpc_Call L (calls w) (''theta.GetTransaction'', GetTransactionArgs h)
      = (Some \<lparr>Result = j, Error = None\<rparr>, None)"
    and "json_field ''transaction'' j = Some raw" "j \<noteq> JNull"
    and "gt_Type (unmarshal_Transaction L j) = WithdrawStakeTx"
    and "gt_Status (unmarshal_Transaction L j) \<noteq> ''not_found''"
    and "TFuelWei (ws_Fee (unmarshal_WithdrawStakeTx L (Some raw))) = Some fee"
  shows "fst (BlockTransaction L \<lparr>btr_NetworkIdentifier = ni, btr_TransactionIdentifier = h\<rparr> w)
      = Crash (ExplicitPanic ''return_stakes db or service is nil'') \<and>
    fst (MempoolTransaction L ni h w) = Crash (ExplicitPanic ''return_stakes db or service is nil'')"
  using assms parse_transaction_withdrawal [OF assms(4-8)]
  by (simp add: parse_mempool_transaction_eq BlockTransaction_def MempoolTransaction_def guarded_def validated_def Call_def
      HandleThetaRPCResponse_def MarshalIndent_def)

theorem withdrawal_lookup_panics_witness:
  "fst (BlockTransaction (sample ''online'')
        \<lparr>btr_NetworkIdentifier = sample_network, btr_TransactionIdentifier = ''0x77''\<rparr> sample_world)
      = Crash (ExplicitPanic ''return_stakes db or service is nil'') \<and>
   fst (MempoolTransaction (sample ''online'') sample_network ''0x77'' sample_world)
      = Crash (ExplicitPanic ''return_stakes db or service is nil'')"
proof -
  have "rpc_Call (sample ''online'') = sample_call"
    "unmarshal_Transaction (sample ''online'') = (\<lambda>j. sample_transaction)"
    by (simp_all add: sample_def)
  moreover have "TFuelWei (ws_Fee (unmarshal_WithdrawStakeTx (sample ''online'') (Some (JObject [])))) = Some 3"
    by (simp add: sample_def sample_withdrawal_def)
  ultimately show ?thesis
    using withdrawal_lookup_panics [OF sample_online(1) sample_network_valid,
      of "''0x77''" "JObject [(''transaction'', JObject [])]" "JObject []"]
    by (simp add: answer_def json_field_def sample_transaction_def zero_transaction_result_def)
qed

section \<open>Errors of the node\<close>

text \<open>
  C35. When the node answers the status call with an error and no result, \<open>GetStatus\<close> reports
  the zero status as a success. \<open>/account/balance\<close> for the latest block then asks for the
  account at height 0.
\<close>

theorem status_error_is_zero_status:
  assumes "rpc_Call L (calls w) (''theta.GetStatus'', GetStatusArgs)
      = (Some \<lparr>Result = JNull, Error = Some e\<rparr>, None)"
    and "online L" "ValidateNetworkIdentifier ni w = None"
  shows "fst (GetStatus L w) = Inr (Inr zero_status) \<and>
    calls (snd (AccountBalance L \<lparr>abr_NetworkIdentifier = ni, abr_AccountIdentifier = a,
        abr_BlockIdentifier = None, abr_Currencies = cs\<rparr> w))
      = calls w @ [(''theta.GetStatus'', GetStatusArgs), (''theta.GetAccount'', GetAccountArgs a 0 False)]"
proof -
  have s: "GetStatus L w = (Inr (Inr zero_status),
      w\<lparr>calls := calls w @ [(''theta.GetStatus'', GetStatusArgs)]\<rparr>)"
    using assms(1) by (simp add: GetStatus_def Call_def MarshalIndent_def)
  have "st_LatestFinalizedBlockHeight zero_status = 0" by (simp add: zero_status_def)
  then show ?thesis
    using assms(2,3)
    by (simp add: AccountBalance_def guarded_def balance_block_def s Call_def Let_def
        HandleThetaRPCResponse_same_world)
qed

definition failing_sample :: "sample_db startlib" where
  "failing_sample = (sample ''online'')\<lparr>rpc_Call := (\<lambda>hist call.
     (Some \<lparr>Result = JNull, Error = Some \<lparr>RPCError_Code = -32603, RPCError_Message = ''internal''\<rparr>\<rparr>, None))\<rparr>"

theorem status_error_is_zero_status_witness:
  "fst (GetStatus failing_sample sample_world) = Inr (Inr zero_status) \<and>
   calls (snd (AccountBalance failing_sample \<lparr>abr_NetworkIdentifier = sample_network,
       abr_AccountIdentifier = ''0x1'', abr_BlockIdentifier = None, abr_Currencies = None\<rparr> sample_world))
     = [(''theta.GetStatus'', GetStatusArgs), (''theta.GetAccount'', GetAccountArgs ''0x1'' 0 False)]"
proof -
  have f: "rpc_Call failing_sample (calls sample_world) (''theta.GetStatus'', GetStatusArgs) =
      (Some \<lparr>Result = JNull, Error = Some \<lparr>RPCError_Code = -32603, RPCError_Message = ''internal''\<rparr>\<rparr>, None)"
    by (simp add: failing_sample_def)
  have "online failing_sample"
    using sample_online(1) by (simp add: online_def failing_sample_def)
  from status_error_is_zero_status [OF f this sample_network_valid, of "''0x1''" None]
  show ?thesis by (simp add: sample_world_def)
qed

end
