(* ===== verification/ConstructionProperties.thy ===== *)
theory ConstructionProperties
  imports Samples
begin

text \<open>
  The properties of the construction endpoints: a transaction is parsed back as the
  operations it was built from, signed or not; only verified signatures are attached; and
  what the endpoints do with fees, sequence numbers and error texts.
\<close>

section \<open>Attaching a signature keeps the operations\<close>

definition said :: "'a thetalib_scheme \<Rightarrow> op_state \<Rightarrow> int \<times> (string \<times> address option \<times> (Currency \<times> int option) option) list" where
  "said L s = (fst s, map (intent L) (snd s))"

lemma said_emit:
  "said L s = said L s' \<Longrightarrow>
   said L (emit t st a v c md rel s) = said L (emit t st' a v c md' rel' s')"
  by (cases s; cases s') (auto simp: said_def intent_def)

lemma said_snd: "said L s = said L s' \<Longrightarrow> map (intent L) (snd s) = map (intent L) (snd s')"
  by (simp add: said_def)

lemma same_inputs_said:
  assumes "list_all2 same_input ins ins'" "or_zero fee = or_zero fee'" "fee \<noteq> None" "fee' \<noteq> None"
  shows "said L s = said L s' \<Longrightarrow> send_inputs L fee st ins (a, s) = Inr (b, r) \<Longrightarrow>
    \<exists>r'. send_inputs L fee' st ins' (a, s') = Inr (b, r') \<and> said L r = said L r'"
  using assms(1)
proof (induction arbitrary: a s s' rule: list_all2_induct)
  case (Cons i ins i' ins')
  obtain f where f: "fee = Some f" "fee' = Some f" using assms(2-4) by auto
  have i: "in_Address i' = in_Address i" "or_zero (ThetaWei (in_Coins i')) = or_zero (ThetaWei (in_Coins i))"
    "or_zero (TFuelWei (in_Coins i')) = or_zero (TFuelWei (in_Coins i))"
    using Cons.hyps(1) by (auto simp: same_input_def same_coins_def)
  from Cons.prems(2) show ?case
    by (simp add: Let_def f i del: split_paired_Ex) (rule Cons.IH [unfolded f, rotated], assumption, intro said_emit Cons.prems(1))
qed auto

lemma same_outputs_said:
  "list_all2 same_output outs outs' \<Longrightarrow> said L s = said L s' \<Longrightarrow>
   said L (send_outputs L st outs s) = said L (send_outputs L st outs' s')"
proof (induction arbitrary: s s' rule: list_all2_induct)
  case (Cons o' outs o'' outs')
  then have "out_Address o'' = out_Address o'"
    "or_zero (ThetaWei (out_Coins o'')) = or_zero (ThetaWei (out_Coins o'))"
    "or_zero (TFuelWei (out_Coins o'')) = or_zero (TFuelWei (out_Coins o'))"
    by (auto simp: same_output_def same_coins_def)
  then show ?case
    by (simp add: Let_def) (intro Cons.IH said_emit Cons.prems)
qed simp

lemma same_send_intents:
  assumes "same_send t t'" "ParseSendTx L t st ty = Inr (md, ops)"
  shows "\<exists>md' ops'. ParseSendTx L t' st ty = Inr (md', ops') \<and>
    map (intent L) ops' = map (intent L) ops"
proof -
  let ?fee = "TFuelWei (send_Fee t)" and ?fee' = "TFuelWei (send_Fee t')"
  from assms(2) obtain a s fee where p: "send_inputs L ?fee st (send_Inputs t) ([], (0, [])) = Inr (a, s)"
    "neg_text ?fee = Inr fee"
    "ops = snd (emit TxFee st a fee GetTFuelCurrency Map.empty [] (send_outputs L st (send_Outputs t) s))"
    by (auto simp: ParseSendTx_def Let_def go_simps)
  from p(2) obtain f where f: "?fee = Some f" "?fee' = Some f"
    using assms(1) by (cases ?fee) (auto simp: neg_text_def same_send_def same_coins_def)
  from same_inputs_said [of "send_Inputs t" "send_Inputs t'" ?fee ?fee', OF _ _ _ _ refl p(1)] assms(1) f
  obtain s' where s': "send_inputs L ?fee' st (send_Inputs t') ([], (0, [])) = Inr (a, s')" "said L s = said L s'"
    by (auto simp: same_send_def)
  have "said L (send_outputs L st (send_Outputs t) s) = said L (send_outputs L st (send_Outputs t') s')"
    using assms(1) s'(2) by (intro same_outputs_said) (auto simp: same_send_def)
  from said_snd [OF said_emit [OF this [symmetric]]] have
    "map (intent L) (snd (emit TxFee st a fee GetTFuelCurrency Map.empty []
       (send_outputs L st (send_Outputs t') s'))) = map (intent L) ops"
    unfolding p(3) .
  with p(2) show ?thesis
    by (simp add: ParseSendTx_def Let_def s'(1) [unfolded f] f)
qed

text \<open>The documented behaviour of \<open>SetSignature\<close>: it writes signatures and nothing else.\<close>

definition unsigned_input :: "TxInput \<Rightarrow> TxInput" where
  "unsigned_input i = i\<lparr>in_Signature := None\<rparr>"

definition signature_law :: "('d, 'a) conslib_scheme \<Rightarrow> bool" where
  "signature_law L \<longleftrightarrow>
     (\<forall>a s t. send_Fee (SendTx_SetSignature L a s t) = send_Fee t \<and>
        map unsigned_input (send_Inputs (SendTx_SetSignature L a s t)) = map unsigned_input (send_Inputs t) \<and>
        send_Outputs (SendTx_SetSignature L a s t) = send_Outputs t) \<and>
     (\<forall>a s t. unsigned_input (sc_From (SmartContractTx_SetSignature L a s t)) = unsigned_input (sc_From t) \<and>
        sc_To (SmartContractTx_SetSignature L a s t) = sc_To t \<and>
        sc_GasLimit (SmartContractTx_SetSignature L a s t) = sc_GasLimit t \<and>
        sc_GasPrice (SmartContractTx_SetSignature L a s t) = sc_GasPrice t \<and>
        sc_Data (SmartContractTx_SetSignature L a s t) = sc_Data t)"

lemma same_input_unsigned: "same_input i i' \<longleftrightarrow> same_input (unsigned_input i) i'"
  by (simp add: same_input_def unsigned_input_def)

lemma same_inputs_unsigned:
  "list_all2 same_input ins ins' \<longleftrightarrow> list_all2 same_input (map unsigned_input ins) ins'"
  by (simp add: list_all2_map1 flip: same_input_unsigned)

lemma same_send_signed:
  "signature_law L \<Longrightarrow> same_send (SendTx_SetSignature L a s t) t' \<longleftrightarrow> same_send t t'"
  unfolding same_send_def signature_law_def
  by (metis same_inputs_unsigned)

lemma same_contract_signed:
  "signature_law L \<Longrightarrow> same_contract (SmartContractTx_SetSignature L a s t) t' \<longleftrightarrow> same_contract t t'"
  unfolding same_contract_def signature_law_def
  by (metis same_input_unsigned)

lemma same_contract_intents:
  assumes "same_contract t t'" "ParseSmartContractTxForConstruction L t ty = Inr (md, ops)"
  shows "\<exists>md' ops'. ParseSmartContractTxForConstruction L t' ty = Inr (md', ops') \<and>
    map (intent L) ops' = map (intent L) ops"
proof -
  have s: "\<not> not_nil_nor_zero_bits None" "\<not> not_nil_nor_zero_bits (Some 0)"
    by (simp_all add: not_nil_nor_zero_bits_def)
  from assms show ?thesis
    by (cases "ThetaWei (in_Coins (sc_From t))"; cases "TFuelWei (in_Coins (sc_From t))";
        cases "ThetaWei (out_Coins (sc_To t))"; cases "TFuelWei (out_Coins (sc_To t))";
        auto simp: ParseSmartContractTxForConstruction_def Let_def same_contract_def same_input_def
          same_output_def same_coins_def s intent_def go_simps split: if_splits)
qed

section \<open>What combine answers\<close>

lemma sum_case_Response:
  "(case x of Inl e \<Rightarrow> fail_with (E e) (m e) w | Inr y \<Rightarrow> f y) = (Response r, w') \<longleftrightarrow>
     (\<exists>y. x = Inr y \<and> f y = (Response r, w'))"
  by (cases x) simp_all

lemma go_case_Response:
  "(case x of Inl p \<Rightarrow> (Crash p, w) | Inr y \<Rightarrow> f y) = (Response r, w') \<longleftrightarrow>
     (\<exists>y. x = Inr y \<and> f y = (Response r, w'))"
  by (cases x) simp_all

lemma single_case_Response:
  "(case xs of [x] \<Rightarrow> f x | _ \<Rightarrow> fail_with e m w) = (Response r, w') \<longleftrightarrow>
     (\<exists>x. xs = [x] \<and> f x = (Response r, w'))"
  by (auto split: list.splits)

lemma option_case_Response:
  "(case x of None \<Rightarrow> fail_with e m w | Some y \<Rightarrow> f y) = (Response r, w') \<longleftrightarrow>
     (\<exists>y. x = Some y \<and> f y = (Response r, w'))"
  by (cases x) auto

lemmas case_Response = sum_case_Response go_case_Response single_case_Response option_case_Response

lemma attach_signature_Response:
  "attach_signature L tx sig a w = (Response out, w') \<longleftrightarrow>
     Signature_Verify L sig (SignBytes L tx (chainId w)) a \<and>
     (\<exists>signedTx raw. set_signature L a sig tx = Some signedTx \<and> TxToBytes L signedTx = Inr raw \<and>
        out = hex_encode raw \<and> w' = w)"
  by (auto simp: attach_signature_def Let_def GetChainId_def case_Response)

lemma ConstructionCombine_Response:
  "ConstructionCombine L req w = (Response out, w') \<longleftrightarrow>
     ValidateNetworkIdentifier (cc_NetworkIdentifier req) w = None \<and>
     (\<exists>raw tx s sig a. hex_decode (cc_UnsignedTransaction req) = Inr raw \<and> TxFromBytes L raw = Inr tx \<and>
        cc_Signatures req = [s] \<and> SignatureFromBytes L (sig_Bytes s) = Inr sig \<and>
        sig_SigningPayload s = Some (Some a) \<and>
        attach_signature L tx sig (HexToAddress L a) w = (Response out, w'))"
  by (simp add: ConstructionCombine_def validated_Response case_Response andThen_eq_Inr deref_eq_Inr)

text \<open>
  C13. \<open>/construction/combine\<close> answers only when it is given exactly one signature and that
  signature verifies for the address it names, over the sign bytes of the decoded transaction
  for the chain of the node; the answer is the encoding of that transaction, a transfer or a
  contract call, with the signature set for that address.
\<close>

theorem combine_verified:
  assumes "ConstructionCombine L req w = (Response out, w')"
  shows "\<exists>tx s sig a signedTx.
    andThen (hex_decode (cc_UnsignedTransaction req)) (TxFromBytes L) = Inr tx \<and>
    cc_Signatures req = [s] \<and> SignatureFromBytes L (sig_Bytes s) = Inr sig \<and>
    sig_SigningPayload s = Some (Some a) \<and>
    Signature_Verify L sig (SignBytes L tx (chainId w)) (HexToAddress L a) \<and>
    set_signature L (HexToAddress L a) sig tx = Some signedTx \<and>
    (\<exists>raw. hex_decode out = Inr raw \<and> TxToBytes L signedTx = Inr raw) \<and> w' = w"
  using assms by (auto simp: ConstructionCombine_Response attach_signature_Response andThen_eq_Inr)

section \<open>The construction flow\<close>

text \<open>The laws of the third parties that the flow rests on.\<close>

definition flow_laws :: "('d, 'a) conslib_scheme \<Rightarrow> bool" where
  "flow_laws L \<longleftrightarrow> match_law L \<and> codec_law L \<and> address_law L \<and> signature_law L"

lemma flow_lawsD:
  assumes "flow_laws L"
  shows "match_law L" "codec_law L" "address_law L" "signature_law L"
  using assms by (simp_all add: flow_laws_def)

lemma matches_of_five:
  assumes "match_law L" "getOperationDescriptions L ops = Inr ms" "length ops = 5"
  shows "list_all2 matched send_descriptions ms" "mset (map fst ms) = mset (map Some ops)"
    "length ms = 5"
proof -
  have "MatchOperations L send_descriptions ops = Inr ms" "length send_descriptions = length ops"
    using assms(2,3) by (simp_all add: getOperationDescriptions_def send_descriptions_def)
  with assms(1) show "list_all2 matched send_descriptions ms" "mset (map fst ms) = mset (map Some ops)"
    unfolding match_law_def by blast+
  from list_all2_lengthD [OF this(1)] show "length ms = 5" by (simp add: send_descriptions_def)
qed

lemma matches_of_two:
  assumes "match_law L" "getOperationDescriptions L ops = Inr ms" "length ops = 2"
  shows "list_all2 matched contract_descriptions ms" "mset (map fst ms) = mset (map Some ops)"
proof -
  have "MatchOperations L contract_descriptions ops = Inr ms" "length contract_descriptions = length ops"
    using assms(2,3) by (simp_all add: getOperationDescriptions_def contract_descriptions_def)
  with assms(1) show "list_all2 matched contract_descriptions ms" "mset (map fst ms) = mset (map Some ops)"
    unfolding match_law_def by blast+
qed

text \<open>Two transactions that are read as the same operations.\<close>

lemma same_send_parse_intent:
  assumes "same_send t t'" "parse_intent L (TxSend t) = Inr (Inr (signer, md, ops))"
  shows "\<exists>md' ops'. parse_intent L (TxSend t') = Inr (Inr (signer, md', ops')) \<and>
    map (intent L) ops' = map (intent L) ops"
proof -
  from assms(2) obtain i where i: "index (send_Inputs t) 0 = Inr i" "signer = Address_String L (in_Address i)"
    "ParseSendTx L t None SendTx = Inr (md, ops)"
    by (auto simp: parse_intent_def go_simps simp del: TxType_consts)
  from same_send_intents [OF assms(1) i(3)] obtain md' ops' where
    "ParseSendTx L t' None SendTx = Inr (md', ops')" "map (intent L) ops' = map (intent L) ops"
    by blast
  moreover from assms(1) i(1) have "\<exists>i'. index (send_Inputs t') 0 = Inr i' \<and> in_Address i' = in_Address i"
    by (cases "send_Inputs t") (auto simp: same_send_def list_all2_Cons1 same_input_def)
  ultimately show ?thesis
    by (auto simp: parse_intent_def i(2) simp del: TxType_consts)
qed

lemma same_contract_parse_intent:
  assumes "same_contract t t'" "parse_intent L (TxSmartContract t) = Inr (Inr (signer, md, ops))"
  shows "\<exists>md' ops'. parse_intent L (TxSmartContract t') = Inr (Inr (signer, md', ops')) \<and>
    map (intent L) ops' = map (intent L) ops"
proof -
  from assms(2) have i: "signer = Address_String L (in_Address (sc_From t))"
    "ParseSmartContractTxForConstruction L t SmartContractTx = Inr (md, ops)"
    by (auto simp: parse_intent_def go_simps simp del: TxType_consts)
  from same_contract_intents [OF assms(1) i(2)] obtain md' ops' where
    "ParseSmartContractTxForConstruction L t' SmartContractTx = Inr (md', ops')"
    "map (intent L) ops' = map (intent L) ops"
    by blast
  moreover have "in_Address (sc_From t') = in_Address (sc_From t)"
    using assms(1) by (simp add: same_contract_def same_input_def)
  ultimately show ?thesis
    by (simp add: parse_intent_def i(1) del: TxType_consts)
qed

text \<open>Combine answers a transaction that is read as the operations of the unsigned one.\<close>

lemma combined_parse_intent:
  assumes laws: "codec_law L" "signature_law L"
    and "TxFromBytes L raw = Inr tx" "parse_intent L tx = Inr (Inr (signer, md, ops))"
    and "attach_signature L tx sig a w = (Response out, w')"
  obtains raw' tx' md' ops' where "out = hex_encode raw'" "TxFromBytes L raw' = Inr tx'"
    "parse_intent L tx' = Inr (Inr (signer, md', ops'))" "map (intent L) ops' = map (intent L) ops"
proof -
  from assms(5) obtain signedTx raw' where s: "set_signature L a sig tx = Some signedTx"
    "TxToBytes L signedTx = Inr raw'" "out = hex_encode raw'"
    by (auto simp: attach_signature_Response)
  show thesis
  proof (cases tx)
    case (TxSend t)
    with s have "TxToBytes L (TxSend (SendTx_SetSignature L a sig t)) = Inr raw'"
      by (simp add: set_signature_def)
    with laws obtain t' where t': "TxFromBytes L raw' = Inr (TxSend t')" "same_send t t'"
      by (metis codec_law_def same_send_signed)
    from same_send_parse_intent [OF t'(2) assms(4) [unfolded TxSend]] s(3) t'(1) that
    show ?thesis by blast
  next
    case (TxSmartContract t)
    with s have "TxToBytes L (TxSmartContract (SmartContractTx_SetSignature L a sig t)) = Inr raw'"
      by (simp add: set_signature_def)
    with laws obtain t' where t': "TxFromBytes L raw' = Inr (TxSmartContract t')" "same_contract t t'"
      by (metis codec_law_def same_contract_signed)
    from same_contract_parse_intent [OF t'(2) assms(4) [unfolded TxSmartContract]] s(3) t'(1) that
    show ?thesis by blast
  qed (use s(1) in \<open>simp_all add: set_signature_def\<close>)
qed

lemma parse_both:
  assumes laws: "flow_laws L"
    and tx: "TxFromBytes L raw = Inr tx" "parse_intent L tx = Inr (Inr (signer, md, ops))"
    and comb: "ConstructionCombine L \<lparr>cc_NetworkIdentifier = ni, cc_UnsignedTransaction = hex_encode raw,
        cc_Signatures = sigs\<rparr> w = (Response signedTx, w')"
  shows "\<exists>r r'. ConstructionParse L \<lparr>cpa_NetworkIdentifier = ni, cpa_Signed = False,
        cpa_Transaction = hex_encode raw\<rparr> w = (Response r, w) \<and>
      cpa_Operations r = ops \<and> cpa_Signers r = None \<and>
    ConstructionParse L \<lparr>cpa_NetworkIdentifier = ni, cpa_Signed = True,
        cpa_Transaction = signedTx\<rparr> w' = (Response r', w') \<and>
      map (intent L) (cpa_Operations r') = map (intent L) ops \<and> cpa_Signers r' = Some [signer]"
proof -
  from comb tx(1) obtain sig a where
    c: "ValidateNetworkIdentifier ni w = None" "attach_signature L tx sig a w = (Response signedTx, w')"
    by (auto simp: ConstructionCombine_Response)
  have "w' = w" using c(2) by (auto simp: attach_signature_Response)
  from combined_parse_intent [OF flow_lawsD(2,4) [OF laws] tx c(2)] obtain raw' tx' md' ops' where
    t: "signedTx = hex_encode raw'" "TxFromBytes L raw' = Inr tx'"
      "parse_intent L tx' = Inr (Inr (signer, md', ops'))" "map (intent L) ops' = map (intent L) ops"
    by blast
  show ?thesis
    using ConstructionParse_encoded [OF c(1) tx, of False]
      ConstructionParse_encoded [OF c(1) t(2,3), of True] t(4)
    by (simp add: t(1) \<open>w' = w\<close>)
qed

lemma transfer_payload_parses:
  assumes laws: "flow_laws L" and five: "length ops = 5"
    and ms: "getOperationDescriptions L ops = Inr ms" "send_options ms = Inr (Inr opts)"
    and a: "match_address (ms ! 0) = Inr a"
    and tx: "payload_tx L sequence md ops ms = Inr (Inr tx)" "TxToBytes L tx = Inr raw"
  shows "\<exists>tx' md' ops'. TxFromBytes L raw = Inr tx' \<and>
    parse_intent L tx' = Inr (Inr (Address_String L (HexToAddress L a), md', ops')) \<and>
    mset (map (intent L) ops') = mset (map (intent L) ops)"
proof -
  note m = matches_of_five [OF flow_lawsD(1) [OF laws] ms(1) five]
  from tx(1) five obtain t where t: "tx = TxSend t" "send_tx L sequence ms = Inr (TxSend t)"
    by (auto simp: payload_tx_def send_tx_def go_simps)
  from flow_lawsD(2) [OF laws] tx(2) t(1) obtain t' where
    t': "TxFromBytes L raw = Inr (TxSend t')" "same_send t t'"
    unfolding codec_law_def by blast
  from send_round_trip [OF m(1) ms(2) t(2) t'(2) flow_lawsD(3) [OF laws]] obtain md' ops' where
    p: "ParseSendTx L t' None SendTx = Inr (md', ops')"
      "map (intent L) ops' = map (\<lambda>m. intent L (the (fst m))) ms"
    by blast
  have "\<exists>i. index (send_Inputs t') 0 = Inr i \<and> in_Address i = HexToAddress L a"
    using t(2) t'(2) a m(3)
    by (auto simp: send_tx_def go_simps same_send_def list_all2_Cons1 same_input_def)
  with p(1) have "parse_intent L (TxSend t') = Inr (Inr (Address_String L (HexToAddress L a), md', ops'))"
    by (auto simp: parse_intent_def simp del: TxType_consts)
  with t'(1) show ?thesis
    using p(2) mset_matched [OF m(2,1)] by metis
qed

text \<open>
  C2. A transfer that \<open>/construction/preprocess\<close> accepts, \<open>/construction/payloads\<close> builds
  and \<open>/construction/combine\<close> signs is read back by \<open>/construction/parse\<close>, unsigned and
  signed, as the operations it was asked for (types, accounts, currencies and amounts, as a
  multiset), and the signer of the signed one is the account that preprocess named.
\<close>

theorem transfer_flow:
  assumes "flow_laws L" "length ops = 5"
    and pre: "ConstructionPreprocess L \<lparr>cpr_NetworkIdentifier = ni, cpr_Operations = ops,
        cpr_Metadata = pmd\<rparr> w0 = (Response options, w0')"
    and pay: "ConstructionPayloads L \<lparr>cp_NetworkIdentifier = ni, cp_Operations = ops,
        cp_Metadata = md\<rparr> w = (Response (unsignedTx, payload), w1)"
    and comb: "ConstructionCombine L \<lparr>cc_NetworkIdentifier = ni, cc_UnsignedTransaction = unsignedTx,
        cc_Signatures = sigs\<rparr> w1 = (Response signedTx, w2)"
  shows "\<exists>a r r'. options ''signer'' = Some (VString a) \<and>
    ConstructionParse L \<lparr>cpa_NetworkIdentifier = ni, cpa_Signed = False,
        cpa_Transaction = unsignedTx\<rparr> w1 = (Response r, w1) \<and>
      mset (map (intent L) (cpa_Operations r)) = mset (map (intent L) ops) \<and>
    ConstructionParse L \<lparr>cpa_NetworkIdentifier = ni, cpa_Signed = True,
        cpa_Transaction = signedTx\<rparr> w2 = (Response r', w2) \<and>
      mset (map (intent L) (cpa_Operations r')) = mset (map (intent L) ops) \<and>
      cpa_Signers r' = Some [Address_String L (HexToAddress L a)]"
proof -
  obtain sequence ms tx raw where
    p: "getOperationDescriptions L ops = Inr ms" "payload_tx L sequence md ops ms = Inr (Inr tx)"
      "TxToBytes L tx = Inr raw" "unsignedTx = hex_encode raw"
    by (rule ConstructionPayloads_Response [OF pay]) simp
  from pre p(1) obtain opts a where o: "preprocess_options ms = Inr (Inr opts)"
    "match_address (ms ! 0) = Inr a" "options ''signer'' = Some (VString a)"
    by (auto simp: ConstructionPreprocess_def validated_Response case_Response copy_key_def
        split: sum.splits option.splits)
  from o(1) have s: "send_options ms = Inr (Inr opts)"
    using matches_of_five(3) [OF flow_lawsD(1) p(1)] assms(1,2) by (simp add: preprocess_options_def)
  from transfer_payload_parses [OF assms(1,2) p(1) s o(2) p(2,3)] obtain tx' md' ops' where
    t: "TxFromBytes L raw = Inr tx'"
      "parse_intent L tx' = Inr (Inr (Address_String L (HexToAddress L a), md', ops'))"
      "mset (map (intent L) ops') = mset (map (intent L) ops)"
    by blast
  from parse_both [OF assms(1) t(1,2) comb [unfolded p(4)]] t(3) o(3) show ?thesis
    unfolding p(4) by (metis mset_map)
qed

section \<open>Contract calls\<close>

text \<open>The operations of a contract call that transfer something.\<close>

definition nonzero :: "Operation \<Rightarrow> bool" where
  "nonzero op = (case op_Amount op of None \<Rightarrow> False | Some am \<Rightarrow> SetString10 (Value am) \<noteq> Some 0)"

lemma matched_nonzero: "matched d m \<Longrightarrow> nonzero (the (fst m)) \<longleftrightarrow> snd m \<noteq> Some 0"
  by (auto simp: matched_def fits_def nonzero_def split: prod.splits option.splits)

lemma mset_matched_nonzero:
  assumes "mset (map fst ms) = mset (map Some ops)" "list_all2 matched ds ms"
  shows "mset (map (\<lambda>m. f (the (fst m))) (filter (\<lambda>m. snd m \<noteq> Some 0) ms)) = mset (map f (filter nonzero ops))"
proof -
  have "nonzero (the (fst m)) \<longleftrightarrow> snd m \<noteq> Some 0" if "m \<in> set ms" for m
    using assms(2) that by (metis in_set_conv_nth list_all2_conv_all_nth matched_nonzero)
  then have "filter (\<lambda>m. snd m \<noteq> Some 0) ms = filter (nonzero \<circ> the \<circ> fst) ms"
    by (intro filter_cong) simp_all
  moreover have "image_mset (f \<circ> the) (filter_mset (nonzero \<circ> the) (mset (map fst ms)))
      = image_mset (f \<circ> the) (filter_mset (nonzero \<circ> the) (mset (map Some ops)))"
    by (simp only: assms(1))
  ultimately show ?thesis
    by (simp add: filter_map comp_def flip: mset_filter mset_map)
qed

lemma contract_tx_from:
  assumes "contract_tx L sequence md ms = Inr (Inr tx)" "match_address (ms ! 0) = Inr a"
  shows "\<exists>t. tx = TxSmartContract t \<and> in_Address (sc_From t) = HexToAddress L a"
  using assms
  by (cases "contract_settings L md"; cases "projr (contract_settings L md)")
    (auto simp: contract_tx_def go_simps)

lemma contract_payload_parses:
  assumes laws: "flow_laws L" and two: "length ops = 2"
    and ms: "getOperationDescriptions L ops = Inr ms" "match_address (ms ! 0) = Inr a"
    and tx: "payload_tx L sequence md ops ms = Inr (Inr tx)" "TxToBytes L tx = Inr raw"
  shows "\<exists>tx' md' ops'. TxFromBytes L raw = Inr tx' \<and>
    parse_intent L tx' = Inr (Inr (Address_String L (HexToAddress L a), md', ops')) \<and>
    mset (map (intent L) ops') = mset (map (intent L) (filter nonzero ops))"
proof -
  note m = matches_of_two [OF flow_lawsD(1) [OF laws] ms(1) two]
  from tx(1) two obtain t where t: "tx = TxSmartContract t"
    "contract_tx L sequence md ms = Inr (Inr (TxSmartContract t))" "in_Address (sc_From t) = HexToAddress L a"
    using contract_tx_from [of L sequence md ms tx a] ms(2) by (auto simp: payload_tx_def)
  from flow_lawsD(2) [OF laws] tx(2) t(1) obtain t' where
    t': "TxFromBytes L raw = Inr (TxSmartContract t')" "same_contract t t'"
    unfolding codec_law_def by blast
  from contract_round_trip [OF m(1) t(2) t'(2) flow_lawsD(3) [OF laws]] obtain md' ops' where
    p: "ParseSmartContractTxForConstruction L t' SmartContractTx = Inr (md', ops')"
      "map (intent L) ops' = map (\<lambda>m. intent L (the (fst m))) (filter (\<lambda>m. snd m \<noteq> Some 0) ms)"
    by blast
  have "in_Address (sc_From t') = HexToAddress L a"
    using t'(2) t(3) by (simp add: same_contract_def same_input_def)
  with p(1) have "parse_intent L (TxSmartContract t') = Inr (Inr (Address_String L (HexToAddress L a), md', ops'))"
    by (simp add: parse_intent_def del: TxType_consts)
  with t'(1) show ?thesis
    using p(2) mset_matched_nonzero [OF m(2,1)] by metis
qed

text \<open>
  C6. A contract call that \<open>/construction/payloads\<close> builds and \<open>/construction/combine\<close>
  signs is read back by \<open>/construction/parse\<close>, unsigned and signed, as those of the
  operations it was asked for whose amount is not zero.
\<close>

theorem contract_flow:
  assumes "flow_laws L" "length ops = 2"
    and pay: "ConstructionPayloads L \<lparr>cp_NetworkIdentifier = ni, cp_Operations = ops,
        cp_Metadata = md\<rparr> w = (Response (unsignedTx, payload), w1)"
    and comb: "ConstructionCombine L \<lparr>cc_NetworkIdentifier = ni, cc_UnsignedTransaction = unsignedTx,
        cc_Signatures = sigs\<rparr> w1 = (Response signedTx, w2)"
  shows "\<exists>signer r r'.
    ConstructionParse L \<lparr>cpa_NetworkIdentifier = ni, cpa_Signed = False,
        cpa_Transaction = unsignedTx\<rparr> w1 = (Response r, w1) \<and>
      mset (map (intent L) (cpa_Operations r)) = mset (map (intent L) (filter nonzero ops)) \<and>
    ConstructionParse L \<lparr>cpa_NetworkIdentifier = ni, cpa_Signed = True,
        cpa_Transaction = signedTx\<rparr> w2 = (Response r', w2) \<and>
      mset (map (intent L) (cpa_Operations r')) = mset (map (intent L) (filter nonzero ops)) \<and>
      cpa_Signers r' = Some [signer]"
proof -
  obtain sequence ms tx raw where
    p: "getOperationDescriptions L ops = Inr ms" "payload_tx L sequence md ops ms = Inr (Inr tx)"
      "TxToBytes L tx = Inr raw" "unsignedTx = hex_encode raw"
    by (rule ConstructionPayloads_Response [OF pay]) simp
  from p(2) assms(2) obtain a where a: "match_address (ms ! 0) = Inr a"
    by (auto simp: payload_tx_def contract_tx_def go_simps)
  from contract_payload_parses [OF assms(1,2) p(1) a p(2,3)] obtain tx' md' ops' where
    t: "TxFromBytes L raw = Inr tx'"
      "parse_intent L tx' = Inr (Inr (Address_String L (HexToAddress L a), md', ops'))"
      "mset (map (intent L) ops') = mset (map (intent L) (filter nonzero ops))"
    by blast
  from parse_both [OF assms(1) t(1,2) comb [unfolded p(4)]] t(3) show ?thesis
    unfolding p(4) by (metis mset_map)
qed

section \<open>Preprocess\<close>

lemma matched_operation:
  assumes "matched d m"
  obtains op a n where "m = (Some op, Some n)" "op_Account op = Some a" "op_Type op = od_Type d"
    "sign_ok (od_Sign d) n"
  using assms by (auto simp: matched_def fits_def split: prod.splits option.splits)

text \<open>
  C19. A transfer that \<open>/construction/preprocess\<close> accepts has one sender, who also pays the
  fee, and one receiver, a different account; the options name the sender as the signer, the
  type \<open>SendTx\<close> and the amount of the fee operation, which is never positive.
\<close>

theorem preprocess_transfer:
  assumes "match_law L" "length ops = 5"
    and "ConstructionPreprocess L \<lparr>cpr_NetworkIdentifier = ni, cpr_Operations = ops,
        cpr_Metadata = pmd\<rparr> w = (Response options, w')"
  shows "\<exists>from to fee. from \<noteq> to \<and>
    mset (map (\<lambda>op. (op_Type op, op_Account op)) ops) =
      {#(''SendTxInput'', Some from), (''SendTxInput'', Some from), (''SendTxOutput'', Some to),
        (''SendTxOutput'', Some to), (''TxFee'', Some from)#} \<and>
    options ''signer'' = Some (VString from) \<and> options ''type'' = Some (VTxType SendTx) \<and>
    options ''fee'' = Some (VBigInt (Some fee)) \<and> fee \<le> 0"
proof -
  from assms(3) obtain ms opts signer where p: "getOperationDescriptions L ops = Inr ms"
    "preprocess_options ms = Inr (Inr opts)" "match_address (ms ! 0) = Inr signer"
    "options = copy_key ''data'' pmd (copy_key ''gas_price'' pmd (copy_key ''gas_limit'' pmd
       (opts(''signer'' \<mapsto> VString signer))))"
    by (auto simp: ConstructionPreprocess_def validated_Response case_Response split: sum.splits)
  note m = matches_of_five [OF assms(1) p(1) assms(2)]
  obtain m0 m1 m2 m3 m4 where ms: "ms = [m0, m1, m2, m3, m4]"
    and d: "list_all2 matched send_descriptions [m0, m1, m2, m3, m4]"
    using m(1) by (auto simp: send_descriptions_def list_all2_five)
  note d = d [unfolded send_descriptions_def, simplified]
  obtain p0 a0 n0 where o0: "m0 = (Some p0, Some n0)" "op_Account p0 = Some a0" "op_Type p0 = ''SendTxInput''"
    using d by (auto elim: matched_operation)
  obtain p1 a1 n1 where o1: "m1 = (Some p1, Some n1)" "op_Account p1 = Some a1" "op_Type p1 = ''SendTxInput''"
    using d by (auto elim: matched_operation)
  obtain p2 a2 n2 where o2: "m2 = (Some p2, Some n2)" "op_Account p2 = Some a2" "op_Type p2 = ''SendTxOutput''"
    using d by (auto elim: matched_operation)
  obtain p3 a3 n3 where o3: "m3 = (Some p3, Some n3)" "op_Account p3 = Some a3" "op_Type p3 = ''SendTxOutput''"
    using d by (auto elim: matched_operation)
  obtain p4 a4 n4 where o4: "m4 = (Some p4, Some n4)" "op_Account p4 = Some a4" "op_Type p4 = ''TxFee''" "n4 \<le> 0"
    using d by (auto elim!: matched_operation simp: sign_ok_def)
  have "send_options ms = Inr (Inr opts)"
    using p(2) by (simp add: preprocess_options_def ms)
  then have s: "a1 = a0" "a4 = a0" "a3 = a2" "a2 \<noteq> a0"
    "opts = [''type'' \<mapsto> VTxType SendTx, ''fee'' \<mapsto> VBigInt (Some n4)]"
    by (auto simp: ms o0 o1 o2 o3 o4 send_options_def match_address_def go_simps split: if_splits)
  have "mset (map (\<lambda>op. (op_Type op, op_Account op)) ops)
      = mset (map (\<lambda>m. (op_Type (the (fst m)), op_Account (the (fst m)))) ms)"
    using mset_matched [OF m(2,1), of "\<lambda>op. (op_Type op, op_Account op)"] by simp
  then show ?thesis
    using p(3,4) s o4(4)
    by (intro exI [of _ a0] exI [of _ a2] exI [of _ n4])
      (auto simp: ms o0 o1 o2 o3 o4 match_address_def copy_key_def split: option.splits)
qed

section \<open>Metadata\<close>

lemma fail_outcome_case_Response:
  "(case r of (Inl p, w1) \<Rightarrow> (Crash p, w1) | (Inr (Inl e), w1) \<Rightarrow> fail_with (E e) (m e) w1
     | (Inr (Inr x), w1) \<Rightarrow> f x w1) = (Response out, w') \<longleftrightarrow>
   (\<exists>x w1. r = (Inr (Inr x), w1) \<and> f x w1 = (Response out, w'))"
  by (auto split: prod.splits sum.splits)

lemma metadata_for_Response:
  assumes "metadata_for L options sequence w = (Response (md, fee), w')"
  obtains txType n where "\<exists>typ. options ''type'' = Some typ \<and> as_TxType L typ = Inr txType"
    "type_metadata L options txType [''sequence'' \<mapsto> VUint64 (sequence + 1)] w = (Inr (Inr (md, n)), w')"
    "fee = amount (int_text n) GetTFuelCurrency"
  using assms
  by (auto simp: metadata_for_def case_Response fail_outcome_case_Response split: prod.splits)

lemma ConstructionMetadata_Response:
  assumes "ConstructionMetadata L (ni, options) w = (Response out, w')"
  obtains signer reply sequence w2 where "options ''signer'' = Some (VString signer)"
    "rpc_Call L (calls w) (''theta.GetAccount'', GetAccountArgs signer 0 False) = (Some reply, None)"
    "parse_sequence L (Result reply) w2 = (Inr (Inr sequence), w2)"
    "metadata_for L options sequence w2 = (Response out, w')"
    "w2 = w\<lparr>calls := calls w @ [(''theta.GetAccount'', GetAccountArgs signer 0 False)]\<rparr>"
proof -
  from assms obtain v signer r where v: "options ''signer'' = Some v" "as_string v = Inr signer"
    and b: "(case HandleThetaRPCResponse L (rpc_Call L (calls w) (''theta.GetAccount'', GetAccountArgs signer 0 False))
        (parse_sequence L) (w\<lparr>calls := calls w @ [(''theta.GetAccount'', GetAccountArgs signer 0 False)]\<rparr>) of
         (Inl p, w2) \<Rightarrow> (Crash p, w2)
       | (Inr (Inl e), w2) \<Rightarrow> (Failure (Global ErrUnableToGetAccount), w2)
       | (Inr (Inr sequence), w2) \<Rightarrow> metadata_for L options sequence w2) = (Response out, w')"
    by (auto simp: ConstructionMetadata_def guarded_Response case_Response Call_def)
  let ?w = "w\<lparr>calls := calls w @ [(''theta.GetAccount'', GetAccountArgs signer 0 False)]\<rparr>"
  from b obtain sequence w2 where h: "HandleThetaRPCResponse L
      (rpc_Call L (calls w) (''theta.GetAccount'', GetAccountArgs signer 0 False)) (parse_sequence L) ?w
      = (Inr (Inr sequence), w2)" "metadata_for L options sequence w2 = (Response out, w')"
    by (auto split: prod.splits sum.splits)
  from HandleThetaRPCResponse_Inr [OF h(1)] obtain reply :: RPCResponse where r:
    "rpc_Call L (calls w) (''theta.GetAccount'', GetAccountArgs signer 0 False) = (Some reply, None)"
    "parse_sequence L (Result reply) ?w = (Inr (Inr sequence), w2)"
    by blast
  have "w2 = ?w"
    using r(2) by (auto simp: parse_sequence_def go_simps split: prod.splits option.splits)
  with that v r h(2) show ?thesis by (auto simp: assertions)
qed

lemma contract_gas_sequence:
  "contract_gas L options md w = (Inr (Inr md'), w') \<Longrightarrow> md' ''sequence'' = md ''sequence''"
  by (auto simp: contract_gas_def copy_key_def split: prod.splits sum.splits option.splits)

lemma type_metadata_sequence:
  "type_metadata L options ty md w = (Inr (Inr (md', n)), w') \<Longrightarrow> md' ''sequence'' = md ''sequence''"
  by (auto simp: type_metadata_def contract_gas_sequence split: prod.splits sum.splits if_splits
      simp del: TxType_consts)

text \<open>
  C20. An answer to \<open>/construction/metadata\<close> carries the sequence number of the signer's
  account plus one, as a 64-bit word; the account is asked for with the first call.
\<close>

theorem metadata_sequence:
  assumes "ConstructionMetadata L (ni, options) w = (Response (md, fee), w')"
  shows "\<exists>signer reply acc. options ''signer'' = Some (VString signer) \<and>
    rpc_Call L (calls w) (''theta.GetAccount'', GetAccountArgs signer 0 False) = (Some reply, None) \<and>
    Unmarshal_into (None, None) (unmarshal_Account L) (Result reply) = (None, Some acc) \<and>
    md ''sequence'' = Some (VUint64 (acc_Sequence acc + 1)) \<and>
    prefix (calls w @ [(''theta.GetAccount'', GetAccountArgs signer 0 False)]) (calls w')"
proof -
  obtain signer reply sequence w2 where m: "options ''signer'' = Some (VString signer)"
    "rpc_Call L (calls w) (''theta.GetAccount'', GetAccountArgs signer 0 False) = (Some reply, None)"
    "parse_sequence L (Result reply) w2 = (Inr (Inr sequence), w2)"
    "metadata_for L options sequence w2 = (Response (md, fee), w')"
    "w2 = w\<lparr>calls := calls w @ [(''theta.GetAccount'', GetAccountArgs signer 0 False)]\<rparr>"
    by (rule ConstructionMetadata_Response [OF assms])
  obtain acc where a: "Unmarshal_into (None, None) (unmarshal_Account L) (Result reply) = (None, Some acc)"
    "acc_Sequence acc = sequence"
    using m(3) by (auto simp: parse_sequence_def go_simps split: prod.splits option.splits)
  have s: "md ''sequence'' = Some (VUint64 (sequence + 1))"
    by (rule metadata_for_Response [OF m(4)]) (simp add: type_metadata_sequence)
  have "prefix (calls w2) (calls w')"
    using metadata_for_quiet [of w2 L options sequence] by (simp add: m(4) quiet_def grows_def)
  then show ?thesis using m(1,2,5) a s by auto
qed

text \<open>
  C21. The fee that \<open>/construction/metadata\<close> suggests for a transfer is the one of the
  options when that is a whole number from 1 to \<open>2 ^ 64 - 1\<close>, and is never negative,
  while the fee that \<open>/construction/preprocess\<close> puts into the options is never positive
  (\<open>preprocess_transfer\<close>): the two endpoints never agree on a fee but zero.
\<close>

theorem metadata_transfer_fee:
  assumes "ConstructionMetadata L (ni, options) w = (Response (md, fee), w')"
    and "options ''type'' = Some (VFloat 2)"
    and "\<And>h. 0 \<le> GetSendTxMinimumTransactionFeeTFuelWei L 2 h"
  shows "\<exists>n. md ''fee'' = Some (VBigInt (Some n)) \<and> fee = amount (int_text n) GetTFuelCurrency \<and> 0 \<le> n \<and>
    (\<forall>k \<in> {1..<2 ^ 64}. options ''fee'' = Some (VFloat (of_int k)) \<longrightarrow> n = k)"
proof -
  obtain signer reply sequence w2 where m: "metadata_for L options sequence w2 = (Response (md, fee), w')"
    by (rule ConstructionMetadata_Response [OF assms(1)])
  have t: "as_TxType L (VFloat 2) = Inr SendTx"
    using float_to_word_of_int [of 2, where f = "float_u8 L"] by (simp add: as_TxType_def as_float_def)
  obtain n where n: "type_metadata L options SendTx [''sequence'' \<mapsto> VUint64 (sequence + 1)] w2
      = (Inr (Inr (md, n)), w')" "fee = amount (int_text n) GetTFuelCurrency"
    by (rule metadata_for_Response [OF m]) (use assms(2) t in auto)
  then have f: "send_fee L options w2 = (Inr (Inr n), w')" "md ''fee'' = Some (VBigInt (Some n))"
    by (auto simp: type_metadata_def split: prod.splits sum.splits simp del: TxType_consts)
  have "0 \<le> n"
    using f(1) assms(3)
    by (auto simp: send_fee_def SetUint64_def go_simps split: prod.splits sum.splits option.splits if_splits)
  moreover have "n = k" if "k \<in> {1..<2 ^ 64}" "options ''fee'' = Some (VFloat (of_int k))" for k
  proof -
    have "as_uint64 L (VFloat (of_int k)) = Inr (word_of_int k)"
      using that(1) float_to_word_of_int [of k, where f = "float_u64 L"]
      by (simp add: as_uint64_def as_float_def)
    moreover have "uint (word_of_int k :: u64) = k"
      using that(1) by (simp add: uint_word_of_int)
    ultimately show ?thesis
      using f(1) that by (simp add: send_fee_def SetUint64_def)
  qed
  ultimately show ?thesis using f(2) n(2) by blast
qed

section \<open>The flow on the sample\<close>

lemma sample_flow_laws: "flow_laws (sample mode)"
  using sample_match_laws sample_codec_law sample_address_law
  by (simp add: flow_laws_def signature_law_def) (simp add: sample_def)

definition plain_op :: "TxOpType \<Rightarrow> string \<Rightarrow> string \<Rightarrow> Currency \<Rightarrow> Operation" where
  "plain_op t a v c = mk_op 0 [] t None a v c Map.empty"

definition transfer_ops :: "Operation list" where
  "transfer_ops =
     [plain_op SendTxInput ''0x1'' ''-10'' GetThetaCurrency,
      plain_op SendTxInput ''0x1'' ''-20'' GetTFuelCurrency,
      plain_op SendTxOutput ''0x2'' ''10'' GetThetaCurrency,
      plain_op SendTxOutput ''0x2'' ''20'' GetTFuelCurrency,
      plain_op TxFee ''0x1'' ''-3'' GetTFuelCurrency]"

definition transfer_matches :: "Match list" where
  "transfer_matches = zip (map Some transfer_ops) [Some (-10), Some (-20), Some 10, Some 20, Some (-3)]"

lemma transfer_values:
  "SetString10 ''-10'' = Some (- 10)" "SetString10 ''-20'' = Some (- 20)" "SetString10 ''-3'' = Some (- 3)"
  "SetString10 ''10'' = Some 10" "SetString10 ''20'' = Some 20"
  by code_simp+

lemma plain_op_simps [simp]:
  "op_Type (plain_op t a v c) = TxOpType_String t"
  "op_Account (plain_op t a v c) = Some a"
  "op_value (plain_op t a v c) = SetString10 v"
  "op_Amount (plain_op t a v c) = Some (amount v c)"
  by (simp_all add: plain_op_def op_value_def)

lemma candidate_plain_op [simp]:
  "candidate d (plain_op t a v c) \<longleftrightarrow> TxOpType_String t = od_Type d \<and> c = od_Currency d \<and>
     (case SetString10 v of None \<Rightarrow> False | Some n \<Rightarrow> sign_ok (od_Sign d) n)"
  by (auto simp: candidate_def fits_def split: option.splits)

lemma transfer_matched: "getOperationDescriptions (sample mode) transfer_ops = Inr transfer_matches"
proof -
  note c = currencies_differ currencies_differ [symmetric]
  have "sample_match send_descriptions transfer_ops = Inr transfer_matches"
    unfolding send_descriptions_def transfer_ops_def transfer_matches_def
    by (simp add: sign_ok_def transfer_values extract_Cons_code c del: SetString10.simps TxOpType_String.simps)
  then show ?thesis
    by (simp add: getOperationDescriptions_def sample_def transfer_ops_def)
qed

definition transfer_preprocess :: ConstructionPreprocessRequest where
  "transfer_preprocess = \<lparr>cpr_NetworkIdentifier = sample_network, cpr_Operations = transfer_ops,
     cpr_Metadata = Map.empty\<rparr>"

definition sample_signatures :: "Signature_data list" where
  "sample_signatures =
     [\<lparr>sig_Bytes = bytes_of ''mainnet'', sig_SigningPayload = Some (Some ''0x1'')\<rparr>]"

lemma transfer_at:
  "length transfer_matches = 5"
  "match_address (transfer_matches ! 0) = Inr ''0x1''" "match_address (transfer_matches ! 1) = Inr ''0x1''"
  "match_address (transfer_matches ! 2) = Inr ''0x2''" "match_address (transfer_matches ! 3) = Inr ''0x2''"
  "match_address (transfer_matches ! 4) = Inr ''0x1''"
  "snd (transfer_matches ! 0) = Some (- 10)" "snd (transfer_matches ! 1) = Some (- 20)"
  "snd (transfer_matches ! 4) = Some (- 3)"
  by (simp_all add: transfer_matches_def transfer_ops_def match_address_def)

lemma transfer_preprocessed:
  "\<exists>options. ConstructionPreprocess (sample mode) transfer_preprocess sample_world = (Response options, sample_world)"
  by (simp add: ConstructionPreprocess_def transfer_preprocess_def validated_def sample_network_valid
      transfer_matched preprocess_options_def send_options_def transfer_at del: One_nat_def)

lemma transfer_payloads:
  "\<exists>t payload. ConstructionPayloads (sample mode) \<lparr>cp_NetworkIdentifier = sample_network,
      cp_Operations = transfer_ops, cp_Metadata = [''sequence'' \<mapsto> VFloat 8]\<rparr> sample_world
    = (Response (hex_encode (1 # enc_send t), payload), sample_world)"
proof -
  have l: "TxToBytes (sample mode) (TxSend t) = Inr (1 # enc_send t)" for t by (simp add: sample_def)
  have p: "\<exists>t. payload_tx (sample mode) sequence md transfer_ops transfer_matches = Inr (Inr (TxSend t))"
    for sequence md
    by (simp add: payload_tx_def send_tx_def negate_def index_def transfer_at del: One_nat_def)
      (simp add: transfer_ops_def)
  obtain u where u: "as_uint64 (sample mode) (VFloat 8) = Inr u"
    by (simp add: as_uint64_def as_float_def)
  obtain t where t: "payload_tx (sample mode) u [''sequence'' \<mapsto> VFloat 8] transfer_ops transfer_matches
      = Inr (Inr (TxSend t))"
    using p by blast
  obtain payload where "signing_payload (sample mode) transfer_ops (TxSend t) sample_world = Inr payload"
    by (simp add: signing_payload_def transfer_ops_def)
  then have "ConstructionPayloads (sample mode) \<lparr>cp_NetworkIdentifier = sample_network,
      cp_Operations = transfer_ops, cp_Metadata = [''sequence'' \<mapsto> VFloat 8]\<rparr> sample_world
    = (Response (hex_encode (1 # enc_send t), payload), sample_world)"
    by (simp add: ConstructionPayloads_def validated_def sample_network_valid transfer_matched u t l)
  then show ?thesis by blast
qed

lemma sample_combined:
  "TxFromBytes (sample mode) raw = Inr (TxSend t) \<Longrightarrow>
   \<exists>signedTx. ConstructionCombine (sample mode) \<lparr>cc_NetworkIdentifier = sample_network,
      cc_UnsignedTransaction = hex_encode raw, cc_Signatures = sample_signatures\<rparr> sample_world
    = (Response signedTx, sample_world)"
  by (simp add: ConstructionCombine_Response sample_signatures_def sample_network_valid
      attach_signature_Response set_signature_def)
    (simp add: sample_def sample_world_def)

lemma sample_reads_send: "TxFromBytes (sample mode) (1 # enc_send t) = Inr (TxSend (canon_send t))"
  by (simp add: sample_def dec_enc_send)

theorem transfer_flow_witness:
  "\<exists>signedTx a r'. ConstructionParse (sample ''offline'') \<lparr>cpa_NetworkIdentifier = sample_network,
      cpa_Signed = True, cpa_Transaction = signedTx\<rparr> sample_world = (Response r', sample_world) \<and>
     mset (map (intent (sample ''offline'')) (cpa_Operations r'))
       = mset (map (intent (sample ''offline'')) transfer_ops) \<and>
     cpa_Signers r' = Some [number_text (text_number a :: address)]"
proof -
  let ?L = "sample ''offline''"
  obtain options where pre: "ConstructionPreprocess ?L transfer_preprocess sample_world
      = (Response options, sample_world)"
    using transfer_preprocessed by blast
  obtain t payload where pay: "ConstructionPayloads ?L \<lparr>cp_NetworkIdentifier = sample_network,
      cp_Operations = transfer_ops, cp_Metadata = [''sequence'' \<mapsto> VFloat 8]\<rparr> sample_world
    = (Response (hex_encode (1 # enc_send t), payload), sample_world)"
    using transfer_payloads by blast
  obtain signedTx where comb: "ConstructionCombine ?L \<lparr>cc_NetworkIdentifier = sample_network,
      cc_UnsignedTransaction = hex_encode (1 # enc_send t), cc_Signatures = sample_signatures\<rparr> sample_world
    = (Response signedTx, sample_world)"
    using sample_combined [OF sample_reads_send] by blast
  have a: "Address_String ?L = number_text" "HexToAddress ?L = text_number" by (simp_all add: sample_def)
  have "length transfer_ops = 5" by (simp add: transfer_ops_def)
  from transfer_flow [OF sample_flow_laws this pre [unfolded transfer_preprocess_def] pay comb]
  show ?thesis unfolding a by blast
qed

definition call_ops :: "Operation list" where
  "call_ops = [plain_op SmartContractTxTo ''0x2'' ''20'' GetTFuelCurrency,
     plain_op SmartContractTxFrom ''0x1'' ''-20'' GetTFuelCurrency]"

definition call_matches :: "Match list" where
  "call_matches = [(Some (plain_op SmartContractTxFrom ''0x1'' ''-20'' GetTFuelCurrency), Some (- 20)),
     (Some (plain_op SmartContractTxTo ''0x2'' ''20'' GetTFuelCurrency), Some 20)]"

lemma call_matched: "getOperationDescriptions (sample mode) call_ops = Inr call_matches"
proof -
  have "sample_match contract_descriptions call_ops = Inr call_matches"
    unfolding contract_descriptions_def call_ops_def call_matches_def
    by (simp add: sign_ok_def transfer_values extract_Cons_code del: SetString10.simps TxOpType_String.simps)
  then show ?thesis
    by (simp add: getOperationDescriptions_def sample_def call_ops_def)
qed

lemma call_payloads:
  "\<exists>t payload. ConstructionPayloads (sample mode) \<lparr>cp_NetworkIdentifier = sample_network,
      cp_Operations = call_ops, cp_Metadata = [''sequence'' \<mapsto> VFloat 8]\<rparr> sample_world
    = (Response (hex_encode (2 # enc_contract t), payload), sample_world)"
proof -
  have l: "TxToBytes (sample mode) (TxSmartContract t) = Inr (2 # enc_contract t)"
    "ParseCoinAmount (sample mode) s = (Some 4, True)" for t s by (simp_all add: sample_def)
  obtain u where u: "as_uint64 (sample mode) (VFloat 8) = Inr u"
    by (simp add: as_uint64_def as_float_def)
  have "contract_settings (sample mode) [''sequence'' \<mapsto> VFloat 8] = Inr (Inr (Some 4, 10000000, []))"
    by (simp add: contract_settings_def gas_price_text_def gas_limit_def data_text_def l)
  then obtain t where t: "payload_tx (sample mode) u [''sequence'' \<mapsto> VFloat 8] call_ops call_matches
      = Inr (Inr (TxSmartContract t))"
    by (simp add: payload_tx_def call_ops_def)
      (simp add: contract_tx_def negate_def match_address_def call_matches_def)
  obtain payload where "signing_payload (sample mode) call_ops (TxSmartContract t) sample_world = Inr payload"
    by (simp add: signing_payload_def call_ops_def)
  then have "ConstructionPayloads (sample mode) \<lparr>cp_NetworkIdentifier = sample_network,
      cp_Operations = call_ops, cp_Metadata = [''sequence'' \<mapsto> VFloat 8]\<rparr> sample_world
    = (Response (hex_encode (2 # enc_contract t), payload), sample_world)"
    by (simp add: ConstructionPayloads_def validated_def sample_network_valid call_matched u t l)
  then show ?thesis by blast
qed

lemma sample_combined_call:
  "TxFromBytes (sample mode) raw = Inr (TxSmartContract t) \<Longrightarrow>
   \<exists>signedTx. ConstructionCombine (sample mode) \<lparr>cc_NetworkIdentifier = sample_network,
      cc_UnsignedTransaction = hex_encode raw, cc_Signatures = sample_signatures\<rparr> sample_world
    = (Response signedTx, sample_world)"
  by (simp add: ConstructionCombine_Response sample_signatures_def sample_network_valid
      attach_signature_Response set_signature_def)
    (simp add: sample_def sample_world_def)

theorem contract_flow_witness:
  "\<exists>signedTx r'. ConstructionParse (sample ''offline'') \<lparr>cpa_NetworkIdentifier = sample_network,
      cpa_Signed = True, cpa_Transaction = signedTx\<rparr> sample_world = (Response r', sample_world) \<and>
     mset (map (intent (sample ''offline'')) (cpa_Operations r'))
       = mset (map (intent (sample ''offline'')) call_ops)"
proof -
  let ?L = "sample ''offline''"
  obtain t payload where pay: "ConstructionPayloads ?L \<lparr>cp_NetworkIdentifier = sample_network,
      cp_Operations = call_ops, cp_Metadata = [''sequence'' \<mapsto> VFloat 8]\<rparr> sample_world
    = (Response (hex_encode (2 # enc_contract t), payload), sample_world)"
    using call_payloads by blast
  have "TxFromBytes ?L (2 # enc_contract t) = Inr (TxSmartContract (canon_contract t))"
    by (simp add: sample_def dec_enc_contract)
  then obtain signedTx where comb: "ConstructionCombine ?L \<lparr>cc_NetworkIdentifier = sample_network,
      cc_UnsignedTransaction = hex_encode (2 # enc_contract t), cc_Signatures = sample_signatures\<rparr> sample_world
    = (Response signedTx, sample_world)"
    using sample_combined_call by blast
  have "length call_ops = 2" "filter nonzero call_ops = call_ops"
    by (simp_all add: call_ops_def nonzero_def transfer_values del: SetString10.simps)
  then show ?thesis
    using contract_flow [OF sample_flow_laws _ pay comb] by auto
qed

theorem preprocess_transfer_witness:
  "\<exists>options from fee. ConstructionPreprocess (sample ''offline'') transfer_preprocess sample_world
      = (Response options, sample_world) \<and>
    options ''signer'' = Some (VString from) \<and> options ''fee'' = Some (VBigInt (Some fee)) \<and> fee \<le> 0"
proof -
  obtain options where pre: "ConstructionPreprocess (sample ''offline'') transfer_preprocess sample_world
      = (Response options, sample_world)"
    using transfer_preprocessed by blast
  have "length transfer_ops = 5" by (simp add: transfer_ops_def)
  from preprocess_transfer [OF sample_match_laws this pre [unfolded transfer_preprocess_def]] pre
  show ?thesis by blast
qed

definition fee_options :: metadata where
  "fee_options = [''signer'' \<mapsto> VString ''0x1'', ''type'' \<mapsto> VFloat 2, ''fee'' \<mapsto> VFloat (of_int 300)]"

lemma metadata_answered:
  "\<exists>md fee w'. ConstructionMetadata (sample ''online'') (sample_network, fee_options) sample_world
     = (Response (md, fee), w')"
proof -
  have s: "rpc_Call (sample ''online'') = sample_call"
    "unmarshal_Account (sample ''online'') j =
       (None, Some \<lparr>acc_Sequence = 41, acc_Balance = \<lparr>ThetaWei = Some 12, TFuelWei = Some 34\<rparr>\<rparr>)" for j
    by (simp_all add: sample_def)
  have t: "as_TxType (sample ''online'') (VFloat 2) = Inr SendTx"
    using float_to_word_of_int [of 2, where f = "float_u8 (sample ''online'')"]
    by (simp add: as_TxType_def as_float_def)
  have f: "as_uint64 (sample ''online'') (VFloat 300) = Inr 300"
    using float_to_word_of_int [of 300, where f = "float_u64 (sample ''online'')"]
    by (simp add: as_uint64_def as_float_def)
  have "\<exists>md fee w'. metadata_for (sample ''online'') fee_options 41 w = (Response (md, fee), w')"
    for w :: "sample_db world"
    by (simp add: metadata_for_def fee_options_def t type_metadata_def send_fee_def f SetUint64_def)
  moreover have "fee_options ''signer'' = Some (VString ''0x1'')" by (simp add: fee_options_def)
  ultimately show ?thesis
    by (simp add: ConstructionMetadata_def guarded_def sample_online sample_network_valid Call_def s
        answer_def HandleThetaRPCResponse_def MarshalIndent_def parse_sequence_def as_string_def)
qed

theorem metadata_sequence_witness:
  "\<exists>md fee w'. ConstructionMetadata (sample ''online'') (sample_network, fee_options) sample_world
     = (Response (md, fee), w') \<and> md ''sequence'' = Some (VUint64 42)"
proof -
  obtain md fee w' where m: "ConstructionMetadata (sample ''online'') (sample_network, fee_options) sample_world
     = (Response (md, fee), w')"
    using metadata_answered by blast
  have "acc_Sequence acc = 41" if
    "Unmarshal_into (None, None) (unmarshal_Account (sample ''online'')) j = (None, Some acc)" for acc j
    using that by (auto simp: sample_def Unmarshal_into_def split: if_splits)
  with metadata_sequence [OF m] m show ?thesis by fastforce
qed

theorem metadata_transfer_fee_witness:
  "\<exists>md fee w'. ConstructionMetadata (sample ''online'') (sample_network, fee_options) sample_world
     = (Response (md, fee), w') \<and> md ''fee'' = Some (VBigInt (Some 300))"
proof -
  obtain md fee w' where m: "ConstructionMetadata (sample ''online'') (sample_network, fee_options) sample_world
     = (Response (md, fee), w')"
    using metadata_answered by blast
  have "fee_options ''type'' = Some (VFloat 2)" "fee_options ''fee'' = Some (VFloat (of_int 300))"
    by (simp_all add: fee_options_def)
  moreover have "0 \<le> GetSendTxMinimumTransactionFeeTFuelWei (sample ''online'') 2 h" for h
    by (simp add: sample_def)
  ultimately show ?thesis
    using metadata_transfer_fee [OF m] m by fastforce
qed

definition small_transfer :: "byte list" where
  "small_transfer = 1 # enc_send \<lparr>send_Fee = no_coins, send_Inputs = [no_input], send_Outputs = [no_output]\<rparr>"

theorem combine_verified_witness:
  "\<exists>out tx sig. ConstructionCombine (sample ''offline'') \<lparr>cc_NetworkIdentifier = sample_network,
      cc_UnsignedTransaction = hex_encode small_transfer, cc_Signatures = sample_signatures\<rparr> sample_world
      = (Response out, sample_world) \<and>
    Signature_Verify (sample ''offline'') sig (SignBytes (sample ''offline'') tx ''mainnet'')
      (HexToAddress (sample ''offline'') ''0x1'')"
proof -
  obtain out where c: "ConstructionCombine (sample ''offline'') \<lparr>cc_NetworkIdentifier = sample_network,
      cc_UnsignedTransaction = hex_encode small_transfer, cc_Signatures = sample_signatures\<rparr> sample_world
      = (Response out, sample_world)"
    unfolding small_transfer_def using sample_combined [OF sample_reads_send] by blast
  have "chainId sample_world = ''mainnet''" by (simp add: sample_world_def)
  with combine_verified [OF c] c show ?thesis
    by (auto simp: sample_signatures_def)
qed

end
