(* ===== verification/ServerProperties.thy ===== *)
theory ServerProperties
  imports Samples
begin

text \<open>
  The properties of the server as a whole: what start-up establishes, what every history of
  requests keeps, what happens in offline mode, and how error texts pile up.
\<close>

section \<open>Start-up\<close>

text \<open>A step that only calls the node and writes the database.\<close>

definition calls_only :: "'d world \<Rightarrow> 'd world \<Rightarrow> bool" where
  "calls_only w w' \<longleftrightarrow> chainId w' = chainId w \<and> errs w' = errs w \<and> prefix (calls w) (calls w')"

lemma calls_only_refl [simp]: "calls_only w w" "calls_only w (w\<lparr>calls := calls w @ cs\<rparr>)"
  by (simp_all add: calls_only_def)

lemma calls_only_trans: "calls_only w w' \<Longrightarrow> calls_only w' w'' \<Longrightarrow> calls_only w w''"
  unfolding calls_only_def by (metis prefix_order.trans)

lemma calls_only_db [simp]: "calls_only w (w'\<lparr>db := d\<rparr>) = calls_only w w'"
  by (simp add: calls_only_def)

lemma fetch_calls_only: "calls_only w (snd (fetch L m args w))" "calls_only w (snd (GetStatus L w))"
  by (simp_all add: fetch_world GetStatus_world)

text \<open>One stage after the other.\<close>

lemma case_step_calls_only:
  assumes "calls_only w (snd r)"
    and "\<And>p w1. r = (Inl p, w1) \<Longrightarrow> calls_only w w1 \<Longrightarrow> calls_only w (snd (f p w1))"
    and "\<And>e w1. r = (Inr (Inl e), w1) \<Longrightarrow> calls_only w w1 \<Longrightarrow> calls_only w (snd (g e w1))"
    and "\<And>x w1. r = (Inr (Inr x), w1) \<Longrightarrow> calls_only w w1 \<Longrightarrow> calls_only w (snd (h x w1))"
  shows "calls_only w (snd (case r of (Inl p, w1) \<Rightarrow> f p w1
                       | (Inr (Inl e), w1) \<Rightarrow> g e w1
                       | (Inr (Inr x), w1) \<Rightarrow> h x w1))"
  using assms by (auto split: prod.splits sum.splits)

lemma store_case_calls_only:
  "calls_only w w4 \<Longrightarrow> calls_only w (snd (case st of (Inl p, dbo) \<Rightarrow> (Inl p, w4\<lparr>db := dbo\<rparr>)
     | (Inr u, dbo) \<Rightarrow> (Inr None, w4\<lparr>db := dbo\<rparr>)))"
  by (simp split: prod.split sum.split)

lemma sum_case_calls_only:
  "calls_only w w2 \<Longrightarrow> (\<And>m. x = Inr m \<Longrightarrow> calls_only w (snd (f m))) \<Longrightarrow>
   calls_only w (snd (case x of Inl p \<Rightarrow> (Inl p, w2) | Inr m \<Rightarrow> f m))"
  by (cases x) simp_all

lemma GenStakesForSnapshot_calls_only: "calls_only w (snd (GenStakesForSnapshot L w))"
proof -
  have f: "calls_only w (snd (fetch L m args w'))" if "calls_only w w'" for m args w'
    by (rule calls_only_trans [OF that fetch_calls_only(1)])
  show ?thesis
    unfolding GenStakesForSnapshot_def Let_def
    by (rule case_step_calls_only [OF fetch_calls_only(2)], simp, simp)
      (rule case_step_calls_only [OF f], assumption, simp, simp,
       rule sum_case_calls_only, assumption,
       rule case_step_calls_only [OF f], assumption, simp, simp,
       rule sum_case_calls_only, assumption,
       rule case_step_calls_only [OF f], assumption, simp, simp,
       rule sum_case_calls_only, assumption,
       erule store_case_calls_only)
qed

text \<open>
  C22. A router is started only after the node has answered the status call, in every mode:
  the chain id of the server is the one of this status, no error value has changed, and a
  database directory that exists already is opened without any further call.
\<close>

theorem router_starts:
  assumes "NewThetaRouter L w = (Inr None, w')"
  shows "\<exists>reply st. rpc_Call L (calls w) (''theta.GetStatus'', GetStatusArgs) = (Some reply, None) \<and>
    st = Unmarshal_into zero_status (unmarshal_Status L) (Result reply) \<and>
    chainId w' = st_ChainID st \<and> errs w' = errs w \<and>
    prefix (calls w @ [(''theta.GetStatus'', GetStatusArgs)]) (calls w') \<and>
    (\<not> path_missing L return_stakes_path \<longrightarrow>
       calls w' = calls w @ [(''theta.GetStatus'', GetStatusArgs)] \<and> db w' = open_db (storage L))"
proof -
  from assms obtain st w1 where s: "GetStatus L w = (Inr (Inr st), w1)"
    by (auto simp: NewThetaRouter_def split: prod.splits sum.splits)
  from s obtain reply where r: "rpc_Call L (calls w) (''theta.GetStatus'', GetStatusArgs) = (Some reply, None)"
    "st = Unmarshal_into zero_status (unmarshal_Status L) (Result reply)"
    by (auto simp: GetStatus_def Call_def MarshalIndent_def split: prod.splits option.splits)
  have w1: "w1 = w\<lparr>calls := calls w @ [(''theta.GetStatus'', GetStatusArgs)]\<rparr>"
    using GetStatus_world [of L w] s by simp
  let ?w3 = "(SetChainId (st_ChainID st) w1)\<lparr>db := open_db (storage L)\<rparr>"
  show ?thesis
  proof (cases "path_missing L return_stakes_path")
    case True
    with assms s have "\<exists>q. GenStakesForSnapshot L ?w3 = (Inr q, w')"
      by (auto simp: NewThetaRouter_def Let_def split: option.splits prod.splits sum.splits)
    then have "calls_only ?w3 w'"
      using GenStakesForSnapshot_calls_only [of ?w3 L] by auto
    with True r show ?thesis
      by (auto simp: calls_only_def SetChainId_def w1)
  next
    case False
    with assms s have "w' = ?w3"
      by (auto simp: NewThetaRouter_def Let_def split: option.splits)
    with False r show ?thesis
      by (auto simp: SetChainId_def w1)
  qed
qed

lemma sample_router: "\<exists>w'. NewThetaRouter (sample mode) sample_world = (Inr None, w')"
  by (simp add: NewThetaRouter_def GetStatus_def Call_def sample_def answer_def MarshalIndent_def Let_def)

theorem router_starts_witness:
  "\<exists>w'. NewThetaRouter (sample ''offline'') sample_world = (Inr None, w') \<and> chainId w' = ''mainnet'' \<and>
     calls w' = [(''theta.GetStatus'', GetStatusArgs)]"
proof -
  have s: "rpc_Call (sample ''offline'') = sample_call" "unmarshal_Status (sample ''offline'') = (\<lambda>j. sample_status)"
    "path_missing (sample ''offline'') = (\<lambda>p. False)"
    by (simp_all add: sample_def)
  obtain w' where w': "NewThetaRouter (sample ''offline'') sample_world = (Inr None, w')"
    using sample_router by blast
  have "calls sample_world = []" "st_ChainID sample_status = ''mainnet''"
    by (simp_all add: sample_world_def sample_status_def)
  with router_starts [OF w'] w' show ?thesis
    by (auto simp: s answer_def)
qed

section \<open>Histories\<close>

text \<open>
  C23. Whatever requests a started server has served, it accepts exactly the network of its
  node, every error keeps its code and its retriable flag, texts of errors only get longer,
  and no call to the node is forgotten.
\<close>

theorem history_keeps:
  assumes "reachable L w0 w"
  shows "(ValidateNetworkIdentifier ni w = None) = (ValidateNetworkIdentifier ni w0 = None) \<and>
    Code (errs w e) = Code (errs w0 e) \<and> Retriable (errs w e) = Retriable (errs w0 e) \<and>
    prefix (Message (errs w0 e)) (Message (errs w e)) \<and> prefix (calls w0) (calls w)"
  using reachable_grows [OF assms]
  by (simp add: grows_def errors_extend_def ValidateNetworkIdentifier_None)

definition sample_history :: "request list" where
  "sample_history = [NetworkListRequest, MempoolTxRequest sample_network ''0x1'',
     HashRequest (sample_network, ''zz''), MempoolTxRequest None ''0x2'', HashRequest (sample_network, ''zz'')]"

theorem history_keeps_witness:
  "ValidateNetworkIdentifier sample_network (run (sample ''offline'') sample_history sample_world) = None \<and>
   Code (errs (run (sample ''offline'') sample_history sample_world) ErrInvalidInputParam) = 19"
proof -
  have "Code (errs sample_world ErrInvalidInputParam) = 19"
    by (simp add: sample_world_def err_def)
  with history_keeps [OF reachable_run, of sample_network "sample ''offline''" sample_history sample_world
      ErrInvalidInputParam] sample_network_valid
  show ?thesis by metis
qed

section \<open>Offline mode\<close>

text \<open>The call that a request leads to in offline mode, if any.\<close>

fun offline_calls :: "'d world \<Rightarrow> request \<Rightarrow> rpc_call list" where
  "offline_calls w (MempoolTxRequest ni h) =
     (if ValidateNetworkIdentifier ni w = None then [(''theta.GetTransaction'', GetTransactionArgs h)] else [])"
| "offline_calls w _ = []"

lemma offline_calls_cong: "chainId w' = chainId w \<Longrightarrow> offline_calls w' r = offline_calls w r"
  by (cases r) (simp_all add: ValidateNetworkIdentifier_None)

lemma serve_offline_calls:
  assumes "\<not> online L"
  shows "calls (snd (serve L r w)) = calls w @ offline_calls w r"
proof (cases "\<exists>ni h. r = MempoolTxRequest ni h")
  case True
  then obtain ni h where r: "r = MempoolTxRequest ni h" by blast
  show ?thesis
    by (cases "ValidateNetworkIdentifier ni w")
      (simp_all add: r MempoolTransaction_world, simp add: MempoolTransaction_def validated_def)
next
  case False
  then have "offline_calls w r = []" by (cases r) auto
  moreover have "calls (snd (serve L r w)) = calls w"
    using offline_request_calls [of r L w] serve_offline [OF assms, of r w] False
    by (cases "offline_request r") auto
  ultimately show ?thesis by simp
qed

text \<open>
  C24. In offline mode a history of requests calls the node once for every
  \<open>/mempool/transaction\<close> request that names the network, and for nothing else, and never
  touches the database.
\<close>

theorem offline_history:
  assumes "\<not> online L"
  shows "calls (run L rs w) = calls w @ concat (map (offline_calls w) rs) \<and> db (run L rs w) = db w"
proof (induction rs arbitrary: w)
  case (Cons r rs)
  have c: "offline_calls (snd (serve L r w)) = offline_calls w"
    by (rule ext, rule offline_calls_cong, rule serve.chain_kept)
  have "db (snd (serve L r w)) = db w"
  proof (cases "\<exists>q. r = BlockRequest q")
    case True
    then show ?thesis using serve_offline [OF assms, of r w] by (auto simp del: serve.simps)
  next
    case False
    then show ?thesis using serve_same_db [of r L w] by blast
  qed
  with Cons.IH [of "snd (serve L r w)"] show ?case
    by (simp add: c serve_offline_calls [OF assms] del: serve.simps)
qed simp

theorem offline_history_witness:
  "calls (run (sample ''offline'') sample_history sample_world) =
     [(''theta.GetTransaction'', GetTransactionArgs ''0x1'')]"
proof -
  have "ValidateNetworkIdentifier None sample_world \<noteq> None"
    by (simp add: ValidateNetworkIdentifier_def)
  moreover have "calls sample_world = []" by (simp add: sample_world_def)
  ultimately show ?thesis
    using offline_history [OF sample_online(2), of sample_history sample_world] sample_network_valid
    by (simp add: sample_history_def)
qed

section \<open>Error texts\<close>

lemma serve_bad_hash:
  assumes "ValidateNetworkIdentifier ni w = None" "hex_decode s = Inl e"
  shows "snd (serve L (HashRequest (ni, s)) w) =
    w\<lparr>errs := append_message ErrInvalidInputParam (''invalid signed transaction format: '' @ e) (errs w)\<rparr>"
  using assms by (simp add: ConstructionHash_def validated_def fail_with_def)

text \<open>
  C30. Error texts pile up: every \<open>/construction/hash\<close> request with malformed hex appends its
  message to the shared error value, so that after n of them the error announced by
  \<open>/network/options\<close> carries the message n times.
\<close>

theorem error_text_accumulates:
  assumes "hex_decode s = Inl e" "ValidateNetworkIdentifier ni w = None"
  shows "Message (errs (run L (replicate n (HashRequest (ni, s))) w) ErrInvalidInputParam) =
    Message (errs w ErrInvalidInputParam) @
    concat (replicate n (''invalid signed transaction format: '' @ e))"
  using assms(2)
proof (induction n arbitrary: w)
  case (Suc n)
  let ?w = "w\<lparr>errs := append_message ErrInvalidInputParam (''invalid signed transaction format: '' @ e) (errs w)\<rparr>"
  have "ValidateNetworkIdentifier ni ?w = None"
    using Suc.prems by (simp add: ValidateNetworkIdentifier_None)
  from Suc.IH [OF this] show ?case
    by (simp add: serve_bad_hash [OF Suc.prems assms(1)] del: serve.simps)
qed simp

theorem error_text_accumulates_witness:
  "\<exists>e. Message (errs (run (sample ''offline'') [HashRequest (sample_network, ''z''), HashRequest (sample_network, ''z'')]
      sample_world) ErrInvalidInputParam) =
    ''Invalid input param: '' @ ''invalid signed transaction format: '' @ e @ ''invalid signed transaction format: '' @ e"
proof -
  have "hex_val CHR ''z'' = None" by code_simp
  then have "hex_decode ''z'' = Inl (InvalidByteError CHR ''z'')" by simp
  from error_text_accumulates [OF this sample_network_valid, of "sample ''offline''" 2]
  have "Message (errs (run (sample ''offline'') [HashRequest (sample_network, ''z''), HashRequest (sample_network, ''z'')]
      sample_world) ErrInvalidInputParam) =
    Message (errs sample_world ErrInvalidInputParam) @ ''invalid signed transaction format: '' @
      InvalidByteError CHR ''z'' @ ''invalid signed transaction format: '' @ InvalidByteError CHR ''z''"
    by (simp add: numeral_2_eq_2 del: serve.simps)
  moreover have "Message (errs sample_world ErrInvalidInputParam) = ''Invalid input param: ''"
    by (simp add: sample_world_def err_def)
  ultimately show ?thesis by auto
qed

section \<open>Two ways to ask for a transaction\<close>

text \<open>
  C39. While the server is online, \<open>/mempool/transaction\<close> is \<open>/block/transaction\<close>: the two
  handlers, written out twice in the code, give the same answer, error or panic and leave the
  same state for every request.
\<close>

theorem transaction_endpoints_agree:
  assumes "online L"
  shows "serve L (MempoolTxRequest ni h) w =
    serve L (BlockTxRequest \<lparr>btr_NetworkIdentifier = ni, btr_TransactionIdentifier = h\<rparr>) w"
proof -
  have "parse_mempool_transaction L = parse_transaction L"
    by (intro ext) (rule parse_mempool_transaction_eq)
  with assms show ?thesis
    by (simp add: MempoolTransaction_def BlockTransaction_def guarded_def validated_def)
qed

theorem transaction_endpoints_agree_witness:
  "serve (sample ''online'') (MempoolTxRequest sample_network ''0x1'') sample_world =
   serve (sample ''online'') (BlockTxRequest
     \<lparr>btr_NetworkIdentifier = sample_network, btr_TransactionIdentifier = ''0x1''\<rparr>) sample_world"
  by (rule transaction_endpoints_agree [OF sample_online(1)])

end
