(* ===== verification/ErrorProperties.thy ===== *)
theory ErrorProperties
  imports ServerProperties
begin

text \<open>
  Which errors the endpoints answer, compared with those that \<open>/network/options\<close> announces.
\<close>

section \<open>Answers that fail with a global error only\<close>

definition fails_global :: "'r outcome \<times> 'd world \<Rightarrow> bool" where
  "fails_global rw \<longleftrightarrow> (\<forall>e. fst rw = Failure e \<longrightarrow> (\<exists>v. e = Global v))"

named_theorems fails_intros \<open>rules for the last steps of a handler\<close>

lemma fails_global_last [fails_intros]:
  "fails_global (Response r, w)" "fails_global (Crash p, w)" "fails_global (Failure (Global v), w)"
  "fails_global (fail_with v m w)"
  by (simp_all add: fails_global_def fail_with_def)

lemma fails_global_finish [fails_intros]: "fails_global (finish v rw)"
  by (cases "(v, rw)" rule: finish.cases) (simp_all add: fails_global_def)

lemma fails_global_returned [fails_intros]: "fails_global (returned rw)"
  by (cases rw rule: returned.cases) (simp_all add: fails_global_def)

lemma fails_global_validated [fails_intros]:
  "(\<And>w. fails_global (body w)) \<Longrightarrow> fails_global (validated ni body w)"
  by (simp add: validated_def fails_global_last split: option.split)

lemma fails_global_guarded [fails_intros]:
  "(\<And>w. fails_global (body w)) \<Longrightarrow> fails_global (guarded L ni body w)"
  by (simp add: guarded_def fails_global_last split: option.split)

lemma fails_global_if [fails_intros]:
  "fails_global a \<Longrightarrow> fails_global b \<Longrightarrow> fails_global (if c then a else b)"
  by simp

text \<open>Endpoints that answer announced errors only.\<close>

locale announcing_endpoint =
  fixes handle :: "'req \<Rightarrow> ('d, 'resp outcome) step"
  assumes handle_fails: "fails_global (handle req w)"
begin

lemma failure_global: "fst (handle req w) = Failure e \<Longrightarrow> \<exists>v. e = Global v"
  using handle_fails [of req w] by (simp add: fails_global_def)

end

interpretation network_list: announcing_endpoint NetworkList
  by unfold_locales (simp add: NetworkList_def fails_intros)

interpretation network_status: announcing_endpoint "NetworkStatus L" for L :: "('d, 'a) servlib_scheme"
  by unfold_locales (auto simp: NetworkStatus_def intro!: fails_intros split: prod.split sum.split)

interpretation network_options: announcing_endpoint "NetworkOptions L" for L :: "('d, 'a) servlib_scheme"
  by unfold_locales (auto simp: NetworkOptions_def intro!: fails_intros)

interpretation coins: announcing_endpoint "AccountCoins L" for L :: "('d, 'a) servlib_scheme"
  by unfold_locales (auto simp: AccountCoins_def Let_def intro!: fails_intros split: prod.split sum.split)

interpretation block: announcing_endpoint "Block L" for L :: "('d, 'a) servlib_scheme"
  by unfold_locales (auto simp: Block_def intro!: fails_intros split: prod.split sum.split)

interpretation block_transaction: announcing_endpoint "BlockTransaction L" for L :: "('d, 'a) servlib_scheme"
  by unfold_locales (auto simp: BlockTransaction_def intro!: fails_intros split: prod.split)

interpretation mempool: announcing_endpoint "Mempool L" for L :: "('d, 'a) servlib_scheme"
  by unfold_locales (auto simp: Mempool_def intro!: fails_intros split: prod.split)

interpretation mempool_transaction: announcing_endpoint "\<lambda>(ni, h). MempoolTransaction L ni h"
  for L :: "('d, 'a) servlib_scheme"
  by unfold_locales (auto simp: MempoolTransaction_def intro!: fails_intros split: prod.split)

interpretation derive: announcing_endpoint "ConstructionDerive L" for L :: "('d, 'a) conslib_scheme"
  by unfold_locales (auto simp: ConstructionDerive_def Let_def intro!: fails_intros split: prod.split sum.split option.split)

interpretation preprocess: announcing_endpoint "ConstructionPreprocess L" for L :: "('d, 'a) conslib_scheme"
  by unfold_locales (auto simp: ConstructionPreprocess_def Let_def intro!: fails_intros split: prod.split sum.split)

interpretation metadata: announcing_endpoint "ConstructionMetadata L" for L :: "('d, 'a) conslib_scheme"
  by unfold_locales (auto simp: ConstructionMetadata_def metadata_for_def Let_def intro!: fails_intros
      split: prod.split sum.split option.split)

interpretation payloads: announcing_endpoint "ConstructionPayloads L" for L :: "('d, 'a) conslib_scheme"
  by unfold_locales (auto simp: ConstructionPayloads_def Let_def intro!: fails_intros split: prod.split sum.split option.split)

interpretation parse: announcing_endpoint "ConstructionParse L" for L :: "('d, 'a) conslib_scheme"
  by unfold_locales (auto simp: ConstructionParse_def Let_def intro!: fails_intros split: prod.split sum.split option.split)

interpretation combine: announcing_endpoint "ConstructionCombine L" for L :: "('d, 'a) conslib_scheme"
  by unfold_locales (auto simp: ConstructionCombine_def attach_signature_def Let_def intro!: fails_intros
      split: prod.split sum.split option.split list.split)

interpretation hash: announcing_endpoint "ConstructionHash L" for L :: "('d, 'a) conslib_scheme"
  by unfold_locales (auto simp: ConstructionHash_def Let_def intro!: fails_intros split: prod.split sum.split option.split)

interpretation submit: announcing_endpoint "ConstructionSubmit L" for L :: "('d, 'a) conslib_scheme"
  by unfold_locales (auto simp: ConstructionSubmit_def Let_def intro!: fails_intros split: prod.split sum.split option.split)

section \<open>The balance endpoint\<close>

text \<open>A block named by its index alone or its hash alone is looked up first.\<close>

definition looked_up :: "AccountBalanceRequest \<Rightarrow> bool" where
  "looked_up req \<longleftrightarrow>
     (\<exists>i h. abr_BlockIdentifier req = Some (i, h) \<and> (i = None \<longleftrightarrow> h \<noteq> None))"

lemma block_identifier_reply_fails:
  "block_identifier_reply L what reply = Inr (Inl e) \<Longrightarrow>
   (\<exists>v. e = Global v) \<or> (\<exists>m. e = Fresh (err 0 m False))"
  by (auto simp: block_identifier_reply_def parseBlockIdentifierResult_def go_simps MarshalIndent_def
      split: option.splits if_splits sum.splits)

lemma balance_block_fails:
  assumes "fst (balance_block L bid w) = Inr (Inl e)"
  shows "(\<exists>v. e = Global v) \<or>
    (\<exists>m. e = Fresh (err 0 m False)) \<and> (\<exists>i h. bid = Some (i, h) \<and> (i = None \<longleftrightarrow> h \<noteq> None))"
proof -
  consider "bid = None" | i h where "bid = Some (Some i, Some h)" | i where "bid = Some (Some i, None)"
    | h where "bid = Some (None, h)"
    by (metis option.exhaust prod.exhaust)
  then show ?thesis
  proof cases
    case 1
    with assms show ?thesis
      by (auto simp: balance_block_def split: prod.splits sum.splits)
  next
    case 2
    with assms show ?thesis by (simp add: balance_block_def)
  next
    case (3 i)
    with assms show ?thesis
      by (auto simp: balance_block_def GetBlockIdentifierByHeight_def Call_def split: prod.splits sum.splits
          dest: block_identifier_reply_fails)
  next
    case (4 h)
    with assms show ?thesis
      by (cases h) (auto simp: balance_block_def GetBlockIdentifierByHash_def Call_def split: prod.splits sum.splits
          dest: block_identifier_reply_fails)
  qed
qed

lemma AccountBalance_fails:
  assumes "fst (AccountBalance L req w) = Failure e"
  shows "(\<exists>v. e = Global v) \<or> (\<exists>m. e = Fresh (err 0 m False)) \<and> looked_up req"
proof (cases "online L \<and> ValidateNetworkIdentifier (abr_NetworkIdentifier req) w = None")
  case True
  obtain r w1 where b: "balance_block L (abr_BlockIdentifier req) w = (r, w1)" by fastforce
  show ?thesis
  proof (cases "\<exists>f. r = Inr (Inl f)")
    case True: True
    then obtain f where f: "r = Inr (Inl f)" by blast
    with assms \<open>online L \<and> _\<close> b have "e = f" by (auto simp: AccountBalance_def guarded_def)
    with balance_block_fails [of L "abr_BlockIdentifier req" w f] b f show ?thesis
      by (auto simp: looked_up_def)
  next
    case False
    have "fails_global (AccountBalance L req w)"
      using False b \<open>online L \<and> _\<close>
      by (auto simp: AccountBalance_def guarded_def Let_def intro!: fails_intros split: prod.split sum.split)
    with assms show ?thesis by (auto simp: fails_global_def)
  qed
next
  case False
  with assms show ?thesis by (auto simp: AccountBalance_def guarded_def split: option.splits if_splits)
qed

section \<open>All endpoints\<close>

fun balance_lookup :: "request \<Rightarrow> bool" where
  "balance_lookup (BalanceRequest q) = looked_up q"
| "balance_lookup _ = False"

lemma serve_fails:
  assumes "fst (serve L r w) = Failure e"
  shows "(\<exists>v. e = Global v) \<or> (\<exists>m. e = Fresh (err 0 m False)) \<and> balance_lookup r"
proof -
  have f: "map_outcome f x = Failure e \<longleftrightarrow> x = Failure e" for f and x :: "'x outcome" by (cases x) auto
  show ?thesis
    using assms
    by (cases r)
      (auto simp: as_reply_def f dest: AccountBalance_fails network_list.failure_global
        network_status.failure_global network_options.failure_global coins.failure_global
        block.failure_global block_transaction.failure_global mempool.failure_global
        mempool_transaction.failure_global [where req = "(_, _)", simplified] derive.failure_global
        preprocess.failure_global metadata.failure_global payloads.failure_global parse.failure_global
        combine.failure_global hash.failure_global submit.failure_global)
qed

lemma error_codes_announced:
  assumes "errs w0 = initial_errors" "reachable L w0 w"
  shows "Code (errs w v) = code_of v" "Retriable (errs w v) = Retriable (initial_errors v)"
  using reachable_grows [OF assms(2)] assms(1) by (simp_all add: grows_def errors_extend_def code_of_def)

lemma code_of_positive: "0 < code_of v"
  by (cases v) (simp_all add: code_of_def)

lemma options_errors:
  "NetworkOptions L opt v = (Response options, v') \<Longrightarrow> set (no_Errors options) = range (errs v)"
  by (auto simp: NetworkOptions_def validated_Response returned_Response go_simps ErrorList_complete
      operation_statuses_eq)

lemma zero_not_announced:
  assumes "errs w0 = initial_errors" "reachable L w0 v" "NetworkOptions L opt v = (Response options, v')"
  shows "0 \<notin> Code ` set (no_Errors options)"
proof -
  have "Code (errs v u) \<noteq> 0" for u
    using error_codes_announced(1) [OF assms(1,2), of u] code_of_positive [of u] by simp
  then show ?thesis by (auto simp: options_errors [OF assms(3)])
qed

text \<open>
  C28. An error that an endpoint answers is announced: at whatever time \<open>/network/options\<close> is
  asked, before or after, exactly one of the announced errors has its code, with the same
  retriable flag. The one exception is \<open>/account/balance\<close> for a block that is named by its
  index alone or its hash alone: it can answer an error with code 0, which is never announced.
\<close>

theorem errors_announced:
  assumes "errs w0 = initial_errors" "reachable L w0 w" "reachable L w0 v"
    and "serve L r w = (Failure e, w')"
    and "NetworkOptions L opt v = (Response options, v')"
  shows "(\<exists>!a. a \<in> set (no_Errors options) \<and> Code a = Code (error_value e w')) \<and>
      (\<forall>a \<in> set (no_Errors options). Code a = Code (error_value e w') \<longrightarrow>
         Retriable a = Retriable (error_value e w')) \<or>
    balance_lookup r \<and> Code (error_value e w') = 0 \<and> 0 \<notin> Code ` set (no_Errors options)"
proof -
  note errors = options_errors [OF assms(5)]
  note at_v = error_codes_announced [OF assms(1,3)]
  have w': "reachable L w0 w'"
    using reachable.request [OF assms(2), of r] assms(4) by simp
  note at_w' = error_codes_announced [OF assms(1) w']
  from serve_fails [of L r w e] assms(4) consider u where "e = Global u"
    | m where "e = Fresh (err 0 m False)" "balance_lookup r" by auto
  then show ?thesis
  proof cases
    case (1 u)
    have "a = errs v u" if "a \<in> range (errs v)" "Code a = code_of u" for a
      using that by (auto simp: at_v code_of_inject)
    then show ?thesis by (auto simp: errors 1 at_v at_w' code_of_inject)
  next
    case (2 m)
    with zero_not_announced [OF assms(1,3,5)] show ?thesis by simp
  qed
qed

definition lookup_request :: AccountBalanceRequest where
  "lookup_request = \<lparr>abr_NetworkIdentifier = sample_network, abr_AccountIdentifier = ''a'',
     abr_BlockIdentifier = Some (Some 7, None), abr_Currencies = None\<rparr>"

theorem errors_announced_witness:
  "\<exists>e w' options. serve (sample ''online'') (HashRequest (sample_network, ''z'')) sample_world = (Failure e, w') \<and>
     NetworkOptions (sample ''online'') \<lparr>nr_NetworkIdentifier = sample_network, nr_Metadata = None\<rparr> sample_world
       = (Response options, sample_world) \<and>
     (\<exists>!a. a \<in> set (no_Errors options) \<and> Code a = Code (error_value e w')) \<and>
     (\<exists>e' w''. serve (sample ''online'') (BalanceRequest lookup_request) sample_world = (Failure e', w'') \<and>
        Code (error_value e' w'') = 0 \<and> 0 \<notin> Code ` set (no_Errors options))"
proof -
  let ?L = "sample ''online''"
  have s: "errs sample_world = initial_errors" by (simp add: sample_world_def)
  have calls: "rpc_Call ?L = sample_call" by (simp add: sample_def)
  have h: "hex_decode ''z'' = Inl e \<Longrightarrow> serve ?L (HashRequest (sample_network, ''z'')) sample_world
    = (Failure (Global ErrInvalidInputParam), sample_world\<lparr>errs := append_message ErrInvalidInputParam
        (''invalid signed transaction format: '' @ e) (errs sample_world)\<rparr>)" for e
    using sample_network_valid by (simp add: ConstructionHash_def validated_def fail_with_def as_reply_def)
  have "hex_val CHR ''z'' = None" by code_simp
  then have "hex_decode ''z'' = Inl (InvalidByteError CHR ''z'')" by simp
  then obtain w' where f: "serve ?L (HashRequest (sample_network, ''z'')) sample_world
      = (Failure (Global ErrInvalidInputParam), w')"
    using h by blast
  obtain options where o': "NetworkOptions ?L
      \<lparr>nr_NetworkIdentifier = sample_network, nr_Metadata = None\<rparr> sample_world = (Response options, sample_world)"
    using sample_network_valid by (simp add: NetworkOptions_def validated_def operation_statuses_eq)
  obtain m w'' where b: "serve ?L (BalanceRequest lookup_request) sample_world = (Failure (Fresh (err 0 m False)), w'')"
    by (simp add: AccountBalance_def guarded_def sample_online sample_network_valid lookup_request_def
        as_reply_def balance_block_def GetBlockIdentifierByHeight_def Call_def calls block_identifier_reply_def)
  note anns = errors_announced [OF s reachable.start reachable.start _ o']
  have "\<exists>!a. a \<in> set (no_Errors options) \<and> Code a = Code (error_value (Global ErrInvalidInputParam) w')"
    using anns [OF f] by simp
  moreover have "0 \<notin> Code ` set (no_Errors options)"
    using zero_not_announced [OF s reachable.start o'] .
  ultimately show ?thesis
    using f o' b by (intro exI [of _ "Global ErrInvalidInputParam"] exI [of _ w'] exI [of _ options] conjI
        exI [of _ "Fresh (err 0 m False)"] exI [of _ w'']) simp_all
qed

end
