(* ===== verification/Process.thy ===== *)
theory Process
  imports Server
begin

text \<open>
  The life of the process: \<open>runStart\<close> of \<open>cmds/start.go\<close>, the node of \<open>node/node.go\<close> and
  \<open>StartServers\<close> of \<open>services/server.go\<close>. Four goroutines, the handlers of requests and the
  signals of the operating system interleave; each statement that another goroutine can observe
  is a step.
\<close>

section \<open>Contexts\<close>

text \<open>
  A derived context is named by the number of its cancel function; it is done when its own
  cancel function or that of an ancestor has been called.
\<close>

datatype gocontext = Background | WithCancel nat gocontext

fun ctx_done :: "nat set \<Rightarrow> gocontext \<Rightarrow> bool" where
  "ctx_done C Background = False"
| "ctx_done C (WithCancel k c) = (k \<in> C \<or> ctx_done C c)"

section \<open>The node\<close>

text \<open>The counter of the wait group; a nil channel; the context; the cancel function; a flag.\<close>

record Node =
  wg :: nat
  quit :: "unit option"
  ctx :: "gocontext option"
  cancel :: "nat option"
  stopped :: bool

definition NewNode :: Node where
  "NewNode = \<lparr>wg = 0, quit = None, ctx = None, cancel = None, stopped = False\<rparr>"

text \<open>The part of \<open>Start\<close> before \<open>StartServers\<close>, whose cancel function has the number k.\<close>

definition Start_context :: "nat \<Rightarrow> gocontext \<Rightarrow> Node \<Rightarrow> Node" where
  "Start_context k c n = n\<lparr>ctx := Some (WithCancel k c), cancel := Some k\<rparr>"

text \<open>The part of \<open>Start\<close> after \<open>StartServers\<close>; the caller of this definition starts \<open>mainLoop\<close>.\<close>

definition Start_loop :: "Node \<Rightarrow> Node" where
  "Start_loop n = n\<lparr>wg := wg n + 1\<rparr>"

definition StopServers :: "string option" where
  "StopServers = None"

text \<open>
  \<open>Stop\<close> adds to the cancel functions that have been called; before \<open>Start\<close> it calls a nil
  function. No code of the repository calls it.
\<close>

definition Stop :: "Node \<Rightarrow> nat set \<Rightarrow> nat set go" where
  "Stop n C = andThen (deref (cancel n)) (\<lambda>k. Inr (insert k C))"

text \<open>\<open>Wait\<close> is over when the counter is zero.\<close>

definition Wait_over :: "Node \<Rightarrow> bool" where
  "Wait_over n \<longleftrightarrow> wg n = 0"

section \<open>The process\<close>

datatype main_pc =
    AtNotify
  | AtGoTrap
  | AtStart
  | AtRouter
  | AtListen
  | AtAdd
  | AtGoWait
  | AtDone
  | AtLog

datatype trap_pc = TrapReceive | TrapStop | TrapCancel | TrapSleep | TrapClose | TrapEnd

datatype wait_pc = WaitGroup | WaitClose | WaitEnd

datatype loop_pc = LoopContext | LoopDone | LoopEnd

datatype ending =
    GracefulExit
  | Fatal string
  | Crashed panic
  | Interrupted

text \<open>A goroutine that has not been started has no position.\<close>

record 'd process =
  main_at :: main_pc
  trap_at :: "trap_pc option"
  wait_at :: "wait_pc option"
  loop_at :: "loop_pc option"
  node :: Node
  cancelled :: "nat set"
  notified :: bool
  done_closed :: bool
  server :: "'d world"
  ending :: "ending option"

text \<open>\<open>runStart\<close> with its context, the node and the channels made.\<close>

definition launched :: "'d world \<Rightarrow> 'd process" where
  "launched w = \<lparr>main_at = AtNotify, trap_at = None, wait_at = None, loop_at = None, node = NewNode,
     cancelled = {}, notified = False, done_closed = False, server = w, ending = None\<rparr>"

definition runStart_ctx :: gocontext where
  "runStart_ctx = WithCancel 0 Background"

text \<open>A second \<open>close\<close> of a channel panics.\<close>

definition close_done :: "'d process \<Rightarrow> 'd process" where
  "close_done s =
     (if done_closed s then s\<lparr>ending := Some (Crashed (ExplicitPanic ''close of closed channel''))\<rparr>
      else s\<lparr>done_closed := True\<rparr>)"

section \<open>Starting the servers\<close>

definition http_endpoint :: "'a rpclib_scheme \<Rightarrow> string" where
  "http_endpoint L = viper_GetString L CfgRPCHttpAddress @ '':'' @ viper_GetString L CfgRPCHttpPort"

definition start_router :: "('d, 'a) startlib_scheme \<Rightarrow> 'd process \<Rightarrow> 'd process" where
  "start_router L s =
     (case NewThetaRouter L (server s) of
        (Inl p, w) \<Rightarrow> s\<lparr>server := w, ending := Some (Crashed p)\<rparr>
      | (Inr (Some e), w) \<Rightarrow>
          s\<lparr>server := w, ending := Some (Fatal (''ERROR: Failed to init router: '' @ e @ [CHR 0x0A]))\<rparr>
      | (Inr None, w) \<Rightarrow> s\<lparr>server := w, main_at := AtListen\<rparr>)"

text \<open>\<open>http.ListenAndServe\<close> has returned.\<close>

definition listen_returned :: "string option \<Rightarrow> 'd process \<Rightarrow> 'd process" where
  "listen_returned r s =
     (case r of
        Some e \<Rightarrow> s\<lparr>ending := Some (Fatal (''Theta Rosetta Adaptor server exited with error: '' @ e @ [CHR 0x0A]))\<rparr>
      | None \<Rightarrow> s\<lparr>main_at := AtAdd\<rparr>)"

section \<open>The goroutines\<close>

text \<open>One statement of \<open>runStart\<close>; \<open>None\<close> while it is blocked.\<close>

definition main_step :: "('d, 'a) startlib_scheme \<Rightarrow> 'd process \<Rightarrow> 'd process option" where
  "main_step L s =
     (case main_at s of
        AtNotify \<Rightarrow> Some (s\<lparr>notified := True, main_at := AtGoTrap\<rparr>)
      | AtGoTrap \<Rightarrow> Some (s\<lparr>trap_at := Some TrapReceive, main_at := AtStart\<rparr>)
      | AtStart \<Rightarrow> Some (s\<lparr>node := Start_context 1 runStart_ctx (node s), main_at := AtRouter\<rparr>)
      | AtRouter \<Rightarrow> Some (start_router L s)
      | AtListen \<Rightarrow> None
      | AtAdd \<Rightarrow> Some (s\<lparr>node := Start_loop (node s), loop_at := Some LoopContext, main_at := AtGoWait\<rparr>)
      | AtGoWait \<Rightarrow> Some (s\<lparr>wait_at := Some WaitGroup, main_at := AtDone\<rparr>)
      | AtDone \<Rightarrow> (if done_closed s then Some (s\<lparr>main_at := AtLog\<rparr>) else None)
      | AtLog \<Rightarrow> Some (s\<lparr>ending := Some GracefulExit\<rparr>))"

text \<open>The goroutine that traps Ctrl+C, after it has received the signal.\<close>

definition trap_step :: "'d process \<Rightarrow> 'd process option" where
  "trap_step s =
     (case trap_at s of
        Some TrapStop \<Rightarrow> Some (s\<lparr>notified := False, trap_at := Some TrapCancel\<rparr>)
      | Some TrapCancel \<Rightarrow> Some (s\<lparr>cancelled := insert 0 (cancelled s), trap_at := Some TrapSleep\<rparr>)
      | Some TrapSleep \<Rightarrow> Some (s\<lparr>trap_at := Some TrapClose\<rparr>)
      | Some TrapClose \<Rightarrow> Some (close_done (s\<lparr>trap_at := Some TrapEnd\<rparr>))
      | _ \<Rightarrow> None)"

definition wait_step :: "'d process \<Rightarrow> 'd process option" where
  "wait_step s =
     (case wait_at s of
        Some WaitGroup \<Rightarrow> (if Wait_over (node s) then Some (s\<lparr>wait_at := Some WaitClose\<rparr>) else None)
      | Some WaitClose \<Rightarrow> Some (close_done (s\<lparr>wait_at := Some WaitEnd\<rparr>))
      | _ \<Rightarrow> None)"

text \<open>\<open><-n.ctx.Done()\<close> on a nil context is a nil dereference; \<open>wg.Done()\<close> must not go below zero.\<close>

definition mainLoop :: "'d process \<Rightarrow> 'd process option" where
  "mainLoop s =
     (case loop_at s of
        Some LoopContext \<Rightarrow>
          (case ctx (node s) of
             None \<Rightarrow> Some (s\<lparr>ending := Some (Crashed NilDereference)\<rparr>)
           | Some c \<Rightarrow>
               (if ctx_done (cancelled s) c
                then Some (s\<lparr>node := (node s)\<lparr>stopped := True\<rparr>, loop_at := Some LoopDone\<rparr>) else None))
      | Some LoopDone \<Rightarrow>
          Some (if wg (node s) = 0
                then s\<lparr>ending := Some (Crashed (ExplicitPanic ''sync: negative WaitGroup counter''))\<rparr>
                else s\<lparr>node := (node s)\<lparr>wg := wg (node s) - 1\<rparr>, loop_at := Some LoopEnd\<rparr>)
      | _ \<Rightarrow> None)"

text \<open>
  An interrupt: \<open>signal.Notify\<close> does not block on the unbuffered channel, so the signal is
  lost unless the goroutine is waiting for it; without \<open>Notify\<close> it ends the process.
\<close>

definition interrupt :: "'d process \<Rightarrow> 'd process" where
  "interrupt s =
     (if \<not> notified s then s\<lparr>ending := Some Interrupted\<rparr>
      else if trap_at s = Some TrapReceive then s\<lparr>trap_at := Some TrapStop\<rparr>
      else s)"

section \<open>Interleaving\<close>

datatype event =
    Main
  | ListenReturns "string option"
  | Trap
  | Waiter
  | Loop
  | Interrupt
  | Handlers

text \<open>
  \<open>listen\<close> are the possible results of \<open>http.ListenAndServe\<close> on an endpoint. While it listens,
  the handlers of requests run in goroutines of their own, any number of them at once; all they
  share with the other goroutines is the state of the server, and nothing is assumed of what
  they have made of it when another goroutine takes its turn (\<open>net/http\<close> recovers their panics).
  Nothing happens after the process has ended.
\<close>

inductive moves ::
    "('d, 'a) startlib_scheme \<Rightarrow> (string \<Rightarrow> string option set) \<Rightarrow> event \<Rightarrow> 'd process \<Rightarrow> 'd process \<Rightarrow> bool"
  for L :: "('d, 'a) startlib_scheme" and listen :: "string \<Rightarrow> string option set" where
  main: "ending s = None \<Longrightarrow> main_step L s = Some s' \<Longrightarrow> moves L listen Main s s'"
| listens: "ending s = None \<Longrightarrow> main_at s = AtListen \<Longrightarrow> r \<in> listen (http_endpoint L) \<Longrightarrow>
    moves L listen (ListenReturns r) s (listen_returned r s)"
| trap: "ending s = None \<Longrightarrow> trap_step s = Some s' \<Longrightarrow> moves L listen Trap s s'"
| waits: "ending s = None \<Longrightarrow> wait_step s = Some s' \<Longrightarrow> moves L listen Waiter s s'"
| loops: "ending s = None \<Longrightarrow> mainLoop s = Some s' \<Longrightarrow> moves L listen Loop s s'"
| signals: "ending s = None \<Longrightarrow> moves L listen Interrupt s (interrupt s)"
| handles: "ending s = None \<Longrightarrow> main_at s = AtListen \<Longrightarrow> moves L listen Handlers s (s\<lparr>server := w\<rparr>)"

inductive_cases movesE [consumes 1, case_names main listens trap waits loops signals handles]:
  "moves L listen e s s'"

inductive_simps interrupt_moves [simp]: "moves L listen Interrupt s s'"

inductive steps ::
    "('d, 'a) startlib_scheme \<Rightarrow> (string \<Rightarrow> string option set) \<Rightarrow> event list \<Rightarrow> 'd process \<Rightarrow> 'd process \<Rightarrow> bool"
  for L :: "('d, 'a) startlib_scheme" and listen :: "string \<Rightarrow> string option set" where
  none: "steps L listen [] s s"
| snoc: "steps L listen es s s' \<Longrightarrow> moves L listen e s' s'' \<Longrightarrow> steps L listen (es @ [e]) s s''"

text \<open>A state predicate that every step keeps holds in every reachable state.\<close>

lemma steps_keep:
  assumes "steps L listen es s s'" "P s" "\<And>e s s'. moves L listen e s s' \<Longrightarrow> P s \<Longrightarrow> P s'"
  shows "P s'"
  using assms by (induction rule: steps.induct) auto

end
