(* ===== verification/ProcessProperties.thy ===== *)
theory ProcessProperties
  imports Process ServerProperties
begin

text \<open>
  How the process lives and ends: that it never exits gracefully, and how many interrupts end it.
\<close>

section \<open>Before and after start-up\<close>

definition starting :: "'d process \<Rightarrow> bool" where
  "starting s \<longleftrightarrow> main_at s \<in> {AtNotify, AtGoTrap, AtStart, AtRouter}"

lemma starting_simps [simp]:
  "main_at s = AtNotify \<Longrightarrow> starting s" "main_at s = AtGoTrap \<Longrightarrow> starting s"
  "main_at s = AtStart \<Longrightarrow> starting s" "main_at s = AtRouter \<Longrightarrow> starting s"
  "main_at s = AtListen \<Longrightarrow> \<not> starting s" "main_at s = AtAdd \<Longrightarrow> \<not> starting s"
  "main_at s = AtGoWait \<Longrightarrow> \<not> starting s" "main_at s = AtDone \<Longrightarrow> \<not> starting s"
  "main_at s = AtLog \<Longrightarrow> \<not> starting s"
  by (simp_all add: starting_def)

lemma close_done_simps [simp]:
  "main_at (close_done s) = main_at s" "server (close_done s) = server s" "node (close_done s) = node s"
  "trap_at (close_done s) = trap_at s" "wait_at (close_done s) = wait_at s" "loop_at (close_done s) = loop_at s"
  "notified (close_done s) = notified s" "done_closed (close_done s)"
  "ending (close_done s) = (if done_closed s
     then Some (Crashed (ExplicitPanic ''close of closed channel'')) else ending s)"
  by (simp_all add: close_done_def)

section \<open>A run of the process\<close>

lemma steps_cons: "moves L listen e s s' \<Longrightarrow> steps L listen es s' s'' \<Longrightarrow> steps L listen (e # es) s s''"
proof (rotate_tac, induction rule: steps.induct)
  case (none s)
  then show ?case using steps.snoc [OF steps.none] by fastforce
next
  case (snoc es s s' e' s'')
  then show ?case using steps.snoc [of L listen "e # es"] by fastforce
qed

lemma steps_trans: "steps L listen es s s' \<Longrightarrow> steps L listen es' s' s'' \<Longrightarrow> steps L listen (es @ es') s s''"
proof (rotate_tac, induction rule: steps.induct)
  case (snoc es' s' s'' e t)
  then show ?case using steps.snoc [of L listen "es @ es'"] by fastforce
qed simp

text \<open>A server that listens, and one that has handled its first interrupt.\<close>

definition listening :: "'d world \<Rightarrow> 'd process" where
  "listening w = (launched w)\<lparr>main_at := AtListen, trap_at := Some TrapReceive,
     node := Start_context 1 runStart_ctx NewNode, notified := True\<rparr>"

definition interrupted :: "'d world \<Rightarrow> 'd process" where
  "interrupted w = (listening w)\<lparr>trap_at := Some TrapEnd, notified := False, cancelled := {0},
     done_closed := True\<rparr>"

lemmas run_defs = launched_def listening_def interrupted_def

lemma start_run:
  assumes "NewThetaRouter L w = (Inr None, w1)"
  shows "steps L listen [Main, Main, Main, Main] (launched w) (listening w1)"
  by (rule steps_cons, rule moves.main, simp add: run_defs, simp add: main_step_def run_defs,
      rule steps_cons, rule moves.main, simp, simp add: main_step_def,
      rule steps_cons, rule moves.main, simp, simp add: main_step_def,
      rule steps_cons, rule moves.main, simp, simp add: main_step_def start_router_def assms)
    (simp add: run_defs steps.none)

lemma interrupt_run: "steps L listen [Interrupt, Trap, Trap, Trap, Trap] (listening w) (interrupted w)"
  by (rule steps_cons, rule moves.signals, simp add: run_defs,
      rule steps_cons, rule moves.trap, simp add: interrupt_def run_defs, simp add: interrupt_def run_defs trap_step_def,
      rule steps_cons, rule moves.trap, simp, simp add: trap_step_def,
      rule steps_cons, rule moves.trap, simp, simp add: trap_step_def,
      rule steps_cons, rule moves.trap, simp, simp add: trap_step_def)
    (simp add: run_defs steps.none close_done_def)

lemma handlers_run: "steps L listen [Handlers] (interrupted w) (interrupted w')"
  by (rule steps_cons, rule moves.handles [where w = w'], simp_all add: run_defs steps.none)

text \<open>A listening address that is taken after a while.\<close>

definition sample_listen :: "string \<Rightarrow> string option set" where
  "sample_listen addr = {Some ''address already in use''}"

abbreviation "sample_process \<equiv> launched sample_world"

abbreviation "sample_run \<equiv> steps (sample ''offline'') sample_listen"

section \<open>Graceful exit\<close>

text \<open>
  \<open>http.ListenAndServe\<close> always returns an error that is not nil, as its documentation says.
\<close>

definition listen_law :: "(string \<Rightarrow> string option set) \<Rightarrow> bool" where
  "listen_law listen \<longleftrightarrow> (\<forall>endpoint. None \<notin> listen endpoint)"

definition never_past_listen :: "('d, 'a) startlib_scheme \<Rightarrow> 'd world \<Rightarrow> 'd process \<Rightarrow> bool" where
  "never_past_listen L w0 s \<longleftrightarrow>
     (starting s \<or> main_at s = AtListen) \<and> wait_at s = None \<and> loop_at s = None \<and>
     wg (node s) = 0 \<and> \<not> stopped (node s) \<and> ending s \<noteq> Some GracefulExit \<and>
     (done_closed s \<longrightarrow> trap_at s = Some TrapEnd) \<and>
     (main_at s \<in> {AtNotify, AtGoTrap} \<longrightarrow> trap_at s = None) \<and>
     (starting s \<and> ending s = None \<longrightarrow> server s = w0) \<and>
     (\<forall>p. ending s = Some (Crashed p) \<longrightarrow> fst (NewThetaRouter L w0) = Inl p)"

lemma step_never_past_listen:
  assumes "listen_law listen" "moves L listen e s s'" "never_past_listen L w0 s"
  shows "never_past_listen L w0 s'"
  using assms(2)
proof (cases rule: movesE)
  case main
  then show ?thesis using assms(3)
    by (cases "main_at s")
      (auto simp: main_step_def never_past_listen_def start_router_def starting_def Start_context_def
        split: if_splits prod.splits sum.splits option.splits)
next
  case (listens r)
  then show ?thesis using assms(1,3)
    by (auto simp: listen_returned_def never_past_listen_def starting_def listen_law_def split: option.splits)
next
  case trap
  then show ?thesis using assms(3)
    by (auto simp: trap_step_def never_past_listen_def starting_def split: option.splits trap_pc.splits)
next
  case waits
  then show ?thesis using assms(3) by (simp add: wait_step_def never_past_listen_def)
next
  case loops
  then show ?thesis using assms(3) by (simp add: mainLoop_def never_past_listen_def)
next
  case signals
  then show ?thesis using assms(3) by (auto simp: interrupt_def never_past_listen_def starting_def)
next
  case (handles w)
  then show ?thesis using assms(3) by (auto simp: never_past_listen_def starting_def)
qed

text \<open>
  C25. The process never exits gracefully. In every state that any interleaving leads to,
  \<open>runStart\<close> has not got past \<open>StartServers\<close>: the node's main loop and the goroutine that waits
  for it have not been started, the node is not stopped, and the end of the process, if it has
  come, is a fatal error, an interrupt, or a panic of the start-up itself; the channel
  \<open>done\<close> is never closed twice.
\<close>

theorem no_graceful_exit:
  assumes "listen_law listen" "steps L listen es (launched w0) s"
  shows "ending s \<noteq> Some GracefulExit \<and> loop_at s = None \<and> wait_at s = None \<and> \<not> stopped (node s) \<and>
    (\<forall>p. ending s = Some (Crashed p) \<longrightarrow> fst (NewThetaRouter L w0) = Inl p)"
proof -
  have "never_past_listen L w0 (launched w0)"
    by (simp add: never_past_listen_def launched_def NewNode_def starting_def)
  then have "never_past_listen L w0 s"
    using steps_keep [OF assms(2), of "never_past_listen L w0"] step_never_past_listen [OF assms(1)] by blast
  then show ?thesis by (simp add: never_past_listen_def)
qed

theorem no_graceful_exit_witness:
  "\<exists>es s. sample_run es sample_process s \<and> done_closed s \<and>
     ctx_done (cancelled s) (the (ctx (node s))) \<and> ending s \<noteq> Some GracefulExit \<and> loop_at s = None"
proof -
  have law: "listen_law sample_listen" by (simp add: listen_law_def sample_listen_def)
  obtain w1 where "NewThetaRouter (sample ''offline'') sample_world = (Inr None, w1)"
    using sample_router by blast
  from steps_trans [OF steps_trans [OF start_run [OF this] interrupt_run] handlers_run]
  have s: "sample_run (([Main, Main, Main, Main] @ [Interrupt, Trap, Trap, Trap, Trap]) @ [Handlers])
      sample_process (interrupted w1)" .
  have "done_closed (interrupted w1)"
    "ctx_done (cancelled (interrupted w1)) (the (ctx (node (interrupted w1))))"
    by (simp_all add: run_defs Start_context_def runStart_ctx_def)
  with no_graceful_exit [OF law s] s show ?thesis by blast
qed

section \<open>Interrupts\<close>

definition trapped :: "event list \<Rightarrow> 'd process \<Rightarrow> bool" where
  "trapped es s \<longleftrightarrow>
     (main_at s = AtNotify \<longrightarrow> trap_at s = None) \<and>
     (trap_at s \<noteq> None \<and> trap_at s \<noteq> Some TrapReceive \<longrightarrow> 1 \<le> count_list es Interrupt) \<and>
     (ending s = None \<and> main_at s \<noteq> AtNotify \<and> \<not> notified s \<longrightarrow> 1 \<le> count_list es Interrupt) \<and>
     (ending s = Some Interrupted \<and> main_at s \<noteq> AtNotify \<longrightarrow> 2 \<le> count_list es Interrupt)"

lemma step_trapped:
  assumes "moves L listen e s s'" "trapped es s"
  shows "trapped (es @ [e]) s'"
  using assms(1)
proof (cases rule: movesE)
  case main
  then show ?thesis using assms(2)
    by (cases "main_at s")
      (auto simp: main_step_def trapped_def start_router_def
        split: if_splits prod.splits sum.splits option.splits)
next
  case (listens r)
  then show ?thesis using assms(2)
    by (auto simp: listen_returned_def trapped_def split: option.splits)
next
  case trap
  then show ?thesis using assms(2)
    by (auto simp: trap_step_def trapped_def split: option.splits trap_pc.splits if_splits)
next
  case waits
  then show ?thesis using assms(2)
    by (auto simp: wait_step_def trapped_def split: option.splits wait_pc.splits if_splits)
next
  case loops
  then show ?thesis using assms(2)
    by (auto simp: mainLoop_def trapped_def split: option.splits loop_pc.splits if_splits)
next
  case signals
  then show ?thesis using assms(2) by (auto simp: interrupt_def trapped_def)
next
  case (handles w)
  then show ?thesis using assms(2) by (auto simp: trapped_def)
qed

text \<open>
  C36. One interrupt never ends a process that has trapped the signal: unless it comes before
  \<open>signal.Notify\<close>, a process ended by an interrupt has received at least two.
\<close>

theorem two_interrupts:
  assumes "steps L listen es (launched w0) s" "ending s = Some Interrupted" "main_at s \<noteq> AtNotify"
  shows "2 \<le> count_list es Interrupt"
proof -
  have "trapped es s"
    using assms(1)
  proof (induction es "launched w0" s rule: steps.induct)
    case none
    show ?case by (simp add: trapped_def launched_def)
  next
    case (snoc es s e s')
    then show ?case using step_trapped by blast
  qed
  with assms(2,3) show ?thesis by (simp add: trapped_def)
qed

theorem two_interrupts_witness:
  "\<exists>es s. sample_run es sample_process s \<and> ending s = Some Interrupted \<and> 2 \<le> count_list es Interrupt"
proof -
  obtain w1 where "NewThetaRouter (sample ''offline'') sample_world = (Inr None, w1)"
    using sample_router by blast
  from steps_trans [OF start_run [OF this] interrupt_run]
  have "sample_run ([Main, Main, Main, Main] @ [Interrupt, Trap, Trap, Trap, Trap]) sample_process
      (interrupted w1)" .
  then have s: "sample_run (([Main, Main, Main, Main] @ [Interrupt, Trap, Trap, Trap, Trap]) @ [Interrupt])
      sample_process (interrupt (interrupted w1))"
    by (rule steps.snoc) (simp add: run_defs)
  have e: "ending (interrupt (interrupted w1)) = Some Interrupted"
    "main_at (interrupt (interrupted w1)) \<noteq> AtNotify"
    by (simp_all add: interrupt_def run_defs)
  with two_interrupts [OF s e] s show ?thesis by blast
qed

end
