(* ===== verification/AssembleTx.thy ===== *)
theory AssembleTx
  imports ConstructionIntent
begin

text \<open>
  \<open>AssembleTx\<close> of \<open>common/utils.go\<close>, which builds a ledger transaction from operations and
  metadata. It is exported; no other code of the repository calls it.
\<close>

section \<open>Third-party and implementation-defined behaviour\<close>

text \<open>
  \<open>range_ops\<close> is the order in which Go walks a map of operations by address;
  \<open>SetString_failed\<close> is the undefined value \<open>big.Int.SetString\<close> leaves behind on failure;
  \<open>float_i64\<close> converts a float that is out of range.
\<close>

record 'd asmlib = "'d conslib" +
  range_ops :: "(string \<times> Operation list) list \<Rightarrow> (string \<times> Operation list) list"
  SetString_failed :: "string \<Rightarrow> int"
  float_i64 :: "rat \<Rightarrow> int"

section \<open>Reading operations and metadata\<close>

text \<open>\<open>z := new(big.Int); z.SetString(s, 10)\<close> with the success flag ignored.\<close>

definition big_of_text :: "('d, 'a) asmlib_scheme \<Rightarrow> string \<Rightarrow> int" where
  "big_of_text L s = (case SetString10 s of Some n \<Rightarrow> n | None \<Rightarrow> SetString_failed L s)"

definition op_value_at :: "('d, 'a) asmlib_scheme \<Rightarrow> Operation list \<Rightarrow> nat \<Rightarrow> int go" where
  "op_value_at L ops i =
     andThen (index ops i) (\<lambda>op. andThen (deref (op_Amount op)) (\<lambda>am. Inr (big_of_text L (Value am))))"

definition op_address_at :: "('d, 'a) asmlib_scheme \<Rightarrow> Operation list \<Rightarrow> nat \<Rightarrow> address go" where
  "op_address_at L ops i =
     andThen (index ops i) (\<lambda>op. andThen (deref (op_Account op)) (\<lambda>a. Inr (HexToAddress L a)))"

text \<open>\<open>meta[k]\<close>: a missing key is the nil interface, whose type assertion fails.\<close>

definition meta_get :: "metadata \<Rightarrow> string \<Rightarrow> value" where
  "meta_get md k = (case md k of None \<Rightarrow> VNil | Some v \<Rightarrow> v)"

definition as_int64 :: "('d, 'a) asmlib_scheme \<Rightarrow> value \<Rightarrow> int go" where
  "as_int64 L v = andThen (as_float v) (\<lambda>x.
     Inr (if - (2 ^ 63) - 1 < x \<and> x < 2 ^ 63 then GoStd.truncate x else float_i64 L x))"

definition as_uint8 :: "('d, 'a) asmlib_scheme \<Rightarrow> value \<Rightarrow> u8 go" where
  "as_uint8 L v = andThen (as_float v) (\<lambda>x. Inr (float_to_word (float_u8 L) x))"

definition as_coins :: "value \<Rightarrow> Coins go" where
  "as_coins v = (case v of VCoins c \<Rightarrow> Inr c | _ \<Rightarrow> Inl FailedTypeAssertion)"

definition as_strings :: "value \<Rightarrow> string list go" where
  "as_strings v = (case v of VStrings s \<Rightarrow> Inr s | _ \<Rightarrow> Inl FailedTypeAssertion)"

definition as_splits :: "value \<Rightarrow> Split list go" where
  "as_splits v = (case v of VSplits s \<Rightarrow> Inr s | _ \<Rightarrow> Inl FailedTypeAssertion)"

definition as_bytes :: "value \<Rightarrow> byte list go" where
  "as_bytes v = (case v of VBytes b \<Rightarrow> Inr b | _ \<Rightarrow> Inl FailedTypeAssertion)"

definition as_bls_pubkey :: "value \<Rightarrow> byte list option go" where
  "as_bls_pubkey v = (case v of VBlsPubkey b \<Rightarrow> Inr b | _ \<Rightarrow> Inl FailedTypeAssertion)"

definition as_bls_signature :: "value \<Rightarrow> byte list option go" where
  "as_bls_signature v = (case v of VBlsSignature b \<Rightarrow> Inr b | _ \<Rightarrow> Inl FailedTypeAssertion)"

definition as_signature :: "value \<Rightarrow> signature option go" where
  "as_signature v = (case v of VSignature s \<Rightarrow> Inr s | _ \<Rightarrow> Inl FailedTypeAssertion)"

text \<open>Coins, inputs and outputs with the fields that are set; the others are zero.\<close>

definition tfuel_only :: "int \<Rightarrow> Coins" where
  "tfuel_only n = \<lparr>ThetaWei = None, TFuelWei = Some n\<rparr>"

definition new_input :: "address \<Rightarrow> Coins \<Rightarrow> u64 \<Rightarrow> TxInput" where
  "new_input a c n = \<lparr>in_Address = a, in_Coins = c, in_Sequence = n, in_Signature = None\<rparr>"

definition new_output :: "address \<Rightarrow> Coins \<Rightarrow> TxOutput" where
  "new_output a c = \<lparr>out_Address = a, out_Coins = c\<rparr>"

section \<open>Coinbase and slash\<close>

fun assemble_outputs :: "('d, 'a) asmlib_scheme \<Rightarrow> Operation list \<Rightarrow> TxOutput list go" where
  "assemble_outputs L [] = Inr []"
| "assemble_outputs L (op # rest) =
     andThen (op_value_at L [op] 0) (\<lambda>tFuelWei.
     andThen (op_address_at L [op] 0) (\<lambda>a.
     andThen (assemble_outputs L rest) (\<lambda>outputs.
       Inr (new_output a (tfuel_only tFuelWei) # outputs))))"

definition assemble_coinbase :: "('d, 'a) asmlib_scheme \<Rightarrow> Operation list \<Rightarrow> u64 \<Rightarrow> ledger_tx go" where
  "assemble_coinbase L ops sequence =
     andThen (op_value_at L ops 0) (\<lambda>inputAmount.
     andThen (assemble_outputs L (drop 1 ops)) (\<lambda>outputs.
     andThen (op_address_at L ops 0) (\<lambda>a.
       Inr (TxCoinbase \<lparr>cb_Proposer = new_input a (tfuel_only inputAmount) sequence,
                        cb_Outputs = outputs, cb_BlockHeight = 0\<rparr>))))"

definition assemble_slash :: "('d, 'a) asmlib_scheme \<Rightarrow> Operation list \<Rightarrow> u64 \<Rightarrow> ledger_tx go" where
  "assemble_slash L ops sequence =
     andThen (op_value_at L ops 0) (\<lambda>inputAmount.
     andThen (op_address_at L ops 0) (\<lambda>a.
       Inr (TxSlash \<lparr>sl_Proposer = new_input a (tfuel_only inputAmount) sequence,
                     sl_SlashedAddress = 0, sl_ReserveSequence = 0, sl_SlashProof = []\<rparr>)))"

section \<open>Transfers\<close>

text \<open>\<open>m[addr] = append(m[addr], op)\<close>\<close>

fun add_op :: "string \<Rightarrow> Operation \<Rightarrow> (string \<times> Operation list) list \<Rightarrow> (string \<times> Operation list) list" where
  "add_op a op [] = [(a, [op])]"
| "add_op a op ((b, ops) # rest) =
     (if a = b then (b, ops @ [op]) # rest else (b, ops) # add_op a op rest)"

text \<open>The first loop: input and output operations by account, any other operation skipped.\<close>

fun group_ops :: "Operation list \<Rightarrow>
    (string \<times> Operation list) list \<times> (string \<times> Operation list) list \<Rightarrow>
    ((string \<times> Operation list) list \<times> (string \<times> Operation list) list) go" where
  "group_ops [] (inputMap, outputMap) = Inr (inputMap, outputMap)"
| "group_ops (op # rest) (inputMap, outputMap) =
     (if op_Type op = TxOpType_String SendTxInput
      then andThen (deref (op_Account op)) (\<lambda>a. group_ops rest (add_op a op inputMap, outputMap))
      else if op_Type op = TxOpType_String SendTxOutput
      then andThen (deref (op_Account op)) (\<lambda>a. group_ops rest (inputMap, add_op a op outputMap))
      else group_ops rest (inputMap, outputMap))"

text \<open>The coins of one account: a later operation in the same currency replaces an earlier one.\<close>

fun assemble_coins :: "('d, 'a) asmlib_scheme \<Rightarrow> Operation list \<Rightarrow> Coins \<Rightarrow> Coins go" where
  "assemble_coins L [] c = Inr c"
| "assemble_coins L (op # rest) c =
     andThen (deref (op_Amount op)) (\<lambda>am.
       let coin = Some (big_of_text L (Value am)) in
       if EqualFold (Symbol (Amount_Currency am)) (Symbol GetThetaCurrency)
       then assemble_coins L rest (c\<lparr>ThetaWei := coin\<rparr>)
       else if EqualFold (Symbol (Amount_Currency am)) (Symbol GetTFuelCurrency)
       then assemble_coins L rest (c\<lparr>TFuelWei := coin\<rparr>)
       else assemble_coins L rest c)"

fun assemble_entries ::
    "('d, 'a) asmlib_scheme \<Rightarrow> (address \<Rightarrow> Coins \<Rightarrow> 'b) \<Rightarrow> (string \<times> Operation list) list \<Rightarrow> 'b list go" where
  "assemble_entries L mk [] = Inr []"
| "assemble_entries L mk ((addr, ops) # rest) =
     andThen (assemble_coins L ops \<lparr>ThetaWei = None, TFuelWei = None\<rparr>) (\<lambda>c.
     andThen (assemble_entries L mk rest) (\<lambda>xs.
       Inr (mk (HexToAddress L addr) c # xs)))"

definition assemble_send :: "('d, 'a) asmlib_scheme \<Rightarrow> Operation list \<Rightarrow> u64 \<Rightarrow> Coins \<Rightarrow> ledger_tx go" where
  "assemble_send L ops sequence fee =
     andThen (group_ops ops ([], [])) (\<lambda>(inputMap, outputMap).
     andThen (assemble_entries L (\<lambda>a c. new_input a c sequence) (range_ops L inputMap)) (\<lambda>inputs.
     andThen (assemble_entries L new_output (range_ops L outputMap)) (\<lambda>outputs.
       Inr (TxSend \<lparr>send_Fee = fee, send_Inputs = inputs, send_Outputs = outputs\<rparr>))))"

section \<open>Funds and services\<close>

definition assemble_reserve :: "('d, 'a) asmlib_scheme \<Rightarrow> Operation list \<Rightarrow> metadata \<Rightarrow> u64 \<Rightarrow> Coins \<Rightarrow> ledger_tx go" where
  "assemble_reserve L ops md sequence fee =
     andThen (op_value_at L ops 0) (\<lambda>inputAmount.
     andThen (op_address_at L ops 0) (\<lambda>a.
     andThen (as_coins (meta_get md ''collateral'')) (\<lambda>collateral.
     andThen (as_strings (meta_get md ''resource_ids'')) (\<lambda>resourceIDs.
     andThen (as_uint64 L (meta_get md ''duration'')) (\<lambda>duration.
       Inr (TxReserveFund \<lparr>rsv_Fee = fee, rsv_Source = new_input a (tfuel_only inputAmount) sequence,
              rsv_Collateral = collateral, rsv_ResourceIDs = resourceIDs, rsv_Duration = duration\<rparr>))))))"

definition assemble_release :: "('d, 'a) asmlib_scheme \<Rightarrow> Operation list \<Rightarrow> metadata \<Rightarrow> u64 \<Rightarrow> Coins \<Rightarrow> ledger_tx go" where
  "assemble_release L ops md sequence fee =
     andThen (op_value_at L ops 0) (\<lambda>inputAmount.
     andThen (op_address_at L ops 0) (\<lambda>a.
     andThen (as_uint64 L (meta_get md ''reserve_sequence'')) (\<lambda>reserve.
       Inr (TxReleaseFund \<lparr>rel_Fee = fee, rel_Source = new_input a (tfuel_only inputAmount) sequence,
              rel_ReserveSequence = reserve\<rparr>))))"

definition assemble_payment :: "('d, 'a) asmlib_scheme \<Rightarrow> Operation list \<Rightarrow> metadata \<Rightarrow> u64 \<Rightarrow> Coins \<Rightarrow> ledger_tx go" where
  "assemble_payment L ops md sequence fee =
     andThen (op_value_at L ops 0) (\<lambda>sourceAmount.
     andThen (op_value_at L ops 1) (\<lambda>targetAmount.
     andThen (op_address_at L ops 0) (\<lambda>source.
     andThen (op_address_at L ops 1) (\<lambda>target.
     andThen (as_uint64 L (meta_get md ''payment_sequence'')) (\<lambda>payment.
     andThen (as_uint64 L (meta_get md ''reserve_sequence'')) (\<lambda>reserve.
     andThen (as_string (meta_get md ''resource_id'')) (\<lambda>resource.
       Inr (TxServicePayment \<lparr>sp_Fee = fee, sp_Source = new_input source (tfuel_only sourceAmount) sequence,
              sp_Target = new_input target (tfuel_only targetAmount) 0, sp_PaymentSequence = payment,
              sp_ReserveSequence = reserve, sp_ResourceID = resource\<rparr>))))))))"

definition assemble_split :: "('d, 'a) asmlib_scheme \<Rightarrow> Operation list \<Rightarrow> metadata \<Rightarrow> u64 \<Rightarrow> Coins \<Rightarrow> ledger_tx go" where
  "assemble_split L ops md sequence fee =
     andThen (op_value_at L ops 0) (\<lambda>sourceAmount.
     andThen (op_address_at L ops 0) (\<lambda>a.
     andThen (as_string (meta_get md ''resource_id'')) (\<lambda>resource.
     andThen (as_splits (meta_get md ''splits'')) (\<lambda>splits.
     andThen (as_uint64 L (meta_get md ''duration'')) (\<lambda>duration.
       Inr (TxSplitRule \<lparr>sr_Fee = fee, sr_ResourceID = resource,
              sr_Initiator = new_input a (tfuel_only sourceAmount) sequence,
              sr_Splits = splits, sr_Duration = duration\<rparr>))))))"

section \<open>Contracts and stakes\<close>

definition assemble_contract :: "('d, 'a) asmlib_scheme \<Rightarrow> Operation list \<Rightarrow> metadata \<Rightarrow> u64 \<Rightarrow> ledger_tx go" where
  "assemble_contract L ops md sequence =
     andThen (op_value_at L ops 0) (\<lambda>fromTFuelWei.
     andThen (op_value_at L ops 1) (\<lambda>toTFuelWei.
     andThen (op_address_at L ops 0) (\<lambda>from.
     andThen (op_address_at L ops 1) (\<lambda>to.
     andThen (as_uint64 L (meta_get md ''gas_limit'')) (\<lambda>gasLimit.
     andThen (as_int64 L (meta_get md ''gas_price'')) (\<lambda>gasPrice.
     andThen (as_bytes (meta_get md ''data'')) (\<lambda>dat.
       Inr (TxSmartContract
         \<lparr>sc_From = new_input from \<lparr>ThetaWei = Some 0, TFuelWei = Some fromTFuelWei\<rparr> sequence,
          sc_To = new_output to \<lparr>ThetaWei = Some 0, TFuelWei = Some toTFuelWei\<rparr>,
          sc_GasLimit = gasLimit, sc_GasPrice = Some gasPrice, sc_Data = dat\<rparr>))))))))"

text \<open>
  The four amounts that deposits, withdrawals and reward distributions read: the coins of the
  first account from operations 0 and 1, those of the second from operations 2 and 3, while
  the accounts are those of operations 0 and 1.
\<close>

definition four_values :: "('d, 'a) asmlib_scheme \<Rightarrow> Operation list \<Rightarrow> (Coins \<times> Coins) go" where
  "four_values L ops =
     andThen (op_value_at L ops 0) (\<lambda>a.
     andThen (op_value_at L ops 1) (\<lambda>b.
     andThen (op_value_at L ops 2) (\<lambda>c.
     andThen (op_value_at L ops 3) (\<lambda>d.
       Inr (\<lparr>ThetaWei = Some a, TFuelWei = Some b\<rparr>, \<lparr>ThetaWei = Some c, TFuelWei = Some d\<rparr>)))))"

text \<open>An optional member, for \<open>if v, ok := meta[k]; ok { field = v.(T) }\<close> on a pointer field.\<close>

definition optional :: "(value \<Rightarrow> 'b option go) \<Rightarrow> metadata \<Rightarrow> string \<Rightarrow> 'b option go" where
  "optional assert md k = (case md k of None \<Rightarrow> Inr None | Some v \<Rightarrow> assert v)"

definition assemble_deposit :: "('d, 'a) asmlib_scheme \<Rightarrow> Operation list \<Rightarrow> metadata \<Rightarrow> u64 \<Rightarrow> Coins \<Rightarrow> ledger_tx go" where
  "assemble_deposit L ops md sequence fee =
     andThen (four_values L ops) (\<lambda>(sourceCoins, holderCoins).
     andThen (as_uint8 L (meta_get md ''purpose'')) (\<lambda>purpose.
     andThen (op_address_at L ops 0) (\<lambda>source.
     andThen (op_address_at L ops 1) (\<lambda>holder.
     andThen (optional as_bls_pubkey md ''bls_pub_key'') (\<lambda>pubkey.
     andThen (optional as_bls_signature md ''bls_pop'') (\<lambda>pop.
     andThen (optional as_signature md ''holder_sig'') (\<lambda>sig.
       Inr (TxDepositStakeV2 \<lparr>ds_Fee = fee, ds_Source = new_input source sourceCoins sequence,
              ds_Holder = new_output holder holderCoins, ds_Purpose = purpose,
              ds_BlsPubkey = pubkey, ds_BlsPop = pop, ds_HolderSig = sig\<rparr>))))))))"

definition assemble_withdraw :: "('d, 'a) asmlib_scheme \<Rightarrow> Operation list \<Rightarrow> metadata \<Rightarrow> u64 \<Rightarrow> Coins \<Rightarrow> ledger_tx go" where
  "assemble_withdraw L ops md sequence fee =
     andThen (four_values L ops) (\<lambda>(sourceCoins, holderCoins).
     andThen (as_uint8 L (meta_get md ''purpose'')) (\<lambda>purpose.
     andThen (op_address_at L ops 0) (\<lambda>source.
     andThen (op_address_at L ops 1) (\<lambda>holder.
       Inr (TxWithdrawStake \<lparr>ws_Fee = fee, ws_Source = new_input source sourceCoins sequence,
              ws_Holder = new_output holder holderCoins, ws_Purpose = purpose\<rparr>)))))"

definition assemble_reward :: "('d, 'a) asmlib_scheme \<Rightarrow> Operation list \<Rightarrow> metadata \<Rightarrow> u64 \<Rightarrow> Coins \<Rightarrow> ledger_tx go" where
  "assemble_reward L ops md sequence fee =
     andThen (four_values L ops) (\<lambda>(holderCoins, beneficiaryCoins).
     andThen (as_uint64 L (meta_get md ''split_basis_point'')) (\<lambda>split.
     andThen (op_address_at L ops 0) (\<lambda>holder.
     andThen (op_address_at L ops 1) (\<lambda>beneficiary.
       Inr (TxStakeRewardDistribution \<lparr>rd_Fee = fee, rd_Holder = new_input holder holderCoins sequence,
              rd_Beneficiary = new_output beneficiary beneficiaryCoins, rd_SplitBasisPoint = split\<rparr>)))))"

section \<open>AssembleTx\<close>

definition assemble_by_type ::
    "('d, 'a) asmlib_scheme \<Rightarrow> TxType \<Rightarrow> Operation list \<Rightarrow> metadata \<Rightarrow> u64 \<Rightarrow> Coins \<Rightarrow> (string + ledger_tx) go" where
  "assemble_by_type L txType ops md sequence fee =
     (if txType = CoinbaseTx then andThen (assemble_coinbase L ops sequence) (\<lambda>tx. Inr (Inr tx))
      else if txType = SlashTx then andThen (assemble_slash L ops sequence) (\<lambda>tx. Inr (Inr tx))
      else if txType = SendTx then andThen (assemble_send L ops sequence fee) (\<lambda>tx. Inr (Inr tx))
      else if txType = ReserveFundTx then andThen (assemble_reserve L ops md sequence fee) (\<lambda>tx. Inr (Inr tx))
      else if txType = ReleaseFundTx then andThen (assemble_release L ops md sequence fee) (\<lambda>tx. Inr (Inr tx))
      else if txType = ServicePaymentTx then andThen (assemble_payment L ops md sequence fee) (\<lambda>tx. Inr (Inr tx))
      else if txType = SplitRuleTx then andThen (assemble_split L ops md sequence fee) (\<lambda>tx. Inr (Inr tx))
      else if txType = SmartContractTx then andThen (assemble_contract L ops md sequence) (\<lambda>tx. Inr (Inr tx))
      else if txType = DepositStakeTx \<or> txType = DepositStakeV2Tx
        then andThen (assemble_deposit L ops md sequence fee) (\<lambda>tx. Inr (Inr tx))
      else if txType = WithdrawStakeTx then andThen (assemble_withdraw L ops md sequence fee) (\<lambda>tx. Inr (Inr tx))
      else if txType = StakeRewardDistributionTx
        then andThen (assemble_reward L ops md sequence fee) (\<lambda>tx. Inr (Inr tx))
      else Inr (Inl ''unsupported tx type''))"

text \<open>A missing \<open>fee\<close> panics, for every type.\<close>

definition AssembleTx :: "('d, 'a) asmlib_scheme \<Rightarrow> Operation list \<Rightarrow> metadata \<Rightarrow> (string + ledger_tx) go" where
  "AssembleTx L ops md =
     (case md ''type'' of
        None \<Rightarrow> Inr (Inl ''missing tx type'')
      | Some typ \<Rightarrow>
     (case md ''sequence'' of
        None \<Rightarrow> Inr (Inl ''missing tx sequence'')
      | Some seq \<Rightarrow>
          andThen (as_TxType L typ) (\<lambda>txType.
          andThen (as_uint64 L seq) (\<lambda>sequence.
          andThen (as_int64 L (meta_get md ''fee'')) (\<lambda>fee.
            assemble_by_type L txType ops md sequence (tfuel_only fee))))))"

end
