(* ===== verification/AssembleProperties.thy ===== *)
theory AssembleProperties
  imports AssembleTx ParserProperties
begin

text \<open>
  What \<open>AssembleTx\<close> makes of the operations that the parsers report: it is no inverse of them.
\<close>

section \<open>Transfers\<close>

definition range_law :: "('d, 'a) asmlib_scheme \<Rightarrow> bool" where
  "range_law L \<longleftrightarrow> (\<forall>m. mset (range_ops L m) = mset m)"

lemma range_single:
  assumes "range_law L"
  shows "range_ops L [x] = [x]"
proof -
  have "mset (range_ops L [x]) = {#x#}" using assms by (simp add: range_law_def)
  then show ?thesis by simp
qed

lemma big_of_int_text [simp]: "big_of_text L (int_text n) = n"
  by (simp add: big_of_text_def)

lemma assemble_two_coins:
  "assemble_coins L [mk_op i r t st a (int_text x) GetThetaCurrency md,
      mk_op i' r' t' st' a' (int_text y) GetTFuelCurrency md'] c
    = Inr (c\<lparr>ThetaWei := Some x, TFuelWei := Some y\<rparr>)"
proof -
  have "\<not> EqualFold ''TFUEL'' ''THETA''" by code_simp
  then show ?thesis by (simp add: Let_def)
qed

lemma as_TxType_of_int:
  "0 \<le> k \<Longrightarrow> k < 256 \<Longrightarrow> as_TxType L (VFloat (of_int k)) = Inr (word_of_int k)"
  using float_to_word_of_int [of k, where f = "float_u8 L"] by (simp add: as_TxType_def as_float_def)

lemma as_uint64_of_int:
  "0 \<le> n \<Longrightarrow> n < 2 ^ 64 \<Longrightarrow> as_uint64 L (VFloat (of_int n)) = Inr (word_of_int n)"
  using float_to_word_of_int [of n, where f = "float_u64 L"] by (simp add: as_uint64_def as_float_def)

lemma as_int64_of_int:
  assumes "- (2 ^ 63) \<le> f" "f < 2 ^ 63"
  shows "as_int64 L (VFloat (of_int f)) = Inr f"
proof -
  have "(of_int f :: rat) < of_int (2 ^ 63)" using assms(2) by (simp only: of_int_less_iff)
  moreover have "of_int (- (2 ^ 63) - 1) < (of_int f :: rat)" using assms(1) by (simp only: of_int_less_iff)
  ultimately show ?thesis by (simp add: as_int64_def as_float_def)
qed

text \<open>
  C29. Assembling the operations of a parsed transfer with one input and one output does not
  give the transfer back: the output is the same, but the coins of the input come out
  negated, the TFUEL moreover without the fee, since operations debit with negative amounts
  while a ledger input states what it spends.
\<close>

theorem assembled_transfer:
  assumes "address_law L" "range_law L"
    and "send_Inputs t = [i]" "send_Outputs t = [o']" "TFuelWei (send_Fee t) = Some f"
    and "ParseSendTx L t st SendTx = Inr (md0, ops)"
    and "md ''type'' = Some (VFloat 2)"
    and "md ''sequence'' = Some (VFloat (of_int n))" "0 \<le> n" "n < 2 ^ 64"
    and "md ''fee'' = Some (VFloat (of_int g))" "- (2 ^ 63) \<le> g" "g < 2 ^ 63"
  shows "AssembleTx L ops md = Inr (Inr (TxSend
    \<lparr>send_Fee = tfuel_only g,
     send_Inputs = [new_input (in_Address i)
       \<lparr>ThetaWei = Some (- or_zero (ThetaWei (in_Coins i))),
        TFuelWei = Some (f - or_zero (TFuelWei (in_Coins i)))\<rparr> (word_of_int n)],
     send_Outputs = [new_output (out_Address o')
       \<lparr>ThetaWei = Some (or_zero (ThetaWei (out_Coins o'))),
        TFuelWei = Some (or_zero (TFuelWei (out_Coins o')))\<rparr>]\<rparr>))"
proof -
  have t: "as_TxType L (VFloat 2) = Inr SendTx"
    using as_TxType_of_int [of 2 L] by simp
  note s = as_uint64_of_int [OF assms(9,10), of L] as_int64_of_int [OF assms(12,13), of L]
  from assms(3-6) show ?thesis
    by (auto simp: ParseSendTx_def Let_def AssembleTx_def assms(7,8,11) meta_get_def t s assemble_by_type_def
        assemble_send_def range_single [OF assms(2)] assms(1) [unfolded address_law_def]
        assemble_two_coins simp del: assemble_coins.simps TxOpType_String.simps)
qed

definition sample_asm :: "sample_db asmlib" where
  "sample_asm = conslib.extend (conslib.truncate (sample ''online'')) (asmlib.fields rev (\<lambda>s. 0) (\<lambda>x. 0))"

lemma sample_asm_laws: "address_law sample_asm" "range_law sample_asm"
  by (simp_all add: sample_asm_def address_law_def range_law_def sample_def conslib.defs asmlib.defs)

definition transfer_metadata :: metadata where
  "transfer_metadata = [''type'' \<mapsto> VFloat 2, ''sequence'' \<mapsto> VFloat (of_int 6), ''fee'' \<mapsto> VFloat (of_int 5)]"

theorem assembled_transfer_witness:
  "\<exists>md ops tx. ParseSendTx sample_asm one_to_one (Some ''valid'') SendTx = Inr (md, ops) \<and>
     AssembleTx sample_asm ops transfer_metadata = Inr (Inr (TxSend tx)) \<and>
     map in_Coins (send_Inputs tx) = [\<lparr>ThetaWei = Some (- 70), TFuelWei = Some (- 40)\<rparr>] \<and>
     map out_Coins (send_Outputs tx) = [\<lparr>ThetaWei = Some 70, TFuelWei = Some 40\<rparr>]"
proof -
  obtain md ops where p: "ParseSendTx sample_asm one_to_one (Some ''valid'') SendTx = Inr (md, ops)"
    by (simp add: ParseSendTx_def Let_def sample_txs)
  have "AssembleTx sample_asm ops transfer_metadata = Inr (Inr (TxSend
      \<lparr>send_Fee = tfuel_only 5,
       send_Inputs = [new_input 1 \<lparr>ThetaWei = Some (- 70), TFuelWei = Some (- 40)\<rparr> 6],
       send_Outputs = [new_output 2 \<lparr>ThetaWei = Some 70, TFuelWei = Some 40\<rparr>]\<rparr>))"
    using assembled_transfer [OF sample_asm_laws _ _ _ p, of "input_of 1 70 45" "output_of 2 70 40" 5
        transfer_metadata 6 5]
    by (simp add: sample_txs transfer_metadata_def)
  with p show ?thesis by (fastforce simp: new_input_def new_output_def)
qed

section \<open>Stakes\<close>

text \<open>The operations an assembler with \<open>four_values\<close> can use: at least four, all with amounts.\<close>

lemma op_value_at_present:
  assumes "\<forall>op \<in> set ops. op_Amount op \<noteq> None" "i < length ops"
  shows "\<exists>v. op_value_at L ops i = Inr v"
proof -
  have "op_Amount (ops ! i) \<noteq> None" using assms by simp
  then show ?thesis using assms(2) by (auto simp: op_value_at_def index_def)
qed

lemma op_value_at_short: "length ops \<le> i \<Longrightarrow> op_value_at L ops i = Inl IndexOutOfRange"
  by (simp add: op_value_at_def index_def)

lemma four_values_short:
  assumes "\<forall>op \<in> set ops. op_Amount op \<noteq> None" "length ops < 4"
  shows "four_values L ops = Inl IndexOutOfRange"
proof -
  have "\<exists>v. op_value_at L ops i = Inr v" if "i < length ops" for i
    using op_value_at_present [OF assms(1) that] .
  moreover have "op_value_at L ops i = Inl IndexOutOfRange" if "length ops \<le> i" for i
    using op_value_at_short [OF that] .
  ultimately have each: "(\<exists>v. op_value_at L ops i = Inr v) \<or> op_value_at L ops i = Inl IndexOutOfRange" for i
    by (meson not_le)
  have "op_value_at L ops 3 = Inl IndexOutOfRange" by (rule op_value_at_short) (use assms(2) in linarith)
  then show ?thesis
    using each [of 0] each [of 1] each [of 2] by (auto simp: four_values_def)
qed

lemma stake_operations_few:
  "ParseWithdrawStakeTx L w st ty = Inr (md, ops) \<Longrightarrow> length ops < 4 \<and> (\<forall>op \<in> set ops. op_Amount op \<noteq> None)"
  "ParseDepositStakeTx L d st ty = Inr (md, ops) \<Longrightarrow> length ops < 4 \<and> (\<forall>op \<in> set ops. op_Amount op \<noteq> None)"
  by (auto simp: ParseWithdrawStakeTx_def ParseDepositStakeTx_def Let_def go_simps mk_op_def
      split: if_splits)

text \<open>
  C37. No stake transaction can be assembled from the operations that are reported for it:
  \<open>AssembleTx\<close> reads four amounts, a parsed withdrawal has one operation and a parsed deposit
  at most three, so it panics with an index out of range, for every sequence number and fee.
\<close>

theorem assembled_stakes_panic:
  assumes "(ty = WithdrawStakeTx \<and> ParseWithdrawStakeTx L w st ty = Inr (md0, ops)) \<or>
      ((ty = DepositStakeTx \<or> ty = DepositStakeV2Tx) \<and> ParseDepositStakeTx L d st ty = Inr (md0, ops))"
    and "md ''type'' = Some (VFloat (of_int (uint ty)))" "md ''sequence'' = Some (VFloat n)"
    and "md ''fee'' = Some (VFloat g)"
  shows "AssembleTx L ops md = Inl IndexOutOfRange"
proof -
  have few: "length ops < 4 \<and> (\<forall>op \<in> set ops. op_Amount op \<noteq> None)"
    using assms(1) stake_operations_few by metis
  have "as_TxType L (VFloat (of_int (uint ty))) = Inr ty"
    using as_TxType_of_int [of "uint ty" L] uint_lt2p [of ty] by simp
  with assms(1) four_values_short [of ops L] few show ?thesis
    by (auto simp: AssembleTx_def assms(2-4) as_uint64_def as_int64_def meta_get_def as_float_def
        assemble_by_type_def assemble_withdraw_def assemble_deposit_def)
qed

theorem assembled_stakes_panic_witness:
  "\<exists>md0 ops. ParseWithdrawStakeTx sample_asm sample_withdrawal None WithdrawStakeTx = Inr (md0, ops) \<and>
     AssembleTx sample_asm ops [''type'' \<mapsto> VFloat 9, ''sequence'' \<mapsto> VFloat 8, ''fee'' \<mapsto> VFloat 3]
       = Inl IndexOutOfRange"
proof -
  obtain md0 ops where p: "ParseWithdrawStakeTx sample_asm sample_withdrawal None WithdrawStakeTx
      = Inr (md0, ops)"
    by (simp add: ParseWithdrawStakeTx_def sample_withdrawal_def)
  have "AssembleTx sample_asm ops [''type'' \<mapsto> VFloat 9, ''sequence'' \<mapsto> VFloat 8, ''fee'' \<mapsto> VFloat 3]
      = Inl IndexOutOfRange"
    using p by (intro assembled_stakes_panic [of WithdrawStakeTx sample_asm sample_withdrawal None md0])
      (simp_all add: WithdrawStakeTx_def)
  with p show ?thesis by blast
qed

end
