(* ===== verification/Spec2Isabelle.thy ===== *)
theory Spec2Isabelle
  imports ParserProperties StoreProperties ReturnLedger Concurrency ServiceProperties
    ConstructionProperties ServerProperties ErrorProperties ProcessProperties AssembleProperties
begin

text \<open>
  A model of the Theta Rosetta RPC adaptor, a Go server that answers the Rosetta API of
  Coinbase for a Theta node, and the properties that make it correct.

  The program. \<open>cmds/start.go\<close> makes a node (\<open>node/node.go\<close>), which starts the servers
  (\<open>services/server.go\<close>): the Theta node is asked for its status, a LevelDB database of
  returned stakes is opened and, when it is new, filled from the stakes of the node's snapshot
  (\<open>common/stake_service.go\<close>); then HTTP requests are served by the handlers of \<open>services/\<close>.
  The data handlers call the Theta node, decode its answer and translate ledger transactions
  into lists of Rosetta operations (\<open>common/utils.go\<close>). A stake withdrawal takes effect
  \<open>ReturnLockingPeriod\<close> blocks later without a transaction of its own: when a block with a
  withdrawal is parsed, its return is written to the database under the height at which it is
  due, and the block of that height lists it. The construction handlers go the other way,
  from operations to an unsigned transaction, its signing payload and the signed transaction.

  State. \<open>world\<close> (theory \<open>Rpc\<close>) is what one request leaves for the next: the global chain id,
  the heap of the global error values, whose texts the handlers change, the log of the calls to the
  node, and the database. A handler is a function from the request and the world to an outcome
  (a response, an error or a panic) and a new world. \<open>process\<close> (theory \<open>Process\<close>) adds the
  goroutines of the start command, the node, its contexts and the way the process ends; what the
  handlers of requests, in goroutines of their own, do to the world is left open there.
  \<open>recorder\<close> (theory \<open>Concurrency\<close>) is the position of a \<open>/block\<close> request between its calls to the
  node and to the database, for requests that overlap.

  The theories, each with the code it translates.
  \<open>Prelude\<close> and \<open>GoStd\<close>: panics as values, \<open>math/big\<close>, \<open>strings\<close>, \<open>encoding/hex\<close> and the
  conversions of floats. \<open>Types\<close>: \<open>common/types.go\<close>. \<open>Ledger\<close>: the transactions of the Theta
  library and Rosetta operations as data. \<open>Operations\<close>: the shape of the parsers, with the interfaces
  \<open>tx_parser\<close> and \<open>linked_tx_parser\<close>, which \<open>ParseTransfers\<close>, \<open>ParseFunds\<close>, \<open>ParseContracts\<close> and
  \<open>ParseStakes\<close> interpret on the parsers of \<open>common/utils.go\<close>. \<open>Errors\<close>: \<open>common/errors.go\<close>.
  \<open>KVStore\<close>: \<open>common/db.go\<close> and \<open>common/kvstore.go\<close>. \<open>Rpc\<close>: \<open>common/config.go\<close>, the calls and the
  network check of \<open>common/utils.go\<close>. \<open>StakeService\<close>: \<open>common/stake_service.go\<close>. \<open>ParseTx\<close>: the dispatch
  on the transaction type and the recording of withdrawals. \<open>Services\<close>, \<open>AccountService\<close>,
  \<open>BlockService\<close>, \<open>MempoolService\<close>, \<open>NetworkService\<close>, \<open>ConstructionService\<close>: the handlers of the files of
  these names, with the interface \<open>endpoint\<close> of what every handler keeps. \<open>Server\<close>: the start-up
  and the requests of \<open>services/server.go\<close>. \<open>Process\<close>: \<open>cmds/start.go\<close>, \<open>node/node.go\<close> and
  \<open>StartServers\<close>. \<open>AssembleTx\<close>: the function of this name of \<open>common/utils.go\<close>, which nothing calls.
  \<open>Returns\<close> and \<open>ConstructionIntent\<close> hold the lemmas on withdrawals across requests and on the
  construction flow. \<open>Samples\<close> instantiates every parameter, so that the laws are seen to hold
  together and the witnesses can be evaluated.

  The properties. \<open>ParserProperties\<close>: operations are well formed, linked backwards and add up to what
  the ledger did; where they do not, the difference is stated exactly. \<open>StoreProperties\<close>: what the
  snapshot stores, what a block lists, and that a withdrawal is listed by the block in which its stake
  returns. \<open>ReturnLedger\<close>: blocks and whole histories of requests refine an abstract ledger of promised
  returns. \<open>Concurrency\<close>: a recorder left alone is the loop of \<open>/block\<close>; requests for different blocks may
  overlap in any way and still refine the ledger; two requests for the same block can lose a
  withdrawal. \<open>ServiceProperties\<close>: balances, block headers, the network endpoints and their failures.
  \<open>ConstructionProperties\<close>: what was requested is what is signed and parsed back, signatures are
  verified, fees and sequence numbers. \<open>ServerProperties\<close>: start-up, the invariant of all histories,
  offline mode, the two copies of the transaction look-up. \<open>ErrorProperties\<close>: every error that is
  answered is announced, but for one look-up. \<open>ProcessProperties\<close>: the process never exits gracefully
  and takes two interrupts to end. \<open>AssembleProperties\<close>: \<open>AssembleTx\<close> is not the inverse of the parsers.

  Parameters. What the repository does not contain is a field of a library record (\<open>thetalib\<close>,
  \<open>rpclib\<close>, \<open>storelib\<close>, \<open>stakelib\<close>, \<open>servlib\<close>, \<open>conslib\<close>, \<open>startlib\<close>, \<open>asmlib\<close>): the node's answers as a function
  of all earlier calls, JSON decoding into third-party structs, hashes and signatures, the
  serialisation of transactions, LevelDB, RLP, the operation matcher and asserter of the Rosetta
  SDK, the visiting order of Go maps. Laws of these are named hypotheses of the properties that use
  them (\<open>db_ok\<close> and \<open>store_laws\<close>, \<open>match_law\<close>, \<open>codec_law\<close>, \<open>address_law\<close>, \<open>signature_law\<close>, \<open>range_law\<close>, \<open>listen_law\<close>).
  None of them says that a call succeeds: a write to LevelDB is atomic, so that one which reports an
  error has happened or has not, and RLP may refuse a value (it has no negative numbers) but decodes
  what it has encoded. What a read answers, errors included, is a function of the database; a read
  that fails at one time and not at another is not modelled.

  Machine integers. Heights, sequence numbers, times and gas are 64-bit words and wrap as in Go,
  transaction types are bytes, conversions between signed, unsigned and float are written out;
  \<open>*big.Int\<close> is an optional integer, \<open>None\<close> the nil pointer. No fuel is used: every loop of
  the program runs over a list and is a structural recursion, so the functions are total, and a panic is
  a value.

  Not modelled. \<open>cmds/root.go\<close> and \<open>main.go\<close> set up the command line and the configuration search path and
  leave the rest to cobra and viper; what they result in is the parameter \<open>viper_GetString\<close>. Log
  lines, CORS and the HTTP encoding of requests are left out. Outside \<open>Concurrency\<close> requests follow one
  another: \<open>/block\<close> requests that overlap are modelled where they work on the database, the only state
  whose reads and writes are split; overlapping appends to the texts of the global errors are not
  modelled. Fields of the node's answers that no code reads are left out of the records. In the process,
  time is not measured: the sleep of five seconds is one step.
\<close>

end
